(* ===== verification/Prelude.thy ===== *)
theory Prelude
  imports Main "HOL-Library.Finite_Map" "HOL-Library.List_Lexorder" "HOL-Library.Char_ord"
    "HOL-Library.Product_Lexorder" "HOL-Library.Sublist"
begin

text \<open>
  What every component of the operator shares.

  \<^item> Go values: strings are byte lists (\<^typ>\<open>string\<close>), maps with string keys are finite maps
    (\<^typ>\<open>(string, 'v) fmap\<close>), pointers that may be nil are options, \<open>int64\<close> and durations are
    integers (no component computes with them, they are only copied).
  \<^item> The string functions of the Go standard library that the sources call: \<open>strings.HasPrefix\<close>,
    \<open>strings.TrimPrefix\<close>, \<open>strings.Split\<close> with a one-byte separator, and the verbs \<open>%d\<close> and
    \<open>%q\<close> of \<open>fmt.Sprintf\<close>.
  \<^item> Go errors as values (\<open>go_error\<close>), with \<open>fmt.Errorf\<close> and its wrapping verb \<open>%w\<close>.
  \<^item> Stateful code: an action takes the world (everything outside the process: the Kubernetes API
    server, the cloud, the scheduler's choices) and returns an error or a value, and the next
    world. The world's type is a parameter everywhere.
  \<^item> A weakest-precondition function \<open>wp\<close> on actions, with one simplification rule per
    combinator and one rule per kind of loop. Every proof about stateful code goes through it.
\<close>

section \<open>Automation collections\<close>

named_theorems wp_simps \<open>equations that push a weakest precondition through a combinator\<close>
named_theorems wp_ext \<open>rules for the weakest precondition of a call that leaves the process\<close>
named_theorems act_iffs \<open>what a finished run of a combinator says about its parts\<close>
named_theorems go_consts \<open>the string constants of the sources\<close>

section \<open>Go strings\<close>

definition HasPrefix :: "string \<Rightarrow> string \<Rightarrow> bool" where
  "HasPrefix s p = prefix p s"

definition TrimPrefix :: "string \<Rightarrow> string \<Rightarrow> string" where
  "TrimPrefix s p = (if HasPrefix s p then drop (length p) s else s)"

text \<open>\<open>strings.Split s sep\<close> for a separator of one byte: always at least one part.\<close>

fun Split :: "string \<Rightarrow> char \<Rightarrow> string list" where
  "Split [] c = [[]]"
| "Split (x # xs) c =
     (if x = c then [] # Split xs c
      else (case Split xs c of [] \<Rightarrow> [[x]] | y # ys \<Rightarrow> (x # y) # ys))"

fun Join :: "string list \<Rightarrow> char \<Rightarrow> string" where
  "Join [] c = []"
| "Join [x] c = x"
| "Join (x # y # ys) c = x @ c # Join (y # ys) c"

lemma TrimPrefix_append [simp]: "TrimPrefix (p @ s) p = s"
  by (simp add: TrimPrefix_def HasPrefix_def)

lemma TrimPrefix_no_prefix: "\<not> HasPrefix s p \<Longrightarrow> TrimPrefix s p = s"
  by (simp add: TrimPrefix_def)

lemma HasPrefix_append [simp]: "HasPrefix (p @ s) p"
  by (simp add: HasPrefix_def)

lemma HasPrefixE:
  assumes "HasPrefix s p"
  obtains t where "s = p @ t"
  using assms by (auto simp: HasPrefix_def prefix_def)

lemma Split_not_Nil [simp]: "Split s c \<noteq> []"
  by (induction s) (auto split: list.splits)

lemma Split_no_sep: "c \<notin> set s \<Longrightarrow> Split s c = [s]"
  by (induction s) auto

lemma Split_append_sep: "c \<notin> set s \<Longrightarrow> Split (s @ c # t) c = s # Split t c"
  by (induction s) auto

lemma Split_parts_no_sep: "p \<in> set (Split s c) \<Longrightarrow> c \<notin> set p"
  by (induction s arbitrary: p) (auto split: if_splits list.splits)

lemma Join_Cons_Cons: "Join ((x # y) # ys) c = x # Join (y # ys) c"
  by (cases ys) auto

lemma Join_Split: "Join (Split s c) c = s"
proof (induction s)
  case Nil
  then show ?case by simp
next
  case (Cons x s)
  obtain y ys where y: "Split s c = y # ys"
    by (cases "Split s c") auto
  then show ?case
    using Cons.IH by (auto simp: Join_Cons_Cons)
qed

lemma Split_pairD:
  assumes "Split s c = [a, b]"
  shows "s = a @ c # b" and "c \<notin> set a" and "c \<notin> set b"
proof -
  show "s = a @ c # b"
    using Join_Split [of s c] assms by simp
  show "c \<notin> set a" and "c \<notin> set b"
    using Split_parts_no_sep [of _ s c] assms by auto
qed

section \<open>Formatting verbs\<close>

definition digit :: "nat \<Rightarrow> char" where
  "digit d = char_of (48 + d)"

text \<open>The verb \<open>%d\<close> on a non-negative number.\<close>

fun itoa :: "nat \<Rightarrow> string" where
  "itoa n = (if n < 10 then [digit n] else itoa (n div 10) @ [digit (n mod 10)])"

declare itoa.simps [simp del]

definition atoi :: "string \<Rightarrow> nat" where
  "atoi s = foldl (\<lambda>n c. 10 * n + (of_char c - 48)) 0 s"

lemma of_char_digit: "d < 10 \<Longrightarrow> of_char (digit d) = 48 + d"
  by (simp add: digit_def)

lemma atoi_itoa [simp]: "atoi (itoa n) = n"
proof (induction n rule: itoa.induct)
  case (1 n)
  show ?case
  proof (cases "n < 10")
    case True
    then show ?thesis
      by (simp add: itoa.simps [of n] atoi_def of_char_digit)
  next
    case False
    with "1.IH" have "atoi (itoa (n div 10)) = n div 10" by simp
    with False show ?thesis
      by (simp add: itoa.simps [of n] atoi_def of_char_digit)
  qed
qed

lemma itoa_inject [simp]: "itoa m = itoa n \<longleftrightarrow> m = n"
  by (metis atoi_itoa)

text \<open>
  The verb \<open>%q\<close>: a double-quoted Go string. Control bytes are escaped; bytes from 128 on are
  kept, as Go does for the printable characters of valid UTF-8.
\<close>

definition hex_digit :: "nat \<Rightarrow> char" where
  "hex_digit d = (if d < 10 then char_of (48 + d) else char_of (87 + d))"

definition quote_char :: "char \<Rightarrow> string" where
  "quote_char c =
     (let n = (of_char c :: nat) in
      if n = 34 then [char_of (92::nat), c]
      else if n = 92 then [c, c]
      else if n = 7 then char_of (92::nat) # ''a''
      else if n = 8 then char_of (92::nat) # ''b''
      else if n = 12 then char_of (92::nat) # ''f''
      else if n = 10 then char_of (92::nat) # ''n''
      else if n = 13 then char_of (92::nat) # ''r''
      else if n = 9 then char_of (92::nat) # ''t''
      else if n = 11 then char_of (92::nat) # ''v''
      else if n < 32 \<or> n = 127
        then char_of (92::nat) # CHR ''x'' # [hex_digit (n div 16), hex_digit (n mod 16)]
      else [c])"

definition quote :: "string \<Rightarrow> string" where
  "quote s = char_of (34::nat) # concat (map quote_char s) @ [char_of (34::nat)]"

text \<open>
  A format string with its verbs filled in: the literal parts and the formatted arguments in
  order. A constant of its own, so that the simplifier leaves long messages alone.
\<close>

definition Sprintf :: "string list \<Rightarrow> string" where
  "Sprintf parts = concat parts"

section \<open>Go errors\<close>

text \<open>
  \<open>ExternalError\<close> is an error value that a library returned: its class (what \<open>errors.As\<close> and the
  predicates of \<open>apierrors\<close> look at) and its message. \<open>CredentialError\<close> is the operator's own
  error type, \<open>NewError\<close> an \<open>fmt.Errorf\<close> without \<open>%w\<close>, and \<open>WrapError p e\<close> is
  \<open>fmt.Errorf\<close> with the text \<open>p\<close> in front of \<open>%w\<close>.
\<close>

datatype go_error =
    ExternalError string string
  | CredentialError string
  | NewError string
  | WrapError string go_error

fun Error :: "go_error \<Rightarrow> string" where
  "Error (ExternalError k m) = m"
| "Error (CredentialError m) = m"
| "Error (NewError m) = m"
| "Error (WrapError p e) = Sprintf [p, Error e]"

text \<open>\<open>errors.As(err, &credErr)\<close>: the first credential error along the chain of wrapped errors.\<close>

fun as_CredentialError :: "go_error \<Rightarrow> string option" where
  "as_CredentialError (ExternalError k m) = None"
| "as_CredentialError (CredentialError m) = Some m"
| "as_CredentialError (NewError m) = None"
| "as_CredentialError (WrapError p e) = as_CredentialError e"

section \<open>Actions\<close>

type_synonym ('w, 'a) act = "'w \<Rightarrow> (go_error + 'a) \<times> 'w"

definition returnA :: "'a \<Rightarrow> ('w, 'a) act" where
  "returnA a = (\<lambda>w. (Inr a, w))"

definition throwA :: "go_error \<Rightarrow> ('w, 'a) act" where
  "throwA e = (\<lambda>w. (Inl e, w))"

text \<open>\<open>x, err := m; if err != nil { return err }; f(x)\<close>\<close>

definition bindA :: "('w, 'a) act \<Rightarrow> ('a \<Rightarrow> ('w, 'b) act) \<Rightarrow> ('w, 'b) act" where
  "bindA m f = (\<lambda>w. case m w of (r, w') \<Rightarrow> (case r of Inl e \<Rightarrow> (Inl e, w') | Inr a \<Rightarrow> f a w'))"

text \<open>\<open>x, err := m; if err != nil { h(err) } else { f(x) }\<close>\<close>

definition branchA :: "('w, 'a) act \<Rightarrow> (go_error \<Rightarrow> ('w, 'b) act) \<Rightarrow> ('a \<Rightarrow> ('w, 'b) act) \<Rightarrow> ('w, 'b) act" where
  "branchA m h f = (\<lambda>w. case m w of (r, w') \<Rightarrow> (case r of Inl e \<Rightarrow> h e w' | Inr a \<Rightarrow> f a w'))"

text \<open>\<open>if err != nil { return fmt.Errorf("p%w", err) }\<close>\<close>

definition wrapA :: "string \<Rightarrow> ('w, 'a) act \<Rightarrow> ('w, 'a) act" where
  "wrapA p m = (\<lambda>w. case m w of (r, w') \<Rightarrow> (case r of Inl e \<Rightarrow> (Inl (WrapError p e), w') | Inr a \<Rightarrow> (Inr a, w')))"

text \<open>A \<open>for range\<close> loop whose body may return an error, which ends the loop.\<close>

primrec forA :: "'a list \<Rightarrow> ('a \<Rightarrow> ('w, unit) act) \<Rightarrow> ('w, unit) act" where
  "forA [] f = returnA ()"
| "forA (x # xs) f = bindA (f x) (\<lambda>_. forA xs f)"

text \<open>The same with a local variable that the body changes.\<close>

primrec foldA :: "('s \<Rightarrow> 'a \<Rightarrow> ('w, 's) act) \<Rightarrow> 's \<Rightarrow> 'a list \<Rightarrow> ('w, 's) act" where
  "foldA f s [] = returnA s"
| "foldA f s (x # xs) = bindA (f s x) (\<lambda>s'. foldA f s' xs)"

subsection \<open>Finished runs\<close>

lemma return_iffs [act_iffs]:
  "returnA a w = (r, w') \<longleftrightarrow> r = Inr a \<and> w' = w"
  by (auto simp: returnA_def)

lemma throw_iffs [act_iffs]:
  "throwA e w = (r, w') \<longleftrightarrow> r = Inl e \<and> w' = w"
  by (auto simp: throwA_def)

lemma bind_iffs [act_iffs]:
  "bindA m f w = (Inr b, w') \<longleftrightarrow> (\<exists>a w1. m w = (Inr a, w1) \<and> f a w1 = (Inr b, w'))"
  "bindA m f w = (Inl e, w') \<longleftrightarrow> m w = (Inl e, w') \<or> (\<exists>a w1. m w = (Inr a, w1) \<and> f a w1 = (Inl e, w'))"
  by (auto simp: bindA_def split: prod.splits sum.splits)

lemma wrap_iffs [act_iffs]:
  "wrapA p m w = (Inr a, w') \<longleftrightarrow> m w = (Inr a, w')"
  "wrapA p m w = (Inl e, w') \<longleftrightarrow> (\<exists>e'. m w = (Inl e', w') \<and> e = WrapError p e')"
  by (auto simp: wrapA_def split: prod.splits sum.splits)

lemma branch_iffs [act_iffs]:
  "branchA m h f w = (r, w') \<longleftrightarrow>
     (\<exists>e w1. m w = (Inl e, w1) \<and> h e w1 = (r, w')) \<or> (\<exists>a w1. m w = (Inr a, w1) \<and> f a w1 = (r, w'))"
  by (auto simp: branchA_def split: prod.splits sum.splits)

lemma case_iffs [act_iffs]:
  "(if b then m else n) w = z \<longleftrightarrow> (b \<and> m w = z) \<or> (\<not> b \<and> n w = z)"
  "(case xs of [] \<Rightarrow> m | y # ys \<Rightarrow> f y ys) w = z \<longleftrightarrow>
     (xs = [] \<and> m w = z) \<or> (\<exists>y ys. xs = y # ys \<and> f y ys w = z)"
  "(case x of None \<Rightarrow> m | Some a \<Rightarrow> g a) w = z \<longleftrightarrow>
     (x = None \<and> m w = z) \<or> (\<exists>a. x = Some a \<and> g a w = z)"
  "(case s of Inl e \<Rightarrow> h e | Inr b \<Rightarrow> k b) w = z \<longleftrightarrow>
     (\<exists>e. s = Inl e \<and> h e w = z) \<or> (\<exists>b. s = Inr b \<and> k b w = z)"
  by (auto split: list.splits option.splits sum.splits)

subsection \<open>Weakest preconditions\<close>

definition wp :: "('w, 'a) act \<Rightarrow> ('a \<Rightarrow> 'w \<Rightarrow> bool) \<Rightarrow> (go_error \<Rightarrow> 'w \<Rightarrow> bool) \<Rightarrow> 'w \<Rightarrow> bool" where
  "wp m Q E w = (case m w of (r, w') \<Rightarrow> (case r of Inl e \<Rightarrow> E e w' | Inr a \<Rightarrow> Q a w'))"

lemma wp_return [wp_simps]: "wp (returnA a) Q E w = Q a w"
  by (simp add: wp_def returnA_def)

lemma wp_throw [wp_simps]: "wp (throwA e) Q E w = E e w"
  by (simp add: wp_def throwA_def)

lemma wp_bind [wp_simps]: "wp (bindA m f) Q E w = wp m (\<lambda>a. wp (f a) Q E) E w"
  by (simp add: wp_def bindA_def split: prod.splits sum.splits)

lemma wp_branch [wp_simps]:
  "wp (branchA m h f) Q E w = wp m (\<lambda>a. wp (f a) Q E) (\<lambda>e. wp (h e) Q E) w"
  by (simp add: wp_def branchA_def split: prod.splits sum.splits)

lemma wp_wrap [wp_simps]: "wp (wrapA p m) Q E w = wp m Q (\<lambda>e. E (WrapError p e)) w"
  by (simp add: wp_def wrapA_def split: prod.splits sum.splits)

lemma wp_if [wp_simps]: "wp (if b then m else n) Q E w = (if b then wp m Q E w else wp n Q E w)"
  by simp

lemma wp_case_option [wp_simps]:
  "wp (case x of None \<Rightarrow> m | Some a \<Rightarrow> n a) Q E w = (case x of None \<Rightarrow> wp m Q E w | Some a \<Rightarrow> wp (n a) Q E w)"
  by (simp split: option.split)

lemma wp_case_sum [wp_simps]:
  "wp (case x of Inl e \<Rightarrow> m e | Inr a \<Rightarrow> n a) Q E w = (case x of Inl e \<Rightarrow> wp (m e) Q E w | Inr a \<Rightarrow> wp (n a) Q E w)"
  by (simp split: sum.split)

lemma wp_case_prod [wp_simps]:
  "wp (case x of (a, b) \<Rightarrow> m a b) Q E w = (case x of (a, b) \<Rightarrow> wp (m a b) Q E w)"
  by (simp split: prod.split)

lemma wp_Let [wp_simps]: "wp (let x = a in m x) Q E w = (let x = a in wp (m x) Q E w)"
  by (simp add: Let_def)

lemma wp_for_Nil [wp_simps]: "wp (forA [] f) Q E w = Q () w"
  by (simp add: wp_return)

lemma wp_for_Cons [wp_simps]: "wp (forA (x # xs) f) Q E w = wp (f x) (\<lambda>_. wp (forA xs f) Q E) E w"
  by (simp add: wp_bind)

text \<open>The same equations without the world, for continuations that ignore their argument.\<close>

lemma wp_return_eta: "wp (returnA a) Q E = Q a"
  by (rule ext) (simp add: wp_simps)

lemma wp_bind_eta: "wp (bindA m f) Q E = wp m (\<lambda>a. wp (f a) Q E) E"
  by (rule ext) (simp add: wp_simps)

lemma wp_branch_eta: "wp (branchA m h f) Q E = wp m (\<lambda>a. wp (f a) Q E) (\<lambda>e. wp (h e) Q E)"
  by (rule ext) (simp add: wp_simps)

lemma wp_wrap_eta: "wp (wrapA p m) Q E = wp m Q (\<lambda>e. E (WrapError p e))"
  by (rule ext) (simp add: wp_simps)

lemmas wp_eta = wp_return_eta wp_bind_eta wp_branch_eta wp_wrap_eta

lemma wp_mono:
  assumes "wp m Q E w"
    and "\<And>a w'. Q a w' \<Longrightarrow> Q' a w'"
    and "\<And>e w'. E e w' \<Longrightarrow> E' e w'"
  shows "wp m Q' E' w"
  using assms by (simp add: wp_def split: prod.splits sum.splits)

lemma wp_conj:
  assumes "wp m Q E w" and "wp m Q' E' w"
  shows "wp m (\<lambda>a w'. Q a w' \<and> Q' a w') (\<lambda>e w'. E e w' \<and> E' e w') w"
  using assms by (simp add: wp_def split: prod.splits sum.splits)

lemma wp_InrD: "wp m Q E w \<Longrightarrow> m w = (Inr a, w') \<Longrightarrow> Q a w'"
  by (simp add: wp_def)

lemma wp_InlD: "wp m Q E w \<Longrightarrow> m w = (Inl e, w') \<Longrightarrow> E e w'"
  by (simp add: wp_def)

lemma wp_runE:
  assumes "wp m Q E w" and "m w = (r, w')"
  obtains (ok) a where "r = Inr a" "Q a w'" | (err) e where "r = Inl e" "E e w'"
  using assms by (cases r) (auto simp: wp_def)

lemma wp_anyD: "wp m (\<lambda>_. Q) (\<lambda>_. Q) w \<Longrightarrow> m w = (r, w') \<Longrightarrow> Q w'"
  by (simp add: wp_def split: sum.splits)

text \<open>While a call is verified, its run itself can be used.\<close>

lemma wp_recall:
  assumes "wp m (\<lambda>a w'. m w = (Inr a, w') \<longrightarrow> Q a w') (\<lambda>e w'. m w = (Inl e, w') \<longrightarrow> E e w') w"
  shows "wp m Q E w"
  using assms by (simp add: wp_def split: prod.splits sum.splits)

lemma wpI:
  assumes "\<And>a w'. m w = (Inr a, w') \<Longrightarrow> Q a w'"
    and "\<And>e w'. m w = (Inl e, w') \<Longrightarrow> E e w'"
  shows "wp m Q E w"
proof (cases "m w")
  case (Pair r w')
  then show ?thesis
    using assms by (cases r) (auto simp: wp_def)
qed

text \<open>
  The loop rule: an invariant over the items already handled and those still to come, which every
  iteration moves forward by one item and every error exit turns into \<open>E\<close>.
\<close>

lemma wp_for_split:
  assumes "I pre xs w"
    and "\<And>ys x zs w. I ys (x # zs) w \<Longrightarrow> ys @ x # zs = pre @ xs \<Longrightarrow> wp (f x) (\<lambda>_. I (ys @ [x]) zs) E w"
  shows "wp (forA xs f) (\<lambda>_. I (pre @ xs) []) E w"
  using assms
proof (induction xs arbitrary: pre w)
  case Nil
  then show ?case by (simp add: wp_return)
next
  case (Cons x xs)
  have "wp (f x) (\<lambda>_. I (pre @ [x]) xs) E w"
    using Cons.prems by blast
  then have "wp (f x) (\<lambda>_. wp (forA xs f) (\<lambda>_. I ((pre @ [x]) @ xs) []) E) E w"
  proof (rule wp_mono)
    fix a w'
    assume "I (pre @ [x]) xs w'"
    then show "wp (forA xs f) (\<lambda>_. I ((pre @ [x]) @ xs) []) E w'"
      by (rule Cons.IH) (auto intro: Cons.prems(2))
  qed
  then show ?case by (simp add: wp_bind)
qed

lemma wp_for:
  assumes "I [] xs w"
    and "\<And>ys x zs w. I ys (x # zs) w \<Longrightarrow> ys @ x # zs = xs \<Longrightarrow> wp (f x) (\<lambda>_. I (ys @ [x]) zs) E w"
    and "\<And>w. I xs [] w \<Longrightarrow> Q () w"
  shows "wp (forA xs f) Q E w"
  using wp_for_split [of I "[]" xs w f E] assms
  by (auto intro: wp_mono)

text \<open>The special case of an invariant that does not depend on how far the loop is.\<close>

lemma wp_for_inv:
  assumes "I w"
    and "\<And>x w. I w \<Longrightarrow> x \<in> set xs \<Longrightarrow> wp (f x) (\<lambda>_. I) E w"
    and "\<And>w. I w \<Longrightarrow> Q () w"
  shows "wp (forA xs f) Q E w"
  by (rule wp_for [where I = "\<lambda>_ _. I"]) (use assms in \<open>auto intro: in_set_conv_decomp [THEN iffD2]\<close>)

text \<open>A loop with a local variable.\<close>

lemma wp_fold:
  assumes "I [] xs s w"
    and "\<And>ys x zs s w. I ys (x # zs) s w \<Longrightarrow> ys @ x # zs = xs \<Longrightarrow> wp (f s x) (\<lambda>s'. I (ys @ [x]) zs s') E w"
    and "\<And>s w. I xs [] s w \<Longrightarrow> Q s w"
  shows "wp (foldA f s xs) Q E w"
proof -
  have gen: "wp (foldA f s zs) Q E w" if "I ys zs s w" "ys @ zs = xs" for ys zs s w
    using that
  proof (induction zs arbitrary: ys s w)
    case Nil
    then show ?case using assms(3) by (simp add: wp_return)
  next
    case (Cons x zs)
    then have "wp (f s x) (\<lambda>s'. I (ys @ [x]) zs s') E w"
      using assms(2) by blast
    then have "wp (f s x) (\<lambda>s'. wp (foldA f s' zs) Q E) E w"
      by (rule wp_mono) (use Cons in auto)
    then show ?case by (simp add: wp_bind)
  qed
  show ?thesis by (rule gen [OF assms(1)]) simp
qed

section \<open>Go maps\<close>

text \<open>
  Go does not specify the order in which \<open>range\<close> visits the keys of a map. An effectful loop over
  a map asks the world for the order; \<open>range_laws\<close> is what the language guarantees: every key is
  visited exactly once, and asking changes nothing that \<open>obs\<close> observes.
\<close>

type_synonym 'w range_order = "string list \<Rightarrow> 'w \<Rightarrow> string list \<times> 'w"

definition keys :: "(string, 'v) fmap \<Rightarrow> string list" where
  "keys m = sorted_list_of_fset (fmdom m)"

definition rangeKeys :: "'w range_order \<Rightarrow> (string, 'v) fmap \<Rightarrow> ('w, string list) act" where
  "rangeKeys ro m = (\<lambda>w. case ro (keys m) w of (ks, w') \<Rightarrow> (Inr ks, w'))"

definition range_laws :: "'w range_order \<Rightarrow> ('w \<Rightarrow> 'o) \<Rightarrow> bool" where
  "range_laws ro obs \<longleftrightarrow>
     (\<forall>ks w. distinct ks \<longrightarrow>
        distinct (fst (ro ks w)) \<and> set (fst (ro ks w)) = set ks \<and> obs (snd (ro ks w)) = obs w)"

text \<open>A lookup that yields the zero value when the key is missing.\<close>

definition lookup_or :: "'v \<Rightarrow> (string, 'v) fmap \<Rightarrow> string \<Rightarrow> 'v" where
  "lookup_or z m k = (case fmlookup m k of None \<Rightarrow> z | Some v \<Rightarrow> v)"

text \<open>The loop \<open>for k, v := range m { acc[k] = v }\<close>, over the keys in the order \<open>ks\<close>.\<close>

definition copy_keys :: "string list \<Rightarrow> (string, string) fmap \<Rightarrow> (string, string) fmap \<Rightarrow> (string, string) fmap" where
  "copy_keys ks m acc = fold (\<lambda>k acc. fmupd k (lookup_or '''' m k) acc) ks acc"

lemma set_keys [simp]: "set (keys m) = fmdom' m"
  by (simp add: keys_def fmdom'_alt_def)

lemma distinct_keys [simp]: "distinct (keys m)"
  by (simp add: keys_def sorted_list_of_fset.rep_eq)

lemma sorted_keys [simp]: "sorted (keys m)"
  by (simp add: keys_def sorted_list_of_fset.rep_eq)

lemma fmlookup_copy_keys:
  assumes "set ks = fmdom' m"
  shows "fmlookup (copy_keys ks m acc) k = (case fmlookup m k of Some v \<Rightarrow> Some v | None \<Rightarrow> fmlookup acc k)"
proof -
  have "fmlookup (copy_keys ks m acc) k = (if k \<in> set ks then Some (lookup_or '''' m k) else fmlookup acc k)" for ks
    unfolding copy_keys_def by (induction ks arbitrary: acc) auto
  then show ?thesis
    using assms by (auto simp: lookup_or_def fmlookup_dom'_iff split: option.splits)
qed

lemma wp_rangeKeys [wp_ext]:
  assumes "range_laws ro obs"
    and "\<And>ks w'. distinct ks \<Longrightarrow> set ks = fmdom' m \<Longrightarrow> obs w' = obs w \<Longrightarrow> Q ks w'"
  shows "wp (rangeKeys ro m) Q E w"
proof (rule wpI)
  fix ks w'
  assume "rangeKeys ro m w = (Inr ks, w')"
  then have ks: "ks = fst (ro (keys m) w)" and w': "w' = snd (ro (keys m) w)"
    by (auto simp: rangeKeys_def split: prod.splits)
  have "distinct (fst (ro (keys m) w)) \<and> set (fst (ro (keys m) w)) = set (keys m) \<and>
      obs (snd (ro (keys m) w)) = obs w"
    using assms(1) distinct_keys unfolding range_laws_def by blast
  then show "Q ks w'"
    unfolding ks w' by (intro assms(2)) auto
qed (auto simp: rangeKeys_def split: prod.splits)

lemma sort_eq_keys:
  assumes "distinct ks" and "set ks = fmdom' m"
  shows "sort ks = keys m"
  by (rule sorted_distinct_set_unique) (use assms in auto)

section \<open>Frames\<close>

text \<open>An action that never changes what \<open>obs\<close> observes.\<close>

definition keeps :: "('w \<Rightarrow> 'o) \<Rightarrow> ('w, 'a) act \<Rightarrow> bool" where
  "keeps obs m \<longleftrightarrow> (\<forall>w. obs (snd (m w)) = obs w)"

lemma keepsD: "keeps obs m \<Longrightarrow> m w = (r, w') \<Longrightarrow> obs w' = obs w"
  by (metis keeps_def snd_conv)

lemma keepsI: "(\<And>w. wp m (\<lambda>_ w'. obs w' = obs w) (\<lambda>_ w'. obs w' = obs w) w) \<Longrightarrow> keeps obs m"
  unfolding keeps_def wp_def by (metis (mono_tags, lifting) case_prod_unfold sum.case_eq_if)

lemma keeps_wp: "keeps obs m \<Longrightarrow> wp m (\<lambda>_ w'. obs w' = obs w) (\<lambda>_ w'. obs w' = obs w) w"
  by (rule wpI) (auto dest: keepsD)

lemma keeps_return [intro, simp]: "keeps obs (returnA a)"
  by (simp add: keeps_def returnA_def)

lemma keeps_throw [intro, simp]: "keeps obs (throwA e)"
  by (simp add: keeps_def throwA_def)

lemma keeps_bind [intro]:
  assumes "keeps obs m" and "\<And>a. keeps obs (f a)"
  shows "keeps obs (bindA m f)"
  unfolding keeps_def
proof
  fix w
  obtain r w' where m: "m w = (r, w')" by (cases "m w")
  show "obs (snd (bindA m f w)) = obs w"
    using keepsD [OF assms(1) m] assms(2)
    by (cases r) (simp_all add: bindA_def m keeps_def)
qed

lemma keeps_wrap [intro]: "keeps obs m \<Longrightarrow> keeps obs (wrapA p m)"
  by (simp add: keeps_def wrapA_def case_prod_unfold sum.case_eq_if)

lemma keeps_branch [intro]:
  assumes "keeps obs m" and "\<And>a. keeps obs (f a)" and "\<And>e. keeps obs (h e)"
  shows "keeps obs (branchA m h f)"
  unfolding keeps_def
proof
  fix w
  obtain r w' where m: "m w = (r, w')" by (cases "m w")
  show "obs (snd (branchA m h f w)) = obs w"
    using keepsD [OF assms(1) m] assms(2,3)
    by (cases r) (simp_all add: branchA_def m keeps_def)
qed

lemma keeps_for [intro]: "(\<And>x. keeps obs (f x)) \<Longrightarrow> keeps obs (forA xs f)"
  by (induction xs) auto

lemma keeps_fold [intro]: "(\<And>s x. keeps obs (f s x)) \<Longrightarrow> keeps obs (foldA f s xs)"
  by (induction xs arbitrary: s) auto

lemma keeps_range [intro]: "range_laws ro obs \<Longrightarrow> keeps obs (rangeKeys ro m)"
  by (rule keepsI, rule wp_rangeKeys) auto

end
