(* ===== verification/Platform.thy ===== *)
theory Platform
  imports Prelude
begin

text \<open>
  The types of \<open>internal/platform/platform.go\<close> and the contract of its \<open>CloudPlatform\<close> interface.
  A Go interface value is a table of methods over the hidden state \<open>'p\<close> of its dynamic type;
  \<open>DiscoverEndpoints\<close> also returns the state, since it stores what it found in the receiver.
  The locale \<open>cloud_platform\<close> is what the config controller may assume of a platform; the AWS
  platform interprets it in \<open>Aws_Platform\<close>.
\<close>

section \<open>Types\<close>

record RouterNode =
  rnName :: string
  rnPrivateIP :: string
  rnAZ :: string
  rnProviderID :: string

record DiscoveredNeighbor =
  dnAddress :: string
  dnASN :: int

record DiscoveredEndpoint =
  deEndpointID :: string
  deAZ :: string
  deAddress :: string

record DiscoveredRouteServer =
  drRouteServerID :: string
  drRemoteASN :: int
  drEndpoints :: "DiscoveredEndpoint list"

record DiscoveryResult =
  drsRouteServers :: "DiscoveredRouteServer list"
  drsNeighborsByAZ :: "(string, DiscoveredNeighbor list) fmap"
  drsEndpointsByAZ :: "(string, string list) fmap"

record ('w, 'p) CloudPlatform =
  cpDiscoverEndpoints :: "'p \<Rightarrow> ('w, DiscoveryResult \<times> 'p) act"
  cpReconcileNodes :: "'p \<Rightarrow> RouterNode list \<Rightarrow> ('w, unit) act"
  cpCleanup :: "'p \<Rightarrow> ('w, unit) act"

section \<open>Grouping by availability zone\<close>

text \<open>\<open>m[k] = append(m[k], v)\<close> on a Go map of slices.\<close>

definition append_at :: "string \<Rightarrow> 'v \<Rightarrow> (string, 'v list) fmap \<Rightarrow> (string, 'v list) fmap" where
  "append_at k v m = fmupd k (lookup_or [] m k @ [v]) m"

text \<open>
  The map that groups a list of key-value pairs: under each key that occurs, the values of that
  key in the order of the list.
\<close>

definition group_at :: "(string \<times> 'v) list \<Rightarrow> string \<Rightarrow> 'v list option" where
  "group_at kvs k =
     (if k \<in> fst ` set kvs then Some (map snd (filter (\<lambda>kv. fst kv = k) kvs)) else None)"

definition grouped :: "(string, 'v list) fmap \<Rightarrow> (string \<times> 'v) list \<Rightarrow> bool" where
  "grouped m kvs \<longleftrightarrow> (\<forall>k. fmlookup m k = group_at kvs k)"

lemma grouped_empty [simp]: "grouped fmempty []"
  by (simp add: grouped_def group_at_def)

lemma lookup_or_grouped:
  "grouped m kvs \<Longrightarrow> lookup_or [] m k = map snd (filter (\<lambda>kv. fst kv = k) kvs)"
  by (auto simp: grouped_def group_at_def lookup_or_def image_iff filter_empty_conv split: option.splits)

lemma grouped_append_at:
  assumes "grouped m kvs"
  shows "grouped (append_at k v m) (kvs @ [(k, v)])"
  using assms lookup_or_grouped [OF assms, of k]
  by (auto simp: grouped_def group_at_def append_at_def)

lemma grouped_fold:
  "grouped m kvs \<Longrightarrow> grouped (fold (\<lambda>kv. append_at (fst kv) (snd kv)) kvs' m) (kvs @ kvs')"
proof (induction kvs' arbitrary: m kvs)
  case Nil
  then show ?case by simp
next
  case (Cons kv kvs')
  have "grouped (append_at (fst kv) (snd kv) m) (kvs @ [kv])"
    using grouped_append_at [OF Cons.prems, of "fst kv" "snd kv"] by simp
  from Cons.IH [OF this] show ?case by simp
qed

lemma grouped_dom: "grouped m kvs \<Longrightarrow> fmdom' m = fst ` set kvs"
  by (auto simp: grouped_def group_at_def fmdom'_notI split: if_splits)
    (metis fmdom'I image_eqI fst_conv)+

lemma grouped_nonempty: "grouped m kvs \<Longrightarrow> fmlookup m k = Some vs \<Longrightarrow> vs \<noteq> []"
  by (fastforce simp: grouped_def group_at_def filter_empty_conv split: if_splits)

section \<open>What a discovery result must satisfy\<close>

text \<open>
  The endpoints of all discovered route servers, each with its server's ASN, in order; and the two
  per-zone maps, which group exactly these endpoints.
\<close>

definition all_endpoints :: "DiscoveryResult \<Rightarrow> (DiscoveredEndpoint \<times> int) list" where
  "all_endpoints r =
     concat (map (\<lambda>rs. map (\<lambda>ep. (ep, drRemoteASN rs)) (drEndpoints rs)) (drsRouteServers r))"

definition neighbor_of :: "DiscoveredEndpoint \<times> int \<Rightarrow> string \<times> DiscoveredNeighbor" where
  "neighbor_of e = (deAZ (fst e), \<lparr>dnAddress = deAddress (fst e), dnASN = snd e\<rparr>)"

definition endpoint_of :: "DiscoveredEndpoint \<times> int \<Rightarrow> string \<times> string" where
  "endpoint_of e = (deAZ (fst e), deEndpointID (fst e))"

definition discovery_wf :: "DiscoveryResult \<Rightarrow> bool" where
  "discovery_wf r \<longleftrightarrow>
     grouped (drsNeighborsByAZ r) (map neighbor_of (all_endpoints r)) \<and>
     grouped (drsEndpointsByAZ r) (map endpoint_of (all_endpoints r))"

text \<open>The zones with neighbours are the zones with endpoints.\<close>

lemma discovery_wf_same_zones:
  assumes "discovery_wf r"
  shows "fmdom' (drsNeighborsByAZ r) = fmdom' (drsEndpointsByAZ r)"
  using assms
  by (auto simp: discovery_wf_def grouped_dom neighbor_of_def endpoint_of_def image_image)

lemma discovery_wf_zone_nonempty:
  "discovery_wf r \<Longrightarrow> fmlookup (drsNeighborsByAZ r) az = Some ns \<Longrightarrow> ns \<noteq> []"
  by (auto simp: discovery_wf_def dest: grouped_nonempty)

section \<open>The contract of the interface\<close>

text \<open>
  \<open>M e\<close> is the method table in the environment \<open>e\<close> (the cloud API behind it) and \<open>legal e p kube\<close>
  says that the environment behaves as documented towards the platform state \<open>p\<close>, where \<open>kube\<close>
  is what can be observed of the Kubernetes cluster.
\<close>

locale cloud_platform =
  fixes M :: "'e \<Rightarrow> ('w, 'p) CloudPlatform"
    and legal :: "'e \<Rightarrow> 'p \<Rightarrow> ('w \<Rightarrow> 'k) \<Rightarrow> bool"
  assumes discover_wf:
      "cpDiscoverEndpoints (M e) p w = (Inr (r, p'), w') \<Longrightarrow> discovery_wf r"
    and discover_legal:
      "legal e p kube \<Longrightarrow> cpDiscoverEndpoints (M e) p w = (Inr (r, p'), w') \<Longrightarrow> legal e p' kube"
    and discover_frame:
      "legal e p kube \<Longrightarrow> kube (snd (cpDiscoverEndpoints (M e) p w)) = kube w"
    and reconcile_frame:
      "legal e p kube \<Longrightarrow> kube (snd (cpReconcileNodes (M e) p ns w)) = kube w"
    and cleanup_frame:
      "legal e p kube \<Longrightarrow> kube (snd (cpCleanup (M e) p w)) = kube w"
begin

lemma wp_discover:
  assumes "legal e p kube"
    and "\<And>r p' w'. discovery_wf r \<Longrightarrow> legal e p' kube \<Longrightarrow> kube w' = kube w \<Longrightarrow> Q (r, p') w'"
    and "\<And>err w'. kube w' = kube w \<Longrightarrow> E err w'"
  shows "wp (cpDiscoverEndpoints (M e) p) Q E w"
proof (rule wpI)
  fix a w'
  assume run: "cpDiscoverEndpoints (M e) p w = (Inr a, w')"
  obtain r p' where a: "a = (r, p')" by (cases a)
  show "Q a w'"
    unfolding a
    by (rule assms(2))
      (use run a discover_wf discover_legal [OF assms(1)] discover_frame [OF assms(1), of w] in auto)
next
  fix err w'
  assume "cpDiscoverEndpoints (M e) p w = (Inl err, w')"
  then show "E err w'"
    using discover_frame [OF assms(1), of w] by (intro assms(3)) auto
qed

lemma wp_reconcile:
  assumes "legal e p kube"
    and "\<And>w'. kube w' = kube w \<Longrightarrow> Q () w'"
    and "\<And>err w'. kube w' = kube w \<Longrightarrow> E err w'"
  shows "wp (cpReconcileNodes (M e) p ns) Q E w"
  by (rule wpI) (use assms(2,3) reconcile_frame [OF assms(1), of ns w] in auto)

lemma wp_cleanup:
  assumes "legal e p kube"
    and "\<And>w'. kube w' = kube w \<Longrightarrow> Q () w'"
    and "\<And>err w'. kube w' = kube w \<Longrightarrow> E err w'"
  shows "wp (cpCleanup (M e) p) Q E w"
  by (rule wpI) (use assms(2,3) cleanup_frame [OF assms(1), of w] in auto)

end

end
