(* ===== verification/Aws_Api.thy ===== *)
theory Aws_Api
  imports Prelude
begin

text \<open>
  The boundary to AWS: the values of the SDK that \<open>internal/platform/aws\<close> reads and writes, the
  interfaces \<open>ec2API\<close> and \<open>stsAPI\<close> it calls (\<open>aws.go\<close>), and the helper functions of the SDK.
  None of this code is part of the repository, so all of it is a parameter of the model: an
  \<open>ec2API\<close> record is any implementation of the interface, an \<open>awsSDK\<close> record any implementation of
  the helpers. What EC2 documents of the calls, and the operator relies on, is stated by the
  predicates \<open>sdk_laws\<close>, \<open>peer_laws\<close> and \<open>eni_laws\<close>, over an observation of the cloud.
\<close>

section \<open>Values of the SDK\<close>

text \<open>Fields that are pointers in the SDK are options.\<close>

record RouteServer =
  rsvRouteServerId :: "string option"
  rsvAmazonSideAsn :: "int option"

record RouteServerEndpoint =
  rseRouteServerEndpointId :: "string option"
  rseRouteServerId :: "string option"
  rseSubnetId :: "string option"
  rseEniAddress :: "string option"

record Subnet =
  snSubnetId :: "string option"
  snAvailabilityZone :: "string option"

record Tag =
  tagKey :: "string option"
  tagValue :: "string option"

record RouteServerPeer =
  peerAddress :: "string option"
  peerId :: "string option"
  peerEndpointId :: "string option"
  peerTags :: "Tag list"

record RouteServerBgpOptionsRequest =
  boPeerAsn :: "int option"
  boPeerLivenessDetection :: string

record TagSpecification =
  tsResourceType :: string
  tsTags :: "Tag list"

record CreateRouteServerPeerInput =
  cpRouteServerEndpointId :: "string option"
  cpPeerAddress :: "string option"
  cpBgpOptions :: RouteServerBgpOptionsRequest
  cpTagSpecifications :: "TagSpecification list"

record InstanceNetworkInterfaceAttachment =
  attDeviceIndex :: "int option"

record InstanceNetworkInterface =
  niNetworkInterfaceId :: "string option"
  niSourceDestCheck :: "bool option"
  niAttachment :: "InstanceNetworkInterfaceAttachment option"

record Instance =
  instNetworkInterfaces :: "InstanceNetworkInterface list"

record Reservation =
  resInstances :: "Instance list"

section \<open>The interfaces the platform calls\<close>

text \<open>
  A call returns the part of its output that the sources read. The \<open>Describe\<close> calls are made
  without a page token and without filters other than the identifiers shown.
\<close>

record 'w ec2API =
  DescribeRouteServers :: "string list \<Rightarrow> ('w, RouteServer list) act"
  DescribeRouteServerEndpoints :: "('w, RouteServerEndpoint list) act"
  DescribeSubnets :: "string list \<Rightarrow> ('w, Subnet list) act"
  DescribeRouteServerPeers :: "('w, RouteServerPeer list) act"
  CreateRouteServerPeer :: "CreateRouteServerPeerInput \<Rightarrow> ('w, unit) act"
  DeleteRouteServerPeer :: "string option \<Rightarrow> ('w, unit) act"
  CreateTags :: "string list \<Rightarrow> Tag list \<Rightarrow> ('w, unit) act"
  DescribeInstances :: "string list \<Rightarrow> ('w, Reservation list) act"
  ModifyNetworkInterfaceAttribute :: "string option \<Rightarrow> bool option \<Rightarrow> ('w, unit) act"

record 'w stsAPI =
  GetCallerIdentity :: "('w, unit) act"

text \<open>
  The pointer helpers of package \<open>aws\<close>, the order in which the Go runtime ranges over a map, and
  the constructors of the clients (\<open>'c\<close> is the SDK's configuration value).
\<close>

record 'w awsSDK =
  ToString :: "string option \<Rightarrow> string"
  ToInt64 :: "int option \<Rightarrow> int"
  ToInt32 :: "int option \<Rightarrow> int"
  rangeOrder :: "'w range_order"

record ('w, 'c) awsClients =
  LoadDefaultConfig :: "string \<Rightarrow> ('w, 'c) act"
  ec2NewFromConfig :: "'c \<Rightarrow> 'w ec2API"
  stsNewFromConfig :: "'c \<Rightarrow> 'w stsAPI"

section \<open>What the helpers do\<close>

definition sdk_laws :: "'w awsSDK \<Rightarrow> bool" where
  "sdk_laws sdk \<longleftrightarrow>
     ToString sdk None = '''' \<and> (\<forall>s. ToString sdk (Some s) = s) \<and>
     ToInt64 sdk None = 0 \<and> (\<forall>n. ToInt64 sdk (Some n) = n) \<and>
     ToInt32 sdk None = 0 \<and> (\<forall>n. ToInt32 sdk (Some n) = n)"

lemma sdk_lawsD:
  assumes "sdk_laws sdk"
  shows "ToString sdk None = ''''" "ToString sdk (Some s) = s"
    "ToInt64 sdk None = 0" "ToInt64 sdk (Some n) = n"
    "ToInt32 sdk None = 0" "ToInt32 sdk (Some n) = n"
  using assms by (simp_all add: sdk_laws_def)

section \<open>What EC2 documents of route server peers\<close>

text \<open>
  \<open>peers w\<close> is the set of peers that exist in the world \<open>w\<close>. The three writing calls are
  described by their effect on that set:
  \<^item> deleting removes the peer with the given identifier;
  \<^item> creating adds one peer with the requested endpoint, address and tags under a new identifier;
  \<^item> tagging adds the tags to the resources named, overwriting a tag with the same key, and
    changes nothing else.
\<close>

definition delete_effect :: "string \<Rightarrow> RouteServerPeer set \<Rightarrow> RouteServerPeer set \<Rightarrow> bool" where
  "delete_effect i S S' \<longleftrightarrow> S' = {q \<in> S. peerId q \<noteq> Some i}"

definition create_effect ::
    "CreateRouteServerPeerInput \<Rightarrow> RouteServerPeer set \<Rightarrow> RouteServerPeer set \<Rightarrow> bool" where
  "create_effect inp S S' \<longleftrightarrow>
     (\<exists>q. S' = insert q S \<and>
        peerAddress q = cpPeerAddress inp \<and>
        peerEndpointId q = cpRouteServerEndpointId inp \<and>
        peerTags q = concat (map tsTags (cpTagSpecifications inp)) \<and>
        (\<exists>i. peerId q = Some i \<and> (\<forall>q' \<in> S. peerId q' \<noteq> Some i)))"

definition tag_effect :: "string list \<Rightarrow> Tag list \<Rightarrow> RouteServerPeer set \<Rightarrow> RouteServerPeer set \<Rightarrow> bool" where
  "tag_effect ids tags S S' \<longleftrightarrow>
     (\<exists>f. S' = f ` S \<and>
        (\<forall>q. peerId (f q) = peerId q \<and> peerAddress (f q) = peerAddress q \<and>
             peerEndpointId (f q) = peerEndpointId q) \<and>
        (\<forall>q. peerId q \<notin> Some ` set ids \<longrightarrow> f q = q) \<and>
        (\<forall>q. peerId q \<in> Some ` set ids \<longrightarrow>
             set (peerTags (f q)) =
               {t \<in> set (peerTags q). \<forall>t' \<in> set tags. tagKey t' \<noteq> tagKey t} \<union> set tags))"

text \<open>
  A call that fails may or may not have taken effect (a response can be lost). A successful
  \<open>Describe\<close> returns the whole set in one response.
\<close>

definition peer_laws :: "'w ec2API \<Rightarrow> ('w \<Rightarrow> RouteServerPeer set) \<Rightarrow> bool" where
  "peer_laws ec2 peers \<longleftrightarrow>
     (\<forall>w. wp (DescribeRouteServerPeers ec2)
            (\<lambda>ps w'. set ps = peers w \<and> peers w' = peers w) (\<lambda>_ w'. peers w' = peers w) w) \<and>
     (\<forall>i w. wp (DeleteRouteServerPeer ec2 (Some i))
            (\<lambda>_ w'. delete_effect i (peers w) (peers w'))
            (\<lambda>_ w'. peers w' = peers w \<or> delete_effect i (peers w) (peers w')) w) \<and>
     (\<forall>inp w. wp (CreateRouteServerPeer ec2 inp)
            (\<lambda>_ w'. create_effect inp (peers w) (peers w'))
            (\<lambda>_ w'. peers w' = peers w \<or> create_effect inp (peers w) (peers w')) w) \<and>
     (\<forall>ids tags w. wp (CreateTags ec2 ids tags)
            (\<lambda>_ w'. tag_effect ids tags (peers w) (peers w'))
            (\<lambda>_ w'. peers w' = peers w \<or> tag_effect ids tags (peers w) (peers w')) w)"

lemma peer_lawsD:
  assumes "peer_laws ec2 peers"
  shows "wp (DescribeRouteServerPeers ec2)
      (\<lambda>ps w'. set ps = peers w \<and> peers w' = peers w) (\<lambda>_ w'. peers w' = peers w) w"
    and "wp (DeleteRouteServerPeer ec2 (Some i))
      (\<lambda>_ w'. delete_effect i (peers w) (peers w'))
      (\<lambda>_ w'. peers w' = peers w \<or> delete_effect i (peers w) (peers w')) w"
    and "wp (CreateRouteServerPeer ec2 inp)
      (\<lambda>_ w'. create_effect inp (peers w) (peers w'))
      (\<lambda>_ w'. peers w' = peers w \<or> create_effect inp (peers w) (peers w')) w"
    and "wp (CreateTags ec2 ids tags)
      (\<lambda>_ w'. tag_effect ids tags (peers w) (peers w'))
      (\<lambda>_ w'. peers w' = peers w \<or> tag_effect ids tags (peers w) (peers w')) w"
  using assms by (auto simp: peer_laws_def)

section \<open>What EC2 documents of network interfaces\<close>

text \<open>
  \<open>enis w\<close> maps an instance to the reservations that describe it. \<open>ModifyNetworkInterfaceAttribute\<close>
  sets the attribute of the interface named, wherever it occurs, and nothing else.
\<close>

type_synonym instances = "string \<Rightarrow> Reservation list"

definition set_check :: "string \<Rightarrow> bool \<Rightarrow> InstanceNetworkInterface \<Rightarrow> InstanceNetworkInterface" where
  "set_check eni b ni =
     (if niNetworkInterfaceId ni = Some eni then ni\<lparr>niSourceDestCheck := Some b\<rparr> else ni)"

definition modify_effect :: "string \<Rightarrow> bool \<Rightarrow> instances \<Rightarrow> instances" where
  "modify_effect eni b enis =
     (\<lambda>i. map (\<lambda>r. r\<lparr>resInstances := map (\<lambda>n. n\<lparr>instNetworkInterfaces :=
            map (set_check eni b) (instNetworkInterfaces n)\<rparr>) (resInstances r)\<rparr>) (enis i))"

definition eni_laws :: "'w ec2API \<Rightarrow> ('w \<Rightarrow> instances) \<Rightarrow> bool" where
  "eni_laws ec2 enis \<longleftrightarrow>
     (\<forall>i w. wp (DescribeInstances ec2 [i])
            (\<lambda>rs w'. rs = enis w i \<and> enis w' = enis w) (\<lambda>_ w'. enis w' = enis w) w) \<and>
     (\<forall>eni b w. wp (ModifyNetworkInterfaceAttribute ec2 (Some eni) (Some b))
            (\<lambda>_ w'. enis w' = modify_effect eni b (enis w))
            (\<lambda>_ w'. enis w' = enis w \<or> enis w' = modify_effect eni b (enis w)) w)"

lemma eni_lawsD:
  assumes "eni_laws ec2 enis"
  shows "wp (DescribeInstances ec2 [i])
      (\<lambda>rs w'. rs = enis w i \<and> enis w' = enis w) (\<lambda>_ w'. enis w' = enis w) w"
    and "wp (ModifyNetworkInterfaceAttribute ec2 (Some eni) (Some b))
      (\<lambda>_ w'. enis w' = modify_effect eni b (enis w))
      (\<lambda>_ w'. enis w' = enis w \<or> enis w' = modify_effect eni b (enis w)) w"
  using assms by (auto simp: eni_laws_def)

section \<open>What EC2 documents of the route server inventory\<close>

text \<open>
  A fixed inventory: the servers an identifier denotes, all route server endpoints, and the zone
  of every subnet. A successful query answers from it: \<open>DescribeSubnets\<close> returns every subnet
  asked for, with its zone, and only existing ones.
\<close>

definition inventory_laws ::
    "'w ec2API \<Rightarrow> (string \<Rightarrow> RouteServer list) \<Rightarrow> RouteServerEndpoint list \<Rightarrow> (string \<Rightarrow> string) \<Rightarrow> bool" where
  "inventory_laws ec2 servers eps zone \<longleftrightarrow>
     (\<forall>i w. wp (DescribeRouteServers ec2 [i]) (\<lambda>out _. out = servers i) (\<lambda>_ _. True) w) \<and>
     (\<forall>w. wp (DescribeRouteServerEndpoints ec2) (\<lambda>out _. out = eps) (\<lambda>_ _. True) w) \<and>
     (\<forall>ids w. wp (DescribeSubnets ec2 ids)
        (\<lambda>out _. set ids \<subseteq> {i. Some i \<in> snSubnetId ` set out} \<and>
           (\<forall>s \<in> set out. \<exists>i. snSubnetId s = Some i \<and> snAvailabilityZone s = Some (zone i)))
        (\<lambda>_ _. True) w)"

lemma inventory_lawsD:
  assumes "inventory_laws ec2 servers eps zone"
  shows "DescribeRouteServers ec2 [i] w = (Inr out, w') \<Longrightarrow> out = servers i"
    and "DescribeRouteServerEndpoints ec2 w = (Inr eps', w') \<Longrightarrow> eps' = eps"
    and "DescribeSubnets ec2 ids w = (Inr sns, w') \<Longrightarrow> set ids \<subseteq> {i. Some i \<in> snSubnetId ` set sns}"
    and "DescribeSubnets ec2 ids w = (Inr sns, w') \<Longrightarrow> s \<in> set sns \<Longrightarrow>
      \<exists>i. snSubnetId s = Some i \<and> snAvailabilityZone s = Some (zone i)"
  using assms by (auto simp: inventory_laws_def dest!: wp_InrD [rotated])

section \<open>Frame\<close>

text \<open>
  No call to AWS changes what \<open>obs\<close> observes (for instance the Kubernetes cluster). The calls come in
  three groups: the queries of discovery, those about peers, and those about instances.
\<close>

definition query_keeps :: "'w ec2API \<Rightarrow> ('w \<Rightarrow> 'o) \<Rightarrow> bool" where
  "query_keeps ec2 obs \<longleftrightarrow>
     (\<forall>ids. keeps obs (DescribeRouteServers ec2 ids)) \<and>
     keeps obs (DescribeRouteServerEndpoints ec2) \<and>
     (\<forall>ids. keeps obs (DescribeSubnets ec2 ids))"

definition peer_keeps :: "'w ec2API \<Rightarrow> ('w \<Rightarrow> 'o) \<Rightarrow> bool" where
  "peer_keeps ec2 obs \<longleftrightarrow>
     keeps obs (DescribeRouteServerPeers ec2) \<and>
     (\<forall>inp. keeps obs (CreateRouteServerPeer ec2 inp)) \<and>
     (\<forall>i. keeps obs (DeleteRouteServerPeer ec2 i)) \<and>
     (\<forall>ids tags. keeps obs (CreateTags ec2 ids tags))"

definition eni_keeps :: "'w ec2API \<Rightarrow> ('w \<Rightarrow> 'o) \<Rightarrow> bool" where
  "eni_keeps ec2 obs \<longleftrightarrow>
     (\<forall>ids. keeps obs (DescribeInstances ec2 ids)) \<and>
     (\<forall>eni b. keeps obs (ModifyNetworkInterfaceAttribute ec2 eni b))"

definition ec2_keeps :: "'w ec2API \<Rightarrow> ('w \<Rightarrow> 'o) \<Rightarrow> bool" where
  "ec2_keeps ec2 obs \<longleftrightarrow> query_keeps ec2 obs \<and> peer_keeps ec2 obs \<and> eni_keeps ec2 obs"

lemma query_keepsD:
  assumes "query_keeps ec2 obs"
  shows "keeps obs (DescribeRouteServers ec2 ids)" "keeps obs (DescribeRouteServerEndpoints ec2)"
    "keeps obs (DescribeSubnets ec2 ids)"
  using assms by (simp_all add: query_keeps_def)

lemma peer_keepsD:
  assumes "peer_keeps ec2 obs"
  shows "keeps obs (DescribeRouteServerPeers ec2)" "keeps obs (CreateRouteServerPeer ec2 inp)"
    "keeps obs (DeleteRouteServerPeer ec2 i)" "keeps obs (CreateTags ec2 ids tags)"
  using assms by (simp_all add: peer_keeps_def)

lemma eni_keepsD:
  assumes "eni_keeps ec2 obs"
  shows "keeps obs (DescribeInstances ec2 ids)" "keeps obs (ModifyNetworkInterfaceAttribute ec2 eni b)"
  using assms by (simp_all add: eni_keeps_def)

lemma ec2_keepsD:
  assumes "ec2_keeps ec2 obs"
  shows "query_keeps ec2 obs" "peer_keeps ec2 obs" "eni_keeps ec2 obs"
  using assms by (simp_all add: ec2_keeps_def)

end
