(* ===== verification/Aws_Platform.thy ===== *)
theory Aws_Platform
  imports Platform Aws_Api
begin

text \<open>
  \<open>internal/platform/aws/aws.go\<close>: the platform value, its construction with the credential check,
  the parser of provider identifiers and the tag that marks the peers of one cluster.
\<close>

section \<open>State\<close>

record 'w Platform =
  plEc2Client :: "'w ec2API"
  plRegion :: string
  plRouteServerIDs :: "string list"
  plEndpointsByAZ :: "(string, string list) fmap"
  plLocalASN :: int
  plLivenessDetection :: string
  plClusterID :: string

record AwsConfig =
  acRegion :: string
  acRouteServerIDs :: "string list"
  acLocalASN :: int
  acLivenessDetection :: string
  acClusterID :: string

section \<open>Construction\<close>

definition newPlatform ::
    "('w, 'c) awsClients \<Rightarrow> AwsConfig \<Rightarrow> 'w ec2API option \<Rightarrow> 'w stsAPI option \<Rightarrow> ('w, 'w Platform) act" where
  "newPlatform api cfg ec2Override stsOverride =
     bindA
       (case (ec2Override, stsOverride) of
          (Some ec2, Some sts) \<Rightarrow> returnA (ec2, sts)
        | _ \<Rightarrow>
            bindA (wrapA ''loading AWS config: '' (LoadDefaultConfig api (acRegion cfg))) (\<lambda>awsCfg.
            returnA (ec2NewFromConfig api awsCfg, stsNewFromConfig api awsCfg)))
       (\<lambda>(ec2Client, stsClient).
          branchA (GetCallerIdentity stsClient)
            (\<lambda>err. throwA (CredentialError (Sprintf
              [''AWS credential verification failed (sts:GetCallerIdentity): '', Error err])))
            (\<lambda>_. returnA
              \<lparr>plEc2Client = ec2Client,
               plRegion = acRegion cfg,
               plRouteServerIDs = acRouteServerIDs cfg,
               plEndpointsByAZ = fmempty,
               plLocalASN = acLocalASN cfg,
               plLivenessDetection = acLivenessDetection cfg,
               plClusterID = acClusterID cfg\<rparr>))"

definition New :: "('w, 'c) awsClients \<Rightarrow> AwsConfig \<Rightarrow> ('w, 'w Platform) act" where
  "New api cfg = newPlatform api cfg None None"

section \<open>Provider identifiers\<close>

definition ParseProviderID :: "string \<Rightarrow> go_error + string \<times> string" where
  "ParseProviderID providerID =
     (if \<not> HasPrefix providerID ''aws://''
      then Inl (NewError (Sprintf [''not an AWS provider ID: '', providerID]))
      else (case Split (TrimPrefix providerID ''aws:///'') CHR ''/'' of
              [zone, inst] \<Rightarrow>
                (if zone = '''' \<or> inst = ''''
                 then Inl (NewError (Sprintf [''malformed AWS provider ID: '', providerID]))
                 else Inr (inst, zone))
            | _ \<Rightarrow> Inl (NewError (Sprintf [''malformed AWS provider ID: '', providerID]))))"

section \<open>The managed-by tag\<close>

definition managedByTagKey :: string where
  "managedByTagKey = ''managed-by''"

definition peerTagValue :: "'w Platform \<Rightarrow> string" where
  "peerTagValue p = ''cudn-bgp-routing-operator/'' @ plClusterID p"

definition peerTags_of :: "'w Platform \<Rightarrow> Tag list" where
  "peerTags_of p = [\<lparr>tagKey = Some managedByTagKey, tagValue = Some (peerTagValue p)\<rparr>]"

section \<open>Properties of construction\<close>

text \<open>A platform comes with verified credentials, the requested settings and no endpoints yet.\<close>

lemma newPlatform_ok:
  assumes "newPlatform api cfg e s w = (Inr p, w')"
  shows "plRouteServerIDs p = acRouteServerIDs cfg \<and> plLocalASN p = acLocalASN cfg \<and>
    plLivenessDetection p = acLivenessDetection cfg \<and> plClusterID p = acClusterID cfg \<and>
    plRegion p = acRegion cfg \<and> plEndpointsByAZ p = fmempty"
  using assms
  by (auto simp: newPlatform_def act_iffs split: prod.splits sum.splits option.splits)

text \<open>
  A credential error arises exactly when the identity call fails, and every other failure is the
  failure to load the SDK configuration.
\<close>

lemma New_error:
  assumes "New api cfg w = (Inl err, w')"
  obtains (load) e where "LoadDefaultConfig api (acRegion cfg) w = (Inl e, w')"
      and "err = WrapError ''loading AWS config: '' e"
    | (sts) c w1 e where "LoadDefaultConfig api (acRegion cfg) w = (Inr c, w1)"
      and "GetCallerIdentity (stsNewFromConfig api c) w1 = (Inl e, w')"
      and "err = CredentialError (Sprintf
        [''AWS credential verification failed (sts:GetCallerIdentity): '', Error e])"
  using assms
  by (auto simp: New_def newPlatform_def act_iffs split: prod.splits sum.splits)

section \<open>Properties of the parser\<close>

lemma ParseProviderID_ok:
  assumes "CHR ''/'' \<notin> set zone" "CHR ''/'' \<notin> set inst" "zone \<noteq> ''''" "inst \<noteq> ''''"
  shows "ParseProviderID (''aws:///'' @ zone @ ''/'' @ inst) = Inr (inst, zone)"
proof -
  have "HasPrefix (''aws:///'' @ zone @ ''/'' @ inst) ''aws://''"
    by (simp add: HasPrefix_def)
  moreover have "TrimPrefix (''aws:///'' @ zone @ ''/'' @ inst) ''aws:///'' = zone @ CHR ''/'' # inst"
    using TrimPrefix_append [of "''aws:///''" "zone @ CHR ''/'' # inst"] by simp
  moreover have "Split (zone @ CHR ''/'' # inst) CHR ''/'' = [zone, inst]"
    using assms by (simp add: Split_append_sep Split_no_sep)
  ultimately show ?thesis
    using assms(3,4) by (simp add: ParseProviderID_def)
qed

text \<open>
  Two slashes are not enough: without the third one the whole identifier is split and has at
  least three parts.
\<close>

lemma Split_two_slashes:
  "Split (''aws://'' @ t) CHR ''/'' = ''aws:'' # '''' # Split t CHR ''/''"
proof -
  have "Split (''aws:'' @ CHR ''/'' # (CHR ''/'' # t)) CHR ''/'' = ''aws:'' # Split (CHR ''/'' # t) CHR ''/''"
    by (rule Split_append_sep) simp
  then show ?thesis by simp
qed

lemma ParseProviderID_InrD:
  assumes "ParseProviderID pid = Inr (inst, zone)"
  shows "pid = ''aws:///'' @ zone @ ''/'' @ inst" and "zone \<noteq> ''''" and "inst \<noteq> ''''"
    and "CHR ''/'' \<notin> set zone" and "CHR ''/'' \<notin> set inst"
proof -
  from assms have two: "HasPrefix pid ''aws://''"
    and split: "Split (TrimPrefix pid ''aws:///'') CHR ''/'' = [zone, inst]"
    and ne: "zone \<noteq> ''''" "inst \<noteq> ''''"
    by (auto simp: ParseProviderID_def split: if_splits list.splits)
  from two obtain t where t: "pid = ''aws://'' @ t" by (rule HasPrefixE)
  have three: "HasPrefix pid ''aws:///''"
  proof (rule ccontr)
    assume "\<not> HasPrefix pid ''aws:///''"
    then have "Split pid CHR ''/'' = [zone, inst]"
      using split by (simp add: TrimPrefix_no_prefix)
    then show False
      using Split_two_slashes [of t] Split_not_Nil [of t "CHR ''/''"] t by simp
  qed
  then obtain u where u: "pid = ''aws:///'' @ u" by (rule HasPrefixE)
  have "Split u CHR ''/'' = [zone, inst]"
    using split unfolding u TrimPrefix_append .
  from Split_pairD [OF this] u ne
  show "pid = ''aws:///'' @ zone @ ''/'' @ inst" "zone \<noteq> ''''" "inst \<noteq> ''''"
    "CHR ''/'' \<notin> set zone" "CHR ''/'' \<notin> set inst"
    by simp_all
qed

text \<open>
  C23. The parser accepts exactly the identifiers of the documented form \<open>aws:///ZONE/INSTANCE-ID\<close>
  with a zone and an instance that are not empty and contain no slash, and returns these two
  parts: no other string parses, and every such string parses back to its parts.
\<close>

theorem ParseProviderID_iff:
  "ParseProviderID pid = Inr (inst, zone) \<longleftrightarrow>
     pid = ''aws:///'' @ zone @ ''/'' @ inst \<and> zone \<noteq> '''' \<and> inst \<noteq> '''' \<and>
     CHR ''/'' \<notin> set zone \<and> CHR ''/'' \<notin> set inst"
  using ParseProviderID_InrD ParseProviderID_ok by blast

section \<open>Properties of the tag\<close>

lemma peerTagValue_inject: "peerTagValue p = peerTagValue q \<longleftrightarrow> plClusterID p = plClusterID q"
  by (simp add: peerTagValue_def)

end
