(* ===== verification/Aws_Discovery.thy ===== *)
theory Aws_Discovery
  imports Aws_Platform
begin

text \<open>
  \<open>internal/platform/aws/discovery.go\<close>: the discovery of route servers, their endpoints and the
  availability zones of these, and what the two per-zone maps of its result contain.
\<close>

section \<open>Queries\<close>

definition describeRouteServer :: "'w Platform \<Rightarrow> string \<Rightarrow> ('w, RouteServer) act" where
  "describeRouteServer p routeServerID =
     bindA (DescribeRouteServers (plEc2Client p) [routeServerID]) (\<lambda>out.
       case out of
         [] \<Rightarrow> throwA (NewError (Sprintf [''route server '', routeServerID, '' not found'']))
       | rs # _ \<Rightarrow> returnA rs)"

definition describeRouteServerEndpoints ::
    "'w awsSDK \<Rightarrow> 'w Platform \<Rightarrow> string \<Rightarrow> ('w, RouteServerEndpoint list) act" where
  "describeRouteServerEndpoints sdk p routeServerID =
     bindA (DescribeRouteServerEndpoints (plEc2Client p)) (\<lambda>out.
       returnA (filter (\<lambda>ep. ToString sdk (rseRouteServerId ep) = routeServerID) out))"

definition resolveSubnetAZs ::
    "'w awsSDK \<Rightarrow> 'w Platform \<Rightarrow> string list \<Rightarrow> ('w, (string, string) fmap) act" where
  "resolveSubnetAZs sdk p subnetIDs =
     (if subnetIDs = [] then returnA fmempty
      else bindA (DescribeSubnets (plEc2Client p) subnetIDs) (\<lambda>out.
        returnA (fold (\<lambda>s m. fmupd (ToString sdk (snSubnetId s)) (ToString sdk (snAvailabilityZone s)) m)
          out fmempty)))"

section \<open>Discovery\<close>

text \<open>The loop over the endpoints that collects the subnets to look up.\<close>

definition subnetIDs_of :: "RouteServerEndpoint list \<Rightarrow> string list" where
  "subnetIDs_of eps = List.map_filter rseSubnetId eps"

text \<open>The endpoint as the platform reports it: its zone is that of its subnet, or the empty string.\<close>

definition discoveredEndpoint ::
    "'w awsSDK \<Rightarrow> (string, string) fmap \<Rightarrow> RouteServerEndpoint \<Rightarrow> DiscoveredEndpoint" where
  "discoveredEndpoint sdk subnetAZMap ep =
     \<lparr>deEndpointID = ToString sdk (rseRouteServerEndpointId ep),
      deAZ = lookup_or '''' subnetAZMap (ToString sdk (rseSubnetId ep)),
      deAddress = ToString sdk (rseEniAddress ep)\<rparr>"

text \<open>The body of the loop over the endpoints of one route server.\<close>

definition addEndpoint ::
    "'w awsSDK \<Rightarrow> (string, string) fmap \<Rightarrow> RouteServerEndpoint \<Rightarrow>
     DiscoveredRouteServer \<times> DiscoveryResult \<Rightarrow> DiscoveredRouteServer \<times> DiscoveryResult" where
  "addEndpoint sdk subnetAZMap ep acc =
     (case acc of (discoveredRS, result) \<Rightarrow>
       let de = discoveredEndpoint sdk subnetAZMap ep in
       (discoveredRS\<lparr>drEndpoints := drEndpoints discoveredRS @ [de]\<rparr>,
        result\<lparr>drsNeighborsByAZ := append_at (deAZ de)
                 \<lparr>dnAddress = deAddress de, dnASN = drRemoteASN discoveredRS\<rparr> (drsNeighborsByAZ result),
               drsEndpointsByAZ := append_at (deAZ de) (deEndpointID de) (drsEndpointsByAZ result)\<rparr>))"

text \<open>The body of the loop over the route server identifiers.\<close>

definition discoverRouteServer ::
    "'w awsSDK \<Rightarrow> 'w Platform \<Rightarrow> DiscoveryResult \<Rightarrow> string \<Rightarrow> ('w, DiscoveryResult) act" where
  "discoverRouteServer sdk p result rsID =
     bindA (wrapA (Sprintf [''describing route server '', rsID, '': '']) (describeRouteServer p rsID)) (\<lambda>rs.
     let remoteASN = ToInt64 sdk (rsvAmazonSideAsn rs) in
     bindA (wrapA (Sprintf [''listing endpoints for route server '', rsID, '': ''])
       (describeRouteServerEndpoints sdk p rsID)) (\<lambda>endpoints.
     bindA (wrapA (Sprintf [''resolving subnet AZs for route server '', rsID, '': ''])
       (resolveSubnetAZs sdk p (subnetIDs_of endpoints))) (\<lambda>subnetAZMap.
     let discoveredRS = \<lparr>drRouteServerID = rsID, drRemoteASN = remoteASN, drEndpoints = []\<rparr> in
     (case fold (addEndpoint sdk subnetAZMap) endpoints (discoveredRS, result) of
       (discoveredRS, result) \<Rightarrow>
         returnA (result\<lparr>drsRouteServers := drsRouteServers result @ [discoveredRS]\<rparr>)))))"

definition DiscoverEndpoints :: "'w awsSDK \<Rightarrow> 'w Platform \<Rightarrow> ('w, DiscoveryResult \<times> 'w Platform) act" where
  "DiscoverEndpoints sdk p =
     bindA (foldA (discoverRouteServer sdk p)
        \<lparr>drsRouteServers = [], drsNeighborsByAZ = fmempty, drsEndpointsByAZ = fmempty\<rparr>
        (plRouteServerIDs p)) (\<lambda>result.
     returnA (result, p\<lparr>plEndpointsByAZ := drsEndpointsByAZ result\<rparr>))"

section \<open>One route server\<close>

lemma fold_addEndpoint:
  "fold (addEndpoint sdk m) eps (rs, res) =
     (rs\<lparr>drEndpoints := drEndpoints rs @ map (discoveredEndpoint sdk m) eps\<rparr>,
      res\<lparr>drsNeighborsByAZ := fold (\<lambda>kv. append_at (fst kv) (snd kv))
             (map (\<lambda>ep. neighbor_of (discoveredEndpoint sdk m ep, drRemoteASN rs)) eps) (drsNeighborsByAZ res),
          drsEndpointsByAZ := fold (\<lambda>kv. append_at (fst kv) (snd kv))
             (map (\<lambda>ep. endpoint_of (discoveredEndpoint sdk m ep, drRemoteASN rs)) eps) (drsEndpointsByAZ res)\<rparr>)"
  by (induction eps arbitrary: rs res)
    (simp_all add: addEndpoint_def neighbor_of_def endpoint_of_def Let_def)

lemma all_endpoints_append:
  "all_endpoints (res\<lparr>drsRouteServers := drsRouteServers res @ [rs]\<rparr>) =
     all_endpoints res @ map (\<lambda>ep. (ep, drRemoteASN rs)) (drEndpoints rs)"
  by (simp add: all_endpoints_def)

text \<open>What one iteration adds: one route server with its endpoints, grouped into the two maps.\<close>

lemma discoverRouteServer_ok:
  assumes "discoverRouteServer sdk p res rsID w = (Inr res', w')" and "discovery_wf res"
  shows "\<exists>rs. drsRouteServers res' = drsRouteServers res @ [rs] \<and> drRouteServerID rs = rsID \<and>
    discovery_wf res'"
proof -
  from assms(1) obtain asn eps m where res':
    "res' = (case fold (addEndpoint sdk m) eps (\<lparr>drRouteServerID = rsID, drRemoteASN = asn, drEndpoints = []\<rparr>, res) of
       (rs, result) \<Rightarrow> result\<lparr>drsRouteServers := drsRouteServers result @ [rs]\<rparr>)"
    by (auto simp: discoverRouteServer_def act_iffs Let_def case_prod_unfold)
  define des where "des = map (\<lambda>ep. (discoveredEndpoint sdk m ep, asn)) eps"
  have all: "all_endpoints res' = all_endpoints res @ des"
    unfolding res' fold_addEndpoint
    by (simp add: all_endpoints_def des_def comp_def)
  have "grouped (drsNeighborsByAZ res') (map neighbor_of (all_endpoints res) @ map neighbor_of des)"
    using assms(2) unfolding res' fold_addEndpoint discovery_wf_def
    by (auto simp: des_def comp_def intro: grouped_fold)
  moreover have "grouped (drsEndpointsByAZ res') (map endpoint_of (all_endpoints res) @ map endpoint_of des)"
    using assms(2) unfolding res' fold_addEndpoint discovery_wf_def
    by (auto simp: des_def comp_def intro: grouped_fold)
  ultimately have "discovery_wf res'"
    by (simp add: discovery_wf_def all)
  then show ?thesis
    unfolding res' fold_addEndpoint by simp
qed

section \<open>The whole discovery\<close>

lemma DiscoverEndpoints_run:
  assumes "DiscoverEndpoints sdk p w = (Inr (res, p'), w')"
  shows "discovery_wf res \<and> map drRouteServerID (drsRouteServers res) = plRouteServerIDs p \<and>
    p' = p\<lparr>plEndpointsByAZ := drsEndpointsByAZ res\<rparr>"
proof -
  let ?init = "\<lparr>drsRouteServers = [], drsNeighborsByAZ = fmempty, drsEndpointsByAZ = fmempty\<rparr>"
  from assms have run: "foldA (discoverRouteServer sdk p) ?init (plRouteServerIDs p) w = (Inr res, w')"
    and p': "p' = p\<lparr>plEndpointsByAZ := drsEndpointsByAZ res\<rparr>"
    by (auto simp: DiscoverEndpoints_def act_iffs)
  have "wp (foldA (discoverRouteServer sdk p) ?init (plRouteServerIDs p))
      (\<lambda>res _. discovery_wf res \<and> map drRouteServerID (drsRouteServers res) = plRouteServerIDs p)
      (\<lambda>_ _. True) w"
  proof (rule wp_fold [where I = "\<lambda>ys _ res _. discovery_wf res \<and> map drRouteServerID (drsRouteServers res) = ys"])
    show "discovery_wf ?init \<and> map drRouteServerID (drsRouteServers ?init) = []"
      by (simp add: discovery_wf_def all_endpoints_def)
  next
    fix ys x zs and res :: DiscoveryResult and v
    assume "discovery_wf res \<and> map drRouteServerID (drsRouteServers res) = ys"
    then show "wp (discoverRouteServer sdk p res x)
        (\<lambda>res' _. discovery_wf res' \<and> map drRouteServerID (drsRouteServers res') = ys @ [x]) (\<lambda>_ _. True) v"
      by (auto intro!: wpI dest: discoverRouteServer_ok)
  qed auto
  from wp_InrD [OF this run] p' show ?thesis by simp
qed

text \<open>
  C19. When discovery succeeds, it reports one route server per configured identifier, in order;
  the neighbours of a zone are exactly the addresses of the reported endpoints of that zone, each
  with its server's ASN, and the endpoint identifiers of a zone are exactly those of the same
  endpoints, both in the order of the report; a zone appears exactly when it has an endpoint; and
  the platform stores the endpoint map, leaving its other settings alone.
\<close>

theorem DiscoverEndpoints_correct:
  assumes "DiscoverEndpoints sdk p w = (Inr (res, p'), w')"
  shows "map drRouteServerID (drsRouteServers res) = plRouteServerIDs p \<and>
    (\<forall>az. fmlookup (drsNeighborsByAZ res) az = group_at (map neighbor_of (all_endpoints res)) az) \<and>
    (\<forall>az. fmlookup (drsEndpointsByAZ res) az = group_at (map endpoint_of (all_endpoints res)) az) \<and>
    p' = p\<lparr>plEndpointsByAZ := drsEndpointsByAZ res\<rparr>"
  using DiscoverEndpoints_run [OF assms] by (simp add: discovery_wf_def grouped_def)

section \<open>Discovery against an inventory\<close>

text \<open>What discovery should report of one route server of the inventory.\<close>

definition inventory_server ::
    "'w awsSDK \<Rightarrow> (string \<Rightarrow> RouteServer list) \<Rightarrow> RouteServerEndpoint list \<Rightarrow> (string \<Rightarrow> string) \<Rightarrow>
     string \<Rightarrow> DiscoveredRouteServer" where
  "inventory_server sdk servers eps zone i =
     \<lparr>drRouteServerID = i,
      drRemoteASN = ToInt64 sdk (rsvAmazonSideAsn (hd (servers i))),
      drEndpoints = map (\<lambda>ep.
        \<lparr>deEndpointID = ToString sdk (rseRouteServerEndpointId ep),
         deAZ = zone (ToString sdk (rseSubnetId ep)),
         deAddress = ToString sdk (rseEniAddress ep)\<rparr>)
        (filter (\<lambda>ep. ToString sdk (rseRouteServerId ep) = i) eps)\<rparr>"

lemma fold_subnets:
  assumes "\<And>s. s \<in> set sns \<Longrightarrow> \<exists>i. snSubnetId s = Some i \<and> snAvailabilityZone s = Some (zone i)"
    and "sdk_laws sdk"
    and "Some i \<in> snSubnetId ` set sns \<or> fmlookup m i = Some (zone i)"
  shows "fmlookup (fold (\<lambda>s m. fmupd (ToString sdk (snSubnetId s)) (ToString sdk (snAvailabilityZone s)) m)
    sns m) i = Some (zone i)"
  using assms(1,3)
proof (induction sns arbitrary: m)
  case Nil
  then show ?case by simp
next
  case (Cons s sns)
  obtain j where j: "snSubnetId s = Some j" "snAvailabilityZone s = Some (zone j)"
    using Cons.prems(1) [of s] by auto
  show ?case
    using Cons.prems j Cons.IH [of "fmupd j (zone j) m"]
    by (cases "i = j") (auto simp: sdk_lawsD [OF assms(2)])
qed

lemma resolveSubnetAZs_inventory:
  assumes "inventory_laws (plEc2Client p) servers eps zone" and "sdk_laws sdk"
    and "resolveSubnetAZs sdk p ids w = (Inr m, w')" and "i \<in> set ids"
  shows "lookup_or '''' m i = zone i"
proof -
  from assms(3,4) obtain sns where sns: "DescribeSubnets (plEc2Client p) ids w = (Inr sns, w')"
    and m: "m = fold (\<lambda>s m. fmupd (ToString sdk (snSubnetId s)) (ToString sdk (snAvailabilityZone s)) m) sns fmempty"
    by (auto simp: resolveSubnetAZs_def act_iffs split: if_splits)
  have "fmlookup m i = Some (zone i)"
    unfolding m
    by (rule fold_subnets [OF _ assms(2)])
      (use inventory_lawsD(3,4) [OF assms(1) sns] assms(4) in auto)
  then show ?thesis by (simp add: lookup_or_def)
qed

lemma discoverRouteServer_inventory:
  assumes "inventory_laws (plEc2Client p) servers eps zone" and "sdk_laws sdk"
    and "\<forall>ep \<in> set eps. rseSubnetId ep \<noteq> None"
    and run: "discoverRouteServer sdk p res rsID w = (Inr res', w')"
  shows "servers rsID \<noteq> [] \<and>
    drsRouteServers res' = drsRouteServers res @ [inventory_server sdk servers eps zone rsID]"
proof -
  let ?own = "filter (\<lambda>ep. ToString sdk (rseRouteServerId ep) = rsID) eps"
  from run obtain rs w1 own w2 m w3 where
    rs: "describeRouteServer p rsID w = (Inr rs, w1)"
    and own: "describeRouteServerEndpoints sdk p rsID w1 = (Inr own, w2)"
    and m: "resolveSubnetAZs sdk p (subnetIDs_of own) w2 = (Inr m, w3)"
    and res': "res' = (case fold (addEndpoint sdk m) own
       (\<lparr>drRouteServerID = rsID, drRemoteASN = ToInt64 sdk (rsvAmazonSideAsn rs), drEndpoints = []\<rparr>, res) of
       (rs, result) \<Rightarrow> result\<lparr>drsRouteServers := drsRouteServers result @ [rs]\<rparr>)"
    by (auto simp: discoverRouteServer_def act_iffs Let_def case_prod_unfold)
  have server: "servers rsID \<noteq> []" "rs = hd (servers rsID)"
    using rs inventory_lawsD(1) [OF assms(1)]
    by (auto simp: describeRouteServer_def act_iffs)
  have own_eq: "own = ?own"
    using own inventory_lawsD(2) [OF assms(1)]
    by (auto simp: describeRouteServerEndpoints_def act_iffs)
  have "lookup_or '''' m (ToString sdk (rseSubnetId ep)) = zone (ToString sdk (rseSubnetId ep))"
    if ep: "ep \<in> set own" for ep
  proof -
    obtain i where i: "rseSubnetId ep = Some i"
      using assms(3) ep own_eq by auto
    then have "i \<in> set (subnetIDs_of own)"
      using ep by (force simp: subnetIDs_of_def List.map_filter_def)
    from resolveSubnetAZs_inventory [OF assms(1,2) m this] show ?thesis
      by (simp add: i sdk_lawsD [OF assms(2)])
  qed
  then show ?thesis
    unfolding res' fold_addEndpoint
    by (simp add: server inventory_server_def own_eq [symmetric] discoveredEndpoint_def)
qed

lemma DiscoverEndpoints_servers:
  assumes "inventory_laws (plEc2Client p) servers eps zone" and "sdk_laws sdk"
    and "\<forall>ep \<in> set eps. rseSubnetId ep \<noteq> None"
    and "DiscoverEndpoints sdk p w = (Inr (res, p'), w')"
  shows "drsRouteServers res = map (inventory_server sdk servers eps zone) (plRouteServerIDs p) \<and>
    (\<forall>i \<in> set (plRouteServerIDs p). servers i \<noteq> [])"
proof -
  let ?init = "\<lparr>drsRouteServers = [], drsNeighborsByAZ = fmempty, drsEndpointsByAZ = fmempty\<rparr>"
  let ?I = "\<lambda>ys res. drsRouteServers res = map (inventory_server sdk servers eps zone) ys \<and>
    (\<forall>i \<in> set ys. servers i \<noteq> [])"
  have "wp (foldA (discoverRouteServer sdk p) ?init (plRouteServerIDs p))
      (\<lambda>res _. ?I (plRouteServerIDs p) res) (\<lambda>_ _. True) w"
    by (rule wp_fold [where I = "\<lambda>ys _ res _. ?I ys res"])
      (auto intro!: wpI dest: discoverRouteServer_inventory [OF assms(1-3)])
  moreover have "foldA (discoverRouteServer sdk p) ?init (plRouteServerIDs p) w = (Inr res, w')"
    using assms(4) by (auto simp: DiscoverEndpoints_def act_iffs)
  ultimately show ?thesis by (rule wp_InrD)
qed

text \<open>
  C20. Against a cloud that answers from an inventory in which every endpoint has a subnet, a
  successful discovery reports exactly the inventory: for each configured route server its ASN
  and exactly its own endpoints with their identifiers, their ENI addresses and the zones of their
  subnets; in particular every configured server exists.
\<close>

theorem DiscoverEndpoints_inventory:
  assumes "inventory_laws (plEc2Client p) servers eps zone" and "sdk_laws sdk"
    and "\<forall>ep \<in> set eps. rseSubnetId ep \<noteq> None"
    and "DiscoverEndpoints sdk p w = (Inr (res, p'), w')"
  shows "drsRouteServers res = map (inventory_server sdk servers eps zone) (plRouteServerIDs p) \<and>
    (\<forall>i \<in> set (plRouteServerIDs p). servers i \<noteq> [])"
  using DiscoverEndpoints_servers [OF assms] .

section \<open>Failures and frame\<close>

text \<open>Failures: the first query that fails ends the discovery with its error, wrapped.\<close>

lemma describeRouteServer_missing:
  assumes "DescribeRouteServers (plEc2Client p) [rsID] w = (Inr [], w')"
  shows "describeRouteServer p rsID w =
    (Inl (NewError (Sprintf [''route server '', rsID, '' not found''])), w')"
  using assms by (simp add: describeRouteServer_def bindA_def throwA_def)

lemma DiscoverEndpoints_first_missing:
  assumes "plRouteServerIDs p = rsID # ids"
    and "DescribeRouteServers (plEc2Client p) [rsID] w = (Inr [], w')"
  shows "DiscoverEndpoints sdk p w =
    (Inl (WrapError (Sprintf [''describing route server '', rsID, '': ''])
      (NewError (Sprintf [''route server '', rsID, '' not found'']))), w')"
  using describeRouteServer_missing [OF assms(2)]
  by (simp add: DiscoverEndpoints_def discoverRouteServer_def assms(1) bindA_def wrapA_def)

lemma keeps_DiscoverEndpoints:
  assumes "query_keeps (plEc2Client p) obs"
  shows "keeps obs (DiscoverEndpoints sdk p)"
  unfolding DiscoverEndpoints_def discoverRouteServer_def describeRouteServer_def
    describeRouteServerEndpoints_def resolveSubnetAZs_def Let_def
  by (intro keeps_bind keeps_fold keeps_wrap keeps_return query_keepsD [OF assms])
    (auto split: list.splits prod.splits intro!: keeps_bind query_keepsD [OF assms])

end
