(* ===== verification/Aws_Route_Server.thy ===== *)
theory Aws_Route_Server
  imports Aws_Platform
begin

text \<open>
  \<open>internal/platform/aws/route_server.go\<close>: the reconciliation of BGP peers on the discovered route
  server endpoints, and their removal on cleanup. The abstract specification is the step relation
  \<open>peer_step\<close> on sets of peers: remove a stale peer of this cluster, adopt a peer that somebody
  else made for a router node, create a missing peer. The code refines it: every run, also one that
  stops at an error, is a sequence of such steps, and a run that succeeds ends in a state in which
  the peers of this cluster are exactly the desired ones.
\<close>

section \<open>Queries\<close>

definition listAllPeers :: "'w awsSDK \<Rightarrow> 'w Platform \<Rightarrow> string \<Rightarrow> ('w, RouteServerPeer list) act" where
  "listAllPeers sdk p endpointID =
     bindA (DescribeRouteServerPeers (plEc2Client p)) (\<lambda>out.
       returnA (filter (\<lambda>peer. ToString sdk (peerEndpointId peer) = endpointID) out))"

definition hasTag :: "'w awsSDK \<Rightarrow> Tag list \<Rightarrow> string \<Rightarrow> string \<Rightarrow> bool" where
  "hasTag sdk tags k v = list_ex (\<lambda>t. ToString sdk (tagKey t) = k \<and> ToString sdk (tagValue t) = v) tags"

definition listManagedPeers :: "'w awsSDK \<Rightarrow> 'w Platform \<Rightarrow> string \<Rightarrow> ('w, RouteServerPeer list) act" where
  "listManagedPeers sdk p endpointID =
     bindA (listAllPeers sdk p endpointID) (\<lambda>all.
       returnA (filter (\<lambda>peer. hasTag sdk (peerTags peer) managedByTagKey (peerTagValue p)) all))"

section \<open>Writing calls\<close>

definition tagPeer :: "'w Platform \<Rightarrow> string \<Rightarrow> ('w, unit) act" where
  "tagPeer p peerID = CreateTags (plEc2Client p) [peerID] (peerTags_of p)"

definition createPeer :: "'w Platform \<Rightarrow> string \<Rightarrow> string \<Rightarrow> ('w, unit) act" where
  "createPeer p endpointID addr =
     (let bgpOpts = \<lparr>boPeerAsn = Some (plLocalASN p),
            boPeerLivenessDetection = (if plLivenessDetection p = ''bfd'' then ''bfd'' else '''')\<rparr>
      in CreateRouteServerPeer (plEc2Client p)
           \<lparr>cpRouteServerEndpointId = Some endpointID,
            cpPeerAddress = Some addr,
            cpBgpOptions = bgpOpts,
            cpTagSpecifications =
              [\<lparr>tsResourceType = ''route-server-peer'', tsTags = peerTags_of p\<rparr>]\<rparr>)"

definition deletePeer :: "'w Platform \<Rightarrow> string \<Rightarrow> ('w, unit) act" where
  "deletePeer p peerID = DeleteRouteServerPeer (plEc2Client p) (Some peerID)"

section \<open>Reconciliation\<close>

text \<open>The map from zones to sets of node addresses, a Go map of maps to \<open>bool\<close>.\<close>

definition nodesByAZ :: "RouterNode list \<Rightarrow> (string, (string, bool) fmap) fmap" where
  "nodesByAZ nodes =
     fold (\<lambda>n m. fmupd (rnAZ n) (fmupd (rnPrivateIP n) True (lookup_or fmempty m (rnAZ n))) m)
       nodes fmempty"

text \<open>The two maps from addresses to peer identifiers. A later peer with the same address wins.\<close>

definition managedIPs_of :: "RouteServerPeer list \<Rightarrow> (string, string) fmap" where
  "managedIPs_of peers =
     fold (\<lambda>peer m. case (peerAddress peer, peerId peer) of
        (Some ip, Some i) \<Rightarrow> fmupd ip i m | _ \<Rightarrow> m) peers fmempty"

definition unmanagedIPs_of :: "(string, string) fmap \<Rightarrow> RouteServerPeer list \<Rightarrow> (string, string) fmap" where
  "unmanagedIPs_of managedIPs peers =
     fold (\<lambda>peer m. case (peerAddress peer, peerId peer) of
        (Some ip, Some i) \<Rightarrow> (if fmlookup managedIPs ip = None then fmupd ip i m else m) | _ \<Rightarrow> m)
       peers fmempty"

definition deleteStale ::
    "'w awsSDK \<Rightarrow> 'w Platform \<Rightarrow> (string, bool) fmap \<Rightarrow> (string, string) fmap \<Rightarrow> ('w, unit) act" where
  "deleteStale sdk p desiredIPs managedIPs =
     bindA (rangeKeys (rangeOrder sdk) managedIPs) (\<lambda>ips.
     forA ips (\<lambda>ip.
       let peerID = lookup_or '''' managedIPs ip in
       if \<not> lookup_or False desiredIPs ip
       then wrapA (Sprintf [''deleting peer '', peerID, '': '']) (deletePeer p peerID)
       else returnA ()))"

definition ensureDesired ::
    "'w awsSDK \<Rightarrow> 'w Platform \<Rightarrow> string \<Rightarrow> (string, bool) fmap \<Rightarrow> (string, string) fmap \<Rightarrow>
     (string, string) fmap \<Rightarrow> ('w, unit) act" where
  "ensureDesired sdk p endpointID desiredIPs managedIPs unmanagedIPs =
     bindA (rangeKeys (rangeOrder sdk) desiredIPs) (\<lambda>ips.
     forA ips (\<lambda>ip.
       if fmlookup managedIPs ip \<noteq> None then returnA ()
       else (case fmlookup unmanagedIPs ip of
          Some peerID \<Rightarrow> wrapA (Sprintf [''tagging peer '', peerID, '': '']) (tagPeer p peerID)
        | None \<Rightarrow> wrapA (Sprintf [''creating peer for '', ip, '' on '', endpointID, '': ''])
            (createPeer p endpointID ip))))"

text \<open>The body of the inner loop, for one endpoint.\<close>

definition reconcileEndpoint ::
    "'w awsSDK \<Rightarrow> 'w Platform \<Rightarrow> (string, bool) fmap \<Rightarrow> string \<Rightarrow> ('w, unit) act" where
  "reconcileEndpoint sdk p desiredIPs endpointID =
     bindA (wrapA (Sprintf [''listing managed peers for endpoint '', endpointID, '': ''])
       (listManagedPeers sdk p endpointID)) (\<lambda>managedPeers.
     let managedIPs = managedIPs_of managedPeers in
     bindA (deleteStale sdk p desiredIPs managedIPs) (\<lambda>_.
     bindA (wrapA (Sprintf [''listing all peers for endpoint '', endpointID, '': ''])
       (listAllPeers sdk p endpointID)) (\<lambda>allPeers.
     ensureDesired sdk p endpointID desiredIPs managedIPs (unmanagedIPs_of managedIPs allPeers))))"

definition reconcileRouteServerPeers ::
    "'w awsSDK \<Rightarrow> 'w Platform \<Rightarrow> RouterNode list \<Rightarrow> ('w, unit) act" where
  "reconcileRouteServerPeers sdk p nodes =
     bindA (rangeKeys (rangeOrder sdk) (plEndpointsByAZ p)) (\<lambda>azs.
     forA azs (\<lambda>az.
       let endpointIDs = lookup_or [] (plEndpointsByAZ p) az;
           desiredIPs = lookup_or fmempty (nodesByAZ nodes) az in
       forA endpointIDs (reconcileEndpoint sdk p desiredIPs)))"

definition deleteEndpointPeers :: "'w awsSDK \<Rightarrow> 'w Platform \<Rightarrow> string \<Rightarrow> ('w, unit) act" where
  "deleteEndpointPeers sdk p endpointID =
     bindA (wrapA (Sprintf [''listing peers for endpoint '', endpointID, '': ''])
       (listManagedPeers sdk p endpointID)) (\<lambda>peers.
     forA peers (\<lambda>peer.
       case peerId peer of
         None \<Rightarrow> returnA ()
       | Some i \<Rightarrow> wrapA (Sprintf [''deleting peer '', i, '': '']) (deletePeer p i)))"

definition deleteAllManagedPeers :: "'w awsSDK \<Rightarrow> 'w Platform \<Rightarrow> ('w, unit) act" where
  "deleteAllManagedPeers sdk p =
     bindA (rangeKeys (rangeOrder sdk) (plEndpointsByAZ p)) (\<lambda>azs.
     forA azs (\<lambda>az. forA (lookup_or [] (plEndpointsByAZ p) az) (deleteEndpointPeers sdk p)))"

section \<open>Abstract specification\<close>

text \<open>The endpoint of a peer, and whether the peer carries the tag of this cluster.\<close>

definition endpoint :: "'w awsSDK \<Rightarrow> RouteServerPeer \<Rightarrow> string" where
  "endpoint sdk q = ToString sdk (peerEndpointId q)"

definition managed :: "'w awsSDK \<Rightarrow> 'w Platform \<Rightarrow> RouteServerPeer \<Rightarrow> bool" where
  "managed sdk p q = hasTag sdk (peerTags q) managedByTagKey (peerTagValue p)"

text \<open>
  What EC2 guarantees of the peers that exist: each has an identifier and an address, identifiers
  are unique, and so are addresses on one endpoint.
\<close>

definition peers_wf :: "'w awsSDK \<Rightarrow> RouteServerPeer set \<Rightarrow> bool" where
  "peers_wf sdk S \<longleftrightarrow>
     (\<forall>q \<in> S. peerId q \<noteq> None \<and> peerAddress q \<noteq> None) \<and>
     inj_on peerId S \<and> inj_on (\<lambda>q. (endpoint sdk q, peerAddress q)) S"

text \<open>
  \<open>D e\<close> is the set of addresses that should have a peer on the endpoint \<open>e\<close>, or \<open>None\<close> when the
  endpoint is none of the platform's business.
\<close>

type_synonym desired = "string \<Rightarrow> string set option"

inductive peer_step ::
    "'w awsSDK \<Rightarrow> 'w Platform \<Rightarrow> desired \<Rightarrow> RouteServerPeer set \<Rightarrow> RouteServerPeer set \<Rightarrow> bool"
  for sdk p D where
  remove_stale: "q \<in> S \<Longrightarrow> managed sdk p q \<Longrightarrow> D (endpoint sdk q) = Some ips \<Longrightarrow>
    peerAddress q \<notin> Some ` ips \<Longrightarrow> peer_step sdk p D S (S - {q})"
| adopt: "q \<in> S \<Longrightarrow> \<not> managed sdk p q \<Longrightarrow> D (endpoint sdk q) = Some ips \<Longrightarrow>
    peerAddress q \<in> Some ` ips \<Longrightarrow> managed sdk p q' \<Longrightarrow> peerId q' = peerId q \<Longrightarrow>
    peerAddress q' = peerAddress q \<Longrightarrow> peerEndpointId q' = peerEndpointId q \<Longrightarrow>
    {t \<in> set (peerTags q). tagKey t \<noteq> Some managedByTagKey} \<subseteq> set (peerTags q') \<Longrightarrow>
    peer_step sdk p D S (insert q' (S - {q}))"
| create: "D e = Some ips \<Longrightarrow> ip \<in> ips \<Longrightarrow>
    (\<forall>q \<in> S. endpoint sdk q = e \<longrightarrow> peerAddress q \<noteq> Some ip) \<Longrightarrow>
    endpoint sdk q' = e \<Longrightarrow> peerAddress q' = Some ip \<Longrightarrow> managed sdk p q' \<Longrightarrow>
    peerId q' \<noteq> None \<Longrightarrow> peerId q' \<notin> peerId ` S \<Longrightarrow> peer_step sdk p D S (insert q' S)"

inductive_cases peer_stepE: "peer_step sdk p D S S'"

abbreviation peer_steps ::
    "'w awsSDK \<Rightarrow> 'w Platform \<Rightarrow> desired \<Rightarrow> RouteServerPeer set \<Rightarrow> RouteServerPeer set \<Rightarrow> bool" where
  "peer_steps sdk p D \<equiv> (peer_step sdk p D)\<^sup>*\<^sup>*"

text \<open>The peers of this cluster on the endpoint \<open>e\<close> are exactly those for the addresses \<open>ips\<close>.\<close>

definition converged_on ::
    "'w awsSDK \<Rightarrow> 'w Platform \<Rightarrow> string \<Rightarrow> string set \<Rightarrow> RouteServerPeer set \<Rightarrow> bool" where
  "converged_on sdk p e ips S \<longleftrightarrow>
     peerAddress ` {q \<in> S. endpoint sdk q = e \<and> managed sdk p q} = Some ` ips"

text \<open>
  The desired addresses: on an endpoint of a zone, the private addresses of the router nodes of
  that zone.
\<close>

definition own_endpoints :: "'w Platform \<Rightarrow> string set" where
  "own_endpoints p = {e. \<exists>az eps. fmlookup (plEndpointsByAZ p) az = Some eps \<and> e \<in> set eps}"

definition desired_on :: "'w Platform \<Rightarrow> RouterNode list \<Rightarrow> desired" where
  "desired_on p nodes e =
     (if e \<in> own_endpoints p
      then Some {rnPrivateIP n |n eps. n \<in> set nodes \<and>
             fmlookup (plEndpointsByAZ p) (rnAZ n) = Some eps \<and> e \<in> set eps}
      else None)"

definition one_zone :: "'w Platform \<Rightarrow> bool" where
  "one_zone p \<longleftrightarrow>
     (\<forall>az az' eps eps'. fmlookup (plEndpointsByAZ p) az = Some eps \<longrightarrow>
        fmlookup (plEndpointsByAZ p) az' = Some eps' \<longrightarrow> set eps \<inter> set eps' \<noteq> {} \<longrightarrow> az = az')"

section \<open>Invariants of the specification\<close>

lemma endpoint_cong: "peerEndpointId q' = peerEndpointId q \<Longrightarrow> endpoint sdk q' = endpoint sdk q"
  by (simp add: endpoint_def)

lemma peers_wf_subset: "peers_wf sdk S \<Longrightarrow> T \<subseteq> S \<Longrightarrow> peers_wf sdk T"
  unfolding peers_wf_def by (meson inj_on_subset subsetD)

lemma peers_wf_insert:
  assumes "peers_wf sdk S" and "peerId q \<noteq> None" "peerAddress q \<noteq> None"
    and "peerId q \<notin> peerId ` S"
    and "\<forall>r \<in> S. endpoint sdk r = endpoint sdk q \<longrightarrow> peerAddress r \<noteq> peerAddress q"
  shows "peers_wf sdk (insert q S)"
  using assms unfolding peers_wf_def inj_on_def by (auto simp: image_iff)

lemma peers_wf_ids: "peers_wf sdk S \<Longrightarrow> q \<in> S \<Longrightarrow> r \<in> S \<Longrightarrow> peerId q = peerId r \<Longrightarrow> q = r"
  by (auto simp: peers_wf_def dest: inj_onD)

lemma peers_wf_addresses:
  "peers_wf sdk S \<Longrightarrow> q \<in> S \<Longrightarrow> r \<in> S \<Longrightarrow> endpoint sdk q = endpoint sdk r \<Longrightarrow>
   peerAddress q = peerAddress r \<Longrightarrow> q = r"
  by (auto simp: peers_wf_def dest: inj_onD)

lemma peer_step_wf:
  assumes "peer_step sdk p D S S'" and "peers_wf sdk S"
  shows "peers_wf sdk S'"
  using assms(1)
proof (cases rule: peer_step.cases)
  case (remove_stale q ips)
  then show ?thesis using assms(2) by (auto intro: peers_wf_subset)
next
  case (adopt q ips q')
  have "peers_wf sdk (S - {q})" using assms(2) by (auto intro: peers_wf_subset)
  moreover have "peerId q \<notin> peerId ` (S - {q})"
    using peers_wf_ids [OF assms(2)] adopt(2) by auto
  moreover have "\<forall>r \<in> S - {q}. endpoint sdk r = endpoint sdk q \<longrightarrow> peerAddress r \<noteq> peerAddress q"
    using peers_wf_addresses [OF assms(2)] adopt(2) by auto
  moreover have "peerId q \<noteq> None" "peerAddress q \<noteq> None"
    using assms(2) adopt(2) by (auto simp: peers_wf_def)
  ultimately show ?thesis
    unfolding adopt(1) using adopt(7-9) endpoint_cong [OF adopt(9), of sdk]
    by (intro peers_wf_insert) (simp_all add: adopt(7-8))
next
  case (create e ips ip q')
  then show ?thesis using assms(2) by (auto intro: peers_wf_insert)
qed

lemma peer_steps_wf: "peer_steps sdk p D S S' \<Longrightarrow> peers_wf sdk S \<Longrightarrow> peers_wf sdk S'"
  by (induction rule: rtranclp_induct) (auto intro: peer_step_wf)

text \<open>Peers outside the platform's endpoints never change.\<close>

lemma peer_steps_outside:
  assumes "peer_steps sdk p D S S'" and "D (endpoint sdk q) = None"
  shows "q \<in> S' \<longleftrightarrow> q \<in> S"
  using assms(1)
proof (induction rule: rtranclp_induct)
  case base
  then show ?case by simp
next
  case (step T U)
  from step.hyps(2) have "q \<in> U \<longleftrightarrow> q \<in> T"
    by (cases rule: peer_step.cases) (use assms(2) in \<open>auto simp: endpoint_def\<close>)
  with step.IH show ?case by simp
qed

text \<open>A peer for a desired address that this cluster already manages never changes.\<close>

lemma peer_steps_stable:
  assumes "peer_steps sdk p D S S'" and "q \<in> S" and "managed sdk p q"
    and "D (endpoint sdk q) = Some ips" and "peerAddress q \<in> Some ` ips"
  shows "q \<in> S'"
  using assms(1,2)
proof (induction rule: rtranclp_induct)
  case base
  then show ?case by simp
next
  case (step T U)
  then have "q \<in> T" by simp
  with step.hyps(2) show ?case
    by (cases rule: peer_step.cases) (use assms(3-5) in auto)
qed

text \<open>
  A peer that is not this cluster's survives with its identifier, address and endpoint; it is
  changed at all only by adoption, when its address is desired on its endpoint.
\<close>

lemma peer_steps_foreign:
  assumes "peer_steps sdk p D S S'" and "q \<in> S" and "\<not> managed sdk p q"
  shows "q \<in> S' \<or> (\<exists>ips q'. D (endpoint sdk q) = Some ips \<and> peerAddress q \<in> Some ` ips \<and> q' \<in> S' \<and>
    peerId q' = peerId q \<and> peerAddress q' = peerAddress q \<and> peerEndpointId q' = peerEndpointId q \<and>
    managed sdk p q' \<and>
    {t \<in> set (peerTags q). tagKey t \<noteq> Some managedByTagKey} \<subseteq> set (peerTags q'))"
  using assms(1)
proof (induction rule: rtranclp_induct)
  case base
  then show ?case using assms(2) by simp
next
  case (step T U)
  from step.IH consider "q \<in> T" | (adopted) ips q' where "D (endpoint sdk q) = Some ips"
      "peerAddress q \<in> Some ` ips" "q' \<in> T" "peerId q' = peerId q" "peerAddress q' = peerAddress q"
      "peerEndpointId q' = peerEndpointId q" "managed sdk p q'"
      "{t \<in> set (peerTags q). tagKey t \<noteq> Some managedByTagKey} \<subseteq> set (peerTags q')"
    by auto
  then show ?case
  proof cases
    case 1
    with step.hyps(2) assms(3) show ?thesis
      by (cases rule: peer_step.cases) auto
  next
    case adopted
    have "q' \<in> U"
      by (rule peer_steps_stable [where S = T and D = D, OF r_into_rtranclp])
        (use step.hyps(2) adopted endpoint_cong [OF adopted(6), of sdk] in auto)
    with adopted show ?thesis by auto
  qed
qed

text \<open>Where the peers are already the desired ones, no step is possible.\<close>

lemma converged_no_step:
  assumes "peer_step sdk p D S S'" and "peers_wf sdk S"
    and conv: "\<And>e ips. D e = Some ips \<Longrightarrow> converged_on sdk p e ips S"
  shows False
  using assms(1)
proof (cases rule: peer_step.cases)
  case (remove_stale q ips)
  then show ?thesis using conv [of "endpoint sdk q" ips] by (auto simp: converged_on_def)
next
  case (adopt q ips q')
  then have "peerAddress q \<in> peerAddress ` {r \<in> S. endpoint sdk r = endpoint sdk q \<and> managed sdk p r}"
    using conv [of "endpoint sdk q" ips] by (simp add: converged_on_def)
  then obtain r where "r \<in> S" "endpoint sdk r = endpoint sdk q" "managed sdk p r" "peerAddress r = peerAddress q"
    by force
  with adopt show ?thesis using peers_wf_addresses [OF assms(2)] by metis
next
  case (create e ips ip q')
  then have "Some ip \<in> peerAddress ` {r \<in> S. endpoint sdk r = e \<and> managed sdk p r}"
    using conv [of e ips] by (simp add: converged_on_def)
  with create(4) show ?thesis by fastforce
qed

lemma converged_steps:
  assumes "peer_steps sdk p D S S'" and "peers_wf sdk S"
    and "\<And>e ips. D e = Some ips \<Longrightarrow> converged_on sdk p e ips S"
  shows "S' = S"
  using assms(1) converged_no_step [OF _ assms(2,3)] by (metis converse_rtranclpE)

section \<open>The calls refine the steps\<close>

text \<open>The environment behaves as documented, as far as peers are concerned.\<close>

definition peer_env :: "'w awsSDK \<Rightarrow> 'w Platform \<Rightarrow> ('w \<Rightarrow> RouteServerPeer set) \<Rightarrow> bool" where
  "peer_env sdk p peers \<longleftrightarrow>
     sdk_laws sdk \<and> peer_laws (plEc2Client p) peers \<and> range_laws (rangeOrder sdk) peers"

lemma peer_envD:
  assumes "peer_env sdk p peers"
  shows "sdk_laws sdk" "peer_laws (plEc2Client p) peers" "range_laws (rangeOrder sdk) peers"
  using assms by (simp_all add: peer_env_def)

lemma managed_tags:
  assumes "sdk_laws sdk" and "set (peerTags_of p) \<subseteq> set (peerTags q)"
  shows "managed sdk p q"
  using assms(2)
  by (auto simp: managed_def hasTag_def peerTags_of_def list_ex_iff sdk_lawsD [OF assms(1)] intro!: bexI)

lemma wp_listAllPeers [wp_ext]:
  assumes "peer_env sdk p peers"
    and "\<And>ps w'. set ps = {q \<in> peers w. endpoint sdk q = e} \<Longrightarrow> peers w' = peers w \<Longrightarrow> Q ps w'"
    and "\<And>err w'. peers w' = peers w \<Longrightarrow> E err w'"
  shows "wp (listAllPeers sdk p e) Q E w"
  unfolding listAllPeers_def wp_simps
  by (rule wp_mono [OF peer_lawsD(1) [OF peer_envD(2) [OF assms(1)]]])
    (use assms(2,3) in \<open>auto simp: endpoint_def\<close>)

lemma wp_listManagedPeers [wp_ext]:
  assumes "peer_env sdk p peers"
    and "\<And>ps w'. set ps = {q \<in> peers w. endpoint sdk q = e \<and> managed sdk p q} \<Longrightarrow>
      peers w' = peers w \<Longrightarrow> Q ps w'"
    and "\<And>err w'. peers w' = peers w \<Longrightarrow> E err w'"
  shows "wp (listManagedPeers sdk p e) Q E w"
  unfolding listManagedPeers_def wp_simps
  by (rule wp_listAllPeers [OF assms(1)])
    (use assms(2,3) in \<open>auto simp: managed_def\<close>)

lemma wp_deletePeer:
  assumes env: "peer_env sdk p peers" and wf: "peers_wf sdk S" and sub: "peers w \<subseteq> S"
    and q: "q \<in> S" "peerId q = Some i" "managed sdk p q" "D (endpoint sdk q) = Some ips"
      "peerAddress q \<notin> Some ` ips"
  shows "wp (deletePeer p i)
    (\<lambda>_ w'. peers w' = peers w - {q} \<and> peer_steps sdk p D (peers w) (peers w'))
    (\<lambda>_ w'. peer_steps sdk p D (peers w) (peers w')) w"
proof -
  have "peerId r = Some i \<longleftrightarrow> r = q" if "r \<in> peers w" for r
    using that sub q(1,2) peers_wf_ids [OF wf, of r q] by auto
  then have del: "T = peers w - {q}" if "delete_effect i (peers w) T" for T
    using that unfolding delete_effect_def by blast
  have steps: "peer_steps sdk p D (peers w) (peers w - {q})"
    using remove_stale [of q "peers w" sdk p D ips] q by (cases "q \<in> peers w") auto
  show ?thesis
    unfolding deletePeer_def
    by (rule wp_mono [OF peer_lawsD(2) [OF peer_envD(2) [OF env]]]) (use del steps in force)+
qed

lemma tag_effect_single:
  assumes "tag_effect [i] tags S T" and wf: "peers_wf sdk S" and q: "q \<in> S" "peerId q = Some i"
  obtains q' where "T = insert q' (S - {q})" "peerId q' = peerId q" "peerAddress q' = peerAddress q"
    "peerEndpointId q' = peerEndpointId q"
    "set (peerTags q') = {t \<in> set (peerTags q). \<forall>t' \<in> set tags. tagKey t' \<noteq> tagKey t} \<union> set tags"
proof -
  from assms(1) obtain f where T: "T = f ` S"
    and same: "\<And>r. peerId (f r) = peerId r \<and> peerAddress (f r) = peerAddress r \<and>
      peerEndpointId (f r) = peerEndpointId r"
    and other: "\<And>r. peerId r \<noteq> Some i \<Longrightarrow> f r = r"
    and tagged: "\<And>r. peerId r = Some i \<Longrightarrow> set (peerTags (f r)) =
      {t \<in> set (peerTags r). \<forall>t' \<in> set tags. tagKey t' \<noteq> tagKey t} \<union> set tags"
    by (auto simp: tag_effect_def)
  have "f r = r" if "r \<in> S - {q}" for r
    using other [of r] peers_wf_ids [OF wf _ q(1), of r] that q(2) by auto
  then have "f ` (S - {q}) = (\<lambda>r. r) ` (S - {q})" by (intro image_cong) auto
  then have "f ` (S - {q}) = S - {q}" by simp
  moreover have "f ` S = insert (f q) (f ` (S - {q}))" using q(1) by blast
  ultimately have "T = insert (f q) (S - {q})" using T by simp
  then show ?thesis
    using that [of "f q"] same [of q] tagged [OF q(2)] by blast
qed

lemma wp_tagPeer:
  assumes env: "peer_env sdk p peers" and wf: "peers_wf sdk (peers w)"
    and q: "q \<in> peers w" "peerId q = Some i" "\<not> managed sdk p q" "D (endpoint sdk q) = Some ips"
      "peerAddress q \<in> Some ` ips"
  shows "wp (tagPeer p i)
    (\<lambda>_ w'. (\<exists>q'. peers w' = insert q' (peers w - {q}) \<and> managed sdk p q' \<and>
        peerAddress q' = peerAddress q \<and> endpoint sdk q' = endpoint sdk q) \<and>
      peer_steps sdk p D (peers w) (peers w'))
    (\<lambda>_ w'. peer_steps sdk p D (peers w) (peers w')) w"
proof -
  have adopted: "(\<exists>q'. T = insert q' (peers w - {q}) \<and> managed sdk p q' \<and>
      peerAddress q' = peerAddress q \<and> endpoint sdk q' = endpoint sdk q) \<and>
      peer_steps sdk p D (peers w) T" if eff: "tag_effect [i] (peerTags_of p) (peers w) T" for T
  proof -
    from tag_effect_single [OF eff wf q(1,2)] obtain q' where
      q': "T = insert q' (peers w - {q})" "peerId q' = peerId q" "peerAddress q' = peerAddress q"
        "peerEndpointId q' = peerEndpointId q"
        "set (peerTags q') = {t \<in> set (peerTags q). \<forall>t' \<in> set (peerTags_of p). tagKey t' \<noteq> tagKey t} \<union>
           set (peerTags_of p)" .
    have m: "managed sdk p q'"
      by (rule managed_tags [OF peer_envD(1) [OF env]]) (simp add: q'(5))
    have "{t \<in> set (peerTags q). tagKey t \<noteq> Some managedByTagKey} \<subseteq> set (peerTags q')"
      unfolding q'(5) by (auto simp: peerTags_of_def)
    then have "peer_step sdk p D (peers w) T"
      unfolding q'(1) using q m q'(2-4) by (intro adopt [where q = q]) auto
    with q' m show ?thesis by (auto simp: endpoint_def)
  qed
  show ?thesis
    unfolding tagPeer_def
    by (rule wp_mono [OF peer_lawsD(4) [OF peer_envD(2) [OF env]]]) (use adopted in auto)
qed

lemma wp_createPeer:
  assumes env: "peer_env sdk p peers"
    and ip: "D e = Some ips" "ip \<in> ips"
    and free: "\<forall>q \<in> peers w. endpoint sdk q = e \<longrightarrow> peerAddress q \<noteq> Some ip"
  shows "wp (createPeer p e ip)
    (\<lambda>_ w'. (\<exists>q'. peers w' = insert q' (peers w) \<and> managed sdk p q' \<and>
        peerAddress q' = Some ip \<and> endpoint sdk q' = e) \<and>
      peer_steps sdk p D (peers w) (peers w'))
    (\<lambda>_ w'. peer_steps sdk p D (peers w) (peers w')) w"
proof -
  note laws = peer_envD [OF env]
  have created: "(\<exists>q'. T = insert q' (peers w) \<and> managed sdk p q' \<and>
        peerAddress q' = Some ip \<and> endpoint sdk q' = e) \<and> peer_steps sdk p D (peers w) T"
    if eff: "create_effect inp (peers w) T" and inp: "cpRouteServerEndpointId inp = Some e"
      "cpPeerAddress inp = Some ip" "concat (map tsTags (cpTagSpecifications inp)) = peerTags_of p"
    for T inp
  proof -
    from eff inp obtain q' i where q': "T = insert q' (peers w)" "peerAddress q' = Some ip"
      "peerEndpointId q' = Some e" "peerTags q' = peerTags_of p" "peerId q' = Some i"
      "\<forall>r \<in> peers w. peerId r \<noteq> Some i"
      by (auto simp: create_effect_def)
    have m: "managed sdk p q'" by (rule managed_tags [OF laws(1)]) (simp add: q'(4))
    have ep: "endpoint sdk q' = e" by (simp add: endpoint_def q'(3) sdk_lawsD [OF laws(1)])
    have "peer_step sdk p D (peers w) T"
      unfolding q'(1) using ip free ep q'(2) m q'(5,6) by (intro create [where e = e and ip = ip]) (auto simp: image_iff)
    with q' m ep show ?thesis by auto
  qed
  show ?thesis
    unfolding createPeer_def Let_def
    by (rule wp_mono [OF peer_lawsD(3) [OF laws(2)]]) (use created in auto)
qed

text \<open>Steps compose along a run.\<close>

lemma wp_steps_trans:
  assumes "peer_steps sdk p D S (peers w)"
    and "wp m (\<lambda>a w'. Q a w' \<and> peer_steps sdk p D (peers w) (peers w'))
      (\<lambda>_ w'. peer_steps sdk p D (peers w) (peers w')) w"
    and "\<And>a w'. Q a w' \<Longrightarrow> peer_steps sdk p D S (peers w') \<Longrightarrow> R a w'"
  shows "wp m R (\<lambda>_ w'. peer_steps sdk p D S (peers w')) w"
  using assms(2) by (rule wp_mono) (use assms(1,3) in \<open>auto intro: rtranclp_trans\<close>)

section \<open>The maps of one endpoint\<close>

lemma managedIPs_of_fold_sound:
  assumes "fmlookup (fold (\<lambda>peer m. case (peerAddress peer, peerId peer) of
      (Some ip, Some i) \<Rightarrow> (if P ip then fmupd ip i m else m) | _ \<Rightarrow> m) ps m) ip = Some i"
  shows "fmlookup m ip = Some i \<or> (P ip \<and> (\<exists>q \<in> set ps. peerAddress q = Some ip \<and> peerId q = Some i))"
  using assms
proof (induction ps arbitrary: m)
  case Nil
  then show ?case by simp
next
  case (Cons q ps)
  from Cons.prems Cons.IH show ?case
    by (cases "peerAddress q"; cases "peerId q") (fastforce split: if_splits)+
qed

lemma managedIPs_of_fold_complete:
  assumes "fmlookup m ip \<noteq> None \<or> (P ip \<and> (\<exists>q \<in> set ps. peerAddress q = Some ip \<and> peerId q \<noteq> None))"
  shows "fmlookup (fold (\<lambda>peer m. case (peerAddress peer, peerId peer) of
      (Some ip, Some i) \<Rightarrow> (if P ip then fmupd ip i m else m) | _ \<Rightarrow> m) ps m) ip \<noteq> None"
  using assms
proof (induction ps arbitrary: m)
  case Nil
  then show ?case by simp
next
  case (Cons q ps)
  show ?case
    unfolding fold_simps
    by (rule Cons.IH) (use Cons.prems in \<open>auto split: option.splits\<close>)
qed

lemma unmanagedIPs_of_SomeD:
  "fmlookup (unmanagedIPs_of m ps) ip = Some i \<Longrightarrow>
   \<exists>q \<in> set ps. peerAddress q = Some ip \<and> peerId q = Some i"
  using managedIPs_of_fold_sound [of "\<lambda>ip. fmlookup m ip = None" ps fmempty ip i]
  by (simp add: unmanagedIPs_of_def)

lemma unmanagedIPs_of_NoneD:
  "fmlookup (unmanagedIPs_of m ps) ip = None \<Longrightarrow> fmlookup m ip = None \<Longrightarrow> q \<in> set ps \<Longrightarrow>
   peerId q \<noteq> None \<Longrightarrow> peerAddress q \<noteq> Some ip"
  using managedIPs_of_fold_complete [of fmempty ip "\<lambda>ip. fmlookup m ip = None" ps]
  by (auto simp: unmanagedIPs_of_def)

text \<open>The managed map is the unmanaged one with no address excluded.\<close>

lemma managedIPs_of_alt: "managedIPs_of ps = unmanagedIPs_of fmempty ps"
  unfolding managedIPs_of_def unmanagedIPs_of_def fmempty_lookup simp_thms if_True by simp

lemma managedIPs_of_SomeD:
  "fmlookup (managedIPs_of ps) ip = Some i \<Longrightarrow>
   \<exists>q \<in> set ps. peerAddress q = Some ip \<and> peerId q = Some i"
  by (simp add: managedIPs_of_alt unmanagedIPs_of_SomeD)

lemma managedIPs_of_NoneD:
  "fmlookup (managedIPs_of ps) ip = None \<Longrightarrow> q \<in> set ps \<Longrightarrow> peerId q \<noteq> None \<Longrightarrow> peerAddress q \<noteq> Some ip"
  by (rule unmanagedIPs_of_NoneD [of fmempty]) (simp_all add: managedIPs_of_alt)

section \<open>One endpoint\<close>

text \<open>A set of addresses as the Go map \<open>desiredIPs\<close>.\<close>

definition ips_of :: "(string, bool) fmap \<Rightarrow> string set" where
  "ips_of m = {ip. lookup_or False m ip}"

text \<open>Deleting one stale peer of the map.\<close>

lemma wp_delete_managed:
  assumes env: "peer_env sdk p peers" and wf: "peers_wf sdk S"
    and ps: "set ps = {q \<in> S. endpoint sdk q = e \<and> managed sdk p q}" and D: "D e = Some ips"
    and ip: "ip \<in> fmdom' (managedIPs_of ps)" "ip \<notin> ips" and sub: "peers w \<subseteq> S"
  shows "wp (wrapA msg (deletePeer p (lookup_or '''' (managedIPs_of ps) ip)))
    (\<lambda>_ w'. peers w' = peers w - {q \<in> set ps. peerAddress q = Some ip} \<and>
      peer_steps sdk p D (peers w) (peers w'))
    (\<lambda>_ w'. peer_steps sdk p D (peers w) (peers w')) w"
proof -
  from ip(1) obtain i where i: "fmlookup (managedIPs_of ps) ip = Some i"
    by (metis fmlookup_dom'_iff)
  then obtain q where q: "q \<in> set ps" "peerAddress q = Some ip" "peerId q = Some i"
    using managedIPs_of_SomeD by blast
  have only: "{r \<in> set ps. peerAddress r = Some ip} = {q}"
    using peers_wf_addresses [OF wf, of _ q] q ps by auto
  have "wp (deletePeer p i)
      (\<lambda>_ w'. peers w' = peers w - {q} \<and> peer_steps sdk p D (peers w) (peers w'))
      (\<lambda>_ w'. peer_steps sdk p D (peers w) (peers w')) w"
    by (rule wp_deletePeer [OF env wf sub, where ips = ips]) (use q ps ip(2) D in auto)
  then show ?thesis
    by (simp add: wp_simps lookup_or_def i only)
qed

lemma managedIPs_of_dom:
  assumes "peers_wf sdk S" and "set ps \<subseteq> S" and "set ks = fmdom' (managedIPs_of ps)" and "q \<in> set ps"
  shows "peerAddress q \<in> Some ` set ks"
proof -
  obtain ip where ip: "peerAddress q = Some ip" and "peerId q \<noteq> None"
    using assms(1,2,4) by (fastforce simp: peers_wf_def)
  with managedIPs_of_NoneD [of ps ip q] assms(3,4) show ?thesis
    by (auto simp: fmlookup_dom'_iff)
qed

lemma wp_deleteStale:
  assumes env: "peer_env sdk p peers" and wf: "peers_wf sdk (peers w)"
    and ps: "set ps = {q \<in> peers w. endpoint sdk q = e \<and> managed sdk p q}"
    and D: "D e = Some (ips_of desiredIPs)"
  shows "wp (deleteStale sdk p desiredIPs (managedIPs_of ps))
    (\<lambda>_ w'. peers w' = peers w - {q \<in> set ps. peerAddress q \<notin> Some ` ips_of desiredIPs} \<and>
      peer_steps sdk p D (peers w) (peers w'))
    (\<lambda>_ w'. peer_steps sdk p D (peers w) (peers w')) w"
proof -
  let ?ips = "ips_of desiredIPs"
  let ?stale = "\<lambda>ys. {q \<in> set ps. \<exists>ip \<in> set ys. ip \<notin> ?ips \<and> peerAddress q = Some ip}"
  let ?I = "\<lambda>ys w'. peers w' = peers w - ?stale ys \<and> peer_steps sdk p D (peers w) (peers w')"
  show ?thesis
    unfolding deleteStale_def wp_simps
  proof (rule wp_rangeKeys [OF peer_envD(3) [OF env]], rule wp_for [where I = "\<lambda>ys _. ?I ys"])
    fix ks w1
    assume "peers w1 = peers w"
    then show "?I [] w1" by simp
  next
    fix ks ys x zs w'
    assume ks: "set ks = fmdom' (managedIPs_of ps)" and I: "?I ys w'" and split: "ys @ x # zs = ks"
    have "x \<in> set ks" unfolding split [symmetric] by simp
    then have x: "x \<in> fmdom' (managedIPs_of ps)" unfolding ks .
    have stale: "?stale (ys @ [x]) = ?stale ys \<union> (if x \<in> ?ips then {} else {q \<in> set ps. peerAddress q = Some x})"
      by auto
    have "wp (wrapA (Sprintf [''deleting peer '', lookup_or '''' (managedIPs_of ps) x, '': ''])
          (deletePeer p (lookup_or '''' (managedIPs_of ps) x)))
        (\<lambda>_. ?I (ys @ [x])) (\<lambda>_ w'. peer_steps sdk p D (peers w) (peers w')) w'" if "x \<notin> ?ips"
      using I stale that
      by (intro wp_mono [OF wp_delete_managed [where D = D and ips = ?ips, OF env wf ps]])
        (use D x in \<open>auto elim: rtranclp_trans\<close>)
    then show "wp (let peerID = lookup_or '''' (managedIPs_of ps) x in
        if \<not> lookup_or False desiredIPs x
        then wrapA (Sprintf [''deleting peer '', peerID, '': '']) (deletePeer p peerID) else returnA ())
        (\<lambda>_. ?I (ys @ [x])) (\<lambda>_ w'. peer_steps sdk p D (peers w) (peers w')) w'"
      using I stale by (auto simp: Let_def wp_simps ips_of_def)
  next
    fix ks w'
    assume ks: "set ks = fmdom' (managedIPs_of ps)" and I: "?I ks w'"
    have "(\<exists>ip \<in> set ks. ip \<notin> ?ips \<and> peerAddress q = Some ip) \<longleftrightarrow> peerAddress q \<notin> Some ` ?ips"
      if q: "q \<in> set ps" for q
    proof -
      have "set ps \<subseteq> peers w" using ps by blast
      from managedIPs_of_dom [OF wf this ks q] obtain ip where "ip \<in> set ks" "peerAddress q = Some ip"
        by blast
      then show ?thesis by auto
    qed
    then have "?stale ks = {q \<in> set ps. peerAddress q \<notin> Some ` ?ips}"
      by blast
    with I show "peers w' = peers w - {q \<in> set ps. peerAddress q \<notin> Some ` ?ips} \<and>
        peer_steps sdk p D (peers w) (peers w')"
      by metis
  qed
qed

text \<open>
  What the second loop keeps: the peers it has not come to are as before, and every address it has
  come to has a managed peer.
\<close>

definition ensured ::
    "'w awsSDK \<Rightarrow> 'w Platform \<Rightarrow> string \<Rightarrow> string set \<Rightarrow> RouteServerPeer set \<Rightarrow> RouteServerPeer set \<Rightarrow> bool" where
  "ensured sdk p e ips S T \<longleftrightarrow>
     peers_wf sdk T \<and>
     (\<forall>q. \<not> (endpoint sdk q = e \<and> peerAddress q \<in> Some ` ips) \<longrightarrow> (q \<in> T \<longleftrightarrow> q \<in> S)) \<and>
     (\<forall>ip \<in> ips. \<exists>q \<in> T. endpoint sdk q = e \<and> managed sdk p q \<and> peerAddress q = Some ip)"

lemma ensured_untouched:
  assumes "ensured sdk p e ips S T" and "peerAddress q = Some ip" and "ip \<notin> ips"
  shows "q \<in> T \<longleftrightarrow> q \<in> S"
proof -
  have "\<not> (endpoint sdk q = e \<and> peerAddress q \<in> Some ` ips)" using assms(2,3) by auto
  then show ?thesis using assms(1) unfolding ensured_def by blast
qed

lemma ensured_other: "ensured sdk p e ips S T \<Longrightarrow> endpoint sdk q \<noteq> e \<Longrightarrow> q \<in> T \<longleftrightarrow> q \<in> S"
  by (simp add: ensured_def)

lemma ensured_managed:
  assumes "ensured sdk p e ips S T" and "q \<in> S" "endpoint sdk q = e" "managed sdk p q"
    "peerAddress q = Some ip" and "ip \<notin> ips"
  shows "ensured sdk p e (insert ip ips) S T"
proof -
  have "q \<in> T" using ensured_untouched [OF assms(1,5,6)] assms(2) by simp
  then show ?thesis using assms unfolding ensured_def by auto
qed

lemma ensured_new:
  assumes "ensured sdk p e ips S T" and "peers_wf sdk (insert q' (T - R))"
    and "\<forall>q \<in> R. endpoint sdk q = e \<and> peerAddress q = Some ip"
    and "endpoint sdk q' = e" "managed sdk p q'" "peerAddress q' = Some ip" and "ip \<notin> ips"
  shows "ensured sdk p e (insert ip ips) S (insert q' (T - R))"
  unfolding ensured_def
proof (intro conjI allI impI ballI)
  show "peers_wf sdk (insert q' (T - R))" by (rule assms)
next
  fix q
  assume "\<not> (endpoint sdk q = e \<and> peerAddress q \<in> Some ` insert ip ips)"
  then show "q \<in> insert q' (T - R) \<longleftrightarrow> q \<in> S"
    using assms unfolding ensured_def by auto
next
  fix a
  assume a: "a \<in> insert ip ips"
  show "\<exists>q \<in> insert q' (T - R). endpoint sdk q = e \<and> managed sdk p q \<and> peerAddress q = Some a"
  proof (cases "a = ip")
    case True
    then show ?thesis using assms(4-6) by auto
  next
    case False
    with a assms(1) obtain q where "q \<in> T" "endpoint sdk q = e" "managed sdk p q" "peerAddress q = Some a"
      unfolding ensured_def by blast
    moreover from this have "q \<notin> R" using assms(3) False by auto
    ultimately show ?thesis by blast
  qed
qed

lemma ensured_converged:
  assumes "ensured sdk p e ips S T"
    and "\<forall>q \<in> S. endpoint sdk q = e \<and> managed sdk p q \<longrightarrow> peerAddress q \<in> Some ` ips"
  shows "converged_on sdk p e ips T"
  unfolding converged_on_def
proof (intro equalityI subsetI)
  fix a
  assume "a \<in> peerAddress ` {q \<in> T. endpoint sdk q = e \<and> managed sdk p q}"
  then obtain q where q: "a = peerAddress q" "q \<in> T" "endpoint sdk q = e" "managed sdk p q" by auto
  show "a \<in> Some ` ips"
    using assms q unfolding ensured_def by blast
next
  fix a
  assume "a \<in> Some ` ips"
  then show "a \<in> peerAddress ` {q \<in> T. endpoint sdk q = e \<and> managed sdk p q}"
    using assms(1) unfolding ensured_def by (fastforce simp: image_iff)
qed

text \<open>One iteration of the second loop. \<open>S\<close> are the peers before the loop.\<close>

lemma wp_ensure_one:
  assumes env: "peer_env sdk p peers" and wf: "peers_wf sdk S"
    and D: "D e = Some ips" "ip \<in> ips" "ip \<notin> seen"
    and I: "ensured sdk p e seen S (peers w)"
    and managed: "\<And>i. fmlookup mIPs ip = Some i \<Longrightarrow>
      \<exists>q \<in> S. endpoint sdk q = e \<and> managed sdk p q \<and> peerAddress q = Some ip"
    and not_managed: "fmlookup mIPs ip = None \<Longrightarrow>
      \<forall>q \<in> S. endpoint sdk q = e \<and> managed sdk p q \<longrightarrow> peerAddress q \<noteq> Some ip"
    and ps: "set ps = {q \<in> S. endpoint sdk q = e}"
  shows "wp (if fmlookup mIPs ip \<noteq> None then returnA ()
      else (case fmlookup (unmanagedIPs_of mIPs ps) ip of
          Some peerID \<Rightarrow> wrapA (Sprintf [''tagging peer '', peerID, '': '']) (tagPeer p peerID)
        | None \<Rightarrow> wrapA (Sprintf [''creating peer for '', ip, '' on '', e, '': '']) (createPeer p e ip)))
    (\<lambda>_ w'. ensured sdk p e (insert ip seen) S (peers w') \<and> peer_steps sdk p D (peers w) (peers w'))
    (\<lambda>_ w'. peer_steps sdk p D (peers w) (peers w')) w"
proof -
  have wfT: "peers_wf sdk (peers w)" using I by (simp add: ensured_def)
  consider (managed) i where "fmlookup mIPs ip = Some i"
    | (adopt) i where "fmlookup mIPs ip = None" "fmlookup (unmanagedIPs_of mIPs ps) ip = Some i"
    | (create) "fmlookup mIPs ip = None" "fmlookup (unmanagedIPs_of mIPs ps) ip = None"
    by (cases "fmlookup mIPs ip"; cases "fmlookup (unmanagedIPs_of mIPs ps) ip") auto
  then show ?thesis
  proof cases
    case managed
    with assms(7) [OF managed] D(3) ensured_managed [OF I] show ?thesis
      by (auto simp: wp_simps)
  next
    case adopt
    from unmanagedIPs_of_SomeD [OF adopt(2)] ps obtain q where
      q: "q \<in> S" "endpoint sdk q = e" "peerAddress q = Some ip" "peerId q = Some i" by auto
    have nm: "\<not> managed sdk p q" using not_managed [OF adopt(1)] q by blast
    have qT: "q \<in> peers w" using ensured_untouched [OF I q(3) D(3)] q(1) by simp
    have "wp (tagPeer p i)
        (\<lambda>_ w'. (\<exists>q'. peers w' = insert q' (peers w - {q}) \<and> managed sdk p q' \<and>
            peerAddress q' = peerAddress q \<and> endpoint sdk q' = endpoint sdk q) \<and>
          peer_steps sdk p D (peers w) (peers w'))
        (\<lambda>_ w'. peer_steps sdk p D (peers w) (peers w')) w"
      by (rule wp_tagPeer [where ips = ips]) (use env wfT qT q nm D in auto)
    then have "wp (tagPeer p i)
        (\<lambda>_ w'. ensured sdk p e (insert ip seen) S (peers w') \<and> peer_steps sdk p D (peers w) (peers w'))
        (\<lambda>_ w'. peer_steps sdk p D (peers w) (peers w')) w"
    proof (rule wp_mono)
      fix u w'
      assume A: "(\<exists>q'. peers w' = insert q' (peers w - {q}) \<and> managed sdk p q' \<and>
            peerAddress q' = peerAddress q \<and> endpoint sdk q' = endpoint sdk q) \<and>
          peer_steps sdk p D (peers w) (peers w')"
      then obtain q' where q': "peers w' = insert q' (peers w - {q})" "managed sdk p q'"
        "peerAddress q' = Some ip" "endpoint sdk q' = e" using q by auto
      have "peers_wf sdk (peers w')" using A wfT by (auto intro: peer_steps_wf)
      with A q' q D(3) show "ensured sdk p e (insert ip seen) S (peers w') \<and>
          peer_steps sdk p D (peers w) (peers w')"
        using ensured_new [OF I, of q' "{q}"] by auto
    qed
    with adopt show ?thesis by (simp add: wp_simps)
  next
    case create
    have free: "\<forall>q \<in> peers w. endpoint sdk q = e \<longrightarrow> peerAddress q \<noteq> Some ip"
    proof (intro ballI impI notI)
      fix q
      assume q: "q \<in> peers w" "endpoint sdk q = e" "peerAddress q = Some ip"
      have "q \<in> S" using ensured_untouched [OF I q(3) D(3)] q(1) by simp
      with q ps wf unmanagedIPs_of_NoneD [OF create(2,1), of q] show False
        by (auto simp: peers_wf_def)
    qed
    from wp_createPeer [where D = D, OF env D(1,2) this]
    have "wp (createPeer p e ip)
        (\<lambda>_ w'. ensured sdk p e (insert ip seen) S (peers w') \<and> peer_steps sdk p D (peers w) (peers w'))
        (\<lambda>_ w'. peer_steps sdk p D (peers w) (peers w')) w"
    proof (rule wp_mono)
      fix u w'
      assume A: "(\<exists>q'. peers w' = insert q' (peers w) \<and> managed sdk p q' \<and>
            peerAddress q' = Some ip \<and> endpoint sdk q' = e) \<and> peer_steps sdk p D (peers w) (peers w')"
      then obtain q' where q': "peers w' = insert q' (peers w - {})" "managed sdk p q'"
        "peerAddress q' = Some ip" "endpoint sdk q' = e" by auto
      have "peers_wf sdk (peers w')" using A wfT by (auto intro: peer_steps_wf)
      with A q' D(3) show "ensured sdk p e (insert ip seen) S (peers w') \<and>
          peer_steps sdk p D (peers w) (peers w')"
        using ensured_new [OF I, of q' "{}"] by auto
    qed
    with create show ?thesis by (simp add: wp_simps)
  qed
qed

text \<open>The Go maps of sets only ever hold \<open>true\<close>, so their keys are their members.\<close>

definition all_true :: "(string, bool) fmap \<Rightarrow> bool" where
  "all_true m \<longleftrightarrow> fmdom' m = ips_of m"

lemma wp_ensureDesired:
  assumes env: "peer_env sdk p peers" and wf: "peers_wf sdk (peers w)"
    and D: "D e = Some (ips_of desiredIPs)" and all: "all_true desiredIPs"
    and managed: "\<And>ip i. ip \<in> ips_of desiredIPs \<Longrightarrow> fmlookup mIPs ip = Some i \<Longrightarrow>
      \<exists>q \<in> peers w. endpoint sdk q = e \<and> managed sdk p q \<and> peerAddress q = Some ip"
    and not_managed: "\<And>ip. fmlookup mIPs ip = None \<Longrightarrow>
      \<forall>q \<in> peers w. endpoint sdk q = e \<and> managed sdk p q \<longrightarrow> peerAddress q \<noteq> Some ip"
    and ps: "set ps = {q \<in> peers w. endpoint sdk q = e}"
  shows "wp (ensureDesired sdk p e desiredIPs mIPs (unmanagedIPs_of mIPs ps))
    (\<lambda>_ w'. ensured sdk p e (ips_of desiredIPs) (peers w) (peers w') \<and>
      peer_steps sdk p D (peers w) (peers w'))
    (\<lambda>_ w'. peer_steps sdk p D (peers w) (peers w')) w"
proof -
  let ?I = "\<lambda>ys w'. ensured sdk p e (set ys) (peers w) (peers w') \<and> peer_steps sdk p D (peers w) (peers w')"
  show ?thesis
    unfolding ensureDesired_def wp_simps
  proof (rule wp_rangeKeys [OF peer_envD(3) [OF env]], rule wp_for [where I = "\<lambda>ys _. ?I ys"])
    fix ks w1
    assume "peers w1 = peers w"
    then show "?I [] w1" using wf by (simp add: ensured_def)
  next
    fix ks ys x zs w'
    assume ks: "distinct ks" "set ks = fmdom' desiredIPs" and I: "?I ys w'" and split: "ys @ x # zs = ks"
    have "x \<in> set ks" unfolding split [symmetric] by simp
    then have x: "x \<in> ips_of desiredIPs" using ks(2) all by (simp add: all_true_def)
    have "x \<notin> set ys" using ks(1) unfolding split [symmetric] by simp
    then show "wp (if fmlookup mIPs x \<noteq> None then returnA ()
        else (case fmlookup (unmanagedIPs_of mIPs ps) x of
            Some peerID \<Rightarrow> wrapA (Sprintf [''tagging peer '', peerID, '': '']) (tagPeer p peerID)
          | None \<Rightarrow> wrapA (Sprintf [''creating peer for '', x, '' on '', e, '': '']) (createPeer p e x)))
        (\<lambda>_. ?I (ys @ [x])) (\<lambda>_ w'. peer_steps sdk p D (peers w) (peers w')) w'"
      by (intro wp_steps_trans [OF conjunct2 [OF I] wp_ensure_one [where D = D, OF env wf D x]])
        (use I managed [OF x] not_managed ps in auto)
  next
    fix ks w'
    assume "set ks = fmdom' desiredIPs" and "?I ks w'"
    then show "ensured sdk p e (ips_of desiredIPs) (peers w) (peers w') \<and>
        peer_steps sdk p D (peers w) (peers w')"
      using all by (simp add: all_true_def)
  qed
qed

text \<open>
  The second half of the body for one endpoint. \<open>S\<close> are the peers when the managed ones were
  listed; the stale ones are gone now.
\<close>

lemma wp_second_half:
  assumes env: "peer_env sdk p peers" and wf: "peers_wf sdk S"
    and D: "D e = Some (ips_of desiredIPs)" and all: "all_true desiredIPs"
    and ms: "set ms = {q \<in> S. endpoint sdk q = e \<and> managed sdk p q}"
    and w: "peers w = S - {q \<in> set ms. peerAddress q \<notin> Some ` ips_of desiredIPs}"
      "peer_steps sdk p D S (peers w)"
  shows "wp (bindA (wrapA msg (listAllPeers sdk p e)) (\<lambda>ps.
      ensureDesired sdk p e desiredIPs (managedIPs_of ms) (unmanagedIPs_of (managedIPs_of ms) ps)))
    (\<lambda>_ w'. converged_on sdk p e (ips_of desiredIPs) (peers w') \<and>
      (\<forall>q. endpoint sdk q \<noteq> e \<longrightarrow> (q \<in> peers w' \<longleftrightarrow> q \<in> S)) \<and> peer_steps sdk p D S (peers w'))
    (\<lambda>_ w'. peer_steps sdk p D S (peers w')) w"
  unfolding wp_simps
proof (rule wp_listAllPeers [OF env])
  fix ps w3
  assume ps: "set ps = {q \<in> peers w. endpoint sdk q = e}" and w3: "peers w3 = peers w"
  let ?ips = "ips_of desiredIPs"
  have wf3: "peers_wf sdk (peers w3)" using wf w w3 by (auto intro: peers_wf_subset)
  have mem: "\<exists>q \<in> peers w3. endpoint sdk q = e \<and> managed sdk p q \<and> peerAddress q = Some ip"
    if "ip \<in> ?ips" "fmlookup (managedIPs_of ms) ip = Some i" for ip i
    using managedIPs_of_SomeD [OF that(2)] that(1) ms w w3 by auto
  have nomem: "\<forall>q \<in> peers w3. endpoint sdk q = e \<and> managed sdk p q \<longrightarrow> peerAddress q \<noteq> Some ip"
    if "fmlookup (managedIPs_of ms) ip = None" for ip
    using managedIPs_of_NoneD [OF that] ms wf w w3 by (auto simp: peers_wf_def)
  have fresh: "\<forall>q \<in> peers w3. endpoint sdk q = e \<and> managed sdk p q \<longrightarrow> peerAddress q \<in> Some ` ?ips"
    using ms w w3 by auto
  have other: "q \<in> peers w3 \<longleftrightarrow> q \<in> S" if "endpoint sdk q \<noteq> e" for q
    using that ms unfolding w3 w(1) by blast
  have ps3: "set ps = {q \<in> peers w3. endpoint sdk q = e}" using ps w3 by simp
  have pre: "peer_steps sdk p D S (peers w3)" using w(2) w3 by simp
  show "wp (ensureDesired sdk p e desiredIPs (managedIPs_of ms) (unmanagedIPs_of (managedIPs_of ms) ps))
      (\<lambda>_ w'. converged_on sdk p e ?ips (peers w') \<and>
        (\<forall>q. endpoint sdk q \<noteq> e \<longrightarrow> (q \<in> peers w' \<longleftrightarrow> q \<in> S)) \<and> peer_steps sdk p D S (peers w'))
      (\<lambda>_ w'. peer_steps sdk p D S (peers w')) w3"
    by (rule wp_steps_trans [OF pre wp_ensureDesired [where D = D, OF env wf3 D all mem nomem ps3]])
      (auto dest: ensured_converged [OF _ fresh] simp: ensured_other other)
qed (simp add: w(2))

text \<open>
  One endpoint: other endpoints are as before, and the managed peers are exactly the desired ones.
\<close>

lemma wp_reconcileEndpoint:
  assumes env: "peer_env sdk p peers" and wf: "peers_wf sdk (peers w)"
    and D: "D e = Some (ips_of desiredIPs)" and all: "all_true desiredIPs"
  shows "wp (reconcileEndpoint sdk p desiredIPs e)
    (\<lambda>_ w'. converged_on sdk p e (ips_of desiredIPs) (peers w') \<and>
      (\<forall>q. endpoint sdk q \<noteq> e \<longrightarrow> (q \<in> peers w' \<longleftrightarrow> q \<in> peers w)) \<and>
      peer_steps sdk p D (peers w) (peers w'))
    (\<lambda>_ w'. peer_steps sdk p D (peers w) (peers w')) w"
  unfolding reconcileEndpoint_def Let_def wp_bind [of "wrapA _ (listManagedPeers _ _ _)"] wp_wrap
proof (rule wp_listManagedPeers [OF env])
  fix ms w1
  assume ms: "set ms = {q \<in> peers w. endpoint sdk q = e \<and> managed sdk p q}" and w1: "peers w1 = peers w"
  have wf1: "peers_wf sdk (peers w1)"
    and ms1: "set ms = {q \<in> peers w1. endpoint sdk q = e \<and> managed sdk p q}"
    using wf ms w1 by simp_all
  show "wp (bindA (deleteStale sdk p desiredIPs (managedIPs_of ms)) (\<lambda>_.
      bindA (wrapA (Sprintf [''listing all peers for endpoint '', e, '': '']) (listAllPeers sdk p e)) (\<lambda>ps.
      ensureDesired sdk p e desiredIPs (managedIPs_of ms) (unmanagedIPs_of (managedIPs_of ms) ps))))
    (\<lambda>_ w'. converged_on sdk p e (ips_of desiredIPs) (peers w') \<and>
      (\<forall>q. endpoint sdk q \<noteq> e \<longrightarrow> (q \<in> peers w' \<longleftrightarrow> q \<in> peers w)) \<and>
      peer_steps sdk p D (peers w) (peers w'))
    (\<lambda>_ w'. peer_steps sdk p D (peers w) (peers w')) w1"
    unfolding wp_bind [of "deleteStale _ _ _ _"]
    by (rule wp_mono [OF wp_deleteStale [where D = D, OF env wf1 ms1 D]])
      (use wp_second_half [where D = D, OF env wf D all ms] w1 in auto)
qed simp

section \<open>A pass over all endpoints\<close>

text \<open>
  Both public operations walk over all zones and all their endpoints. The locale is the contract of
  the loop body: on an endpoint it reaches the desired addresses by legal steps and leaves the other
  endpoints alone. \<open>x\<close> stands for the further arguments of the operation and \<open>ok\<close> for what it
  needs of the platform.
\<close>

definition forEndpoints ::
    "'w awsSDK \<Rightarrow> 'w Platform \<Rightarrow> (string \<Rightarrow> string \<Rightarrow> ('w, unit) act) \<Rightarrow> ('w, unit) act" where
  "forEndpoints sdk p f =
     bindA (rangeKeys (rangeOrder sdk) (plEndpointsByAZ p)) (\<lambda>azs.
     forA azs (\<lambda>az. forA (lookup_or [] (plEndpointsByAZ p) az) (f az)))"

lemma converged_on_other:
  assumes "\<forall>q. endpoint sdk q \<noteq> e \<longrightarrow> (q \<in> T \<longleftrightarrow> q \<in> S)" and "e' \<noteq> e"
  shows "converged_on sdk p e' ips T \<longleftrightarrow> converged_on sdk p e' ips S"
proof -
  have "{q \<in> T. endpoint sdk q = e' \<and> managed sdk p q} = {q \<in> S. endpoint sdk q = e' \<and> managed sdk p q}"
    using assms by blast
  then show ?thesis by (simp add: converged_on_def)
qed

locale endpoint_pass =
  fixes body :: "'w awsSDK \<Rightarrow> 'w Platform \<Rightarrow> 'x \<Rightarrow> string \<Rightarrow> string \<Rightarrow> ('w, unit) act"
    and want :: "'w Platform \<Rightarrow> 'x \<Rightarrow> desired"
    and ok :: "'w Platform \<Rightarrow> bool"
  assumes body_spec:
    "peer_env sdk p peers \<Longrightarrow> ok p \<Longrightarrow> peers_wf sdk (peers w) \<Longrightarrow>
     fmlookup (plEndpointsByAZ p) az = Some eps \<Longrightarrow> e \<in> set eps \<Longrightarrow>
     wp (body sdk p x az e)
       (\<lambda>_ w'. converged_on sdk p e (the (want p x e)) (peers w') \<and>
         (\<forall>q. endpoint sdk q \<noteq> e \<longrightarrow> (q \<in> peers w' \<longleftrightarrow> q \<in> peers w)) \<and>
         peer_steps sdk p (want p x) (peers w) (peers w'))
       (\<lambda>_ w'. peer_steps sdk p (want p x) (peers w) (peers w')) w"
begin

lemma zone_pass:
  assumes env: "peer_env sdk p peers" "ok p" and wf: "peers_wf sdk S"
    and eps: "fmlookup (plEndpointsByAZ p) az = Some eps"
    and pre: "peer_steps sdk p (want p x) S (peers w)"
      "\<forall>e \<in> X. converged_on sdk p e (the (want p x e)) (peers w)"
  shows "wp (forA eps (body sdk p x az))
    (\<lambda>_ w'. (\<forall>e \<in> X \<union> set eps. converged_on sdk p e (the (want p x e)) (peers w')) \<and>
      peer_steps sdk p (want p x) S (peers w'))
    (\<lambda>_ w'. peer_steps sdk p (want p x) S (peers w')) w"
proof (rule wp_for [where I = "\<lambda>ys _ w'.
    (\<forall>e \<in> X \<union> set ys. converged_on sdk p e (the (want p x e)) (peers w')) \<and>
    peer_steps sdk p (want p x) S (peers w')"])
  fix ys e zs w'
  assume I: "(\<forall>e \<in> X \<union> set ys. converged_on sdk p e (the (want p x e)) (peers w')) \<and>
      peer_steps sdk p (want p x) S (peers w')" and split: "ys @ e # zs = eps"
  have e: "e \<in> set eps" unfolding split [symmetric] by simp
  have wf': "peers_wf sdk (peers w')" using I wf by (auto intro: peer_steps_wf)
  have "wp (body sdk p x az e)
      (\<lambda>_ w1. (converged_on sdk p e (the (want p x e)) (peers w1) \<and>
         (\<forall>q. endpoint sdk q \<noteq> e \<longrightarrow> (q \<in> peers w1 \<longleftrightarrow> q \<in> peers w'))) \<and>
         peer_steps sdk p (want p x) (peers w') (peers w1))
      (\<lambda>_ w1. peer_steps sdk p (want p x) (peers w') (peers w1)) w'"
    using body_spec [OF env wf' eps e] by (simp add: conj_assoc)
  from conjunct2 [OF I] this
  show "wp (body sdk p x az e)
      (\<lambda>_ w'. (\<forall>e \<in> X \<union> set (ys @ [e]). converged_on sdk p e (the (want p x e)) (peers w')) \<and>
        peer_steps sdk p (want p x) S (peers w'))
      (\<lambda>_ w'. peer_steps sdk p (want p x) S (peers w')) w'"
  proof (rule wp_steps_trans)
    fix u w1
    assume A: "converged_on sdk p e (the (want p x e)) (peers w1) \<and>
         (\<forall>q. endpoint sdk q \<noteq> e \<longrightarrow> (q \<in> peers w1 \<longleftrightarrow> q \<in> peers w'))"
      and "peer_steps sdk p (want p x) S (peers w1)"
    moreover have "converged_on sdk p e' (the (want p x e')) (peers w1)" if "e' \<in> X \<union> set ys" for e'
      using A I that converged_on_other [OF conjunct2 [OF A], of e'] by (cases "e' = e") auto
    ultimately show "(\<forall>e \<in> X \<union> set (ys @ [e]). converged_on sdk p e (the (want p x e)) (peers w1)) \<and>
        peer_steps sdk p (want p x) S (peers w1)"
      by auto
  qed
qed (use pre in auto)

lemma full_pass:
  assumes env: "peer_env sdk p peers" "ok p" and wf: "peers_wf sdk (peers w)"
  shows "wp (forEndpoints sdk p (body sdk p x))
    (\<lambda>_ w'. (\<forall>e \<in> own_endpoints p. converged_on sdk p e (the (want p x e)) (peers w')) \<and>
      peer_steps sdk p (want p x) (peers w) (peers w'))
    (\<lambda>_ w'. peer_steps sdk p (want p x) (peers w) (peers w')) w"
proof -
  let ?eps = "lookup_or [] (plEndpointsByAZ p)"
  let ?I = "\<lambda>ys w'. (\<forall>e \<in> (\<Union>az \<in> set ys. set (?eps az)).
      converged_on sdk p e (the (want p x e)) (peers w')) \<and> peer_steps sdk p (want p x) (peers w) (peers w')"
  show ?thesis
    unfolding forEndpoints_def wp_simps
  proof (rule wp_rangeKeys [OF peer_envD(3) [OF env(1)]], rule wp_for [where I = "\<lambda>ys _. ?I ys"])
    fix ks w1
    assume "peers w1 = peers w"
    then show "?I [] w1" by simp
  next
    fix ks ys az zs w'
    assume ks: "set ks = fmdom' (plEndpointsByAZ p)" and I: "?I ys w'" and split: "ys @ az # zs = ks"
    have "az \<in> set ks" unfolding split [symmetric] by simp
    then obtain eps where eps: "fmlookup (plEndpointsByAZ p) az = Some eps"
      unfolding ks by (metis fmlookup_dom'_iff)
    from zone_pass [OF env wf this conjunct2 [OF I] conjunct1 [OF I]]
    show "wp (forA (?eps az) (body sdk p x az)) (\<lambda>_. ?I (ys @ [az]))
        (\<lambda>_ w'. peer_steps sdk p (want p x) (peers w) (peers w')) w'"
      by (simp add: lookup_or_def eps Un_commute)
  next
    fix ks w'
    assume ks: "set ks = fmdom' (plEndpointsByAZ p)" and I: "?I ks w'"
    have "own_endpoints p \<subseteq> (\<Union>az \<in> set ks. set (?eps az))"
    proof
      fix e
      assume "e \<in> own_endpoints p"
      then obtain az eps where "fmlookup (plEndpointsByAZ p) az = Some eps" "e \<in> set eps"
        by (auto simp: own_endpoints_def)
      then show "e \<in> (\<Union>az \<in> set ks. set (?eps az))"
        unfolding ks by (auto simp: lookup_or_def fmdom'I intro!: bexI [of _ az])
    qed
    with I show "(\<forall>e \<in> own_endpoints p. converged_on sdk p e (the (want p x e)) (peers w')) \<and>
        peer_steps sdk p (want p x) (peers w) (peers w')"
      by auto
  qed
qed

end

section \<open>The two operations are passes\<close>

lemma nodesByAZ_lookup:
  "fmlookup (lookup_or fmempty (nodesByAZ nodes) az) ip =
     (if \<exists>n \<in> set nodes. rnAZ n = az \<and> rnPrivateIP n = ip then Some True else None)"
proof -
  let ?f = "\<lambda>n m. fmupd (rnAZ n) (fmupd (rnPrivateIP n) True (lookup_or fmempty m (rnAZ n))) m"
  have "fmlookup (lookup_or fmempty (fold ?f nodes m) az) ip =
     (if \<exists>n \<in> set nodes. rnAZ n = az \<and> rnPrivateIP n = ip then Some True
      else fmlookup (lookup_or fmempty m az) ip)" for m
  proof (induction nodes arbitrary: m)
    case Nil
    then show ?case by simp
  next
    case (Cons n nodes)
    show ?case
      unfolding fold_simps Cons.IH by (auto simp: lookup_or_def)
  qed
  from this [of fmempty] show ?thesis
    by (simp add: nodesByAZ_def lookup_or_def [of fmempty fmempty])
qed

lemma ips_of_nodesByAZ:
  "ips_of (lookup_or fmempty (nodesByAZ nodes) az) = {rnPrivateIP n |n. n \<in> set nodes \<and> rnAZ n = az}"
  by (auto simp: ips_of_def lookup_or_def [of False] nodesByAZ_lookup split: if_splits)

lemma all_true_nodesByAZ: "all_true (lookup_or fmempty (nodesByAZ nodes) az)"
  unfolding all_true_def ips_of_nodesByAZ
  by (auto simp: fmlookup_dom'_iff nodesByAZ_lookup split: if_splits)

lemma desired_on_zone:
  assumes "one_zone p" and "fmlookup (plEndpointsByAZ p) az = Some eps" and "e \<in> set eps"
  shows "desired_on p nodes e = Some {rnPrivateIP n |n. n \<in> set nodes \<and> rnAZ n = az}"
proof -
  have "az' = az" if "fmlookup (plEndpointsByAZ p) az' = Some eps'" "e \<in> set eps'" for az' eps'
    using assms that unfolding one_zone_def by blast
  then have "{rnPrivateIP n |n eps. n \<in> set nodes \<and> fmlookup (plEndpointsByAZ p) (rnAZ n) = Some eps \<and>
      e \<in> set eps} = {rnPrivateIP n |n. n \<in> set nodes \<and> rnAZ n = az}"
    using assms(2,3) by blast
  moreover have "e \<in> own_endpoints p" using assms(2,3) by (auto simp: own_endpoints_def)
  ultimately show ?thesis by (simp add: desired_on_def)
qed

lemma desired_on_none: "desired_on p [] e = (if e \<in> own_endpoints p then Some {} else None)"
  by (simp add: desired_on_def)

interpretation reconcile: endpoint_pass
  "\<lambda>sdk p nodes az. reconcileEndpoint sdk p (lookup_or fmempty (nodesByAZ nodes) az)"
  desired_on one_zone
proof
  fix sdk :: "'w awsSDK" and p peers w az eps e and nodes :: "RouterNode list"
  assume env: "peer_env sdk p peers" and zone: "one_zone p" and wf: "peers_wf sdk (peers w)"
    and e: "fmlookup (plEndpointsByAZ p) az = Some eps" "e \<in> set eps"
  have D: "desired_on p nodes e = Some (ips_of (lookup_or fmempty (nodesByAZ nodes) az))"
    using desired_on_zone [OF zone e] by (simp add: ips_of_nodesByAZ)
  from wp_reconcileEndpoint [where D = "desired_on p nodes", OF env wf D all_true_nodesByAZ]
  show "wp (reconcileEndpoint sdk p (lookup_or fmempty (nodesByAZ nodes) az) e)
       (\<lambda>_ w'. converged_on sdk p e (the (desired_on p nodes e)) (peers w') \<and>
         (\<forall>q. endpoint sdk q \<noteq> e \<longrightarrow> (q \<in> peers w' \<longleftrightarrow> q \<in> peers w)) \<and>
         peer_steps sdk p (desired_on p nodes) (peers w) (peers w'))
       (\<lambda>_ w'. peer_steps sdk p (desired_on p nodes) (peers w) (peers w')) w"
    by (simp add: D)
qed

lemma wp_deleteEndpointPeers:
  assumes env: "peer_env sdk p peers" and wf: "peers_wf sdk (peers w)" and D: "D e = Some {}"
  shows "wp (deleteEndpointPeers sdk p e)
    (\<lambda>_ w'. peers w' = peers w - {q. endpoint sdk q = e \<and> managed sdk p q} \<and>
      peer_steps sdk p D (peers w) (peers w'))
    (\<lambda>_ w'. peer_steps sdk p D (peers w) (peers w')) w"
  unfolding deleteEndpointPeers_def wp_simps
proof (rule wp_listManagedPeers [OF env],
    rule wp_for [where I = "\<lambda>ys _ w'. peers w' = peers w - set ys \<and> peer_steps sdk p D (peers w) (peers w')"])
  fix ms ys q zs w'
  assume ms: "set ms = {q \<in> peers w. endpoint sdk q = e \<and> managed sdk p q}"
    and I: "peers w' = peers w - set ys \<and> peer_steps sdk p D (peers w) (peers w')"
    and split: "ys @ q # zs = ms"
  have "q \<in> set ms" unfolding split [symmetric] by simp
  then have q: "q \<in> peers w" "endpoint sdk q = e" "managed sdk p q" using ms by auto
  then obtain i where i: "peerId q = Some i" using wf by (auto simp: peers_wf_def)
  have "wp (deletePeer p i)
      (\<lambda>_ w1. peers w1 = peers w' - {q} \<and> peer_steps sdk p D (peers w') (peers w1))
      (\<lambda>_ w1. peer_steps sdk p D (peers w') (peers w1)) w'"
    by (rule wp_deletePeer [OF env wf, where ips = "{}"]) (use I q i D in auto)
  then have "wp (deletePeer p i)
      (\<lambda>_ w1. peers w1 = peers w - set (ys @ [q]) \<and> peer_steps sdk p D (peers w) (peers w1))
      (\<lambda>_ w1. peer_steps sdk p D (peers w) (peers w1)) w'"
    by (rule wp_steps_trans [where peers = peers and w = w', OF conjunct2 [OF I]]) (use I in auto)
  then show "wp (case peerId q of None \<Rightarrow> returnA ()
        | Some i \<Rightarrow> wrapA (Sprintf [''deleting peer '', i, '': '']) (deletePeer p i))
      (\<lambda>_ w'. peers w' = peers w - set (ys @ [q]) \<and> peer_steps sdk p D (peers w) (peers w'))
      (\<lambda>_ w'. peer_steps sdk p D (peers w) (peers w')) w'"
    by (simp add: i wp_wrap)
qed auto

interpretation cleanup: endpoint_pass
  "\<lambda>sdk p (_ :: unit) (_ :: string). deleteEndpointPeers sdk p" "\<lambda>p _. desired_on p []" "\<lambda>_. True"
proof
  fix sdk :: "'w awsSDK" and p peers w az eps e
  assume env: "peer_env sdk p peers" and wf: "peers_wf sdk (peers w)"
    and e: "fmlookup (plEndpointsByAZ p) az = Some eps" "e \<in> set eps"
  have D: "desired_on p [] e = Some {}" using e by (auto simp: desired_on_none own_endpoints_def)
  show "wp (deleteEndpointPeers sdk p e)
       (\<lambda>_ w'. converged_on sdk p e (the (desired_on p [] e)) (peers w') \<and>
         (\<forall>q. endpoint sdk q \<noteq> e \<longrightarrow> (q \<in> peers w' \<longleftrightarrow> q \<in> peers w)) \<and>
         peer_steps sdk p (desired_on p []) (peers w) (peers w'))
       (\<lambda>_ w'. peer_steps sdk p (desired_on p []) (peers w) (peers w')) w"
    by (rule wp_mono [OF wp_deleteEndpointPeers [where D = "desired_on p []", OF env wf D]])
      (auto simp: D converged_on_def)
qed

lemma reconcileRouteServerPeers_pass:
  "reconcileRouteServerPeers sdk p nodes =
     forEndpoints sdk p (\<lambda>az. reconcileEndpoint sdk p (lookup_or fmempty (nodesByAZ nodes) az))"
  by (simp add: reconcileRouteServerPeers_def forEndpoints_def Let_def)

lemma deleteAllManagedPeers_pass:
  "deleteAllManagedPeers sdk p = forEndpoints sdk p (\<lambda>_. deleteEndpointPeers sdk p)"
  by (simp add: deleteAllManagedPeers_def forEndpoints_def)

lemma wp_reconcileRouteServerPeers:
  assumes "peer_env sdk p peers" "one_zone p" "peers_wf sdk (peers w)"
  shows "wp (reconcileRouteServerPeers sdk p nodes)
    (\<lambda>_ w'. (\<forall>e \<in> own_endpoints p. converged_on sdk p e (the (desired_on p nodes e)) (peers w')) \<and>
      peer_steps sdk p (desired_on p nodes) (peers w) (peers w'))
    (\<lambda>_ w'. peer_steps sdk p (desired_on p nodes) (peers w) (peers w')) w"
  unfolding reconcileRouteServerPeers_pass by (rule reconcile.full_pass [OF assms])

lemma reconcileRouteServerPeers_steps:
  assumes "peer_env sdk p peers" "one_zone p" "peers_wf sdk (peers w)"
    and "reconcileRouteServerPeers sdk p nodes w = (r, w')"
  shows "peer_steps sdk p (desired_on p nodes) (peers w) (peers w')"
  using wp_mono [OF wp_reconcileRouteServerPeers [OF assms(1-3)]] assms(4) by (rule wp_anyD) auto

lemma wp_deleteAllManagedPeers:
  assumes "peer_env sdk p peers" "peers_wf sdk (peers w)"
  shows "wp (deleteAllManagedPeers sdk p)
    (\<lambda>_ w'. (\<forall>e \<in> own_endpoints p. converged_on sdk p e {} (peers w')) \<and>
      peer_steps sdk p (desired_on p []) (peers w) (peers w'))
    (\<lambda>_ w'. peer_steps sdk p (desired_on p []) (peers w) (peers w')) w"
  unfolding deleteAllManagedPeers_pass
  by (rule wp_mono [OF cleanup.full_pass [OF assms(1) TrueI assms(2)]]) (auto simp: desired_on_none)

section \<open>Correctness of reconciliation and cleanup\<close>

text \<open>
  C4. Convergence. When the reconciliation of peers succeeds, then on every discovered endpoint the
  peers that carry this cluster's tag are exactly those for the private addresses of the router
  nodes in the endpoint's zone, whatever peers existed before and in whatever order the maps were
  traversed.
\<close>

theorem reconcile_peers_converges:
  assumes "peer_env sdk p peers" and "one_zone p" and "peers_wf sdk (peers w)"
    and "reconcileRouteServerPeers sdk p nodes w = (Inr (), w')"
    and "fmlookup (plEndpointsByAZ p) az = Some eps" and "e \<in> set eps"
  shows "peerAddress ` {q \<in> peers w'. endpoint sdk q = e \<and> managed sdk p q} =
    {Some (rnPrivateIP n) |n. n \<in> set nodes \<and> rnAZ n = az}"
proof -
  have "e \<in> own_endpoints p" using assms(5,6) by (auto simp: own_endpoints_def)
  with wp_InrD [OF wp_reconcileRouteServerPeers [OF assms(1-3)] assms(4)]
  have "converged_on sdk p e (the (desired_on p nodes e)) (peers w')" by blast
  then show ?thesis
    by (auto simp: converged_on_def desired_on_zone [OF assms(2,5,6)])
qed

text \<open>
  C5. Refinement. Every run of the reconciliation, also one that ends in an error at any call, is a
  sequence of steps of the specification: it deletes only stale peers of this cluster, adopts only
  peers for desired addresses and creates only missing peers. The peers stay well-formed.
\<close>

theorem reconcile_peers_refines:
  assumes "peer_env sdk p peers" and "one_zone p" and "peers_wf sdk (peers w)"
    and "reconcileRouteServerPeers sdk p nodes w = (r, w')"
  shows "(peer_step sdk p (desired_on p nodes))\<^sup>*\<^sup>* (peers w) (peers w') \<and> peers_wf sdk (peers w')"
  using reconcileRouteServerPeers_steps [OF assms] peer_steps_wf assms(3) by blast

text \<open>
  C6. Isolation. No run of the reconciliation, successful or not, removes a peer without this
  cluster's tag, or changes its identifier, address or endpoint. It changes such a peer at all only
  where the address is that of a router node in the zone of the endpoint, by adding the tag and
  keeping all tags with other keys. Peers on other endpoints do not change at all.
\<close>

theorem reconcile_peers_isolation:
  assumes "peer_env sdk p peers" and "one_zone p" and "peers_wf sdk (peers w)"
    and "reconcileRouteServerPeers sdk p nodes w = (r, w')"
    and "q \<in> peers w" and "\<not> managed sdk p q \<or> endpoint sdk q \<notin> own_endpoints p"
  shows "q \<in> peers w' \<or>
    (\<exists>n q' eps. n \<in> set nodes \<and> peerAddress q = Some (rnPrivateIP n) \<and>
       fmlookup (plEndpointsByAZ p) (rnAZ n) = Some eps \<and> endpoint sdk q \<in> set eps \<and>
       q' \<in> peers w' \<and> peerId q' = peerId q \<and> peerAddress q' = peerAddress q \<and>
       peerEndpointId q' = peerEndpointId q \<and> managed sdk p q' \<and>
       {t \<in> set (peerTags q). tagKey t \<noteq> Some managedByTagKey} \<subseteq> set (peerTags q'))"
proof (cases "endpoint sdk q \<in> own_endpoints p")
  case True
  then have "\<not> managed sdk p q" using assms(6) by simp
  from peer_steps_foreign [OF reconcileRouteServerPeers_steps [OF assms(1-4)] assms(5) this]
  show ?thesis
    using True by (auto simp: desired_on_def)
next
  case False
  then have "q \<in> peers w'"
    using peer_steps_outside [OF reconcileRouteServerPeers_steps [OF assms(1-4)], of q] assms(5)
    by (simp add: desired_on_def)
  then show ?thesis by simp
qed

text \<open>
  C17. No churn. When the peers are already the desired ones, a run of the reconciliation leaves the
  set of peers exactly as it is; in particular a second run after a successful one changes nothing.
\<close>

theorem reconcile_peers_idempotent:
  assumes "peer_env sdk p peers" and "one_zone p" and "peers_wf sdk (peers w)"
    and "reconcileRouteServerPeers sdk p nodes w = (Inr (), w')"
    and "reconcileRouteServerPeers sdk p nodes w' = (r, w'')"
  shows "peers w'' = peers w'"
proof (rule converged_steps)
  have wf: "peers_wf sdk (peers w')"
    using reconcileRouteServerPeers_steps [OF assms(1-4)] peer_steps_wf assms(3) by blast
  show "peers_wf sdk (peers w')" by (rule wf)
  show "peer_steps sdk p (desired_on p nodes) (peers w') (peers w'')"
    by (rule reconcileRouteServerPeers_steps [OF assms(1,2) wf assms(5)])
  fix e ips
  assume "desired_on p nodes e = Some ips"
  moreover from this have "e \<in> own_endpoints p" by (simp add: desired_on_def split: if_splits)
  ultimately show "converged_on sdk p e ips (peers w')"
    using wp_InrD [OF wp_reconcileRouteServerPeers [OF assms(1-3)] assms(4)] by force
qed

text \<open>Cleanup only removes, and only peers of this cluster on its own endpoints.\<close>

lemma cleanup_steps:
  assumes "peer_steps sdk p (desired_on p []) S S'"
  shows "S - {q. endpoint sdk q \<in> own_endpoints p \<and> managed sdk p q} \<subseteq> S' \<and> S' \<subseteq> S"
  using assms
proof (induction rule: rtranclp_induct)
  case base
  then show ?case by blast
next
  case (step T U)
  from step.hyps(2) have "T - {q. endpoint sdk q \<in> own_endpoints p \<and> managed sdk p q} \<subseteq> U \<and> U \<subseteq> T"
    by (cases rule: peer_step.cases) (auto simp: desired_on_none split: if_splits)
  with step.IH show ?case by blast
qed

text \<open>
  C18. Cleanup. A successful removal deletes exactly the peers with this cluster's tag on the
  discovered endpoints and nothing else; one that fails has deleted some of these and nothing else.
\<close>

theorem delete_all_managed_exact:
  assumes "peer_env sdk p peers" and "peers_wf sdk (peers w)"
    and "deleteAllManagedPeers sdk p w = (r, w')"
  shows "(let rest = peers w - {q. endpoint sdk q \<in> own_endpoints p \<and> managed sdk p q} in
    rest \<subseteq> peers w' \<and> peers w' \<subseteq> peers w \<and> (r = Inr () \<longrightarrow> peers w' = rest))"
proof -
  have steps: "peer_steps sdk p (desired_on p []) (peers w) (peers w')"
    using wp_mono [OF wp_deleteAllManagedPeers [OF assms(1,2)]] assms(3) by (rule wp_anyD) auto
  have "\<not> (endpoint sdk q \<in> own_endpoints p \<and> managed sdk p q)" if "r = Inr ()" "q \<in> peers w'" for q
    using wp_InrD [OF wp_deleteAllManagedPeers [OF assms(1,2)]] assms(3) that
    by (force simp: converged_on_def)
  with cleanup_steps [OF steps] show ?thesis by (auto simp: Let_def)
qed

section \<open>Frame\<close>

lemma keeps_peer_ops:
  assumes "peer_keeps (plEc2Client p) obs"
  shows "keeps obs (listAllPeers sdk p e)" "keeps obs (listManagedPeers sdk p e)"
    "keeps obs (tagPeer p i)" "keeps obs (createPeer p e a)" "keeps obs (deletePeer p i)"
  by (auto simp: listAllPeers_def listManagedPeers_def tagPeer_def createPeer_def deletePeer_def Let_def
      intro!: keeps_bind peer_keepsD [OF assms])

lemma keeps_reconcileRouteServerPeers:
  assumes "peer_keeps (plEc2Client p) obs" and "range_laws (rangeOrder sdk) obs"
  shows "keeps obs (reconcileRouteServerPeers sdk p nodes)"
  unfolding reconcileRouteServerPeers_def reconcileEndpoint_def deleteStale_def ensureDesired_def Let_def
  by (intro keeps_bind keeps_for keeps_wrap keeps_range [OF assms(2)] keeps_peer_ops [OF assms(1)])
    (auto split: option.split intro: keeps_peer_ops [OF assms(1)])

lemma keeps_deleteAllManagedPeers:
  assumes "peer_keeps (plEc2Client p) obs" and "range_laws (rangeOrder sdk) obs"
  shows "keeps obs (deleteAllManagedPeers sdk p)"
  unfolding deleteAllManagedPeers_def deleteEndpointPeers_def
  by (intro keeps_bind keeps_for keeps_wrap keeps_range [OF assms(2)] keeps_peer_ops [OF assms(1)])
    (auto split: option.split intro: keeps_peer_ops [OF assms(1)])

end
