(* ===== verification/Aws_Source_Dest_Check.thy ===== *)
theory Aws_Source_Dest_Check
  imports Aws_Platform
begin

text \<open>
  \<open>internal/platform/aws/source_dest_check.go\<close>: router nodes forward packets that are not addressed
  to them, so the source/destination check of their primary network interface has to be off.
\<close>

section \<open>Operations\<close>

text \<open>The interfaces of all instances of all reservations, in the order of the three nested loops.\<close>

definition interfaces :: "Reservation list \<Rightarrow> InstanceNetworkInterface list" where
  "interfaces rs = concat (map (\<lambda>res. concat (map instNetworkInterfaces (resInstances res))) rs)"

definition isPrimary :: "'w awsSDK \<Rightarrow> InstanceNetworkInterface \<Rightarrow> bool" where
  "isPrimary sdk iface =
     (case niAttachment iface of None \<Rightarrow> False | Some a \<Rightarrow> ToInt32 sdk (attDeviceIndex a) = 0)"

definition getPrimaryENI :: "'w awsSDK \<Rightarrow> 'w Platform \<Rightarrow> string \<Rightarrow> ('w, string \<times> bool) act" where
  "getPrimaryENI sdk p instanceID =
     bindA (DescribeInstances (plEc2Client p) [instanceID]) (\<lambda>out.
       case find (isPrimary sdk) (interfaces out) of
         Some iface \<Rightarrow> returnA (ToString sdk (niNetworkInterfaceId iface), niSourceDestCheck iface = Some True)
       | None \<Rightarrow> throwA (NewError (Sprintf [''primary ENI not found for instance '', instanceID])))"

definition setSourceDestCheck :: "'w Platform \<Rightarrow> string \<Rightarrow> bool \<Rightarrow> ('w, unit) act" where
  "setSourceDestCheck p eniID enabled =
     ModifyNetworkInterfaceAttribute (plEc2Client p) (Some eniID) (Some enabled)"

text \<open>The body of the loop over the nodes.\<close>

definition disableNodeCheck :: "'w awsSDK \<Rightarrow> 'w Platform \<Rightarrow> RouterNode \<Rightarrow> ('w, unit) act" where
  "disableNodeCheck sdk p node =
     (case ParseProviderID (rnProviderID node) of
        Inl err \<Rightarrow> throwA (WrapError (Sprintf [''node '', rnName node, '': '']) err)
      | Inr (instanceID, _) \<Rightarrow>
          bindA (wrapA (Sprintf [''node '', rnName node, '' (instance '', instanceID, ''): ''])
            (getPrimaryENI sdk p instanceID)) (\<lambda>(eniID, srcDstEnabled).
          if srcDstEnabled
          then wrapA (Sprintf [''node '', rnName node, '' (eni '', eniID, ''): ''])
            (setSourceDestCheck p eniID False)
          else returnA ()))"

definition disableSourceDestCheck :: "'w awsSDK \<Rightarrow> 'w Platform \<Rightarrow> RouterNode list \<Rightarrow> ('w, unit) act" where
  "disableSourceDestCheck sdk p nodes = forA nodes (disableNodeCheck sdk p)"

section \<open>The primary interface\<close>

definition primaryENI :: "'w awsSDK \<Rightarrow> instances \<Rightarrow> RouterNode \<Rightarrow> InstanceNetworkInterface option" where
  "primaryENI sdk enis n =
     (case ParseProviderID (rnProviderID n) of
        Inl _ \<Rightarrow> None
      | Inr (inst, _) \<Rightarrow> find (isPrimary sdk) (interfaces (enis inst)))"

text \<open>Every interface has an identifier.\<close>

definition enis_wf :: "instances \<Rightarrow> bool" where
  "enis_wf enis \<longleftrightarrow> (\<forall>i. \<forall>ni \<in> set (interfaces (enis i)). niNetworkInterfaceId ni \<noteq> None)"

definition eni_env :: "'w awsSDK \<Rightarrow> 'w Platform \<Rightarrow> ('w \<Rightarrow> instances) \<Rightarrow> bool" where
  "eni_env sdk p enis \<longleftrightarrow> sdk_laws sdk \<and> eni_laws (plEc2Client p) enis"

text \<open>The check is off on the primary interface of a node, which exists.\<close>

definition check_off :: "'w awsSDK \<Rightarrow> instances \<Rightarrow> RouterNode \<Rightarrow> bool" where
  "check_off sdk enis n \<longleftrightarrow>
     (\<exists>ni. primaryENI sdk enis n = Some ni \<and> niSourceDestCheck ni \<noteq> Some True)"

text \<open>One modification the operator may make: switch the check off where it is on.\<close>

definition disable_step :: "'w awsSDK \<Rightarrow> RouterNode set \<Rightarrow> instances \<Rightarrow> instances \<Rightarrow> bool" where
  "disable_step sdk ns enis enis' \<longleftrightarrow>
     (\<exists>n \<in> ns. \<exists>ni eni. primaryENI sdk enis n = Some ni \<and> niNetworkInterfaceId ni = Some eni \<and>
        niSourceDestCheck ni = Some True \<and> enis' = modify_effect eni False enis)"

lemma interfaces_modify:
  "interfaces (modify_effect eni b enis i) = map (set_check eni b) (interfaces (enis i))"
  by (simp add: interfaces_def modify_effect_def map_concat comp_def)

lemma isPrimary_set_check [simp]: "isPrimary sdk (set_check eni b ni) = isPrimary sdk ni"
  by (simp add: isPrimary_def set_check_def)

lemma find_map_same: "(\<And>x. P (f x) = P x) \<Longrightarrow> find P (map f xs) = map_option f (find P xs)"
  by (induction xs) auto

lemma primaryENI_modify:
  "primaryENI sdk (modify_effect eni b enis) n = map_option (set_check eni b) (primaryENI sdk enis n)"
  by (auto simp: primaryENI_def interfaces_modify find_map_same split: sum.split)

lemma set_check_False:
  "niSourceDestCheck ni \<noteq> Some True \<Longrightarrow> niSourceDestCheck (set_check eni False ni) \<noteq> Some True"
  by (simp add: set_check_def)

lemma check_off_modify: "check_off sdk enis n \<Longrightarrow> check_off sdk (modify_effect eni False enis) n"
  unfolding check_off_def primaryENI_modify using set_check_False by fastforce

lemma enis_wf_modify: "enis_wf enis \<Longrightarrow> enis_wf (modify_effect eni b enis)"
  by (auto simp: enis_wf_def interfaces_modify set_check_def)

lemma disable_steps_keep:
  assumes "(disable_step sdk ns)\<^sup>*\<^sup>* enis enis'"
  shows "(enis_wf enis \<longrightarrow> enis_wf enis') \<and> (check_off sdk enis n \<longrightarrow> check_off sdk enis' n)"
  using assms
  by (induction rule: rtranclp_induct)
    (auto simp: disable_step_def dest: check_off_modify enis_wf_modify)

section \<open>One node\<close>

lemma primaryENI_in:
  assumes "primaryENI sdk enis n = Some ni"
  shows "\<exists>i. ni \<in> set (interfaces (enis i))"
  using assms by (auto simp: primaryENI_def find_Some_iff split: sum.splits prod.splits intro: nth_mem)

lemma wp_disableNodeCheck:
  assumes env: "eni_env sdk p enis" and wf: "enis_wf (enis w)" and n: "n \<in> ns"
  shows "wp (disableNodeCheck sdk p n)
    (\<lambda>_ w'. check_off sdk (enis w') n \<and> (disable_step sdk ns)\<^sup>*\<^sup>* (enis w) (enis w'))
    (\<lambda>_ w'. (disable_step sdk ns)\<^sup>*\<^sup>* (enis w) (enis w')) w"
proof (cases "ParseProviderID (rnProviderID n)")
  case (Inl err)
  then show ?thesis by (simp add: disableNodeCheck_def wp_simps)
next
  case (Inr ia)
  then obtain inst az where parse: "ParseProviderID (rnProviderID n) = Inr (inst, az)" by (cases ia) auto
  from env have laws: "sdk_laws sdk" "eni_laws (plEc2Client p) enis" by (simp_all add: eni_env_def)
  have modify: "wp (setSourceDestCheck p (ToString sdk (niNetworkInterfaceId ni)) False)
      (\<lambda>_ w'. check_off sdk (enis w') n \<and> (disable_step sdk ns)\<^sup>*\<^sup>* (enis w) (enis w'))
      (\<lambda>_ w'. (disable_step sdk ns)\<^sup>*\<^sup>* (enis w) (enis w')) w1"
    if prim: "primaryENI sdk (enis w) n = Some ni" and on: "niSourceDestCheck ni = Some True"
      and w1: "enis w1 = enis w" for ni w1
  proof -
    obtain eni where eni: "niNetworkInterfaceId ni = Some eni"
      using wf primaryENI_in [OF prim] by (auto simp: enis_wf_def)
    then have step: "disable_step sdk ns (enis w) (modify_effect eni False (enis w))"
      using n prim on unfolding disable_step_def by blast
    have "check_off sdk (modify_effect eni False (enis w)) n"
      using prim eni by (simp add: check_off_def primaryENI_modify set_check_def)
    then show ?thesis
      unfolding setSourceDestCheck_def eni sdk_lawsD [OF laws(1)]
      by (intro wp_mono [OF eni_lawsD(2) [OF laws(2)]]) (use step w1 in auto)
  qed
  have prim: "primaryENI sdk (enis w) n = find (isPrimary sdk) (interfaces (enis w inst))"
    by (simp add: primaryENI_def parse)
  have off: "check_off sdk (enis w') n" if "find (isPrimary sdk) (interfaces (enis w inst)) = Some ni"
    "niSourceDestCheck ni \<noteq> Some True" "enis w' = enis w" for ni w'
    using that prim by (simp add: check_off_def)
  have "wp (DescribeInstances (plEc2Client p) [inst])
      (\<lambda>rs w'. rs = enis w inst \<and> enis w' = enis w) (\<lambda>_ w'. enis w' = enis w) w"
    by (rule eni_lawsD(1) [OF laws(2)])
  then show ?thesis
    unfolding disableNodeCheck_def getPrimaryENI_def parse
    by (auto simp: wp_simps split: option.split intro: off intro!: modify [unfolded prim] elim!: wp_mono)
qed

section \<open>All nodes\<close>

lemma wp_disableSourceDestCheck:
  assumes env: "eni_env sdk p enis" and wf: "enis_wf (enis w)"
  shows "wp (disableSourceDestCheck sdk p nodes)
    (\<lambda>_ w'. (\<forall>n \<in> set nodes. check_off sdk (enis w') n) \<and> (disable_step sdk (set nodes))\<^sup>*\<^sup>* (enis w) (enis w'))
    (\<lambda>_ w'. (disable_step sdk (set nodes))\<^sup>*\<^sup>* (enis w) (enis w')) w"
  unfolding disableSourceDestCheck_def
proof (rule wp_for [where I = "\<lambda>ys _ w'. (\<forall>n \<in> set ys. check_off sdk (enis w') n) \<and>
      (disable_step sdk (set nodes))\<^sup>*\<^sup>* (enis w) (enis w')"])
  fix ys n zs w'
  assume I: "(\<forall>n \<in> set ys. check_off sdk (enis w') n) \<and> (disable_step sdk (set nodes))\<^sup>*\<^sup>* (enis w) (enis w')"
    and split: "ys @ n # zs = nodes"
  have n: "n \<in> set nodes" unfolding split [symmetric] by simp
  have wf': "enis_wf (enis w')" using disable_steps_keep I wf by blast
  show "wp (disableNodeCheck sdk p n)
      (\<lambda>_ w'. (\<forall>n \<in> set (ys @ [n]). check_off sdk (enis w') n) \<and>
        (disable_step sdk (set nodes))\<^sup>*\<^sup>* (enis w) (enis w'))
      (\<lambda>_ w'. (disable_step sdk (set nodes))\<^sup>*\<^sup>* (enis w) (enis w')) w'"
    by (rule wp_mono [OF wp_disableNodeCheck [OF env wf' n]])
      (use I in \<open>auto intro: rtranclp_trans dest: disable_steps_keep\<close>)
qed auto

text \<open>
  C21. When the step succeeds, every router node has a well-formed provider identifier and a primary
  network interface, and the source/destination check of that interface is off at the end, also
  where several nodes were handled after it.
\<close>

theorem source_dest_check_disabled:
  assumes "eni_env sdk p enis" and "enis_wf (enis w)"
    and "disableSourceDestCheck sdk p nodes w = (Inr (), w')" and "n \<in> set nodes"
  shows "\<exists>inst az ni. ParseProviderID (rnProviderID n) = Inr (inst, az) \<and>
    find (isPrimary sdk) (interfaces (enis w' inst)) = Some ni \<and> niSourceDestCheck ni \<noteq> Some True"
proof -
  have "check_off sdk (enis w') n"
    using wp_InrD [OF wp_disableSourceDestCheck [OF assms(1,2)] assms(3)] assms(4) by blast
  then show ?thesis
    by (auto simp: check_off_def primaryENI_def split: sum.splits prod.splits)
qed

text \<open>
  C22. Every run, also a failing one, only ever switches the check off, only on the primary
  interface of one of the given nodes, and only where it is on: an interface that is already off is
  not touched again.
\<close>

theorem source_dest_check_minimal:
  assumes "eni_env sdk p enis" and "enis_wf (enis w)"
    and "disableSourceDestCheck sdk p nodes w = (r, w')"
  shows "(disable_step sdk (set nodes))\<^sup>*\<^sup>* (enis w) (enis w') \<and>
    ((\<forall>n \<in> set nodes. check_off sdk (enis w) n) \<longrightarrow> enis w' = enis w)"
proof -
  have steps: "(disable_step sdk (set nodes))\<^sup>*\<^sup>* (enis w) (enis w')"
    using wp_mono [OF wp_disableSourceDestCheck [OF assms(1,2)]] assms(3) by (rule wp_anyD) auto
  moreover have "\<not> disable_step sdk (set nodes) (enis w) x" if "\<forall>n \<in> set nodes. check_off sdk (enis w) n" for x
    using that by (auto simp: disable_step_def check_off_def)
  ultimately show ?thesis by (metis converse_rtranclpE)
qed

section \<open>Errors and frame\<close>

text \<open>A node whose provider identifier does not parse stops the loop before any call for it.\<close>

lemma disable_bad_provider:
  assumes "ParseProviderID (rnProviderID n) = Inl e"
  shows "disableSourceDestCheck sdk p (n # ns) w =
    (Inl (WrapError (Sprintf [''node '', rnName n, '': '']) e), w)"
  using assms by (simp add: disableSourceDestCheck_def disableNodeCheck_def bindA_def throwA_def)

lemma keeps_disableSourceDestCheck:
  assumes "eni_keeps (plEc2Client p) obs"
  shows "keeps obs (disableSourceDestCheck sdk p nodes)"
  unfolding disableSourceDestCheck_def disableNodeCheck_def getPrimaryENI_def setSourceDestCheck_def
  by (intro keeps_for) (auto split: sum.split option.split
      intro!: keeps_bind keeps_wrap eni_keepsD [OF assms])

end
