(* ===== verification/Aws_Methods.thy ===== *)
theory Aws_Methods
  imports Aws_Discovery Aws_Route_Server Aws_Source_Dest_Check
begin

text \<open>
  The methods of the AWS platform (\<open>ReconcileNodes\<close> and \<open>Cleanup\<close> of \<open>aws.go\<close>), its method table,
  and the proof that it satisfies the contract of the \<open>CloudPlatform\<close> interface.
\<close>

section \<open>Methods\<close>

definition ReconcileNodes :: "'w awsSDK \<Rightarrow> 'w Platform \<Rightarrow> RouterNode list \<Rightarrow> ('w, unit) act" where
  "ReconcileNodes sdk p nodes =
     bindA (wrapA ''reconciling route server peers: '' (reconcileRouteServerPeers sdk p nodes)) (\<lambda>_.
     wrapA ''disabling source/dest check: '' (disableSourceDestCheck sdk p nodes))"

definition Cleanup :: "'w awsSDK \<Rightarrow> 'w Platform \<Rightarrow> ('w, unit) act" where
  "Cleanup sdk p = deleteAllManagedPeers sdk p"

definition awsMethods :: "'w awsSDK \<Rightarrow> ('w, 'w Platform) CloudPlatform" where
  "awsMethods sdk =
     \<lparr>cpDiscoverEndpoints = DiscoverEndpoints sdk,
      cpReconcileNodes = ReconcileNodes sdk,
      cpCleanup = Cleanup sdk\<rparr>"

text \<open>The environment leaves the Kubernetes cluster alone.\<close>

definition aws_legal :: "'w awsSDK \<Rightarrow> 'w Platform \<Rightarrow> ('w \<Rightarrow> 'k) \<Rightarrow> bool" where
  "aws_legal sdk p kube \<longleftrightarrow> ec2_keeps (plEc2Client p) kube \<and> range_laws (rangeOrder sdk) kube"

section \<open>The contract\<close>

lemma keeps_ReconcileNodes:
  assumes "aws_legal sdk p kube"
  shows "keeps kube (ReconcileNodes sdk p nodes)"
  unfolding ReconcileNodes_def
  using assms by (auto simp: aws_legal_def dest: ec2_keepsD
      intro!: keeps_bind keeps_wrap keeps_reconcileRouteServerPeers keeps_disableSourceDestCheck)

interpretation aws: cloud_platform awsMethods aws_legal
proof
  fix sdk :: "'w awsSDK" and p w r p' w' and kube :: "'w \<Rightarrow> 'k" and ns
  show "discovery_wf r" if "cpDiscoverEndpoints (awsMethods sdk) p w = (Inr (r, p'), w')"
    using that DiscoverEndpoints_run [of sdk p w r p' w'] by (simp add: awsMethods_def)
  show "aws_legal sdk p' kube" if "aws_legal sdk p kube"
    and "cpDiscoverEndpoints (awsMethods sdk) p w = (Inr (r, p'), w')"
    using that DiscoverEndpoints_run [of sdk p w r p' w'] by (auto simp: awsMethods_def aws_legal_def)
  show "kube (snd (cpDiscoverEndpoints (awsMethods sdk) p w)) = kube w" if "aws_legal sdk p kube"
    using that keeps_DiscoverEndpoints [of p kube sdk] by (simp add: awsMethods_def aws_legal_def keeps_def ec2_keepsD)
  show "kube (snd (cpReconcileNodes (awsMethods sdk) p ns w)) = kube w" if "aws_legal sdk p kube"
    using keeps_ReconcileNodes [OF that] by (simp add: awsMethods_def keeps_def)
  show "kube (snd (cpCleanup (awsMethods sdk) p w)) = kube w" if "aws_legal sdk p kube"
    using that keeps_deleteAllManagedPeers [of p kube sdk]
    by (simp add: awsMethods_def Cleanup_def aws_legal_def keeps_def ec2_keepsD)
qed

end
