(* ===== verification/In_Memory_Cloud.thy ===== *)
theory In_Memory_Cloud
  imports Aws_Methods
begin

text \<open>
  A concrete cloud held in memory: an implementation of the \<open>ec2API\<close> interface, of the SDK helpers
  and of the map order that satisfies everything \<open>Aws_Api\<close> says about them, and one small
  environment in which the theorems about the AWS platform are applied. The world record can be
  extended, so that the same cloud serves beside an in-memory cluster.
\<close>

section \<open>The cloud\<close>

record cloud =
  clPeers :: "RouteServerPeer list"
  clInstances :: "(string \<times> Reservation list) list"

record inventory =
  ivServers :: "(string \<times> RouteServer) list"
  ivEndpoints :: "RouteServerEndpoint list"
  ivZone :: "string \<Rightarrow> string"

definition servers_of :: "inventory \<Rightarrow> string \<Rightarrow> RouteServer list" where
  "servers_of iv i = map snd (filter (\<lambda>s. fst s = i) (ivServers iv))"

definition instances_of :: "'z cloud_scheme \<Rightarrow> instances" where
  "instances_of w i = (case map_of (clInstances w) i of None \<Rightarrow> [] | Some rs \<Rightarrow> rs)"

text \<open>An identifier that is longer than all those in use.\<close>

definition fresh_id :: "RouteServerPeer list \<Rightarrow> string" where
  "fresh_id ps =
     replicate (Suc (sum_list (map (\<lambda>q. case peerId q of None \<Rightarrow> 0 | Some i \<Rightarrow> length i) ps))) CHR ''x''"

definition new_peer :: "CreateRouteServerPeerInput \<Rightarrow> RouteServerPeer list \<Rightarrow> RouteServerPeer" where
  "new_peer inp ps =
     \<lparr>peerAddress = cpPeerAddress inp, peerId = Some (fresh_id ps),
      peerEndpointId = cpRouteServerEndpointId inp,
      peerTags = concat (map tsTags (cpTagSpecifications inp))\<rparr>"

definition retag :: "string list \<Rightarrow> Tag list \<Rightarrow> RouteServerPeer \<Rightarrow> RouteServerPeer" where
  "retag ids tags q =
     (case peerId q of
        None \<Rightarrow> q
      | Some i \<Rightarrow>
          if i \<in> set ids
          then q\<lparr>peerTags := filter (\<lambda>t. list_all (\<lambda>t'. tagKey t' \<noteq> tagKey t) tags) (peerTags q) @ tags\<rparr>
          else q)"

definition modify_instances :: "string \<Rightarrow> bool \<Rightarrow> (string \<times> Reservation list) list \<Rightarrow> (string \<times> Reservation list) list" where
  "modify_instances eni b = map (\<lambda>(i, rs). (i, modify_effect eni b (\<lambda>_. rs) i))"

definition memEc2 :: "inventory \<Rightarrow> 'z cloud_scheme ec2API" where
  "memEc2 iv =
     \<lparr>DescribeRouteServers = (\<lambda>ids. returnA (concat (map (servers_of iv) ids))),
      DescribeRouteServerEndpoints = returnA (ivEndpoints iv),
      DescribeSubnets = (\<lambda>ids. returnA (map (\<lambda>i.
        \<lparr>snSubnetId = Some i, snAvailabilityZone = Some (ivZone iv i)\<rparr>) ids)),
      DescribeRouteServerPeers = (\<lambda>w. (Inr (clPeers w), w)),
      CreateRouteServerPeer = (\<lambda>inp w. (Inr (), w\<lparr>clPeers := clPeers w @ [new_peer inp (clPeers w)]\<rparr>)),
      DeleteRouteServerPeer = (\<lambda>i w. (Inr (), w\<lparr>clPeers := filter (\<lambda>q. peerId q \<noteq> i) (clPeers w)\<rparr>)),
      CreateTags = (\<lambda>ids tags w. (Inr (), w\<lparr>clPeers := map (retag ids tags) (clPeers w)\<rparr>)),
      DescribeInstances = (\<lambda>ids w. (Inr (concat (map (instances_of w) ids)), w)),
      ModifyNetworkInterfaceAttribute = (\<lambda>eni b w.
        case (eni, b) of
          (Some e, Some v) \<Rightarrow> (Inr (), w\<lparr>clInstances := modify_instances e v (clInstances w)\<rparr>)
        | _ \<Rightarrow> (Inr (), w))\<rparr>"

definition memSdk :: "'w awsSDK" where
  "memSdk =
     \<lparr>ToString = (\<lambda>s. case s of None \<Rightarrow> [] | Some x \<Rightarrow> x),
      ToInt64 = (\<lambda>n. case n of None \<Rightarrow> 0 | Some x \<Rightarrow> x),
      ToInt32 = (\<lambda>n. case n of None \<Rightarrow> 0 | Some x \<Rightarrow> x),
      rangeOrder = (\<lambda>ks w. (rev ks, w))\<rparr>"

section \<open>It behaves as documented\<close>

lemma sdk_laws_mem: "sdk_laws memSdk"
  by (simp add: sdk_laws_def memSdk_def)

lemma range_laws_mem: "range_laws (rangeOrder memSdk) obs"
  by (simp add: range_laws_def memSdk_def)

lemma fresh_id_fresh: "q \<in> set ps \<Longrightarrow> peerId q \<noteq> Some (fresh_id ps)"
proof
  assume q: "q \<in> set ps" and i: "peerId q = Some (fresh_id ps)"
  have "(case peerId q of None \<Rightarrow> 0 | Some i \<Rightarrow> length i) \<le>
      sum_list (map (\<lambda>q. case peerId q of None \<Rightarrow> 0 | Some i \<Rightarrow> length i) ps)"
    by (rule member_le_sum_list) (use q in auto)
  then show False by (simp add: i fresh_id_def)
qed

lemma peer_laws_mem: "peer_laws (memEc2 iv) (\<lambda>w. set (clPeers w))"
  unfolding peer_laws_def
proof (intro conjI allI)
  fix w :: "'a cloud_scheme" and i inp ids tags
  show "wp (DescribeRouteServerPeers (memEc2 iv))
      (\<lambda>ps w'. set ps = set (clPeers w) \<and> set (clPeers w') = set (clPeers w))
      (\<lambda>_ w'. set (clPeers w') = set (clPeers w)) w"
    by (simp add: wp_def memEc2_def)
  show "wp (DeleteRouteServerPeer (memEc2 iv) (Some i))
      (\<lambda>_ w'. delete_effect i (set (clPeers w)) (set (clPeers w')))
      (\<lambda>_ w'. set (clPeers w') = set (clPeers w) \<or> delete_effect i (set (clPeers w)) (set (clPeers w'))) w"
    by (simp add: wp_def memEc2_def delete_effect_def)
  show "wp (CreateRouteServerPeer (memEc2 iv) inp)
      (\<lambda>_ w'. create_effect inp (set (clPeers w)) (set (clPeers w')))
      (\<lambda>_ w'. set (clPeers w') = set (clPeers w) \<or> create_effect inp (set (clPeers w)) (set (clPeers w'))) w"
    using fresh_id_fresh [of _ "clPeers w"]
    by (auto simp: wp_def memEc2_def create_effect_def new_peer_def
        intro!: exI [of _ "new_peer inp (clPeers w)"])
  have "tag_effect ids tags S (retag ids tags ` S)" for S
    unfolding tag_effect_def
    by (rule exI [of _ "retag ids tags"]) (auto simp: retag_def list_all_iff split: option.splits)
  then show "wp (CreateTags (memEc2 iv) ids tags)
      (\<lambda>_ w'. tag_effect ids tags (set (clPeers w)) (set (clPeers w')))
      (\<lambda>_ w'. set (clPeers w') = set (clPeers w) \<or> tag_effect ids tags (set (clPeers w)) (set (clPeers w'))) w"
    by (simp add: wp_def memEc2_def)
qed

lemma instances_of_modify:
  "instances_of (w\<lparr>clInstances := modify_instances e v (clInstances w)\<rparr>) = modify_effect e v (instances_of w)"
proof
  fix i
  have "map_of (modify_instances e v xs) i = map_option (\<lambda>rs. modify_effect e v (\<lambda>_. rs) i) (map_of xs i)" for xs
    by (induction xs) (auto simp: modify_instances_def modify_effect_def)
  then show "instances_of (w\<lparr>clInstances := modify_instances e v (clInstances w)\<rparr>) i =
      modify_effect e v (instances_of w) i"
    by (simp add: instances_of_def modify_effect_def split: option.split)
qed

lemma eni_laws_mem: "eni_laws (memEc2 iv) instances_of"
  by (simp add: eni_laws_def wp_def memEc2_def instances_of_modify)

lemma inventory_laws_mem: "inventory_laws (memEc2 iv) (servers_of iv) (ivEndpoints iv) (ivZone iv)"
  by (auto simp: inventory_laws_def wp_def memEc2_def returnA_def image_iff)

lemma ec2_keeps_mem:
  assumes "\<And>(w :: 'z cloud_scheme) ps. obs (w\<lparr>clPeers := ps\<rparr>) = obs w"
    and "\<And>(w :: 'z cloud_scheme) is. obs (w\<lparr>clInstances := is\<rparr>) = obs w"
  shows "ec2_keeps (memEc2 iv) obs"
  by (auto simp: ec2_keeps_def query_keeps_def peer_keeps_def eni_keeps_def keeps_def memEc2_def returnA_def assms split: option.split)

section \<open>A small environment\<close>

text \<open>
  Two zones with one endpoint each; a stale peer of this cluster in the first zone, a peer that
  somebody made by hand for the router node of the second zone, and a peer on an endpoint of
  another cluster.
\<close>

definition demoInventory :: inventory where
  "demoInventory =
     \<lparr>ivServers = [(''rs-1'', \<lparr>rsvRouteServerId = Some ''rs-1'', rsvAmazonSideAsn = Some 65000\<rparr>)],
      ivEndpoints =
        [\<lparr>rseRouteServerEndpointId = Some ''rse-1'', rseRouteServerId = Some ''rs-1'',
          rseSubnetId = Some ''subnet-a'', rseEniAddress = Some ''10.0.1.10''\<rparr>,
         \<lparr>rseRouteServerEndpointId = Some ''rse-2'', rseRouteServerId = Some ''rs-1'',
          rseSubnetId = Some ''subnet-b'', rseEniAddress = Some ''10.0.2.10''\<rparr>,
         \<lparr>rseRouteServerEndpointId = Some ''rse-9'', rseRouteServerId = Some ''rs-9'',
          rseSubnetId = Some ''subnet-a'', rseEniAddress = Some ''10.0.1.99''\<rparr>],
      ivZone = (\<lambda>i. if i = ''subnet-a'' then ''us-east-1a'' else ''us-east-1b'')\<rparr>"

definition demoPlatform :: "'z cloud_scheme Platform" where
  "demoPlatform =
     \<lparr>plEc2Client = memEc2 demoInventory,
      plRegion = ''us-east-1'',
      plRouteServerIDs = [''rs-1''],
      plEndpointsByAZ = fmap_of_list [(''us-east-1a'', [''rse-1'']), (''us-east-1b'', [''rse-2''])],
      plLocalASN = 65001,
      plLivenessDetection = ''bfd'',
      plClusterID = ''demo-1''\<rparr>"

definition demoTag :: Tag where
  "demoTag = \<lparr>tagKey = Some ''managed-by'', tagValue = Some ''cudn-bgp-routing-operator/demo-1''\<rparr>"

definition demoNode :: "string \<Rightarrow> string \<Rightarrow> string \<Rightarrow> string \<Rightarrow> RouterNode" where
  "demoNode name ip az pid = \<lparr>rnName = name, rnPrivateIP = ip, rnAZ = az, rnProviderID = pid\<rparr>"

definition demoNodes :: "RouterNode list" where
  "demoNodes =
     [demoNode ''worker-a'' ''10.0.1.5'' ''us-east-1a'' ''aws:///us-east-1a/i-a'',
      demoNode ''worker-b'' ''10.0.2.5'' ''us-east-1b'' ''aws:///us-east-1b/i-b'']"

definition demoInstance :: "string \<Rightarrow> Reservation" where
  "demoInstance eni =
     \<lparr>resInstances = [\<lparr>instNetworkInterfaces =
        [\<lparr>niNetworkInterfaceId = Some eni, niSourceDestCheck = Some True,
          niAttachment = Some \<lparr>attDeviceIndex = Some 0\<rparr>\<rparr>]\<rparr>]\<rparr>"

definition demoPeer :: "string \<Rightarrow> string \<Rightarrow> string \<Rightarrow> Tag list \<Rightarrow> RouteServerPeer" where
  "demoPeer i e ip tags =
     \<lparr>peerAddress = Some ip, peerId = Some i, peerEndpointId = Some e, peerTags = tags\<rparr>"

definition demoPeers :: "RouteServerPeer list" where
  "demoPeers =
     [demoPeer ''rsp-1'' ''rse-1'' ''10.0.1.7'' [demoTag],
      demoPeer ''rsp-2'' ''rse-2'' ''10.0.2.5'' [],
      demoPeer ''rsp-3'' ''rse-9'' ''10.0.1.7'' []]"

definition demoInstances :: "(string \<times> Reservation list) list" where
  "demoInstances = [(''i-a'', [demoInstance ''eni-a'']), (''i-b'', [demoInstance ''eni-b''])]"

definition demoCloud :: cloud where
  "demoCloud = \<lparr>clPeers = demoPeers, clInstances = demoInstances\<rparr>"

abbreviation demoSdk :: "cloud awsSDK" where
  "demoSdk \<equiv> memSdk"

abbreviation demoP :: "cloud Platform" where
  "demoP \<equiv> demoPlatform"

abbreviation demoPeersOf :: "cloud \<Rightarrow> RouteServerPeer set" where
  "demoPeersOf w \<equiv> set (clPeers w)"

lemmas demo_defs = demoCloud_def demoPeers_def demoPeer_def demoInstances_def demoInstance_def
  demoTag_def demoNodes_def demoNode_def

lemma demo_peer_env: "peer_env memSdk demoPlatform (\<lambda>w. set (clPeers w))"
  by (simp add: peer_env_def sdk_laws_mem range_laws_mem peer_laws_mem demoPlatform_def)

lemma demo_eni_env: "eni_env memSdk demoPlatform instances_of"
  by (simp add: eni_env_def sdk_laws_mem eni_laws_mem demoPlatform_def)

lemma demo_one_zone: "one_zone demoPlatform"
  by (auto simp: one_zone_def demoPlatform_def fmlookup_of_list split: if_splits)

lemma demo_peers_wf: "peers_wf memSdk (set (clPeers demoCloud))"
  by (auto simp: peers_wf_def inj_on_def endpoint_def memSdk_def demo_defs)

lemma demo_enis_wf: "enis_wf (instances_of demoCloud)"
  by (auto simp: enis_wf_def instances_of_def interfaces_def demo_defs split: if_splits)

lemma demo_endpoints: "fmlookup (plEndpointsByAZ demoPlatform) ''us-east-1b'' = Some [''rse-2'']"
  by (simp add: demoPlatform_def fmlookup_of_list)

lemma pair_run: "fst (m w) = r \<Longrightarrow> m w = (r, snd (m w))"
  by (cases "m w") simp

abbreviation demoReconcile :: "(cloud, unit) act" where
  "demoReconcile \<equiv> reconcileRouteServerPeers demoSdk demoP demoNodes"

lemma demo_reconcile_ok: "fst (demoReconcile demoCloud) = Inr ()"
  by code_simp

lemma demo_check_ok: "fst (disableSourceDestCheck demoSdk demoP demoNodes demoCloud) = Inr ()"
  by code_simp

lemma demo_cleanup_ok: "fst (deleteAllManagedPeers demoSdk demoP demoCloud) = Inr ()"
  by code_simp

lemma demo_discover_runs: "\<not> isl (fst (DiscoverEndpoints demoSdk demoP demoCloud))"
  by code_simp

lemma demo_discover_ok:
  obtains res p' where "DiscoverEndpoints demoSdk demoP demoCloud =
    (Inr (res, p'), snd (DiscoverEndpoints demoSdk demoP demoCloud))"
  using demo_discover_runs
  by (cases "DiscoverEndpoints demoSdk demoP demoCloud";
      cases "fst (DiscoverEndpoints demoSdk demoP demoCloud)") auto

section \<open>The theorems in this environment\<close>

theorem DiscoverEndpoints_correct_witness:
  "\<exists>res p' w'. DiscoverEndpoints demoSdk demoP demoCloud = (Inr (res, p'), w') \<and>
     map drRouteServerID (drsRouteServers res) = [''rs-1''] \<and>
     fmlookup (drsEndpointsByAZ res) ''us-east-1a'' =
       group_at (map endpoint_of (all_endpoints res)) ''us-east-1a''"
proof -
  obtain res p' where run: "DiscoverEndpoints demoSdk demoP demoCloud =
      (Inr (res, p'), snd (DiscoverEndpoints demoSdk demoP demoCloud))"
    by (rule demo_discover_ok)
  with DiscoverEndpoints_correct [OF run] show ?thesis
    by (auto simp: demoPlatform_def intro!: exI)
qed

theorem DiscoverEndpoints_inventory_witness:
  "\<exists>res p' w'. DiscoverEndpoints demoSdk demoP demoCloud = (Inr (res, p'), w') \<and>
     drsRouteServers res =
       [inventory_server demoSdk (servers_of demoInventory) (ivEndpoints demoInventory) (ivZone demoInventory) ''rs-1''] \<and>
     servers_of demoInventory ''rs-1'' \<noteq> []"
proof -
  obtain res p' where run: "DiscoverEndpoints demoSdk demoP demoCloud =
      (Inr (res, p'), snd (DiscoverEndpoints demoSdk demoP demoCloud))"
    by (rule demo_discover_ok)
  have laws: "inventory_laws (plEc2Client (demoP :: cloud Platform)) (servers_of demoInventory)
      (ivEndpoints demoInventory) (ivZone demoInventory)"
    by (simp add: demoPlatform_def inventory_laws_mem)
  have subnets: "\<forall>ep \<in> set (ivEndpoints demoInventory). rseSubnetId ep \<noteq> None"
    by (simp add: demoInventory_def)
  from DiscoverEndpoints_inventory [OF laws sdk_laws_mem subnets run] run show ?thesis
    by (auto simp: demoPlatform_def intro!: exI)
qed

theorem reconcile_peers_converges_witness:
  "fst (demoReconcile demoCloud) = Inr () \<and>
   peerAddress ` {q \<in> demoPeersOf (snd (demoReconcile demoCloud)).
       endpoint demoSdk q = ''rse-2'' \<and> managed demoSdk demoP q} = {Some ''10.0.2.5''}"
proof -
  have "peerAddress ` {q \<in> demoPeersOf (snd (demoReconcile demoCloud)).
        endpoint demoSdk q = ''rse-2'' \<and> managed demoSdk demoP q} =
      {Some (rnPrivateIP n) |n. n \<in> set demoNodes \<and> rnAZ n = ''us-east-1b''}"
    by (rule reconcile_peers_converges [OF demo_peer_env demo_one_zone demo_peers_wf
          pair_run [where m = demoReconcile, OF demo_reconcile_ok] demo_endpoints]) simp
  also have "\<dots> = (\<lambda>n. Some (rnPrivateIP n)) ` {n \<in> set demoNodes. rnAZ n = ''us-east-1b''}" by auto
  also have "{n \<in> set demoNodes. rnAZ n = ''us-east-1b''} =
      {demoNode ''worker-b'' ''10.0.2.5'' ''us-east-1b'' ''aws:///us-east-1b/i-b''}"
    by (auto simp: demoNodes_def demoNode_def)
  also have "(\<lambda>n. Some (rnPrivateIP n)) ` \<dots> = {Some ''10.0.2.5''}"
    by (simp add: demoNode_def)
  finally show ?thesis using demo_reconcile_ok by simp
qed

theorem reconcile_peers_refines_witness:
  "(peer_step demoSdk demoP (desired_on demoP demoNodes))\<^sup>*\<^sup>*
     (set demoPeers) (demoPeersOf (snd (demoReconcile demoCloud))) \<and>
   peers_wf demoSdk (demoPeersOf (snd (demoReconcile demoCloud)))"
  using reconcile_peers_refines [OF demo_peer_env demo_one_zone demo_peers_wf
      pair_run [where m = demoReconcile, OF demo_reconcile_ok]]
  by (simp add: demoCloud_def)

theorem reconcile_peers_isolation_witness:
  "demoPeer ''rsp-3'' ''rse-9'' ''10.0.1.7'' [] \<in> demoPeersOf (snd (demoReconcile demoCloud))"
proof -
  have "endpoint demoSdk (demoPeer ''rsp-3'' ''rse-9'' ''10.0.1.7'' []) = ''rse-9''"
    by (simp add: endpoint_def memSdk_def demoPeer_def)
  moreover have "''rse-9'' \<notin> own_endpoints demoP"
    by (auto simp: own_endpoints_def demoPlatform_def fmlookup_of_list split: if_splits)
  moreover have "demoPeer ''rsp-3'' ''rse-9'' ''10.0.1.7'' [] \<in> demoPeersOf demoCloud"
    by (simp add: demoCloud_def demoPeers_def)
  ultimately show ?thesis
    using reconcile_peers_isolation [OF demo_peer_env demo_one_zone demo_peers_wf
        pair_run [where m = demoReconcile, OF demo_reconcile_ok],
        of "demoPeer ''rsp-3'' ''rse-9'' ''10.0.1.7'' []"]
    by (auto simp: demoPlatform_def fmlookup_of_list split: if_splits)
qed

theorem reconcile_peers_idempotent_witness:
  "demoPeersOf (snd (demoReconcile (snd (demoReconcile demoCloud)))) =
   demoPeersOf (snd (demoReconcile demoCloud))"
  by (rule reconcile_peers_idempotent [OF demo_peer_env demo_one_zone demo_peers_wf
        pair_run [where m = demoReconcile, OF demo_reconcile_ok] pair_run [where m = demoReconcile, OF refl]])

theorem delete_all_managed_exact_witness:
  "demoPeersOf (snd (deleteAllManagedPeers demoSdk demoP demoCloud)) =
     set demoPeers - {q. endpoint demoSdk q \<in> own_endpoints demoP \<and> managed demoSdk demoP q}"
  using delete_all_managed_exact [OF demo_peer_env demo_peers_wf
      pair_run [where m = "deleteAllManagedPeers demoSdk demoP", OF demo_cleanup_ok]]
  by (simp add: Let_def demoCloud_def)

theorem source_dest_check_disabled_witness:
  "\<exists>inst az ni. ParseProviderID ''aws:///us-east-1a/i-a'' = Inr (inst, az) \<and>
     find (isPrimary demoSdk)
       (interfaces (instances_of (snd (disableSourceDestCheck demoSdk demoP demoNodes demoCloud)) inst)) = Some ni \<and>
     niSourceDestCheck ni \<noteq> Some True"
  using source_dest_check_disabled [OF demo_eni_env demo_enis_wf
      pair_run [where m = "disableSourceDestCheck demoSdk demoP demoNodes", OF demo_check_ok],
      of "hd demoNodes"]
  by (simp add: demoNodes_def demoNode_def)

theorem source_dest_check_minimal_witness:
  "(disable_step demoSdk (set demoNodes))\<^sup>*\<^sup>* (instances_of demoCloud)
     (instances_of (snd (disableSourceDestCheck demoSdk demoP demoNodes demoCloud)))"
  using source_dest_check_minimal [OF demo_eni_env demo_enis_wf
      pair_run [where m = "disableSourceDestCheck demoSdk demoP demoNodes", OF demo_check_ok]]
  by simp

end
