(* ===== verification/Api_Types.thy ===== *)
theory Api_Types
  imports Prelude
begin

text \<open>
  The custom resources of \<open>api/v1alpha1\<close> (\<open>cudnbgpconfig_types.go\<close>, \<open>cudnbgprouting_types.go\<close>):
  one record per Go struct, in the order of the sources, with the validation rules that the
  kubebuilder markers put into the CRD schema as the predicates \<open>spec_admitted\<close> and
  \<open>routing_admitted\<close>. Field names carry a short prefix because Isabelle's field names are global.
  Of \<open>metav1.ObjectMeta\<close> and \<open>metav1.Condition\<close> the records hold the fields the sources read or write.
\<close>

section \<open>Object metadata and conditions\<close>

record ObjectMeta =
  metaName :: string
  metaGeneration :: int
  metaFinalizers :: "string list"
  metaDeletionTimestamp :: "int option"
  metaResourceVersion :: string

datatype ConditionStatus = ConditionTrue | ConditionFalse | ConditionUnknown

record Condition =
  condType :: string
  condStatus :: ConditionStatus
  condReason :: string
  condMessage :: string
  condObservedGeneration :: int

section \<open>CUDNBgpConfig\<close>

type_synonym LivenessDetectionType = string

definition LivenessDetectionBFD :: LivenessDetectionType where
  "LivenessDetectionBFD = ''bfd''"

definition LivenessDetectionBGPKeepalive :: LivenessDetectionType where
  "LivenessDetectionBGPKeepalive = ''bgp-keepalive''"

text \<open>\<open>PhaseUnset\<close> is the empty string of a status that was never written.\<close>

datatype PhaseType = PhaseUnset | PhasePending | PhaseConfiguring | PhaseReady | PhaseDegraded

definition ConditionNetworkOperatorPatched :: string where
  "ConditionNetworkOperatorPatched = ''NetworkOperatorPatched''"

definition ConditionFRRNamespaceReady :: string where
  "ConditionFRRNamespaceReady = ''FRRNamespaceReady''"

definition ConditionAWSEndpointsDiscovered :: string where
  "ConditionAWSEndpointsDiscovered = ''AWSEndpointsDiscovered''"

definition ConditionFRRConfigurationApplied :: string where
  "ConditionFRRConfigurationApplied = ''FRRConfigurationApplied''"

definition ConditionAWSResourcesReconciled :: string where
  "ConditionAWSResourcesReconciled = ''AWSResourcesReconciled''"

record BGPNeighbor =
  nbAddress :: string
  nbRemoteASN :: int

record AvailabilityZone =
  azNodeSelector :: "(string, string) fmap"
  azNeighbors :: "BGPNeighbor list"

record AWSConfig =
  awsRegion :: string
  awsRouteServerIDs :: "string list"

text \<open>\<open>DiscoveredEndpoint\<close> and \<open>DiscoveredRouteServer\<close> of the status, not of package platform.\<close>

record StatusEndpoint =
  seEndpointID :: string
  seAvailabilityZone :: string
  seAddress :: string

record StatusRouteServer =
  srRouteServerID :: string
  srRemoteASN :: int
  srEndpoints :: "StatusEndpoint list"

record AWSStatus =
  asRouteServers :: "StatusRouteServer list"

record BGPConfig =
  bgpLocalASN :: int
  bgpLivenessDetection :: LivenessDetectionType
  bgpAvailabilityZones :: "AvailabilityZone list"

record CUDNBgpConfigSpec =
  csBGP :: BGPConfig
  csRouterNodeSelector :: "(string, string) fmap"
  csAWS :: "AWSConfig option"

record CUDNBgpConfigStatus =
  ctPhase :: PhaseType
  ctConditions :: "Condition list"
  ctObservedGeneration :: int
  ctAWS :: "AWSStatus option"

record CUDNBgpConfig =
  cfgMeta :: ObjectMeta
  cfgSpec :: CUDNBgpConfigSpec
  cfgStatus :: CUDNBgpConfigStatus

text \<open>The markers \<open>Minimum\<close>, \<open>Maximum\<close>, \<open>MinItems\<close>, \<open>Enum\<close> and the two \<open>XValidation\<close> rules.\<close>

definition asn_admitted :: "int \<Rightarrow> bool" where
  "asn_admitted n \<longleftrightarrow> 0 \<le> n \<and> n \<le> 4294967295"

definition az_admitted :: "AvailabilityZone \<Rightarrow> bool" where
  "az_admitted az \<longleftrightarrow> azNeighbors az \<noteq> [] \<and> list_all (\<lambda>n. asn_admitted (nbRemoteASN n)) (azNeighbors az)"

definition aws_admitted :: "AWSConfig \<Rightarrow> bool" where
  "aws_admitted a \<longleftrightarrow> awsRouteServerIDs a \<noteq> []"

definition bgp_admitted :: "BGPConfig \<Rightarrow> bool" where
  "bgp_admitted b \<longleftrightarrow>
     asn_admitted (bgpLocalASN b) \<and>
     bgpLivenessDetection b \<in> {LivenessDetectionBFD, LivenessDetectionBGPKeepalive} \<and>
     list_all az_admitted (bgpAvailabilityZones b)"

definition spec_admitted :: "CUDNBgpConfigSpec \<Rightarrow> bool" where
  "spec_admitted s \<longleftrightarrow>
     bgp_admitted (csBGP s) \<and>
     (case csAWS s of None \<Rightarrow> True | Some a \<Rightarrow> aws_admitted a) \<and>
     \<not> (csAWS s \<noteq> None \<and> 0 < length (bgpAvailabilityZones (csBGP s))) \<and>
     (csAWS s \<noteq> None \<or> 0 < length (bgpAvailabilityZones (csBGP s)))"

section \<open>CUDNBgpRouting\<close>

definition ConditionCUDNCreated :: string where
  "ConditionCUDNCreated = ''CUDNCreated''"

definition ConditionRouteAdvertisementsCreated :: string where
  "ConditionRouteAdvertisementsCreated = ''RouteAdvertisementsCreated''"

lemmas condition_types [go_consts] =
  ConditionNetworkOperatorPatched_def ConditionFRRNamespaceReady_def
  ConditionAWSEndpointsDiscovered_def ConditionFRRConfigurationApplied_def
  ConditionAWSResourcesReconciled_def ConditionCUDNCreated_def
  ConditionRouteAdvertisementsCreated_def

record NetworkConfig =
  ncName :: string
  ncSubnets :: "string list"

record CUDNBgpRoutingSpec =
  rsNetwork :: NetworkConfig

record CUDNBgpRoutingStatus =
  rtPhase :: PhaseType
  rtConditions :: "Condition list"
  rtObservedGeneration :: int

record CUDNBgpRouting =
  rtgMeta :: ObjectMeta
  rtgSpec :: CUDNBgpRoutingSpec
  rtgStatus :: CUDNBgpRoutingStatus

definition routing_admitted :: "CUDNBgpRoutingSpec \<Rightarrow> bool" where
  "routing_admitted s \<longleftrightarrow> 1 \<le> length (ncSubnets (rsNetwork s)) \<and> length (ncSubnets (rsNetwork s)) \<le> 2"

abbreviation cfgName :: "CUDNBgpConfig \<Rightarrow> string" where
  "cfgName c \<equiv> metaName (cfgMeta c)"

abbreviation rtgName :: "CUDNBgpRouting \<Rightarrow> string" where
  "rtgName r \<equiv> metaName (rtgMeta r)"

abbreviation rtgNetwork :: "CUDNBgpRouting \<Rightarrow> string" where
  "rtgNetwork r \<equiv> ncName (rsNetwork (rtgSpec r))"

section \<open>What admission gives\<close>

text \<open>
  An admitted spec names exactly one source of BGP neighbours: the cloud, or explicit zones each
  with at least one neighbour.
\<close>

lemma spec_admitted_one_source:
  "spec_admitted s \<Longrightarrow> (csAWS s \<noteq> None) \<noteq> (bgpAvailabilityZones (csBGP s) \<noteq> [])"
  by (auto simp: spec_admitted_def)

lemma spec_admitted_explicit_zones:
  assumes "spec_admitted s" and "csAWS s = None"
  shows "bgpAvailabilityZones (csBGP s) \<noteq> [] \<and>
    (\<forall>az \<in> set (bgpAvailabilityZones (csBGP s)). azNeighbors az \<noteq> [])"
  using assms by (auto simp: spec_admitted_def bgp_admitted_def az_admitted_def list_all_iff)

end
