(* ===== verification/Kube_Client.thy ===== *)
theory Kube_Client
  imports Api_Types
begin

text \<open>
  The boundary to Kubernetes. First \<open>internal/controller/constants.go\<close>; then the values that the
  controllers exchange with the API server; then the client of controller-runtime and the helpers
  of apimachinery, which are not part of the repository and therefore parameters: a \<open>client\<close>
  record is any implementation of the calls the sources make, a \<open>kubeLib\<close> record any implementation
  of the helpers. What Kubernetes documents of them is stated by \<open>lib_laws\<close> and \<open>kube_laws\<close>, over
  an observation of the cluster.
\<close>

section \<open>Constants\<close>

definition ConfigFinalizerName :: string where
  "ConfigFinalizerName = ''networking.openshift.io/cudnbgpconfig''"

definition RoutingFinalizerName :: string where
  "RoutingFinalizerName = ''networking.openshift.io/cudnbgprouting''"

definition SingletonName :: string where
  "SingletonName = ''cluster''"

definition FRRNamespace :: string where
  "FRRNamespace = ''openshift-frr-k8s''"

definition FRRConfigNamePrefix :: string where
  "FRRConfigNamePrefix = ''cudn-bgp-az-''"

definition CUDNNamePrefix :: string where
  "CUDNNamePrefix = ''cluster-udn-''"

definition RouteAdvertisementName :: string where
  "RouteAdvertisementName = ''cudn-bgp-route-advertisements''"

definition LabelManagedBy :: string where
  "LabelManagedBy = ''app.kubernetes.io/managed-by''"

definition LabelManagedByVal :: string where
  "LabelManagedByVal = ''cudn-bgp-routing-operator''"

definition LabelCUDN :: string where
  "LabelCUDN = ''cluster-udn''"

definition LabelAdvertise :: string where
  "LabelAdvertise = ''advertise''"

definition LabelPrimaryUDN :: string where
  "LabelPrimaryUDN = ''k8s.ovn.org/primary-user-defined-network''"

record GroupVersionKind =
  gvkGroup :: string
  gvkVersion :: string
  gvkKind :: string

definition NetworkGVK :: GroupVersionKind where
  "NetworkGVK = \<lparr>gvkGroup = ''operator.openshift.io'', gvkVersion = ''v1'', gvkKind = ''Network''\<rparr>"

definition FRRConfigurationGVK :: GroupVersionKind where
  "FRRConfigurationGVK =
     \<lparr>gvkGroup = ''frrk8s.metallb.io'', gvkVersion = ''v1beta1'', gvkKind = ''FRRConfiguration''\<rparr>"

definition CUDNNetworkGVK :: GroupVersionKind where
  "CUDNNetworkGVK =
     \<lparr>gvkGroup = ''k8s.ovn.org'', gvkVersion = ''v1'', gvkKind = ''ClusterUserDefinedNetwork''\<rparr>"

definition RouteAdvertisementsGVK :: GroupVersionKind where
  "RouteAdvertisementsGVK =
     \<lparr>gvkGroup = ''k8s.ovn.org'', gvkVersion = ''v1'', gvkKind = ''RouteAdvertisements''\<rparr>"

text \<open>The \<open>apiVersion\<close> string of a kind.\<close>

definition apiVersion_of :: "GroupVersionKind \<Rightarrow> string" where
  "apiVersion_of gvk = gvkGroup gvk @ ''/'' @ gvkVersion gvk"

lemmas gvk_defs = NetworkGVK_def FRRConfigurationGVK_def CUDNNetworkGVK_def RouteAdvertisementsGVK_def

section \<open>Values\<close>

text \<open>JSON values as the Go type \<open>interface{}\<close> holds them; objects as association lists.\<close>

datatype json =
    JNull
  | JBool bool
  | JInt int
  | JStr string
  | JArr "json list"
  | JObj "(string \<times> json) list"

text \<open>
  \<open>unstructured.Unstructured\<close>: type, metadata, and the members \<open>spec\<close> and \<open>status\<close>.
  \<open>uoDeleting\<close> says that the object has a deletion timestamp.
\<close>

record Unstructured =
  uoApiVersion :: string
  uoKind :: string
  uoName :: string
  uoNamespace :: string
  uoLabels :: "(string, string) fmap"
  uoFinalizers :: "string list"
  uoResourceVersion :: string
  uoDeleting :: bool
  uoSpec :: json
  uoStatus :: json

text \<open>The content that nested accessors look at.\<close>

definition object_json :: "Unstructured \<Rightarrow> json" where
  "object_json obj =
     JObj [(''apiVersion'', JStr (uoApiVersion obj)), (''kind'', JStr (uoKind obj)),
           (''spec'', uoSpec obj), (''status'', uoStatus obj)]"

record ukey =
  ukApiVersion :: string
  ukKind :: string
  ukNamespace :: string
  ukName :: string

definition key_of :: "Unstructured \<Rightarrow> ukey" where
  "key_of obj =
     \<lparr>ukApiVersion = uoApiVersion obj, ukKind = uoKind obj, ukNamespace = uoNamespace obj,
      ukName = uoName obj\<rparr>"

definition gvk_key :: "GroupVersionKind \<Rightarrow> string \<Rightarrow> string \<Rightarrow> ukey" where
  "gvk_key gvk ns name =
     \<lparr>ukApiVersion = apiVersion_of gvk, ukKind = gvkKind gvk, ukNamespace = ns, ukName = name\<rparr>"

text \<open>
  Labels and addresses are options because a Go map or slice can be nil. The resource version of a
  node changes with every update, the heartbeats of the kubelet included.
\<close>

record NodeAddress =
  addrType :: string
  addrAddress :: string

record Node =
  ndName :: string
  ndLabels :: "(string, string) fmap option"
  ndProviderID :: string
  ndAddresses :: "NodeAddress list option"
  ndResourceVersion :: string

record Namespace =
  nsName :: string
  nsLabels :: "(string, string) fmap"

record Pod =
  podName :: string
  podNamespace :: string
  podLabels :: "(string, string) fmap"
  podPhase :: string

text \<open>A label selector that requires each of the given labels.\<close>

definition selects :: "(string, string) fmap \<Rightarrow> (string, string) fmap \<Rightarrow> bool" where
  "selects sel ls = list_all (\<lambda>k. fmlookup ls k = fmlookup sel k) (keys sel)"

lemma selects_iff: "selects sel ls \<longleftrightarrow> (\<forall>k v. fmlookup sel k = Some v \<longrightarrow> fmlookup ls k = Some v)"
  by (auto simp: selects_def list_all_iff fmlookup_dom'_iff)

section \<open>JSON documents\<close>

text \<open>
  The bytes that \<open>json.Marshal\<close> makes of a value, as the document they encode: an encoder and a
  decoder of JSON agree on it, and no source looks at the bytes.
\<close>

datatype document = Document json

definition Marshal :: "json \<Rightarrow> document" where
  "Marshal j = Document j"

section \<open>The client and the helpers\<close>

text \<open>
  \<open>Update\<close> writes the server's answer back into its argument, so the model's \<open>Update\<close> returns the
  object. The argument of the \<open>List\<close> calls is what the sources select by.
\<close>

record 'w client =
  getConfig :: "string \<Rightarrow> ('w, CUDNBgpConfig) act"
  updateConfig :: "CUDNBgpConfig \<Rightarrow> ('w, CUDNBgpConfig) act"
  updateConfigStatus :: "CUDNBgpConfig \<Rightarrow> ('w, unit) act"
  getRouting :: "string \<Rightarrow> ('w, CUDNBgpRouting) act"
  listRoutings :: "('w, CUDNBgpRouting list) act"
  updateRouting :: "CUDNBgpRouting \<Rightarrow> ('w, CUDNBgpRouting) act"
  updateRoutingStatus :: "CUDNBgpRouting \<Rightarrow> ('w, unit) act"
  getNamespace :: "string \<Rightarrow> ('w, Namespace) act"
  listNamespaces :: "(string, string) fmap \<Rightarrow> ('w, Namespace list) act"
  listPods :: "string \<Rightarrow> (string, string) fmap \<Rightarrow> ('w, Pod list) act"
  listNodes :: "(string, string) fmap \<Rightarrow> ('w, Node list) act"
  getObject :: "ukey \<Rightarrow> ('w, Unstructured) act"
  createObject :: "Unstructured \<Rightarrow> ('w, unit) act"
  updateObject :: "Unstructured \<Rightarrow> ('w, unit) act"
  deleteObject :: "ukey \<Rightarrow> ('w, unit) act"
  listObjects :: "GroupVersionKind \<Rightarrow> string \<Rightarrow> (string, string) fmap \<Rightarrow> ('w, Unstructured list) act"
  mergePatch :: "ukey \<Rightarrow> document \<Rightarrow> ('w, unit) act"

record kubeLib =
  IsNotFound :: "go_error \<Rightarrow> bool"
  SetStatusCondition :: "Condition list \<Rightarrow> Condition \<Rightarrow> Condition list"
  ContainsFinalizer :: "string list \<Rightarrow> string \<Rightarrow> bool"
  AddFinalizer :: "string list \<Rightarrow> string \<Rightarrow> string list"
  RemoveFinalizer :: "string list \<Rightarrow> string \<Rightarrow> string list"
  NestedString :: "json \<Rightarrow> string list \<Rightarrow> go_error + string option"

text \<open>\<open>ctrl.Result\<close> with durations in nanoseconds.\<close>

record Result =
  RequeueAfter :: int

definition Second :: int where "Second = 1000000000"

definition Minute :: int where "Minute = 60 * Second"

definition emptyResult :: Result where "emptyResult = \<lparr>RequeueAfter = 0\<rparr>"

section \<open>Merge patches\<close>

text \<open>JSON merge patch (RFC 7386), which the API server applies.\<close>

definition jmembers :: "json \<Rightarrow> (string \<times> json) list" where
  "jmembers j = (case j of JObj kvs \<Rightarrow> kvs | _ \<Rightarrow> [])"

definition jget :: "json \<Rightarrow> string \<Rightarrow> json option" where
  "jget j k = map_of (jmembers j) k"

definition jput :: "string \<Rightarrow> json \<Rightarrow> (string \<times> json) list \<Rightarrow> (string \<times> json) list" where
  "jput k v kvs = filter (\<lambda>kv. fst kv \<noteq> k) kvs @ [(k, v)]"

definition jdel :: "string \<Rightarrow> (string \<times> json) list \<Rightarrow> (string \<times> json) list" where
  "jdel k kvs = filter (\<lambda>kv. fst kv \<noteq> k) kvs"

fun merge_patch :: "json \<Rightarrow> json \<Rightarrow> json"
  and merge_members :: "(string \<times> json) list \<Rightarrow> (string \<times> json) list \<Rightarrow> (string \<times> json) list" where
  "merge_patch (JObj ps) j = JObj (merge_members ps (jmembers j))"
| "merge_patch p j = p"
| "merge_members [] kvs = kvs"
| "merge_members ((k, v) # ps) kvs =
     merge_members ps
       (if v = JNull then jdel k kvs
        else jput k (merge_patch v (case map_of kvs k of None \<Rightarrow> JNull | Some old \<Rightarrow> old)) kvs)"

text \<open>Following a path of member names.\<close>

fun jpath :: "json \<Rightarrow> string list \<Rightarrow> json option" where
  "jpath j [] = Some j"
| "jpath j (k # ks) = (case jget j k of None \<Rightarrow> None | Some v \<Rightarrow> jpath v ks)"

lemma map_of_jput: "map_of (jput k v kvs) k' = (if k' = k then Some v else map_of kvs k')"
proof -
  have "map_of (filter (\<lambda>kv. fst kv \<noteq> k) kvs) k' = (if k' = k then None else map_of kvs k')"
    by (induction kvs) auto
  then show ?thesis by (simp add: jput_def map_add_def split: option.split)
qed

lemma map_of_jdel: "map_of (jdel k kvs) k' = (if k' = k then None else map_of kvs k')"
  unfolding jdel_def by (induction kvs) auto

lemma merge_members_other: "k' \<notin> fst ` set ps \<Longrightarrow> map_of (merge_members ps kvs) k' = map_of kvs k'"
  by (induction ps arbitrary: kvs) (auto simp: map_of_jput map_of_jdel)

section \<open>What the helpers do\<close>

definition cond_of :: "string \<Rightarrow> Condition list \<Rightarrow> Condition option" where
  "cond_of t cs = find (\<lambda>c. condType c = t) cs"

definition lib_laws :: "kubeLib \<Rightarrow> bool" where
  "lib_laws lib \<longleftrightarrow>
     (\<forall>cs c t. cond_of t (SetStatusCondition lib cs c) = (if t = condType c then Some c else cond_of t cs)) \<and>
     (\<forall>fs f. ContainsFinalizer lib fs f \<longleftrightarrow> f \<in> set fs) \<and>
     (\<forall>fs f. set (AddFinalizer lib fs f) = insert f (set fs)) \<and>
     (\<forall>fs f. set (RemoveFinalizer lib fs f) = set fs - {f}) \<and>
     (\<forall>j p s. NestedString lib j p = Inr (Some s) \<longleftrightarrow> jpath j p = Some (JStr s))"

lemma lib_lawsD:
  assumes "lib_laws lib"
  shows "cond_of t (SetStatusCondition lib cs c) = (if t = condType c then Some c else cond_of t cs)"
    and "ContainsFinalizer lib fs f \<longleftrightarrow> f \<in> set fs"
    and "set (AddFinalizer lib fs f) = insert f (set fs)"
    and "set (RemoveFinalizer lib fs f) = set fs - {f}"
    and "NestedString lib j p = Inr (Some s) \<longleftrightarrow> jpath j p = Some (JStr s)"
  using assms by (simp_all add: lib_laws_def)

section \<open>What the API server does\<close>

text \<open>What can be observed of the cluster.\<close>

record cluster =
  kConfigs :: "(string, CUDNBgpConfig) fmap"
  kRoutings :: "(string, CUDNBgpRouting) fmap"
  kObjects :: "(ukey, Unstructured) fmap"
  kNamespaces :: "(string, Namespace) fmap"
  kPods :: "Pod set"
  kNodes :: "Node set"

text \<open>
  \<open>stored_as obj st\<close>: the server holds \<open>st\<close> after it accepted \<open>obj\<close>. It chooses the resource
  version; the status is not written through the main resource.
\<close>

definition stored_as :: "Unstructured \<Rightarrow> Unstructured \<Rightarrow> bool" where
  "stored_as obj st \<longleftrightarrow>
     key_of st = key_of obj \<and> uoLabels st = uoLabels obj \<and> uoFinalizers st = uoFinalizers obj \<and>
     uoSpec st = uoSpec obj"

definition create_object_effect :: "Unstructured \<Rightarrow> cluster \<Rightarrow> cluster \<Rightarrow> bool" where
  "create_object_effect obj k k' \<longleftrightarrow>
     fmlookup (kObjects k) (key_of obj) = None \<and>
     (\<exists>st. stored_as obj st \<and> \<not> uoDeleting st \<and> k' = k\<lparr>kObjects := fmupd (key_of obj) st (kObjects k)\<rparr>)"

text \<open>An update that leaves no finalizer on an object under deletion lets it go.\<close>

definition update_object_effect :: "Unstructured \<Rightarrow> cluster \<Rightarrow> cluster \<Rightarrow> bool" where
  "update_object_effect obj k k' \<longleftrightarrow>
     (\<exists>old. fmlookup (kObjects k) (key_of obj) = Some old \<and>
       (if uoDeleting old \<and> uoFinalizers obj = []
        then k' = k\<lparr>kObjects := fmdrop (key_of obj) (kObjects k)\<rparr>
        else \<exists>st. stored_as obj st \<and> uoDeleting st = uoDeleting old \<and>
               k' = k\<lparr>kObjects := fmupd (key_of obj) st (kObjects k)\<rparr>))"

text \<open>A deletion waits for the finalizers.\<close>

definition delete_object_effect :: "ukey \<Rightarrow> cluster \<Rightarrow> cluster \<Rightarrow> bool" where
  "delete_object_effect key k k' \<longleftrightarrow>
     (\<exists>old. fmlookup (kObjects k) key = Some old \<and>
       k' = (if uoFinalizers old = [] then k\<lparr>kObjects := fmdrop key (kObjects k)\<rparr>
             else k\<lparr>kObjects := fmupd key (old\<lparr>uoDeleting := True\<rparr>) (kObjects k)\<rparr>))"

definition patch_effect :: "ukey \<Rightarrow> json \<Rightarrow> cluster \<Rightarrow> cluster \<Rightarrow> bool" where
  "patch_effect key p k k' \<longleftrightarrow>
     (\<exists>old rv. fmlookup (kObjects k) key = Some old \<and>
       k' = k\<lparr>kObjects := fmupd key (old\<lparr>uoSpec := merge_patch p (uoSpec old), uoResourceVersion := rv\<rparr>)
               (kObjects k)\<rparr>)"

definition listed :: "GroupVersionKind \<Rightarrow> string \<Rightarrow> (string, string) fmap \<Rightarrow> cluster \<Rightarrow> Unstructured set" where
  "listed gvk ns sel k =
     {obj. fmlookup (kObjects k) (gvk_key gvk ns (uoName obj)) = Some obj \<and>
           key_of obj = gvk_key gvk ns (uoName obj) \<and> selects sel (uoLabels obj)}"

text \<open>
  The two custom resources have a status subresource: \<open>Update\<close> writes metadata and spec and keeps
  the stored status, \<open>Status().Update\<close> writes the status only.
\<close>

definition update_config_effect :: "CUDNBgpConfig \<Rightarrow> CUDNBgpConfig \<Rightarrow> cluster \<Rightarrow> cluster \<Rightarrow> bool" where
  "update_config_effect c r k k' \<longleftrightarrow>
     (\<exists>old. fmlookup (kConfigs k) (cfgName c) = Some old \<and>
       cfgName r = cfgName c \<and> cfgSpec r = cfgSpec c \<and> cfgStatus r = cfgStatus old \<and>
       metaFinalizers (cfgMeta r) = metaFinalizers (cfgMeta c) \<and>
       metaDeletionTimestamp (cfgMeta r) = metaDeletionTimestamp (cfgMeta old) \<and>
       (cfgSpec c = cfgSpec old \<longrightarrow> metaGeneration (cfgMeta r) = metaGeneration (cfgMeta old)) \<and>
       k' = (if metaDeletionTimestamp (cfgMeta old) \<noteq> None \<and> metaFinalizers (cfgMeta c) = []
             then k\<lparr>kConfigs := fmdrop (cfgName c) (kConfigs k)\<rparr>
             else k\<lparr>kConfigs := fmupd (cfgName c) r (kConfigs k)\<rparr>))"

definition config_status_effect :: "CUDNBgpConfig \<Rightarrow> cluster \<Rightarrow> cluster \<Rightarrow> bool" where
  "config_status_effect c k k' \<longleftrightarrow>
     (\<exists>old rv. fmlookup (kConfigs k) (cfgName c) = Some old \<and>
       k' = k\<lparr>kConfigs := fmupd (cfgName c)
         (old\<lparr>cfgStatus := cfgStatus c, cfgMeta := (cfgMeta old)\<lparr>metaResourceVersion := rv\<rparr>\<rparr>) (kConfigs k)\<rparr>)"

definition update_routing_effect :: "CUDNBgpRouting \<Rightarrow> CUDNBgpRouting \<Rightarrow> cluster \<Rightarrow> cluster \<Rightarrow> bool" where
  "update_routing_effect c r k k' \<longleftrightarrow>
     (\<exists>old. fmlookup (kRoutings k) (rtgName c) = Some old \<and>
       rtgName r = rtgName c \<and> rtgSpec r = rtgSpec c \<and> rtgStatus r = rtgStatus old \<and>
       metaFinalizers (rtgMeta r) = metaFinalizers (rtgMeta c) \<and>
       metaDeletionTimestamp (rtgMeta r) = metaDeletionTimestamp (rtgMeta old) \<and>
       (rtgSpec c = rtgSpec old \<longrightarrow> metaGeneration (rtgMeta r) = metaGeneration (rtgMeta old)) \<and>
       k' = (if metaDeletionTimestamp (rtgMeta old) \<noteq> None \<and> metaFinalizers (rtgMeta c) = []
             then k\<lparr>kRoutings := fmdrop (rtgName c) (kRoutings k)\<rparr>
             else k\<lparr>kRoutings := fmupd (rtgName c) r (kRoutings k)\<rparr>))"

definition routing_status_effect :: "CUDNBgpRouting \<Rightarrow> cluster \<Rightarrow> cluster \<Rightarrow> bool" where
  "routing_status_effect c k k' \<longleftrightarrow>
     (\<exists>old rv. fmlookup (kRoutings k) (rtgName c) = Some old \<and>
       k' = k\<lparr>kRoutings := fmupd (rtgName c)
         (old\<lparr>rtgStatus := rtgStatus c, rtgMeta := (rtgMeta old)\<lparr>metaResourceVersion := rv\<rparr>\<rparr>) (kRoutings k)\<rparr>)"

text \<open>
  A read changes nothing and answers from the cluster; only a missing object makes a read report
  \<open>NotFound\<close>. A write that succeeds has its effect; one that fails may or may not have had it, and
  one that reports \<open>NotFound\<close> found nothing and did nothing. No other actor interferes between two
  calls of one reconciliation.
\<close>

definition read_law :: "('w \<Rightarrow> cluster) \<Rightarrow> ('w, 'a) act \<Rightarrow> (cluster \<Rightarrow> 'a \<Rightarrow> bool) \<Rightarrow> bool" where
  "read_law view m P \<longleftrightarrow>
     (\<forall>w. wp m (\<lambda>a w'. P (view w) a \<and> view w' = view w) (\<lambda>_ w'. view w' = view w) w)"

definition get_law ::
    "kubeLib \<Rightarrow> ('w \<Rightarrow> cluster) \<Rightarrow> ('w, 'a) act \<Rightarrow> (cluster \<Rightarrow> 'a option) \<Rightarrow> bool" where
  "get_law lib view m look \<longleftrightarrow>
     (\<forall>w. wp m (\<lambda>a w'. look (view w) = Some a \<and> view w' = view w)
        (\<lambda>e w'. (IsNotFound lib e \<longrightarrow> look (view w) = None) \<and> view w' = view w) w)"

definition write_law ::
    "kubeLib \<Rightarrow> ('w \<Rightarrow> cluster) \<Rightarrow> ('w, 'a) act \<Rightarrow> (cluster \<Rightarrow> bool) \<Rightarrow>
     ('a \<Rightarrow> cluster \<Rightarrow> cluster \<Rightarrow> bool) \<Rightarrow> bool" where
  "write_law lib view m exist eff \<longleftrightarrow>
     (\<forall>w. wp m (\<lambda>a w'. eff a (view w) (view w'))
        (\<lambda>e w'. if IsNotFound lib e then view w' = view w \<and> \<not> exist (view w)
                else view w' = view w \<or> (\<exists>a. eff a (view w) (view w'))) w)"

abbreviation has_config :: "string \<Rightarrow> cluster \<Rightarrow> bool" where
  "has_config n k \<equiv> fmlookup (kConfigs k) n \<noteq> None"

abbreviation has_routing :: "string \<Rightarrow> cluster \<Rightarrow> bool" where
  "has_routing n k \<equiv> fmlookup (kRoutings k) n \<noteq> None"

abbreviation has_object :: "ukey \<Rightarrow> cluster \<Rightarrow> bool" where
  "has_object key k \<equiv> fmlookup (kObjects k) key \<noteq> None"

definition node_labels :: "Node \<Rightarrow> (string, string) fmap" where
  "node_labels n = (case ndLabels n of None \<Rightarrow> fmempty | Some l \<Rightarrow> l)"

definition kube_laws :: "kubeLib \<Rightarrow> 'w client \<Rightarrow> ('w \<Rightarrow> cluster) \<Rightarrow> bool" where
  "kube_laws lib c view \<longleftrightarrow>
     (\<forall>n. get_law lib view (getConfig c n) (\<lambda>k. fmlookup (kConfigs k) n)) \<and>
     (\<forall>x. write_law lib view (updateConfig c x) (has_config (cfgName x)) (update_config_effect x)) \<and>
     (\<forall>x. write_law lib view (updateConfigStatus c x) (has_config (cfgName x)) (\<lambda>_. config_status_effect x)) \<and>
     (\<forall>n. get_law lib view (getRouting c n) (\<lambda>k. fmlookup (kRoutings k) n)) \<and>
     read_law view (listRoutings c) (\<lambda>k rs. set rs = fmran' (kRoutings k)) \<and>
     (\<forall>x. write_law lib view (updateRouting c x) (has_routing (rtgName x)) (update_routing_effect x)) \<and>
     (\<forall>x. write_law lib view (updateRoutingStatus c x) (has_routing (rtgName x)) (\<lambda>_. routing_status_effect x)) \<and>
     (\<forall>n. get_law lib view (getNamespace c n) (\<lambda>k. fmlookup (kNamespaces k) n)) \<and>
     (\<forall>sel. read_law view (listNamespaces c sel)
        (\<lambda>k xs. set xs = {x \<in> fmran' (kNamespaces k). selects sel (nsLabels x)})) \<and>
     (\<forall>ns sel. read_law view (listPods c ns sel)
        (\<lambda>k xs. set xs = {x \<in> kPods k. podNamespace x = ns \<and> selects sel (podLabels x)})) \<and>
     (\<forall>sel. read_law view (listNodes c sel) (\<lambda>k xs. set xs = {x \<in> kNodes k. selects sel (node_labels x)})) \<and>
     (\<forall>key. get_law lib view (getObject c key) (\<lambda>k. fmlookup (kObjects k) key)) \<and>
     (\<forall>x. write_law lib view (createObject c x) (\<lambda>_. False) (\<lambda>_. create_object_effect x)) \<and>
     (\<forall>x. write_law lib view (updateObject c x) (has_object (key_of x)) (\<lambda>_. update_object_effect x)) \<and>
     (\<forall>key. write_law lib view (deleteObject c key) (has_object key) (\<lambda>_. delete_object_effect key)) \<and>
     (\<forall>gvk ns sel. read_law view (listObjects c gvk ns sel) (\<lambda>k xs. set xs = listed gvk ns sel k)) \<and>
     (\<forall>key p. write_law lib view (mergePatch c key (Marshal (JObj [(''spec'', p)]))) (has_object key)
        (\<lambda>_. patch_effect key p))"

lemma kube_lawsD:
  assumes "kube_laws lib c view"
  shows "get_law lib view (getConfig c n) (\<lambda>k. fmlookup (kConfigs k) n)"
    and "write_law lib view (updateConfig c x) (has_config (cfgName x)) (update_config_effect x)"
    and "write_law lib view (updateConfigStatus c x) (has_config (cfgName x)) (\<lambda>_. config_status_effect x)"
    and "get_law lib view (getRouting c n) (\<lambda>k. fmlookup (kRoutings k) n)"
    and "read_law view (listRoutings c) (\<lambda>k rs. set rs = fmran' (kRoutings k))"
    and "write_law lib view (updateRouting c r) (has_routing (rtgName r)) (update_routing_effect r)"
    and "write_law lib view (updateRoutingStatus c r) (has_routing (rtgName r)) (\<lambda>_. routing_status_effect r)"
    and "get_law lib view (getNamespace c n) (\<lambda>k. fmlookup (kNamespaces k) n)"
    and "read_law view (listNamespaces c sel)
        (\<lambda>k xs. set xs = {x \<in> fmran' (kNamespaces k). selects sel (nsLabels x)})"
    and "read_law view (listPods c ns sel)
        (\<lambda>k xs. set xs = {x \<in> kPods k. podNamespace x = ns \<and> selects sel (podLabels x)})"
    and "read_law view (listNodes c sel) (\<lambda>k xs. set xs = {x \<in> kNodes k. selects sel (node_labels x)})"
    and "get_law lib view (getObject c key) (\<lambda>k. fmlookup (kObjects k) key)"
    and "write_law lib view (createObject c obj) (\<lambda>_. False) (\<lambda>_. create_object_effect obj)"
    and "write_law lib view (updateObject c obj) (has_object (key_of obj)) (\<lambda>_. update_object_effect obj)"
    and "write_law lib view (deleteObject c key) (has_object key) (\<lambda>_. delete_object_effect key)"
    and "read_law view (listObjects c gvk ns sel) (\<lambda>k xs. set xs = listed gvk ns sel k)"
    and "write_law lib view (mergePatch c key (Marshal (JObj [(''spec'', p)]))) (has_object key)
        (\<lambda>_. patch_effect key p)"
  using assms unfolding kube_laws_def by simp_all

section \<open>Rules for the calls\<close>

lemma wp_read:
  assumes "read_law view m P"
    and "\<And>a w'. P (view w) a \<Longrightarrow> view w' = view w \<Longrightarrow> Q a w'"
    and "\<And>e w'. view w' = view w \<Longrightarrow> E e w'"
  shows "wp m Q E w"
proof -
  have "wp m (\<lambda>a w'. P (view w) a \<and> view w' = view w) (\<lambda>_ w'. view w' = view w) w"
    using assms(1) by (simp add: read_law_def)
  then show ?thesis by (rule wp_mono) (use assms(2,3) in auto)
qed

lemma wp_get:
  assumes "get_law lib view m look"
    and "\<And>a w'. look (view w) = Some a \<Longrightarrow> view w' = view w \<Longrightarrow> Q a w'"
    and "\<And>e w'. (IsNotFound lib e \<longrightarrow> look (view w) = None) \<Longrightarrow> view w' = view w \<Longrightarrow> E e w'"
  shows "wp m Q E w"
proof -
  have "wp m (\<lambda>a w'. look (view w) = Some a \<and> view w' = view w)
        (\<lambda>e w'. (IsNotFound lib e \<longrightarrow> look (view w) = None) \<and> view w' = view w) w"
    using assms(1) by (simp add: get_law_def)
  then show ?thesis by (rule wp_mono) (use assms(2,3) in blast)+
qed

lemma wp_write:
  assumes "write_law lib view m exist eff"
    and "\<And>a w'. eff a (view w) (view w') \<Longrightarrow> Q a w'"
    and "\<And>e w'. IsNotFound lib e \<Longrightarrow> view w' = view w \<Longrightarrow> \<not> exist (view w) \<Longrightarrow> E e w'"
    and "\<And>e w'. \<not> IsNotFound lib e \<Longrightarrow> view w' = view w \<or> (\<exists>a. eff a (view w) (view w')) \<Longrightarrow> E e w'"
  shows "wp m Q E w"
proof -
  have "wp m (\<lambda>a w'. eff a (view w) (view w'))
      (\<lambda>e w'. if IsNotFound lib e then view w' = view w \<and> \<not> exist (view w)
              else view w' = view w \<or> (\<exists>a. eff a (view w) (view w'))) w"
    using assms(1) by (simp add: write_law_def)
  then show ?thesis
  proof (rule wp_mono)
    fix e w'
    assume A: "if IsNotFound lib e then view w' = view w \<and> \<not> exist (view w)
              else view w' = view w \<or> (\<exists>a. eff a (view w) (view w'))"
    show "E e w'"
      using A assms(3,4) by (cases "IsNotFound lib e") auto
  qed (rule assms(2))
qed

end
