(* ===== verification/Object_Writer.thy ===== *)
theory Object_Writer
  imports Kube_Client
begin

text \<open>
  \<open>createOrUpdate\<close> of \<open>internal/controller/frr.go\<close>, through which every object of the operator is
  written, and the deletion that ignores \<open>NotFound\<close>. The locale \<open>object_writer\<close> is what its callers
  rely on: the object ends up as given, whatever was there before, and nothing else changes.
\<close>

section \<open>Operations\<close>

definition createOrUpdate :: "kubeLib \<Rightarrow> 'w client \<Rightarrow> Unstructured \<Rightarrow> ('w, unit) act" where
  "createOrUpdate lib c obj =
     branchA (getObject c (key_of obj))
       (\<lambda>err. if IsNotFound lib err then createObject c obj else throwA err)
       (\<lambda>existing. updateObject c (obj\<lparr>uoResourceVersion := uoResourceVersion existing\<rparr>))"

text \<open>\<open>if err := c.Delete(...); err != nil && !apierrors.IsNotFound(err) { return err }\<close>\<close>

definition deleteIgnoreNotFound :: "kubeLib \<Rightarrow> 'w client \<Rightarrow> ukey \<Rightarrow> ('w, unit) act" where
  "deleteIgnoreNotFound lib c key =
     branchA (deleteObject c key) (\<lambda>err. if IsNotFound lib err then returnA () else throwA err) returnA"

section \<open>Effects\<close>

definition put_effect :: "Unstructured \<Rightarrow> cluster \<Rightarrow> cluster \<Rightarrow> bool" where
  "put_effect obj k k' \<longleftrightarrow>
     (let deleting = (case fmlookup (kObjects k) (key_of obj) of None \<Rightarrow> False | Some old \<Rightarrow> uoDeleting old) in
      if deleting \<and> uoFinalizers obj = []
      then k' = k\<lparr>kObjects := fmdrop (key_of obj) (kObjects k)\<rparr>
      else \<exists>st. stored_as obj st \<and> uoDeleting st = deleting \<and>
             k' = k\<lparr>kObjects := fmupd (key_of obj) st (kObjects k)\<rparr>)"

text \<open>Only objects with these keys change.\<close>

definition changes_only :: "ukey set \<Rightarrow> cluster \<Rightarrow> cluster \<Rightarrow> bool" where
  "changes_only K k k' \<longleftrightarrow>
     (\<forall>key. key \<notin> K \<longrightarrow> fmlookup (kObjects k') key = fmlookup (kObjects k) key) \<and>
     kConfigs k' = kConfigs k \<and> kRoutings k' = kRoutings k \<and> kNamespaces k' = kNamespaces k \<and>
     kPods k' = kPods k \<and> kNodes k' = kNodes k"

lemma changes_only_refl [simp, intro]: "changes_only K k k"
  by (simp add: changes_only_def)

lemma changes_only_trans: "changes_only K k k1 \<Longrightarrow> changes_only K k1 k2 \<Longrightarrow> changes_only K k k2"
  by (simp add: changes_only_def)

lemma changes_only_mono: "changes_only K k k' \<Longrightarrow> K \<subseteq> L \<Longrightarrow> changes_only L k k'"
  by (auto simp: changes_only_def)

lemma changes_only_other: "changes_only K k k' \<Longrightarrow> key \<notin> K \<Longrightarrow>
    fmlookup (kObjects k') key = fmlookup (kObjects k) key"
  by (simp add: changes_only_def)

lemma changes_only_rest:
  assumes "changes_only K k k'"
  shows "kConfigs k' = kConfigs k" "kRoutings k' = kRoutings k" "kNamespaces k' = kNamespaces k"
    "kPods k' = kPods k" "kNodes k' = kNodes k"
  using assms by (simp_all add: changes_only_def)

lemma key_of_rv [simp]: "key_of (obj\<lparr>uoResourceVersion := rv\<rparr>) = key_of obj"
  by (simp add: key_of_def)

lemma key_of_deleting [simp]: "key_of (obj\<lparr>uoDeleting := b\<rparr>) = key_of obj"
  by (simp add: key_of_def)

lemma stored_as_rv [simp]: "stored_as (obj\<lparr>uoResourceVersion := rv\<rparr>) = stored_as obj"
  by (simp add: stored_as_def fun_eq_iff)

lemma put_effect_only: "put_effect obj k k' \<Longrightarrow> changes_only {key_of obj} k k'"
  by (auto simp: put_effect_def changes_only_def Let_def split: if_splits)

lemma create_is_put: "create_object_effect obj k k' \<Longrightarrow> put_effect obj k k'"
  by (auto simp: create_object_effect_def put_effect_def)

lemma update_is_put: "update_object_effect (obj\<lparr>uoResourceVersion := rv\<rparr>) k k' \<Longrightarrow> put_effect obj k k'"
  by (cases "fmlookup (kObjects k) (key_of obj)") (auto simp: update_object_effect_def put_effect_def Let_def split: if_splits)

text \<open>Not under deletion, the object is there afterwards as it was given.\<close>

definition present :: "Unstructured \<Rightarrow> cluster \<Rightarrow> bool" where
  "present obj k \<longleftrightarrow> (\<exists>st. fmlookup (kObjects k) (key_of obj) = Some st \<and> stored_as obj st \<and> \<not> uoDeleting st)"

definition not_deleting :: "ukey \<Rightarrow> cluster \<Rightarrow> bool" where
  "not_deleting key k \<longleftrightarrow> (\<forall>old. fmlookup (kObjects k) key = Some old \<longrightarrow> \<not> uoDeleting old)"

lemma put_effect_present: "put_effect obj k k' \<Longrightarrow> not_deleting (key_of obj) k \<Longrightarrow> present obj k'"
  by (auto simp: put_effect_def not_deleting_def present_def Let_def split: if_splits option.splits)

lemma present_other: "changes_only K k k' \<Longrightarrow> key_of obj \<notin> K \<Longrightarrow> present obj k \<Longrightarrow> present obj k'"
  by (simp add: present_def changes_only_other)

lemma not_deleting_other: "changes_only K k k' \<Longrightarrow> key \<notin> K \<Longrightarrow> not_deleting key k \<Longrightarrow> not_deleting key k'"
  by (simp add: not_deleting_def changes_only_other)

section \<open>The contract of the writer\<close>

locale object_writer =
  fixes put :: "'e \<Rightarrow> Unstructured \<Rightarrow> ('w, unit) act"
    and legal :: "'e \<Rightarrow> ('w \<Rightarrow> cluster) \<Rightarrow> bool"
  assumes put_spec: "legal e view \<Longrightarrow>
    wp (put e obj) (\<lambda>_ w'. put_effect obj (view w) (view w'))
      (\<lambda>_ w'. view w' = view w \<or> put_effect obj (view w) (view w')) w"
begin

lemma wp_put:
  assumes "legal e view"
    and "\<And>w'. put_effect obj (view w) (view w') \<Longrightarrow> Q () w'"
    and "\<And>err w'. changes_only {key_of obj} (view w) (view w') \<Longrightarrow> E err w'"
  shows "wp (put e obj) Q E w"
  by (rule wp_mono [OF put_spec [OF assms(1)]])
    (use assms(2,3) in \<open>auto dest: put_effect_only simp: changes_only_refl\<close>)

text \<open>Writing a list of objects with different keys leaves all of them in place.\<close>

lemma wp_put_all:
  assumes legal: "legal e view" and dist: "distinct (map (\<lambda>x. key_of (obj x)) xs)"
    and nd: "\<forall>x \<in> set xs. not_deleting (key_of (obj x)) (view w)"
  shows "wp (forA xs (\<lambda>x. wrapA (msg x) (put e (obj x))))
    (\<lambda>_ w'. (\<forall>x \<in> set xs. present (obj x) (view w')) \<and>
      changes_only ((\<lambda>x. key_of (obj x)) ` set xs) (view w) (view w'))
    (\<lambda>_ w'. changes_only ((\<lambda>x. key_of (obj x)) ` set xs) (view w) (view w')) w"
proof (rule wp_for [where I = "\<lambda>ys _ w'. (\<forall>x \<in> set ys. present (obj x) (view w')) \<and>
    changes_only ((\<lambda>x. key_of (obj x)) ` set ys) (view w) (view w')"])
  fix ys x zs w'
  let ?K = "\<lambda>xs. (\<lambda>x. key_of (obj x)) ` set xs"
  assume I: "(\<forall>x \<in> set ys. present (obj x) (view w')) \<and> changes_only (?K ys) (view w) (view w')"
    and split: "ys @ x # zs = xs"
  have x: "x \<in> set xs" and ys: "set ys \<subseteq> set xs" unfolding split [symmetric] by auto
  have new: "key_of (obj x) \<notin> ?K ys" using dist unfolding split [symmetric] by auto
  have nd': "not_deleting (key_of (obj x)) (view w')"
    using not_deleting_other [OF conjunct2 [OF I] new] nd x by blast
  have step: "changes_only (?K (ys @ [x])) (view w) (view w1)"
    if "changes_only {key_of (obj x)} (view w') (view w1)" for w1
    by (rule changes_only_trans [OF changes_only_mono [OF conjunct2 [OF I]] changes_only_mono [OF that]]) auto
  show "wp (wrapA (msg x) (put e (obj x)))
      (\<lambda>_ w'. (\<forall>x \<in> set (ys @ [x]). present (obj x) (view w')) \<and> changes_only (?K (ys @ [x])) (view w) (view w'))
      (\<lambda>_ w'. changes_only (?K xs) (view w) (view w')) w'"
    unfolding wp_simps
  proof (rule wp_put [OF legal])
    fix w1
    assume eff: "put_effect (obj x) (view w') (view w1)"
    have "present (obj y) (view w1)" if "y \<in> set ys" for y
      using I that new by (intro present_other [OF put_effect_only [OF eff]]) (auto simp: image_iff)
    with put_effect_present [OF eff nd'] step [OF put_effect_only [OF eff]]
    show "(\<forall>x \<in> set (ys @ [x]). present (obj x) (view w1)) \<and> changes_only (?K (ys @ [x])) (view w) (view w1)"
      by auto
  next
    fix err w1
    assume "changes_only {key_of (obj x)} (view w') (view w1)"
    then show "changes_only (?K xs) (view w) (view w1)"
      by (rule changes_only_mono [OF step]) (use x ys in auto)
  qed
qed auto

end

section \<open>The operator's writer\<close>

definition kube_env :: "kubeLib \<times> 'w client \<Rightarrow> ('w \<Rightarrow> cluster) \<Rightarrow> bool" where
  "kube_env lc view \<longleftrightarrow> kube_laws (fst lc) (snd lc) view"

interpretation writer: object_writer "\<lambda>lc. createOrUpdate (fst lc) (snd lc)" kube_env
proof
  fix lc :: "kubeLib \<times> 'w client" and view and obj and w
  obtain lib c where lc: "lc = (lib, c)" by (cases lc)
  assume "kube_env lc view"
  then have laws: "kube_laws lib c view" by (simp add: kube_env_def lc)
  have create: "wp (createObject c obj) (\<lambda>_ w'. put_effect obj (view w) (view w'))
      (\<lambda>_ w'. view w' = view w \<or> put_effect obj (view w) (view w')) w1" if "view w1 = view w" for w1
    by (rule wp_write [OF kube_lawsD(13) [OF laws]]) (use that create_is_put in auto)
  have update: "wp (updateObject c (obj\<lparr>uoResourceVersion := rv\<rparr>)) (\<lambda>_ w'. put_effect obj (view w) (view w'))
      (\<lambda>_ w'. view w' = view w \<or> put_effect obj (view w) (view w')) w1" if "view w1 = view w" for w1 rv
    by (rule wp_write [OF kube_lawsD(14) [OF laws]]) (use that update_is_put in auto)
  show "wp (createOrUpdate (fst lc) (snd lc) obj) (\<lambda>_ w'. put_effect obj (view w) (view w'))
      (\<lambda>_ w'. view w' = view w \<or> put_effect obj (view w) (view w')) w"
    unfolding createOrUpdate_def lc fst_conv snd_conv wp_branch
    by (rule wp_get [OF kube_lawsD(12) [OF laws]]) (auto simp: wp_simps intro: create update)
qed

lemma wp_createOrUpdate:
  assumes "kube_laws lib c view"
    and "\<And>w'. put_effect obj (view w) (view w') \<Longrightarrow> Q () w'"
    and "\<And>err w'. changes_only {key_of obj} (view w) (view w') \<Longrightarrow> E err w'"
  shows "wp (createOrUpdate lib c obj) Q E w"
  using writer.wp_put [of "(lib, c)" view obj w Q E] assms by (simp add: kube_env_def)

lemma wp_createOrUpdate_all:
  assumes "kube_laws lib c view" and "distinct (map (\<lambda>x. key_of (obj x)) xs)"
    and "\<forall>x \<in> set xs. not_deleting (key_of (obj x)) (view w)"
  shows "wp (forA xs (\<lambda>x. wrapA (msg x) (createOrUpdate lib c (obj x))))
    (\<lambda>_ w'. (\<forall>x \<in> set xs. present (obj x) (view w')) \<and>
      changes_only ((\<lambda>x. key_of (obj x)) ` set xs) (view w) (view w'))
    (\<lambda>_ w'. changes_only ((\<lambda>x. key_of (obj x)) ` set xs) (view w) (view w')) w"
  using writer.wp_put_all [of "(lib, c)" view] assms by (simp add: kube_env_def)

section \<open>Deletion\<close>

text \<open>The object is gone, or it waits for its finalizers.\<close>

definition gone :: "ukey \<Rightarrow> cluster \<Rightarrow> bool" where
  "gone key k \<longleftrightarrow> (\<forall>obj. fmlookup (kObjects k) key = Some obj \<longrightarrow> uoDeleting obj)"

lemma delete_effect_gone:
  assumes "delete_object_effect key k k'"
  shows "gone key k' \<and> changes_only {key} k k' \<and>
    ((\<forall>old. fmlookup (kObjects k) key = Some old \<longrightarrow> uoFinalizers old = []) \<longrightarrow>
     fmlookup (kObjects k') key = None)"
proof -
  from assms obtain old where old: "fmlookup (kObjects k) key = Some old"
    and k': "k' = (if uoFinalizers old = [] then k\<lparr>kObjects := fmdrop key (kObjects k)\<rparr>
      else k\<lparr>kObjects := fmupd key (old\<lparr>uoDeleting := True\<rparr>) (kObjects k)\<rparr>)"
    unfolding delete_object_effect_def by blast
  show ?thesis
    by (cases "uoFinalizers old = []") (simp_all add: k' old gone_def changes_only_def)
qed

lemma wp_deleteIgnoreNotFound:
  assumes "kube_laws lib c view"
    and "\<And>w'. gone key (view w') \<Longrightarrow> changes_only {key} (view w) (view w') \<Longrightarrow>
      ((\<forall>old. fmlookup (kObjects (view w)) key = Some old \<longrightarrow> uoFinalizers old = []) \<Longrightarrow>
       fmlookup (kObjects (view w')) key = None) \<Longrightarrow> Q () w'"
    and "\<And>err w'. changes_only {key} (view w) (view w') \<Longrightarrow> view w' = view w \<or> gone key (view w') \<Longrightarrow> E err w'"
  shows "wp (deleteIgnoreNotFound lib c key) Q E w"
  unfolding deleteIgnoreNotFound_def wp_branch
proof (rule wp_write [OF kube_lawsD(15) [OF assms(1)]])
  fix a w'
  assume "delete_object_effect key (view w) (view w')"
  from delete_effect_gone [OF this] have "Q () w'" by (intro assms(2)) blast+
  then show "wp (returnA a) Q E w'" by (simp add: wp_return)
next
  fix e w'
  assume "IsNotFound lib e" and "view w' = view w" and "\<not> has_object key (view w)"
  then show "wp (if IsNotFound lib e then returnA () else throwA e) Q E w'"
    by (auto simp: wp_simps gone_def intro!: assms(2))
next
  fix e w'
  assume nf: "\<not> IsNotFound lib e" and "view w' = view w \<or> (\<exists>a. delete_object_effect key (view w) (view w'))"
  then have "changes_only {key} (view w) (view w')" "view w' = view w \<or> gone key (view w')" by (auto dest: delete_effect_gone)
  with nf show "wp (if IsNotFound lib e then returnA () else throwA e) Q E w'"
    by (simp add: wp_simps assms(3))
qed

end
