(* ===== verification/Cudn.thy ===== *)
theory Cudn
  imports Object_Writer
begin

text \<open>
  \<open>internal/controller/cudn.go\<close> and \<open>internal/controller/routeadvertisements.go\<close>: the user-defined
  network of a routing, the shared RouteAdvertisements object, and the check that a namespace has
  been labelled for a network.
\<close>

section \<open>Operations\<close>

definition ValidateNamespaceLabels :: "'w client \<Rightarrow> string \<Rightarrow> ('w, unit) act" where
  "ValidateNamespaceLabels c networkName =
     bindA (listNamespaces c (fmap_of_list [(LabelPrimaryUDN, ''''), (LabelCUDN, networkName)])) (\<lambda>nsList.
     if nsList = []
     then throwA (NewError (Sprintf [''no namespace found with labels '', LabelPrimaryUDN, ''='', quote '''',
       '' and '', LabelCUDN, ''='', quote networkName,
       ''; create and label a namespace before applying CUDNBgpRouting'']))
     else returnA ())"

definition toSubnetInterfaces :: "string list \<Rightarrow> json list" where
  "toSubnetInterfaces subnets = map JStr subnets"

definition cudnObject :: "NetworkConfig \<Rightarrow> Unstructured" where
  "cudnObject net =
     \<lparr>uoApiVersion = ''k8s.ovn.org/v1'',
      uoKind = ''ClusterUserDefinedNetwork'',
      uoName = CUDNNamePrefix @ ncName net,
      uoNamespace = '''',
      uoLabels = fmap_of_list [(LabelAdvertise, ''true''), (LabelManagedBy, LabelManagedByVal)],
      uoFinalizers = [],
      uoResourceVersion = '''',
      uoDeleting = False,
      uoSpec = JObj
        [(''namespaceSelector'', JObj [(''matchLabels'', JObj [(LabelCUDN, JStr (ncName net))])]),
         (''network'', JObj
           [(''topology'', JStr ''Layer2''),
            (''layer2'', JObj
              [(''role'', JStr ''Primary''),
               (''ipam'', JObj [(''lifecycle'', JStr ''Persistent'')]),
               (''subnets'', JArr (toSubnetInterfaces (ncSubnets net)))])])],
      uoStatus = JNull\<rparr>"

definition EnsureCUDN :: "kubeLib \<Rightarrow> 'w client \<Rightarrow> CUDNBgpRouting \<Rightarrow> ('w, unit) act" where
  "EnsureCUDN lib c routing = createOrUpdate lib c (cudnObject (rsNetwork (rtgSpec routing)))"

definition DeleteCUDN :: "kubeLib \<Rightarrow> 'w client \<Rightarrow> string \<Rightarrow> ('w, unit) act" where
  "DeleteCUDN lib c networkName =
     deleteIgnoreNotFound lib c (gvk_key CUDNNetworkGVK '''' (CUDNNamePrefix @ networkName))"

definition raObject :: Unstructured where
  "raObject =
     \<lparr>uoApiVersion = ''k8s.ovn.org/v1'',
      uoKind = ''RouteAdvertisements'',
      uoName = RouteAdvertisementName,
      uoNamespace = '''',
      uoLabels = fmap_of_list [(LabelManagedBy, LabelManagedByVal)],
      uoFinalizers = [],
      uoResourceVersion = '''',
      uoDeleting = False,
      uoSpec = JObj
        [(''nodeSelector'', JObj []),
         (''frrConfigurationSelector'', JObj []),
         (''networkSelectors'', JArr [JObj
           [(''networkSelectionType'', JStr ''ClusterUserDefinedNetworks''),
            (''clusterUserDefinedNetworkSelector'', JObj
              [(''networkSelector'', JObj
                 [(''matchLabels'', JObj [(LabelAdvertise, JStr ''true'')])])])]]),
         (''advertisements'', JArr [JStr ''PodNetwork''])],
      uoStatus = JNull\<rparr>"

definition EnsureRouteAdvertisements :: "kubeLib \<Rightarrow> 'w client \<Rightarrow> ('w, unit) act" where
  "EnsureRouteAdvertisements lib c = createOrUpdate lib c raObject"

definition DeleteRouteAdvertisements :: "kubeLib \<Rightarrow> 'w client \<Rightarrow> ('w, unit) act" where
  "DeleteRouteAdvertisements lib c =
     deleteIgnoreNotFound lib c (gvk_key RouteAdvertisementsGVK '''' RouteAdvertisementName)"

section \<open>Keys\<close>

abbreviation cudn_key :: "string \<Rightarrow> ukey" where
  "cudn_key network \<equiv> gvk_key CUDNNetworkGVK '''' (CUDNNamePrefix @ network)"

abbreviation ra_key :: ukey where
  "ra_key \<equiv> gvk_key RouteAdvertisementsGVK '''' RouteAdvertisementName"

lemma key_of_cudnObject [simp]: "key_of (cudnObject net) = cudn_key (ncName net)"
  by (simp add: key_of_def cudnObject_def gvk_key_def apiVersion_of_def gvk_defs)

lemma key_of_raObject [simp]: "key_of raObject = ra_key"
  by (simp add: key_of_def raObject_def gvk_key_def apiVersion_of_def gvk_defs)

lemma cudn_key_inject [simp]: "cudn_key a = cudn_key b \<longleftrightarrow> a = b"
  by (simp add: gvk_key_def)

lemma cudn_key_ra [simp]: "cudn_key a \<noteq> ra_key" "ra_key \<noteq> cudn_key a"
  by (simp_all add: gvk_key_def gvk_defs)

section \<open>Namespaces\<close>

text \<open>A namespace that its owner has labelled for the network.\<close>

definition labelled_for :: "string \<Rightarrow> Namespace \<Rightarrow> bool" where
  "labelled_for network ns \<longleftrightarrow>
     fmlookup (nsLabels ns) LabelPrimaryUDN = Some '''' \<and> fmlookup (nsLabels ns) LabelCUDN = Some network"

lemma selects_labelled:
  "selects (fmap_of_list [(LabelPrimaryUDN, ''''), (LabelCUDN, network)]) (nsLabels ns) \<longleftrightarrow> labelled_for network ns"
proof -
  let ?sel = "fmap_of_list [(LabelPrimaryUDN, ''''), (LabelCUDN, network)]"
  have "LabelCUDN \<noteq> LabelPrimaryUDN" by (simp add: LabelPrimaryUDN_def LabelCUDN_def)
  then have "fmlookup ?sel LabelPrimaryUDN = Some ''''" "fmlookup ?sel LabelCUDN = Some network"
    and "fmlookup ?sel k \<noteq> None \<Longrightarrow> k = LabelPrimaryUDN \<or> k = LabelCUDN" for k
    by (simp_all split: if_splits)
  then show ?thesis
    unfolding selects_iff labelled_for_def by (metis option.distinct(1) option.inject)
qed

lemma wp_ValidateNamespaceLabels:
  assumes "kube_laws lib c view"
    and "\<And>w'. \<exists>ns \<in> fmran' (kNamespaces (view w)). labelled_for network ns \<Longrightarrow> view w' = view w \<Longrightarrow> Q () w'"
    and "\<And>e w'. view w' = view w \<Longrightarrow> \<not> (\<exists>ns \<in> fmran' (kNamespaces (view w)). labelled_for network ns) \<or>
      listNamespaces c (fmap_of_list [(LabelPrimaryUDN, ''''), (LabelCUDN, network)]) w = (Inl e, w') \<Longrightarrow> E e w'"
  shows "wp (ValidateNamespaceLabels c network) Q E w"
  unfolding ValidateNamespaceLabels_def wp_bind
proof (rule wp_recall, rule wp_read [OF kube_lawsD(9) [OF assms(1)]])
  fix nss w'
  assume nss: "set nss = {ns \<in> fmran' (kNamespaces (view w)).
      selects (fmap_of_list [(LabelPrimaryUDN, ''''), (LabelCUDN, network)]) (nsLabels ns)}"
    and w': "view w' = view w"
  have "nss \<noteq> [] \<longleftrightarrow> (\<exists>ns \<in> fmran' (kNamespaces (view w)). labelled_for network ns)"
    using nss unfolding selects_labelled by (metis (mono_tags, lifting) empty_Collect_eq set_empty)
  then show "listNamespaces c (fmap_of_list [(LabelPrimaryUDN, ''''), (LabelCUDN, network)]) w = (Inr nss, w') \<longrightarrow>
    wp (if nss = []
      then throwA (NewError (Sprintf [''no namespace found with labels '', LabelPrimaryUDN, ''='', quote '''',
        '' and '', LabelCUDN, ''='', quote network, ''; create and label a namespace before applying CUDNBgpRouting'']))
      else returnA ()) Q E w'"
    using assms(2,3) w' by (cases "nss = []") (auto simp: wp_simps)
qed (use assms(3) in blast)

section \<open>The objects fit together\<close>

text \<open>Whether a \<open>matchLabels\<close> object of a spec accepts a set of labels.\<close>

definition json_selects :: "json option \<Rightarrow> (string, string) fmap \<Rightarrow> bool" where
  "json_selects sel ls \<longleftrightarrow>
     (\<exists>j. sel = Some j \<and> list_all (\<lambda>kv. snd kv = (case fmlookup ls (fst kv) of None \<Rightarrow> JNull | Some v \<Rightarrow> JStr v)) (jmembers j))"

definition first_of :: "json option \<Rightarrow> json" where
  "first_of j = (case j of Some (JArr (x # _)) \<Rightarrow> x | _ \<Rightarrow> JNull)"

text \<open>The label selector inside the RouteAdvertisements object.\<close>

definition ra_selector :: "Unstructured \<Rightarrow> json option" where
  "ra_selector obj =
     jpath (first_of (jget (uoSpec obj) ''networkSelectors''))
       [''clusterUserDefinedNetworkSelector'', ''networkSelector'', ''matchLabels'']"

text \<open>
  C30. The generated objects fit together: the shared RouteAdvertisements selects every user-defined
  network that the operator generates; such a network selects a namespace exactly when the namespace
  carries its label, so every namespace that passes the validation for a network is selected by it;
  it carries the subnets of the routing in order; and networks with different names are different
  objects, none of them the RouteAdvertisements.
\<close>

theorem generated_objects_fit:
  "json_selects (ra_selector raObject) (uoLabels (cudnObject net)) \<and>
   (json_selects (jpath (uoSpec (cudnObject net)) [''namespaceSelector'', ''matchLabels'']) (nsLabels ns) \<longleftrightarrow>
      fmlookup (nsLabels ns) LabelCUDN = Some (ncName net)) \<and>
   (labelled_for (ncName net) ns \<longrightarrow>
      json_selects (jpath (uoSpec (cudnObject net)) [''namespaceSelector'', ''matchLabels'']) (nsLabels ns)) \<and>
   jpath (uoSpec (cudnObject net)) [''network'', ''layer2'', ''subnets''] = Some (JArr (map JStr (ncSubnets net))) \<and>
   (key_of (cudnObject net) = key_of (cudnObject net') \<longleftrightarrow> ncName net = ncName net') \<and>
   key_of (cudnObject net) \<noteq> key_of raObject"
proof -
  have sel: "json_selects (jpath (uoSpec (cudnObject net)) [''namespaceSelector'', ''matchLabels'']) (nsLabels ns) \<longleftrightarrow>
      fmlookup (nsLabels ns) LabelCUDN = Some (ncName net)"
    by (auto simp: json_selects_def cudnObject_def jget_def jmembers_def split: option.splits)
  have ra: "json_selects (ra_selector raObject) (uoLabels (cudnObject net))"
    by (simp add: json_selects_def ra_selector_def first_of_def raObject_def cudnObject_def jget_def jmembers_def
        LabelAdvertise_def)
  have subnets: "jpath (uoSpec (cudnObject net)) [''network'', ''layer2'', ''subnets''] =
      Some (JArr (map JStr (ncSubnets net)))"
    by (simp add: cudnObject_def jget_def jmembers_def toSubnetInterfaces_def)
  show ?thesis
    using sel ra subnets by (simp add: labelled_for_def)
qed

end
