(* ===== verification/Routing_Controller.thy ===== *)
theory Routing_Controller
  imports Cudn
begin

text \<open>
  \<open>internal/controller/cudnbgprouting_controller.go\<close>: the reconciler of CUDNBgpRouting and the two
  functions that map watched objects to requests. The reconciler is split into definitions at its
  phases; each takes the in-memory routing as the phases before left it.
\<close>

section \<open>Status\<close>

definition setRoutingCondition ::
    "kubeLib \<Rightarrow> CUDNBgpRouting \<Rightarrow> string \<Rightarrow> ConditionStatus \<Rightarrow> string \<Rightarrow> string \<Rightarrow> CUDNBgpRouting" where
  "setRoutingCondition lib routing ty st reason message =
     routing\<lparr>rtgStatus := (rtgStatus routing)\<lparr>rtConditions := SetStatusCondition lib (rtConditions (rtgStatus routing))
       \<lparr>condType = ty, condStatus = st, condReason = reason, condMessage = message,
        condObservedGeneration = metaGeneration (rtgMeta routing)\<rparr>\<rparr>\<rparr>"

definition setRoutingPhase :: "CUDNBgpRouting \<Rightarrow> PhaseType \<Rightarrow> CUDNBgpRouting" where
  "setRoutingPhase routing ph = routing\<lparr>rtgStatus := (rtgStatus routing)\<lparr>rtPhase := ph\<rparr>\<rparr>"

definition degradedRouting ::
    "kubeLib \<Rightarrow> CUDNBgpRouting \<Rightarrow> string \<Rightarrow> string \<Rightarrow> string \<Rightarrow> CUDNBgpRouting" where
  "degradedRouting lib routing condTy reason message =
     setRoutingCondition lib (setRoutingPhase routing PhaseDegraded) condTy ConditionFalse reason message"

definition RoutingSetDegraded ::
    "kubeLib \<Rightarrow> 'w client \<Rightarrow> CUDNBgpRouting \<Rightarrow> string \<Rightarrow> string \<Rightarrow> string \<Rightarrow> ('w, Result) act" where
  "RoutingSetDegraded lib c routing condTy reason message =
     bindA (updateRoutingStatus c (degradedRouting lib routing condTy reason message)) (\<lambda>_.
     returnA \<lparr>RequeueAfter = 30 * Second\<rparr>)"

text \<open>The two identical branches for a configuration that is missing or not ready.\<close>

definition pendingRouting :: "CUDNBgpRouting \<Rightarrow> CUDNBgpRouting" where
  "pendingRouting routing =
     (setRoutingPhase routing PhasePending)\<lparr>rtgStatus := (rtgStatus (setRoutingPhase routing PhasePending))\<lparr>rtConditions := []\<rparr>\<rparr>"

definition RoutingSetPending :: "'w client \<Rightarrow> CUDNBgpRouting \<Rightarrow> ('w, Result) act" where
  "RoutingSetPending c routing =
     bindA (updateRoutingStatus c (pendingRouting routing)) (\<lambda>_. returnA \<lparr>RequeueAfter = 10 * Second\<rparr>)"

section \<open>Deletion\<close>

definition RoutingReconcileDelete :: "kubeLib \<Rightarrow> 'w client \<Rightarrow> CUDNBgpRouting \<Rightarrow> ('w, Result) act" where
  "RoutingReconcileDelete lib c routing =
     bindA (DeleteCUDN lib c (rtgNetwork routing)) (\<lambda>_.
     bindA (listRoutings c) (\<lambda>items.
     let remaining = length (filter (\<lambda>it. rtgName it \<noteq> rtgName routing) items) in
     bindA (if remaining = 0 then DeleteRouteAdvertisements lib c else returnA ()) (\<lambda>_.
     bindA (updateRouting c (routing\<lparr>rtgMeta := (rtgMeta routing)\<lparr>metaFinalizers :=
        RemoveFinalizer lib (metaFinalizers (rtgMeta routing)) RoutingFinalizerName\<rparr>\<rparr>)) (\<lambda>_.
     returnA emptyResult))))"

section \<open>Reconciliation\<close>

definition routingApplied :: "kubeLib \<Rightarrow> CUDNBgpRouting \<Rightarrow> CUDNBgpRouting" where
  "routingApplied lib routing =
     setRoutingCondition lib routing ConditionCUDNCreated ConditionTrue ''Created''
       (Sprintf [''CUDN '', quote (CUDNNamePrefix @ rtgNetwork routing), '' ensured''])"

definition routingReady :: "kubeLib \<Rightarrow> CUDNBgpRouting \<Rightarrow> CUDNBgpRouting" where
  "routingReady lib routing =
     setRoutingPhase (setRoutingCondition lib routing ConditionRouteAdvertisementsCreated ConditionTrue
       ''Created'' ''Shared RouteAdvertisements ensured'') PhaseReady"

text \<open>Phase 2 and the final status update.\<close>

definition RoutingAdvertise :: "kubeLib \<Rightarrow> 'w client \<Rightarrow> CUDNBgpRouting \<Rightarrow> ('w, Result) act" where
  "RoutingAdvertise lib c routing =
     branchA (EnsureRouteAdvertisements lib c)
       (\<lambda>err. RoutingSetDegraded lib c routing ConditionRouteAdvertisementsCreated ''RAFailed''
          (Sprintf [''failed to ensure RouteAdvertisements: '', Error err]))
       (\<lambda>_. bindA (updateRoutingStatus c (routingReady lib routing)) (\<lambda>_. returnA \<lparr>RequeueAfter = 5 * Minute\<rparr>))"

text \<open>Phase 1.\<close>

definition RoutingApply :: "kubeLib \<Rightarrow> 'w client \<Rightarrow> CUDNBgpRouting \<Rightarrow> ('w, Result) act" where
  "RoutingApply lib c routing =
     branchA (ValidateNamespaceLabels c (rtgNetwork routing))
       (\<lambda>err. RoutingSetDegraded lib c routing ConditionCUDNCreated ''NamespaceNotReady''
          (Sprintf [''namespace validation failed: '', Error err]))
       (\<lambda>_. branchA (EnsureCUDN lib c routing)
          (\<lambda>err. RoutingSetDegraded lib c routing ConditionCUDNCreated ''CUDNFailed''
             (Sprintf [''failed to ensure CUDN: '', Error err]))
          (\<lambda>_. RoutingAdvertise lib c (routingApplied lib routing)))"

text \<open>The two checks before phase 1.\<close>

definition RoutingChecks :: "kubeLib \<Rightarrow> 'w client \<Rightarrow> CUDNBgpRouting \<Rightarrow> ('w, Result) act" where
  "RoutingChecks lib c routing =
     bindA (listRoutings c) (\<lambda>items.
     case find (\<lambda>other. rtgName other \<noteq> rtgName routing \<and> rtgNetwork other = rtgNetwork routing) items of
       Some other \<Rightarrow> RoutingSetDegraded lib c routing ConditionCUDNCreated ''DuplicateNetwork''
         (Sprintf [''spec.network.name '', quote (rtgNetwork routing), '' already claimed by CUDNBgpRouting '',
           quote (rtgName other)])
     | None \<Rightarrow>
         branchA (getConfig c SingletonName)
           (\<lambda>_. RoutingSetPending c routing)
           (\<lambda>bgpConfig. if ctPhase (cfgStatus bgpConfig) \<noteq> PhaseReady then RoutingSetPending c routing
                        else RoutingApply lib c routing))"

definition configuringRouting :: "CUDNBgpRouting \<Rightarrow> CUDNBgpRouting" where
  "configuringRouting routing =
     (setRoutingPhase routing PhaseConfiguring)\<lparr>rtgStatus :=
       (rtgStatus (setRoutingPhase routing PhaseConfiguring))\<lparr>rtObservedGeneration := metaGeneration (rtgMeta routing)\<rparr>\<rparr>"

definition ensureRoutingFinalizer :: "kubeLib \<Rightarrow> 'w client \<Rightarrow> CUDNBgpRouting \<Rightarrow> ('w, CUDNBgpRouting) act" where
  "ensureRoutingFinalizer lib c routing =
     (if \<not> ContainsFinalizer lib (metaFinalizers (rtgMeta routing)) RoutingFinalizerName
      then updateRouting c (routing\<lparr>rtgMeta := (rtgMeta routing)\<lparr>metaFinalizers :=
        AddFinalizer lib (metaFinalizers (rtgMeta routing)) RoutingFinalizerName\<rparr>\<rparr>)
      else returnA routing)"

definition RoutingReconcile :: "kubeLib \<Rightarrow> 'w client \<Rightarrow> string \<Rightarrow> ('w, Result) act" where
  "RoutingReconcile lib c name =
     branchA (getRouting c name)
       (\<lambda>err. if IsNotFound lib err then returnA emptyResult else throwA err)
       (\<lambda>routing.
          if metaDeletionTimestamp (rtgMeta routing) \<noteq> None then RoutingReconcileDelete lib c routing
          else bindA (ensureRoutingFinalizer lib c routing) (\<lambda>routing.
            RoutingChecks lib c (configuringRouting routing)))"

section \<open>Watches\<close>

text \<open>An error of the list call gives no requests.\<close>

definition mapCUDNToRouting :: "'w client \<Rightarrow> Unstructured \<Rightarrow> 'w \<Rightarrow> string list \<times> 'w" where
  "mapCUDNToRouting c obj w =
     (if lookup_or '''' (uoLabels obj) LabelManagedBy \<noteq> LabelManagedByVal then ([], w)
      else let networkName = TrimPrefix (uoName obj) CUDNNamePrefix in
        (case listRoutings c w of
           (Inl _, w') \<Rightarrow> ([], w')
         | (Inr items, w') \<Rightarrow>
             (case find (\<lambda>rt. rtgNetwork rt = networkName) items of
                Some rt \<Rightarrow> ([rtgName rt], w') | None \<Rightarrow> ([], w'))))"

definition mapRAToRouting :: "'w client \<Rightarrow> Unstructured \<Rightarrow> 'w \<Rightarrow> string list \<times> 'w" where
  "mapRAToRouting c obj w =
     (if lookup_or '''' (uoLabels obj) LabelManagedBy \<noteq> LabelManagedByVal then ([], w)
      else (case listRoutings c w of
          (Inl _, w') \<Rightarrow> ([], w')
        | (Inr items, w') \<Rightarrow> (map rtgName items, w')))"

section \<open>Projections of the in-memory routing\<close>

lemmas routing_states = setRoutingCondition_def setRoutingPhase_def degradedRouting_def pendingRouting_def
  routingApplied_def routingReady_def configuringRouting_def

lemma routing_meta [simp]:
  "rtgMeta (degradedRouting lib r t re m) = rtgMeta r" "rtgMeta (pendingRouting r) = rtgMeta r"
  "rtgMeta (routingApplied lib r) = rtgMeta r" "rtgMeta (routingReady lib r) = rtgMeta r"
  "rtgMeta (configuringRouting r) = rtgMeta r"
  by (simp_all add: routing_states)

lemma routing_spec [simp]:
  "rtgSpec (degradedRouting lib r t re m) = rtgSpec r" "rtgSpec (pendingRouting r) = rtgSpec r"
  "rtgSpec (routingApplied lib r) = rtgSpec r" "rtgSpec (routingReady lib r) = rtgSpec r"
  "rtgSpec (configuringRouting r) = rtgSpec r"
  by (simp_all add: routing_states)

lemma routing_phase [simp]:
  "rtPhase (rtgStatus (degradedRouting lib r t re m)) = PhaseDegraded"
  "rtPhase (rtgStatus (pendingRouting r)) = PhasePending"
  "rtPhase (rtgStatus (routingReady lib r)) = PhaseReady"
  "rtConditions (rtgStatus (pendingRouting r)) = []"
  by (simp_all add: routing_states)

lemma routing_generation [simp]:
  "rtObservedGeneration (rtgStatus (degradedRouting lib r t re m)) = rtObservedGeneration (rtgStatus r)"
  "rtObservedGeneration (rtgStatus (pendingRouting r)) = rtObservedGeneration (rtgStatus r)"
  "rtObservedGeneration (rtgStatus (routingApplied lib r)) = rtObservedGeneration (rtgStatus r)"
  "rtObservedGeneration (rtgStatus (routingReady lib r)) = rtObservedGeneration (rtgStatus r)"
  "rtObservedGeneration (rtgStatus (configuringRouting r)) = metaGeneration (rtgMeta r)"
  by (simp_all add: routing_states)

section \<open>Rules for the status updates\<close>

lemma wp_updateRoutingStatus:
  assumes "kube_laws lib c view"
    and "\<And>w'. routing_status_effect r (view w) (view w') \<Longrightarrow> Q () w'"
    and "\<And>e w'. view w' = view w \<or> routing_status_effect r (view w) (view w') \<Longrightarrow> E e w'"
  shows "wp (updateRoutingStatus c r) Q E w"
  by (rule wp_write [OF kube_lawsD(7) [OF assms(1)]]) (use assms(2,3) in auto)

lemma wp_RoutingSetDegraded:
  assumes "kube_laws lib c view"
    and "\<And>w'. routing_status_effect (degradedRouting lib r t re m) (view w) (view w') \<Longrightarrow>
      Q \<lparr>RequeueAfter = 30 * Second\<rparr> w'"
    and "\<And>e w'. view w' = view w \<or> routing_status_effect (degradedRouting lib r t re m) (view w) (view w') \<Longrightarrow> E e w'"
  shows "wp (RoutingSetDegraded lib c r t re m) Q E w"
  unfolding RoutingSetDegraded_def wp_eta
  by (rule wp_updateRoutingStatus [OF assms(1)]) (use assms(2,3) in auto)

lemma wp_RoutingSetPending:
  assumes "kube_laws lib c view"
    and "\<And>w'. routing_status_effect (pendingRouting r) (view w) (view w') \<Longrightarrow> Q \<lparr>RequeueAfter = 10 * Second\<rparr> w'"
    and "\<And>e w'. view w' = view w \<or> routing_status_effect (pendingRouting r) (view w) (view w') \<Longrightarrow> E e w'"
  shows "wp (RoutingSetPending c r) Q E w"
  unfolding RoutingSetPending_def wp_eta
  by (rule wp_updateRoutingStatus [OF assms(1)]) (use assms(2,3) in auto)

section \<open>What a reconciliation may do and report\<close>

definition routings_keyed :: "cluster \<Rightarrow> bool" where
  "routings_keyed k \<longleftrightarrow> (\<forall>n r. fmlookup (kRoutings k) n = Some r \<longrightarrow> rtgName r = n)"

text \<open>The conditions under which the objects of a routing may be written.\<close>

definition unique_network :: "CUDNBgpRouting \<Rightarrow> cluster \<Rightarrow> bool" where
  "unique_network r k \<longleftrightarrow>
     (\<forall>other \<in> fmran' (kRoutings k). rtgName other \<noteq> rtgName r \<longrightarrow> rtgNetwork other \<noteq> rtgNetwork r)"

definition config_ready :: "cluster \<Rightarrow> bool" where
  "config_ready k \<longleftrightarrow>
     (\<exists>cfg. fmlookup (kConfigs k) SingletonName = Some cfg \<and> ctPhase (cfgStatus cfg) = PhaseReady)"

definition may_apply :: "CUDNBgpRouting \<Rightarrow> cluster \<Rightarrow> bool" where
  "may_apply r k \<longleftrightarrow>
     unique_network r k \<and> config_ready k \<and>
     (\<exists>ns \<in> fmran' (kNamespaces k). labelled_for (rtgNetwork r) ns)"

text \<open>
  What may change in the cluster: the objects with keys \<open>K\<close> and the status of this routing, not its
  spec or metadata.
\<close>

definition routing_core :: "CUDNBgpRouting \<Rightarrow> CUDNBgpRoutingSpec \<times> ObjectMeta" where
  "routing_core r = (rtgSpec r, (rtgMeta r)\<lparr>metaResourceVersion := ''''\<rparr>)"

definition routing_evolves :: "ukey set \<Rightarrow> CUDNBgpRouting \<Rightarrow> cluster \<Rightarrow> cluster \<Rightarrow> bool" where
  "routing_evolves K r k k' \<longleftrightarrow>
     (\<forall>key. key \<notin> K \<longrightarrow> fmlookup (kObjects k') key = fmlookup (kObjects k) key) \<and>
     kConfigs k' = kConfigs k \<and> kNamespaces k' = kNamespaces k \<and> kPods k' = kPods k \<and> kNodes k' = kNodes k \<and>
     (\<forall>n. n \<noteq> rtgName r \<longrightarrow> fmlookup (kRoutings k') n = fmlookup (kRoutings k) n) \<and>
     map_option routing_core (fmlookup (kRoutings k') (rtgName r)) =
       map_option routing_core (fmlookup (kRoutings k) (rtgName r))"

lemma routing_evolves_refl [simp, intro]: "routing_evolves K r k k"
  by (simp add: routing_evolves_def)

lemma routing_evolves_trans:
  "routing_evolves K r k k1 \<Longrightarrow> routing_evolves K r k1 k2 \<Longrightarrow> routing_evolves K r k k2"
  by (simp add: routing_evolves_def)

lemma routing_evolves_mono: "routing_evolves K r k k' \<Longrightarrow> K \<subseteq> L \<Longrightarrow> routing_evolves L r k k'"
  by (auto simp: routing_evolves_def)

lemma changes_only_evolves: "changes_only K k k' \<Longrightarrow> routing_evolves K r k k'"
  by (simp add: routing_evolves_def changes_only_def)

lemma status_effect_evolves:
  "routing_status_effect r' k k' \<Longrightarrow> rtgName r' = rtgName r \<Longrightarrow> routing_evolves K r k k'"
  by (auto simp: routing_evolves_def routing_status_effect_def routing_core_def)

lemma status_effect_stored:
  assumes "routing_status_effect r k k'"
  obtains st where "fmlookup (kRoutings k') (rtgName r) = Some st" "rtgStatus st = rtgStatus r" "kObjects k' = kObjects k"
  using assms by (auto simp: routing_status_effect_def)

text \<open>
  What the answer to the controller runtime says about the cluster: \<open>r\<close> is the in-memory routing
  when the reconciliation starts its phases.
\<close>

definition labelled_namespace :: "string \<Rightarrow> cluster \<Rightarrow> bool" where
  "labelled_namespace n k \<longleftrightarrow> (\<exists>ns \<in> fmran' (kNamespaces k). labelled_for n ns)"

text \<open>The object is in place as given, unless its old version was being deleted.\<close>

definition settled :: "Unstructured \<Rightarrow> cluster \<Rightarrow> cluster \<Rightarrow> bool" where
  "settled obj k k' \<longleftrightarrow> (not_deleting (key_of obj) k \<longrightarrow> present obj k')"

text \<open>
  The reasons to degrade a routing \<open>r\<close> in the cluster \<open>k\<close>, with the condition, its reason and its
  message: another routing that claims the network; no labelled namespace, or an error when the
  namespaces are listed; and errors when one of the two objects is written, at a time when everything
  before is in order. \<open>w1\<close> is the world in which the call fails.
\<close>

inductive routing_failure ::
    "kubeLib \<Rightarrow> 'w client \<Rightarrow> ('w \<Rightarrow> cluster) \<Rightarrow> CUDNBgpRouting \<Rightarrow> cluster \<Rightarrow> string \<Rightarrow> string \<Rightarrow> string \<Rightarrow> bool"
  for lib c view r k where
  duplicate: "other \<in> fmran' (kRoutings k) \<Longrightarrow> rtgName other \<noteq> rtgName r \<Longrightarrow> rtgNetwork other = rtgNetwork r \<Longrightarrow>
    routing_failure lib c view r k ConditionCUDNCreated ''DuplicateNetwork''
      (Sprintf [''spec.network.name '', quote (rtgNetwork r), '' already claimed by CUDNBgpRouting '', quote (rtgName other)])"
| no_namespace: "unique_network r k \<Longrightarrow> config_ready k \<Longrightarrow> kNamespaces (view w1) = kNamespaces k \<Longrightarrow>
    ValidateNamespaceLabels c (rtgNetwork r) w1 = (Inl err, w2) \<Longrightarrow>
    \<not> labelled_namespace (rtgNetwork r) k \<or>
      listNamespaces c (fmap_of_list [(LabelPrimaryUDN, ''''), (LabelCUDN, rtgNetwork r)]) w1 = (Inl err, w2) \<Longrightarrow>
    routing_failure lib c view r k ConditionCUDNCreated ''NamespaceNotReady''
      (Sprintf [''namespace validation failed: '', Error err])"
| cudn_failed: "may_apply r k \<Longrightarrow> kObjects (view w1) = kObjects k \<Longrightarrow> rtgSpec r1 = rtgSpec r \<Longrightarrow>
    EnsureCUDN lib c r1 w1 = (Inl err, w2) \<Longrightarrow>
    routing_failure lib c view r k ConditionCUDNCreated ''CUDNFailed'' (Sprintf [''failed to ensure CUDN: '', Error err])"
| ra_failed: "may_apply r k \<Longrightarrow> settled (cudnObject (rsNetwork (rtgSpec r))) k (view w1) \<Longrightarrow>
    EnsureRouteAdvertisements lib c w1 = (Inl err, w2) \<Longrightarrow>
    routing_failure lib c view r k ConditionRouteAdvertisementsCreated ''RAFailed''
      (Sprintf [''failed to ensure RouteAdvertisements: '', Error err])"

text \<open>The reasons to wait: the configuration is missing or not ready, or an error when it is read.\<close>

definition routing_waits :: "kubeLib \<Rightarrow> 'w client \<Rightarrow> ('w \<Rightarrow> cluster) \<Rightarrow> CUDNBgpRouting \<Rightarrow> cluster \<Rightarrow> bool" where
  "routing_waits lib c view r k \<longleftrightarrow>
     unique_network r k \<and>
     (\<not> config_ready k \<or>
      (\<exists>w1 err w2. kConfigs (view w1) = kConfigs k \<and> getConfig c SingletonName w1 = (Inl err, w2) \<and> \<not> IsNotFound lib err))"

definition is_degraded :: "(string \<Rightarrow> string \<Rightarrow> string \<Rightarrow> bool) \<Rightarrow> CUDNBgpRoutingStatus \<Rightarrow> bool" where
  "is_degraded because st \<longleftrightarrow>
     rtPhase st = PhaseDegraded \<and>
     (\<exists>t c. cond_of t (rtConditions st) = Some c \<and> condStatus c = ConditionFalse \<and> because t (condReason c) (condMessage c))"

definition is_pending :: "CUDNBgpRoutingStatus \<Rightarrow> bool" where
  "is_pending st \<longleftrightarrow> rtPhase st = PhasePending \<and> rtConditions st = []"

definition is_ready :: "CUDNBgpRoutingStatus \<Rightarrow> bool" where
  "is_ready st \<longleftrightarrow>
     rtPhase st = PhaseReady \<and>
     (\<forall>t \<in> {ConditionCUDNCreated, ConditionRouteAdvertisementsCreated}.
        \<exists>c. cond_of t (rtConditions st) = Some c \<and> condStatus c = ConditionTrue)"


definition routing_outcome :: "kubeLib \<Rightarrow> 'w client \<Rightarrow> ('w \<Rightarrow> cluster) \<Rightarrow> CUDNBgpRouting \<Rightarrow> cluster \<Rightarrow> Result \<Rightarrow> cluster \<Rightarrow> bool" where
  "routing_outcome lib c view r k res k' \<longleftrightarrow>
     (\<exists>st. fmlookup (kRoutings k') (rtgName r) = Some st \<and>
        rtObservedGeneration (rtgStatus st) = rtObservedGeneration (rtgStatus r) \<and>
        (res = \<lparr>RequeueAfter = 30 * Second\<rparr> \<and> is_degraded (routing_failure lib c view r k) (rtgStatus st) \<or>
         res = \<lparr>RequeueAfter = 10 * Second\<rparr> \<and> is_pending (rtgStatus st) \<and> kObjects k' = kObjects k \<and> routing_waits lib c view r k \<or>
         res = \<lparr>RequeueAfter = 5 * Minute\<rparr> \<and> is_ready (rtgStatus st) \<and> may_apply r k \<and>
           settled (cudnObject (rsNetwork (rtgSpec r))) k k' \<and> settled raObject k k'))"

definition routing_writes :: "CUDNBgpRouting \<Rightarrow> cluster \<Rightarrow> cluster \<Rightarrow> bool" where
  "routing_writes r k k' \<longleftrightarrow>
     routing_evolves {cudn_key (rtgNetwork r), ra_key} r k k' \<and> (kObjects k' \<noteq> kObjects k \<longrightarrow> may_apply r k)"

lemma routing_writes_refl [simp]: "routing_writes r k k"
  by (simp add: routing_writes_def)

lemma routing_writes_status:
  assumes "routing_writes r k k1" and "routing_status_effect r' k1 k2" and "rtgName r' = rtgName r"
  shows "routing_writes r k k2"
proof -
  have "kObjects k2 = kObjects k1" using status_effect_stored [OF assms(2)] by metis
  moreover have "routing_evolves {cudn_key (rtgNetwork r), ra_key} r k k2"
    using routing_evolves_trans [OF _ status_effect_evolves [OF assms(2,3)]] assms(1)
    unfolding routing_writes_def by blast
  ultimately show ?thesis using assms(1) by (simp add: routing_writes_def)
qed

lemma degraded_conditions:
  assumes "lib_laws lib" and "because t re m"
  shows "is_degraded because (rtgStatus (degradedRouting lib r t re m))"
  unfolding is_degraded_def
  by (rule conjI, simp, rule exI [of _ t]) (simp add: routing_states lib_lawsD [OF assms(1)] assms(2))

lemma ready_conditions:
  assumes "lib_laws lib"
  shows "is_ready (rtgStatus (routingReady lib (routingApplied lib r)))"
  by (simp add: is_ready_def routing_states lib_lawsD [OF assms] go_consts)

text \<open>Degrading is a legal report wherever the objects so far were written legally.\<close>

lemma wp_degrade_outcome:
  assumes laws: "kube_laws lib c view" "lib_laws lib"
    and why: "routing_failure lib c view r k t re m"
    and pre: "routing_writes r k (view w)" "rtgName r' = rtgName r"
      "rtObservedGeneration (rtgStatus r') = rtObservedGeneration (rtgStatus r)"
  shows "wp (RoutingSetDegraded lib c r' t re m)
    (\<lambda>res w'. routing_outcome lib c view r k res (view w') \<and> routing_writes r k (view w'))
    (\<lambda>_ w'. routing_writes r k (view w')) w"
proof -
  have writes: "routing_writes r k (view w')"
    if "routing_status_effect (degradedRouting lib r' t re m) (view w) (view w')" for w'
    by (rule routing_writes_status [OF pre(1) that]) (simp add: pre(2))
  show ?thesis
  proof (rule wp_RoutingSetDegraded [OF laws(1)])
    fix w'
    assume eff: "routing_status_effect (degradedRouting lib r' t re m) (view w) (view w')"
    then obtain st where "fmlookup (kRoutings (view w')) (rtgName r) = Some st"
      "rtgStatus st = rtgStatus (degradedRouting lib r' t re m)"
      using status_effect_stored pre(2) by (metis routing_meta(1))
    then have "routing_outcome lib c view r k \<lparr>RequeueAfter = 30 * Second\<rparr> (view w')"
      using degraded_conditions [OF laws(2), of "routing_failure lib c view r k", OF why, of r'] pre(3) by (simp add: routing_outcome_def)
    with writes [OF eff] show "routing_outcome lib c view r k \<lparr>RequeueAfter = 30 * Second\<rparr> (view w') \<and> routing_writes r k (view w')"
      by simp
  qed (use writes pre(1) in auto)
qed

lemma wp_pending_outcome:
  assumes laws: "kube_laws lib c view" and w: "view w = k" and why: "routing_waits lib c view r k"
  shows "wp (RoutingSetPending c r)
    (\<lambda>res w'. routing_outcome lib c view r k res (view w') \<and> routing_writes r k (view w'))
    (\<lambda>_ w'. routing_writes r k (view w')) w"
proof -
  have writes: "routing_writes r k (view w') \<and> kObjects (view w') = kObjects k"
    if "routing_status_effect (pendingRouting r) k (view w')" for w'
    using status_effect_stored [OF that] routing_writes_status [OF routing_writes_refl that] by (metis routing_meta(2))
  show ?thesis
  proof (rule wp_RoutingSetPending [OF laws])
    fix w'
    assume "routing_status_effect (pendingRouting r) (view w) (view w')"
    then have eff: "routing_status_effect (pendingRouting r) k (view w')" by (simp add: w)
    obtain st where "fmlookup (kRoutings (view w')) (rtgName (pendingRouting r)) = Some st"
      "rtgStatus st = rtgStatus (pendingRouting r)"
      using status_effect_stored [OF eff] by metis
    then show "routing_outcome lib c view r k \<lparr>RequeueAfter = 10 * Second\<rparr> (view w') \<and> routing_writes r k (view w')"
      using writes [OF eff] why by (simp add: routing_outcome_def is_pending_def)
  qed (use writes w in auto)
qed

section \<open>The phases\<close>

lemma routing_writes_objects:
  assumes "routing_writes r k k1" and "changes_only K k1 k2" and "K \<subseteq> {cudn_key (rtgNetwork r), ra_key}"
    and "may_apply r k"
  shows "routing_writes r k k2"
proof -
  have "routing_evolves {cudn_key (rtgNetwork r), ra_key} r k1 k2"
    by (rule routing_evolves_mono [OF changes_only_evolves [OF assms(2)] assms(3)])
  then show ?thesis
    using assms(1,4) routing_evolves_trans unfolding routing_writes_def by blast
qed

lemma wp_RoutingAdvertise:
  assumes laws: "kube_laws lib c view" "lib_laws lib"
    and pre: "routing_writes r k (view w)" "may_apply r k" "settled (cudnObject (rsNetwork (rtgSpec r))) k (view w)"
      "not_deleting ra_key k \<longrightarrow> not_deleting ra_key (view w)"
  shows "wp (RoutingAdvertise lib c (routingApplied lib r))
    (\<lambda>res w'. routing_outcome lib c view r k res (view w') \<and> routing_writes r k (view w'))
    (\<lambda>_ w'. routing_writes r k (view w')) w"
  unfolding RoutingAdvertise_def wp_branch
proof (rule wp_recall, unfold EnsureRouteAdvertisements_def [of lib c], rule wp_createOrUpdate [OF laws(1)], safe)
  fix e w1
  assume only: "changes_only {key_of raObject} (view w) (view w1)" and "createOrUpdate lib c raObject w = (Inl e, w1)"
  then have "routing_failure lib c view r k ConditionRouteAdvertisementsCreated ''RAFailed''
      (Sprintf [''failed to ensure RouteAdvertisements: '', Error e])"
    using pre(2,3) by (intro ra_failed [where view = view and ?w1.0 = w and ?w2.0 = w1]) (auto simp: EnsureRouteAdvertisements_def)
  moreover have "routing_writes r k (view w1)" by (rule routing_writes_objects [OF pre(1) only _ pre(2)]) simp
  ultimately show "wp (RoutingSetDegraded lib c (routingApplied lib r) ConditionRouteAdvertisementsCreated ''RAFailed''
      (Sprintf [''failed to ensure RouteAdvertisements: '', Error e]))
    (\<lambda>res w'. routing_outcome lib c view r k res (view w') \<and> routing_writes r k (view w'))
    (\<lambda>_ w'. routing_writes r k (view w')) w1"
    by (intro wp_degrade_outcome [OF laws]) simp_all
next
  fix w1
  assume put: "put_effect raObject (view w) (view w1)"
  have ra: "settled raObject k (view w1)" using put_effect_present [OF put] pre(4) by (simp add: settled_def)
  have cudn: "settled (cudnObject (rsNetwork (rtgSpec r))) k (view w1)"
    using present_other [OF put_effect_only [OF put]] pre(3) by (simp add: settled_def)
  have w1: "routing_writes r k (view w1)"
    by (rule routing_writes_objects [OF pre(1) put_effect_only [OF put] _ pre(2)]) simp
  let ?r = "routingReady lib (routingApplied lib r)"
  have writes: "routing_writes r k (view w')" if "routing_status_effect ?r (view w1) (view w')" for w'
    by (rule routing_writes_status [OF w1 that]) simp
  have outcome: "routing_outcome lib c view r k \<lparr>RequeueAfter = 5 * Minute\<rparr> (view w')"
    if eff: "routing_status_effect ?r (view w1) (view w')" for w'
  proof -
    obtain st where st: "fmlookup (kRoutings (view w')) (rtgName r) = Some st" "rtgStatus st = rtgStatus ?r"
      and same: "kObjects (view w') = kObjects (view w1)"
      using status_effect_stored [OF eff] by (metis routing_meta(3,4))
    have "settled (cudnObject (rsNetwork (rtgSpec r))) k (view w')" "settled raObject k (view w')"
      using cudn ra same by (simp_all add: settled_def present_def)
    with st show ?thesis
      using ready_conditions [OF laws(2), of r] pre(2) by (simp add: routing_outcome_def)
  qed
  show "wp (bindA (updateRoutingStatus c ?r) (\<lambda>_. returnA \<lparr>RequeueAfter = 5 * Minute\<rparr>))
    (\<lambda>res w'. routing_outcome lib c view r k res (view w') \<and> routing_writes r k (view w'))
    (\<lambda>_ w'. routing_writes r k (view w')) w1"
    unfolding wp_eta
    by (rule wp_updateRoutingStatus [OF laws(1)]) (use writes outcome w1 in auto)
qed

lemma wp_RoutingApply:
  assumes laws: "kube_laws lib c view" "lib_laws lib"
    and k: "view w = k" and pre: "unique_network r k" "config_ready k"
  shows "wp (RoutingApply lib c r)
    (\<lambda>res w'. routing_outcome lib c view r k res (view w') \<and> routing_writes r k (view w'))
    (\<lambda>_ w'. routing_writes r k (view w')) w"
proof -
  let ?Q = "\<lambda>res w'. routing_outcome lib c view r k res (view w') \<and> routing_writes r k (view w')"
  let ?E = "\<lambda>_ w'. routing_writes r k (view w')"
  let ?obj = "cudnObject (rsNetwork (rtgSpec r))"
  have degrade: "wp (RoutingSetDegraded lib c r ConditionCUDNCreated ''NamespaceNotReady''
      (Sprintf [''namespace validation failed: '', Error e])) ?Q ?E w1"
    if "view w1 = view w" and "ValidateNamespaceLabels c (rtgNetwork r) w = (Inl e, w1)"
      and "\<not> labelled_namespace (rtgNetwork r) k \<or>
        listNamespaces c (fmap_of_list [(LabelPrimaryUDN, []), (LabelCUDN, rtgNetwork r)]) w = (Inl e, w1)" for e w1
    using that k no_namespace [OF pre, where view = view and ?w1.0 = w and ?w2.0 = w1 and c = c and err = e]
    by (intro wp_degrade_outcome [OF laws]) simp_all
  have ensure: "wp (EnsureCUDN lib c r) (\<lambda>_. wp (RoutingAdvertise lib c (routingApplied lib r)) ?Q ?E)
      (\<lambda>err. wp (RoutingSetDegraded lib c r ConditionCUDNCreated ''CUDNFailed''
         (Sprintf [''failed to ensure CUDN: '', Error err])) ?Q ?E) w1"
    if "labelled_namespace (rtgNetwork r) (view w)" and w1: "view w1 = view w" for w1
  proof (rule wp_recall, unfold EnsureCUDN_def [of lib c r], rule wp_createOrUpdate [OF laws(1)])
    have may: "may_apply r k" using that(1) pre k by (simp add: may_apply_def labelled_namespace_def)
    fix err w2
    assume only: "changes_only {key_of ?obj} (view w1) (view w2)"
    have "wp (RoutingSetDegraded lib c r ConditionCUDNCreated ''CUDNFailed''
        (Sprintf [''failed to ensure CUDN: '', Error err])) ?Q ?E w2" if "EnsureCUDN lib c r w1 = (Inl err, w2)"
      by (rule wp_degrade_outcome [OF laws cudn_failed [OF may _ refl that] routing_writes_objects [OF _ only _ may]])
        (simp_all add: w1 k)
    then show "createOrUpdate lib c ?obj w1 = (Inl err, w2) \<longrightarrow> wp (RoutingSetDegraded lib c r ConditionCUDNCreated ''CUDNFailed''
        (Sprintf [''failed to ensure CUDN: '', Error err])) ?Q ?E w2"
      by (simp add: EnsureCUDN_def)
  next
    have may: "may_apply r k" using that(1) pre k by (simp add: may_apply_def labelled_namespace_def)
    fix w2
    assume put: "put_effect ?obj (view w1) (view w2)"
    have "wp (RoutingAdvertise lib c (routingApplied lib r)) ?Q ?E w2"
    proof (rule wp_RoutingAdvertise [OF laws _ may])
      show "routing_writes r k (view w2)"
        by (rule routing_writes_objects [OF _ put_effect_only [OF put] _ may]) (simp_all add: w1 k)
      show "settled ?obj k (view w2)" using put_effect_present [OF put] w1 k by (simp add: settled_def)
      show "not_deleting ra_key k \<longrightarrow> not_deleting ra_key (view w2)"
        using not_deleting_other [OF put_effect_only [OF put]] w1 k by simp
    qed
    then show "createOrUpdate lib c ?obj w1 = (Inr (), w2) \<longrightarrow> wp (RoutingAdvertise lib c (routingApplied lib r)) ?Q ?E w2" ..
  qed
  show ?thesis
    unfolding RoutingApply_def wp_eta
    by (rule wp_recall, rule wp_ValidateNamespaceLabels [OF laws(1)])
      (use ensure degrade k in \<open>simp_all add: labelled_namespace_def\<close>)
qed

lemma wp_RoutingChecks:
  assumes laws: "kube_laws lib c view" "lib_laws lib" and k: "view w = k"
  shows "wp (RoutingChecks lib c r)
    (\<lambda>res w'. routing_outcome lib c view r k res (view w') \<and> routing_writes r k (view w'))
    (\<lambda>_ w'. routing_writes r k (view w')) w"
  unfolding RoutingChecks_def wp_bind
proof (rule wp_read [OF kube_lawsD(5) [OF laws(1)]])
  fix items w1
  assume items: "set items = fmran' (kRoutings (view w))" and w1: "view w1 = view w"
  let ?dup = "\<lambda>other. rtgName other \<noteq> rtgName r \<and> rtgNetwork other = rtgNetwork r"
  show "wp (case find ?dup items of
       Some other \<Rightarrow> RoutingSetDegraded lib c r ConditionCUDNCreated ''DuplicateNetwork''
         (Sprintf [''spec.network.name '', quote (rtgNetwork r), '' already claimed by CUDNBgpRouting '', quote (rtgName other)])
     | None \<Rightarrow> branchA (getConfig c SingletonName) (\<lambda>_. RoutingSetPending c r)
         (\<lambda>bgpConfig. if ctPhase (cfgStatus bgpConfig) \<noteq> PhaseReady then RoutingSetPending c r else RoutingApply lib c r))
    (\<lambda>res w'. routing_outcome lib c view r k res (view w') \<and> routing_writes r k (view w'))
    (\<lambda>_ w'. routing_writes r k (view w')) w1"
  proof (cases "find ?dup items")
    case (Some other)
    then have "other \<in> fmran' (kRoutings k)" "rtgName other \<noteq> rtgName r" "rtgNetwork other = rtgNetwork r"
      using items k by (auto simp: find_Some_iff)
    from wp_degrade_outcome [OF laws routing_failure.duplicate [OF this], of w1 r] Some show ?thesis
      using w1 k by simp
  next
    case None
    then have unique: "unique_network r k"
      using items k by (auto simp: find_None_iff unique_network_def)
    show ?thesis
      unfolding None option.case wp_branch
    proof (rule wp_recall, rule wp_get [OF kube_lawsD(1) [OF laws(1)]])
      fix cfg w2
      assume "fmlookup (kConfigs (view w1)) SingletonName = Some cfg" and "view w2 = view w1"
      then have "wp (if ctPhase (cfgStatus cfg) \<noteq> PhaseReady then RoutingSetPending c r else RoutingApply lib c r)
        (\<lambda>res w'. routing_outcome lib c view r k res (view w') \<and> routing_writes r k (view w'))
        (\<lambda>_ w'. routing_writes r k (view w')) w2"
        using w1 k unique
        by (auto intro!: wp_pending_outcome [OF laws(1)] wp_RoutingApply [OF laws] simp: config_ready_def routing_waits_def)
      then show "getConfig c SingletonName w1 = (Inr cfg, w2) \<longrightarrow>
        wp (if ctPhase (cfgStatus cfg) \<noteq> PhaseReady then RoutingSetPending c r else RoutingApply lib c r)
        (\<lambda>res w'. routing_outcome lib c view r k res (view w') \<and> routing_writes r k (view w'))
        (\<lambda>_ w'. routing_writes r k (view w')) w2" ..
    next
      fix err w2
      assume nf: "IsNotFound lib err \<longrightarrow> fmlookup (kConfigs (view w1)) SingletonName = None" and w2: "view w2 = view w1"
      have waits: "routing_waits lib c view r k" if "getConfig c SingletonName w1 = (Inl err, w2)"
        using that nf unique w1 k unfolding routing_waits_def config_ready_def by (metis option.distinct(1))
      show "getConfig c SingletonName w1 = (Inl err, w2) \<longrightarrow> wp (RoutingSetPending c r)
        (\<lambda>res w'. routing_outcome lib c view r k res (view w') \<and> routing_writes r k (view w'))
        (\<lambda>_ w'. routing_writes r k (view w')) w2"
        by (intro impI wp_pending_outcome [OF laws(1)] waits) (use w1 w2 k in simp_all)
    qed
  qed
qed (simp add: k)

section \<open>The finalizer\<close>

text \<open>\<open>r1\<close> is \<open>r\<close> with the finalizer, in memory and in the cluster \<open>k1\<close>; nothing else has changed.\<close>

definition finalized :: "CUDNBgpRouting \<Rightarrow> cluster \<Rightarrow> CUDNBgpRouting \<Rightarrow> cluster \<Rightarrow> bool" where
  "finalized r k r1 k1 \<longleftrightarrow>
     rtgName r1 = rtgName r \<and> rtgSpec r1 = rtgSpec r \<and>
     metaGeneration (rtgMeta r1) = metaGeneration (rtgMeta r) \<and>
     RoutingFinalizerName \<in> set (metaFinalizers (rtgMeta r1)) \<and>
     fmlookup (kRoutings k1) (rtgName r) = Some r1 \<and>
     (\<forall>n. n \<noteq> rtgName r \<longrightarrow> fmlookup (kRoutings k1) n = fmlookup (kRoutings k) n) \<and>
     kObjects k1 = kObjects k \<and> kConfigs k1 = kConfigs k \<and> kNamespaces k1 = kNamespaces k \<and>
     kPods k1 = kPods k \<and> kNodes k1 = kNodes k"

definition only_routing :: "string \<Rightarrow> cluster \<Rightarrow> cluster \<Rightarrow> bool" where
  "only_routing name k k' \<longleftrightarrow>
     kObjects k' = kObjects k \<and> kConfigs k' = kConfigs k \<and> kNamespaces k' = kNamespaces k \<and>
     kPods k' = kPods k \<and> kNodes k' = kNodes k \<and>
     (\<forall>n. n \<noteq> name \<longrightarrow> fmlookup (kRoutings k') n = fmlookup (kRoutings k) n)"

lemma update_routing_only: "update_routing_effect x r1 k k1 \<Longrightarrow> only_routing (rtgName x) k k1"
  by (auto simp: update_routing_effect_def only_routing_def split: if_splits)

text \<open>
  The routing stays with its spec and its finalizer, and the finalizer is there before any object
  is written.
\<close>

definition routing_guard :: "CUDNBgpRouting \<Rightarrow> cluster \<Rightarrow> cluster \<Rightarrow> bool" where
  "routing_guard r k k' \<longleftrightarrow>
     (\<exists>st. fmlookup (kRoutings k') (rtgName r) = Some st \<and> rtgName st = rtgName r \<and> rtgSpec st = rtgSpec r \<and>
        (RoutingFinalizerName \<in> set (metaFinalizers (rtgMeta r)) \<or> kObjects k' \<noteq> kObjects k \<longrightarrow>
          RoutingFinalizerName \<in> set (metaFinalizers (rtgMeta st))))"

lemma wp_ensureRoutingFinalizer:
  assumes laws: "kube_laws lib c view" "lib_laws lib"
    and r: "fmlookup (kRoutings (view w)) (rtgName r) = Some r" "metaDeletionTimestamp (rtgMeta r) = None"
  shows "wp (ensureRoutingFinalizer lib c r) (\<lambda>r1 w'. finalized r (view w) r1 (view w'))
    (\<lambda>_ w'. only_routing (rtgName r) (view w) (view w') \<and> routing_guard r (view w) (view w')) w"
proof (cases "ContainsFinalizer lib (metaFinalizers (rtgMeta r)) RoutingFinalizerName")
  case True
  then show ?thesis
    using r(1) by (simp add: ensureRoutingFinalizer_def wp_return finalized_def lib_lawsD [OF laws(2)])
next
  case False
  let ?x = "r\<lparr>rtgMeta := (rtgMeta r)\<lparr>metaFinalizers :=
      AddFinalizer lib (metaFinalizers (rtgMeta r)) RoutingFinalizerName\<rparr>\<rparr>"
  have fin: "finalized r (view w) r1 (view w')" if "update_routing_effect ?x r1 (view w) (view w')" for r1 w'
    using that r by (auto simp: update_routing_effect_def finalized_def lib_lawsD [OF laws(2)])
  have guard: "routing_guard r (view w) (view w')" if "update_routing_effect ?x r1 (view w) (view w')" for r1 w'
    using fin [OF that] by (simp add: routing_guard_def finalized_def)
  have only: "only_routing (rtgName r) (view w) (view w')" if "update_routing_effect ?x r1 (view w) (view w')" for r1 w'
    using update_routing_only [OF that] by simp
  have "wp (updateRouting c ?x) (\<lambda>r1 w'. finalized r (view w) r1 (view w'))
    (\<lambda>_ w'. only_routing (rtgName r) (view w) (view w') \<and> routing_guard r (view w) (view w')) w"
    by (rule wp_write [OF kube_lawsD(6) [OF laws(1)]]) (use fin only guard r in \<open>auto simp: only_routing_def routing_guard_def\<close>)
  with False show ?thesis by (simp add: ensureRoutingFinalizer_def)
qed

lemma unique_network_cong:
  assumes "routings_keyed k" and "finalized r k r1 k1" and "unique_network r' k1"
    and "rtgName r' = rtgName r" "rtgSpec r' = rtgSpec r"
  shows "unique_network r k"
  unfolding unique_network_def
proof (intro ballI impI)
  fix other
  assume "other \<in> fmran' (kRoutings k)" and other: "rtgName other \<noteq> rtgName r"
  then obtain n where n: "fmlookup (kRoutings k) n = Some other" by (auto simp: fmlookup_ran'_iff)
  with assms(1) have "n = rtgName other" by (auto simp: routings_keyed_def)
  with other n assms(2) have "fmlookup (kRoutings k1) n = Some other" by (auto simp: finalized_def)
  then have "other \<in> fmran' (kRoutings k1)" by (rule fmran'I)
  with assms(3-5) other show "rtgNetwork other \<noteq> rtgNetwork r" by (auto simp: unique_network_def)
qed

lemma may_apply_cong:
  assumes "routings_keyed k" and "finalized r k r1 k1" and "may_apply r' k1"
    and "rtgName r' = rtgName r" "rtgSpec r' = rtgSpec r"
  shows "may_apply r k"
  using assms unique_network_cong [OF assms(1,2) _ assms(4,5)]
  by (auto simp: may_apply_def finalized_def config_ready_def)

text \<open>The reasons for a report are the same before the finalizer was added.\<close>

lemma routing_failure_cong:
  assumes "routings_keyed k" and fin: "finalized r k r1 k1" and "routing_failure lib c view r' k1 t re m"
    and same: "rtgName r' = rtgName r" "rtgSpec r' = rtgSpec r"
  shows "routing_failure lib c view r k t re m"
  using assms(3)
proof (cases rule: routing_failure.cases)
  case (duplicate other)
  then obtain n where n: "fmlookup (kRoutings k1) n = Some other" by (auto simp: fmlookup_ran'_iff)
  then have "n \<noteq> rtgName r" using duplicate(5) fin same by (auto simp: finalized_def)
  then have "other \<in> fmran' (kRoutings k)" using n fin by (auto simp: finalized_def intro: fmran'I)
  then show ?thesis using duplicate same routing_failure.duplicate [of other k r lib c view] by simp
next
  case (no_namespace w1 err w2)
  then show ?thesis
    using unique_network_cong [OF assms(1) fin _ same] fin same
      routing_failure.no_namespace [of r k view w1 c err w2 lib]
    by (simp add: finalized_def config_ready_def labelled_namespace_def)
next
  case (cudn_failed w1 r2 err w2)
  then show ?thesis
    using may_apply_cong [OF assms(1) fin _ same] fin same routing_failure.cudn_failed [of r k view w1 r2 lib c err w2]
    by (simp add: finalized_def)
next
  case (ra_failed w1 err w2)
  then show ?thesis
    using may_apply_cong [OF assms(1) fin _ same] fin same routing_failure.ra_failed [of r k view w1 lib c err w2]
    by (simp add: finalized_def settled_def not_deleting_def)
qed

lemma routing_waits_cong:
  assumes "routings_keyed k" and "finalized r k r1 k1" and "routing_waits lib c view r' k1"
    and "rtgName r' = rtgName r" "rtgSpec r' = rtgSpec r"
  shows "routing_waits lib c view r k"
  using assms unique_network_cong [OF assms(1,2) _ assms(4,5)]
  by (auto simp: routing_waits_def finalized_def config_ready_def)

lemma is_degraded_mono: "is_degraded P st \<Longrightarrow> (\<And>t re m. P t re m \<Longrightarrow> Q t re m) \<Longrightarrow> is_degraded Q st"
  unfolding is_degraded_def by blast

section \<open>The whole reconciliation\<close>

text \<open>The final state of a run on a routing that is not being deleted.\<close>

definition routing_report :: "kubeLib \<Rightarrow> 'w client \<Rightarrow> ('w \<Rightarrow> cluster) \<Rightarrow> CUDNBgpRouting \<Rightarrow> cluster \<Rightarrow> Result \<Rightarrow> cluster \<Rightarrow> bool" where
  "routing_report lib c view r k res k' \<longleftrightarrow>
     (\<exists>st. fmlookup (kRoutings k') (rtgName r) = Some st \<and> rtgSpec st = rtgSpec r \<and>
        RoutingFinalizerName \<in> set (metaFinalizers (rtgMeta st)) \<and>
        rtObservedGeneration (rtgStatus st) = metaGeneration (rtgMeta r) \<and>
        (res = \<lparr>RequeueAfter = 30 * Second\<rparr> \<and> is_degraded (routing_failure lib c view r k) (rtgStatus st) \<or>
         res = \<lparr>RequeueAfter = 10 * Second\<rparr> \<and> is_pending (rtgStatus st) \<and> kObjects k' = kObjects k \<and> routing_waits lib c view r k \<or>
         res = \<lparr>RequeueAfter = 5 * Minute\<rparr> \<and> is_ready (rtgStatus st) \<and> may_apply r k \<and>
           settled (cudnObject (rsNetwork (rtgSpec r))) k k' \<and> settled raObject k k'))"

definition routing_safe :: "CUDNBgpRouting \<Rightarrow> cluster \<Rightarrow> cluster \<Rightarrow> bool" where
  "routing_safe r k k' \<longleftrightarrow>
     (\<forall>key. key \<notin> {cudn_key (rtgNetwork r), ra_key} \<longrightarrow> fmlookup (kObjects k') key = fmlookup (kObjects k) key) \<and>
     (kObjects k' \<noteq> kObjects k \<longrightarrow> may_apply r k) \<and>
     kConfigs k' = kConfigs k \<and> kNamespaces k' = kNamespaces k \<and> kPods k' = kPods k \<and> kNodes k' = kNodes k \<and>
     (\<forall>n. n \<noteq> rtgName r \<longrightarrow> fmlookup (kRoutings k') n = fmlookup (kRoutings k) n) \<and> routing_guard r k k'"

lemma routing_coreD:
  assumes "routing_core a = routing_core b"
  shows "rtgSpec a = rtgSpec b" "metaFinalizers (rtgMeta a) = metaFinalizers (rtgMeta b)" "rtgName a = rtgName b"
proof -
  have meta: "(rtgMeta a)\<lparr>metaResourceVersion := []\<rparr> = (rtgMeta b)\<lparr>metaResourceVersion := []\<rparr>"
    and "rtgSpec a = rtgSpec b"
    using assms by (simp_all add: routing_core_def)
  from meta have "metaFinalizers ((rtgMeta a)\<lparr>metaResourceVersion := []\<rparr>) = metaFinalizers ((rtgMeta b)\<lparr>metaResourceVersion := []\<rparr>)"
    and "metaName ((rtgMeta a)\<lparr>metaResourceVersion := []\<rparr>) = metaName ((rtgMeta b)\<lparr>metaResourceVersion := []\<rparr>)"
    by simp_all
  then show "metaFinalizers (rtgMeta a) = metaFinalizers (rtgMeta b)" "rtgName a = rtgName b" by simp_all
  show "rtgSpec a = rtgSpec b" by fact
qed

lemma routing_report_intro:
  assumes keyed: "routings_keyed k" and fin: "finalized r k r1 k1"
    and out: "routing_outcome lib c view (configuringRouting r1) k1 res k'" and wr: "routing_writes (configuringRouting r1) k1 k'"
  shows "routing_report lib c view r k res k'"
proof -
  let ?r = "configuringRouting r1"
  have name: "rtgName ?r = rtgName r" "rtgSpec ?r = rtgSpec r" using fin by (simp_all add: finalized_def)
  from out obtain st where st: "fmlookup (kRoutings k') (rtgName r) = Some st"
    "rtObservedGeneration (rtgStatus st) = metaGeneration (rtgMeta r)"
    and cases: "res = \<lparr>RequeueAfter = 30 * Second\<rparr> \<and> is_degraded (routing_failure lib c view ?r k1) (rtgStatus st) \<or>
         res = \<lparr>RequeueAfter = 10 * Second\<rparr> \<and> is_pending (rtgStatus st) \<and> kObjects k' = kObjects k1 \<and>
           routing_waits lib c view ?r k1 \<or>
         res = \<lparr>RequeueAfter = 5 * Minute\<rparr> \<and> is_ready (rtgStatus st) \<and> may_apply ?r k1 \<and>
           settled (cudnObject (rsNetwork (rtgSpec ?r))) k1 k' \<and> settled raObject k1 k'"
    using fin by (auto simp: routing_outcome_def finalized_def)
  have "map_option routing_core (fmlookup (kRoutings k') (rtgName r)) =
      map_option routing_core (fmlookup (kRoutings k1) (rtgName r))"
    using wr name by (simp add: routing_writes_def routing_evolves_def)
  then have core: "routing_core st = routing_core r1" using st fin by (simp add: finalized_def)
  then have "rtgSpec st = rtgSpec r1" "metaFinalizers (rtgMeta st) = metaFinalizers (rtgMeta r1)"
    using routing_coreD by blast+
  moreover have "kObjects k1 = kObjects k" using fin by (simp add: finalized_def)
  moreover from this have "settled obj k1 k' = settled obj k k'" for obj by (simp add: settled_def not_deleting_def)
  ultimately show ?thesis
    using st cases name fin may_apply_cong [OF keyed fin _ name] routing_waits_cong [OF keyed fin _ name, of lib c view]
      is_degraded_mono [of "routing_failure lib c view ?r k1" "rtgStatus st" "routing_failure lib c view r k"]
      routing_failure_cong [OF keyed fin _ name, of lib c view]
    unfolding routing_report_def finalized_def by auto
qed

lemma routing_safe_intro:
  assumes keyed: "routings_keyed k" and fin: "finalized r k r1 k1" and wr: "routing_writes (configuringRouting r1) k1 k'"
  shows "routing_safe r k k'"
proof -
  let ?r = "configuringRouting r1"
  have name: "rtgName ?r = rtgName r" "rtgSpec ?r = rtgSpec r" using fin by (simp_all add: finalized_def)
  have "map_option routing_core (fmlookup (kRoutings k') (rtgName r)) =
      map_option routing_core (fmlookup (kRoutings k1) (rtgName r))"
    using wr name by (simp add: routing_writes_def routing_evolves_def)
  moreover have stored: "fmlookup (kRoutings k1) (rtgName r) = Some r1" using fin by (simp add: finalized_def)
  ultimately obtain st where st: "fmlookup (kRoutings k') (rtgName r) = Some st" and core: "routing_core st = routing_core r1"
    by auto
  have "routing_guard r k k'"
    unfolding routing_guard_def using st fin by (intro exI [of _ st]) (simp add: finalized_def routing_coreD [OF core])
  then show ?thesis
    using wr fin name may_apply_cong [OF keyed fin _ name]
    unfolding routing_safe_def routing_writes_def routing_evolves_def finalized_def by auto
qed

lemma wp_RoutingReconcile:
  assumes laws: "kube_laws lib c view" "lib_laws lib" and keyed: "routings_keyed (view w)"
    and r: "fmlookup (kRoutings (view w)) name = Some r" "metaDeletionTimestamp (rtgMeta r) = None"
  shows "wp (RoutingReconcile lib c name)
    (\<lambda>res w'. routing_report lib c view r (view w) res (view w') \<and> routing_safe r (view w) (view w'))
    (\<lambda>_ w'. routing_safe r (view w) (view w')) w"
  unfolding RoutingReconcile_def wp_branch
proof (rule wp_get [OF kube_lawsD(4) [OF laws(1)]])
  let ?Q = "\<lambda>res w'. routing_report lib c view r (view w) res (view w') \<and> routing_safe r (view w) (view w')"
  let ?E = "\<lambda>_ w'. routing_safe r (view w) (view w')"
  fix a w1
  assume "fmlookup (kRoutings (view w)) name = Some a" and w1: "view w1 = view w"
  then have a: "a = r" and name: "rtgName r = name" using r keyed by (auto simp: routings_keyed_def)
  have checks: "wp (RoutingChecks lib c (configuringRouting r1)) ?Q ?E w2"
    if fin: "finalized r (view w) r1 (view w2)" for r1 w2
    using wp_RoutingChecks [OF laws refl]
    by (rule wp_mono) (use routing_report_intro [OF keyed fin] routing_safe_intro [OF keyed fin] in auto)
  have "wp (ensureRoutingFinalizer lib c r) (\<lambda>r1. wp (RoutingChecks lib c (configuringRouting r1)) ?Q ?E) ?E w1"
    by (rule wp_mono [OF wp_ensureRoutingFinalizer [OF laws, of w1 r]])
      (use r name w1 checks in \<open>auto simp: only_routing_def routing_safe_def\<close>)
  then show "wp (if metaDeletionTimestamp (rtgMeta a) \<noteq> None then RoutingReconcileDelete lib c a
      else bindA (ensureRoutingFinalizer lib c a) (\<lambda>routing. RoutingChecks lib c (configuringRouting routing))) ?Q ?E w1"
    using r(2) by (simp add: a wp_eta)
next
  fix e w1
  assume "IsNotFound lib e \<longrightarrow> fmlookup (kRoutings (view w)) name = None" and "view w1 = view w"
  then show "wp (if IsNotFound lib e then returnA emptyResult else throwA e)
    (\<lambda>res w'. routing_report lib c view r (view w) res (view w') \<and> routing_safe r (view w) (view w'))
    (\<lambda>_ w'. routing_safe r (view w) (view w')) w1"
    using r(1) keyed by (auto simp: wp_simps routing_safe_def routing_guard_def routings_keyed_def)
qed

text \<open>
  C3. What the answer means. A successful reconciliation of a routing that is not being deleted
  leaves it in the cluster with its spec, the finalizer and the observed generation, and its answer
  and its status agree: \<open>Ready\<close> only when the network name is claimed by no other routing, the
  configuration is ready, a namespace is labelled for the network, and both the user-defined network
  and the RouteAdvertisements are in place as specified (unless they were being deleted), with both
  conditions true; \<open>Pending\<close>, with no conditions and no object touched, only when the network name is
  unique and the configuration is missing, not ready, or could not be read; \<open>Degraded\<close> only for one of
  the reasons of \<open>routing_failure\<close>, which the false condition names with its reason and message:
  another routing claims the network name, no namespace is labelled (or listing them failed), or a call
  that writes the network or the RouteAdvertisements failed after all preconditions had held. No other
  outcome exists.
\<close>

theorem RoutingReconcile_outcome:
  assumes "kube_laws lib c view" and "lib_laws lib" and "routings_keyed (view w)"
    and "fmlookup (kRoutings (view w)) name = Some r" and "metaDeletionTimestamp (rtgMeta r) = None"
    and "RoutingReconcile lib c name w = (Inr res, w')"
  shows "routing_report lib c view r (view w) res (view w')"
  using wp_InrD [OF wp_RoutingReconcile [OF assms(1-5)] assms(6)] by simp


section \<open>Deletion of a routing\<close>

definition last_routing :: "CUDNBgpRouting \<Rightarrow> cluster \<Rightarrow> bool" where
  "last_routing r k \<longleftrightarrow> (\<forall>other \<in> fmran' (kRoutings k). rtgName other = rtgName r)"

text \<open>An object deleted from \<open>k\<close>: gone, or waiting for finalizers it had.\<close>

definition deleted :: "ukey \<Rightarrow> cluster \<Rightarrow> cluster \<Rightarrow> bool" where
  "deleted key k k' \<longleftrightarrow>
     gone key k' \<and>
     ((\<forall>old. fmlookup (kObjects k) key = Some old \<longrightarrow> uoFinalizers old = []) \<longrightarrow> fmlookup (kObjects k') key = None)"

definition routing_cleaned :: "CUDNBgpRouting \<Rightarrow> cluster \<Rightarrow> cluster \<Rightarrow> bool" where
  "routing_cleaned r k k' \<longleftrightarrow>
     deleted (cudn_key (rtgNetwork r)) k k' \<and>
     (if last_routing r k then deleted ra_key k k' else fmlookup (kObjects k') ra_key = fmlookup (kObjects k) ra_key)"

definition routing_released :: "CUDNBgpRouting \<Rightarrow> cluster \<Rightarrow> bool" where
  "routing_released r k' \<longleftrightarrow>
     (case fmlookup (kRoutings k') (rtgName r) of
        None \<Rightarrow> True | Some st \<Rightarrow> RoutingFinalizerName \<notin> set (metaFinalizers (rtgMeta st)))"

text \<open>
  The two objects of the routing are all that changes, they are at most deleted, the shared one only
  for the last routing; and the routing itself changes only at the very end.
\<close>

definition deletes_objects :: "CUDNBgpRouting \<Rightarrow> cluster \<Rightarrow> cluster \<Rightarrow> bool" where
  "deletes_objects r k k' \<longleftrightarrow>
     (\<forall>key. fmlookup (kObjects k') key \<noteq> fmlookup (kObjects k) key \<longrightarrow>
        gone key k' \<and> (key = cudn_key (rtgNetwork r) \<or> key = ra_key \<and> last_routing r k))"

definition delete_safe :: "CUDNBgpRouting \<Rightarrow> cluster \<Rightarrow> cluster \<Rightarrow> bool" where
  "delete_safe r k k' \<longleftrightarrow>
     deletes_objects r k k' \<and> (kRoutings k' \<noteq> kRoutings k \<longrightarrow> routing_cleaned r k k') \<and>
     kConfigs k' = kConfigs k \<and> kNamespaces k' = kNamespaces k \<and> kPods k' = kPods k \<and> kNodes k' = kNodes k \<and>
     (\<forall>n. n \<noteq> rtgName r \<longrightarrow> fmlookup (kRoutings k') n = fmlookup (kRoutings k) n)"

lemma delete_safe_other:
  assumes "delete_safe r k k'" and "key \<noteq> cudn_key (rtgNetwork r)" and "key \<noteq> ra_key"
  shows "fmlookup (kObjects k') key = fmlookup (kObjects k) key"
  using assms unfolding delete_safe_def deletes_objects_def by blast

text \<open>What holds until the finalizer is removed.\<close>

definition deleting_objects :: "CUDNBgpRouting \<Rightarrow> cluster \<Rightarrow> cluster \<Rightarrow> bool" where
  "deleting_objects r k k' \<longleftrightarrow> deletes_objects r k k' \<and> changes_only UNIV k k'"

lemma deleting_objects_safe: "deleting_objects r k k' \<Longrightarrow> delete_safe r k k'"
  by (simp add: deleting_objects_def delete_safe_def changes_only_def)

lemma deleting_objects_delete:
  assumes "deleting_objects r k k1" and "changes_only {key} k1 k2" and "k2 = k1 \<or> gone key k2"
    and "key = cudn_key (rtgNetwork r) \<or> key = ra_key \<and> last_routing r k"
  shows "deleting_objects r k k2"
proof -
  have "changes_only UNIV k k2"
    using assms(1,2) by (simp add: deleting_objects_def changes_only_def)
  moreover have "deletes_objects r k k2"
    unfolding deletes_objects_def
  proof (intro allI impI)
    fix key'
    assume changed: "fmlookup (kObjects k2) key' \<noteq> fmlookup (kObjects k) key'"
    show "gone key' k2 \<and> (key' = cudn_key (rtgNetwork r) \<or> key' = ra_key \<and> last_routing r k)"
    proof (cases "key' = key \<and> k2 \<noteq> k1")
      case True
      then show ?thesis using assms(3,4) by blast
    next
      case False
      then have same: "fmlookup (kObjects k2) key' = fmlookup (kObjects k1) key'"
        using assms(2) by (auto simp: changes_only_def)
      then have "gone key' k1 \<and> (key' = cudn_key (rtgNetwork r) \<or> key' = ra_key \<and> last_routing r k)"
        using changed assms(1) by (simp add: deleting_objects_def deletes_objects_def)
      with same show ?thesis by (simp add: gone_def)
    qed
  qed
  ultimately show ?thesis by (simp add: deleting_objects_def)
qed

lemma deleting_objects_refl [simp]: "deleting_objects r k k"
  by (simp add: deleting_objects_def deletes_objects_def)

lemma deleted_other: "deleted key k k1 \<Longrightarrow> changes_only K k1 k2 \<Longrightarrow> key \<notin> K \<Longrightarrow> deleted key k k2"
  by (auto simp: deleted_def gone_def changes_only_other)

lemma deleted_later: "deleted key k1 k2 \<Longrightarrow> changes_only K k k1 \<Longrightarrow> key \<notin> K \<Longrightarrow> deleted key k k2"
  by (auto simp: deleted_def changes_only_other)

lemma wp_releaseRouting:
  assumes laws: "kube_laws lib c view" "lib_laws lib"
    and cleaned: "routing_cleaned r k (view w)"
      "deleting_objects r k (view w)"
  defines "x \<equiv> r\<lparr>rtgMeta := (rtgMeta r)\<lparr>metaFinalizers :=
      RemoveFinalizer lib (metaFinalizers (rtgMeta r)) RoutingFinalizerName\<rparr>\<rparr>"
  shows "wp (bindA (updateRouting c x) (\<lambda>_. returnA emptyResult))
    (\<lambda>res w'. routing_cleaned r k (view w') \<and> routing_released r (view w') \<and> delete_safe r k (view w'))
    (\<lambda>_ w'. delete_safe r k (view w')) w"
proof -
  have name: "rtgName x = rtgName r" by (simp add: x_def)
  have released: "routing_released r k'" if "update_routing_effect x r1 (view w) k'" for r1 k'
    using that unfolding update_routing_effect_def routing_released_def name
    by (auto simp: x_def lib_lawsD [OF laws(2)])
  have keep: "routing_cleaned r k k' \<and> delete_safe r k k'" if eff: "update_routing_effect x r1 (view w) k'" for r1 k'
  proof -
    have only: "only_routing (rtgName r) (view w) k'" using update_routing_only [OF eff] name by simp
    then have "routing_cleaned r k k'"
      using cleaned(1)
      by (cases "last_routing r k") (simp_all add: routing_cleaned_def deleted_def gone_def only_routing_def)
    then show ?thesis
      using only cleaned(2)
      by (simp add: delete_safe_def deleting_objects_def deletes_objects_def gone_def only_routing_def changes_only_def)
  qed
  have "delete_safe r k (view w)" by (rule deleting_objects_safe [OF cleaned(2)])
  then show ?thesis
    unfolding wp_eta
    by (intro wp_write [OF kube_lawsD(6) [OF laws(1)]]) (use released keep in auto)
qed

lemma wp_RoutingReconcileDelete:
  assumes laws: "kube_laws lib c view" "lib_laws lib" and k: "view w = k"
  shows "wp (RoutingReconcileDelete lib c r)
    (\<lambda>res w'. routing_cleaned r k (view w') \<and> routing_released r (view w') \<and> delete_safe r k (view w'))
    (\<lambda>_ w'. delete_safe r k (view w')) w"
  unfolding RoutingReconcileDelete_def DeleteCUDN_def wp_bind
proof (rule wp_deleteIgnoreNotFound [OF laws(1)], rule wp_read [OF kube_lawsD(5) [OF laws(1)]])
  let ?Q = "\<lambda>res w'. routing_cleaned r k (view w') \<and> routing_released r (view w') \<and> delete_safe r k (view w')"
  let ?E = "\<lambda>_ w'. delete_safe r k (view w')"
  fix w1 items w2
  assume gone: "gone (cudn_key (rtgNetwork r)) (view w1)" and only1: "changes_only {cudn_key (rtgNetwork r)} (view w) (view w1)"
    and none: "\<forall>old. fmlookup (kObjects (view w)) (cudn_key (rtgNetwork r)) = Some old \<longrightarrow> uoFinalizers old = [] \<Longrightarrow>
      fmlookup (kObjects (view w1)) (cudn_key (rtgNetwork r)) = None"
    and items: "set items = fmran' (kRoutings (view w1))" and w2: "view w2 = view w1"
  let ?x = "r\<lparr>rtgMeta := (rtgMeta r)\<lparr>metaFinalizers :=
      RemoveFinalizer lib (metaFinalizers (rtgMeta r)) RoutingFinalizerName\<rparr>\<rparr>"
  have cudn: "deleted (cudn_key (rtgNetwork r)) k (view w2)" using gone none k w2 by (simp add: deleted_def)
  have only: "changes_only {cudn_key (rtgNetwork r)} k (view w2)" using only1 k w2 by simp
  have del: "deleting_objects r k (view w2)"
    by (rule deleting_objects_delete [OF deleting_objects_refl only]) (use gone w2 in simp_all)
  have last: "length (filter (\<lambda>it. rtgName it \<noteq> rtgName r) items) = 0 \<longleftrightarrow> last_routing r k"
    using items changes_only_rest(2) [OF only1] k by (simp add: filter_empty_conv last_routing_def)
  have release: "wp (bindA (updateRouting c ?x) (\<lambda>_. returnA emptyResult)) ?Q ?E w3"
    if "routing_cleaned r k (view w3)" "deleting_objects r k (view w3)" for w3
    by (rule wp_releaseRouting [OF laws that])
  show "wp (let remaining = length (filter (\<lambda>it. rtgName it \<noteq> rtgName r) items) in
      bindA (if remaining = 0 then DeleteRouteAdvertisements lib c else returnA ()) (\<lambda>_.
      bindA (updateRouting c ?x) (\<lambda>_. returnA emptyResult))) ?Q ?E w2"
  proof (cases "last_routing r k")
    case True
    have ra: "wp (bindA (updateRouting c ?x) (\<lambda>_. returnA emptyResult)) ?Q ?E w3"
      if g: "gone ra_key (view w3)" and o3: "changes_only {ra_key} (view w2) (view w3)"
        and n: "(\<forall>old. fmlookup (kObjects (view w2)) ra_key = Some old \<longrightarrow> uoFinalizers old = []) \<Longrightarrow>
          fmlookup (kObjects (view w3)) ra_key = None" for w3
    proof (rule release)
      have "deleted ra_key (view w2) (view w3)" using g n by (simp add: deleted_def)
      then show "routing_cleaned r k (view w3)"
        using True deleted_other [OF cudn o3] deleted_later [OF _ only] by (simp add: routing_cleaned_def)
      show "deleting_objects r k (view w3)"
        by (rule deleting_objects_delete [OF del o3]) (use g True in simp_all)
    qed
    have fail: "delete_safe r k (view w3)"
      if "changes_only {ra_key} (view w2) (view w3)" "view w3 = view w2 \<or> gone ra_key (view w3)" for w3
      by (rule deleting_objects_safe [OF deleting_objects_delete [OF del that]]) (use True in simp)
    have "wp (DeleteRouteAdvertisements lib c) (\<lambda>_. wp (bindA (updateRouting c ?x) (\<lambda>_. returnA emptyResult)) ?Q ?E) ?E w2"
      unfolding DeleteRouteAdvertisements_def
      by (rule wp_deleteIgnoreNotFound [OF laws(1)]) (fact ra fail)+
    with True last show ?thesis by (simp add: Let_def wp_bind)
  next
    case False
    have "wp (bindA (updateRouting c ?x) (\<lambda>_. returnA emptyResult)) ?Q ?E w2"
    proof (rule release)
      show "routing_cleaned r k (view w2)"
        using False cudn changes_only_other [OF only, of ra_key] by (simp add: routing_cleaned_def)
    qed (rule del)
    with False last show ?thesis by (simp add: Let_def wp_bind wp_return)
  qed
next
  fix w1 and e :: go_error and w2
  assume "changes_only {cudn_key (rtgNetwork r)} (view w) (view w1)" and "gone (cudn_key (rtgNetwork r)) (view w1)"
    and "view w2 = view w1"
  then show "delete_safe r k (view w2)"
    using k by (intro deleting_objects_safe deleting_objects_delete [OF deleting_objects_refl, of "cudn_key (rtgNetwork r)"]) simp_all
next
  fix e :: go_error and w1
  assume "changes_only {cudn_key (rtgNetwork r)} (view w) (view w1)"
    and "view w1 = view w \<or> gone (cudn_key (rtgNetwork r)) (view w1)"
  then show "delete_safe r k (view w1)"
    using k by (intro deleting_objects_safe deleting_objects_delete [OF deleting_objects_refl, of "cudn_key (rtgNetwork r)"]) simp_all
qed

lemma wp_RoutingReconcile_deleting:
  assumes laws: "kube_laws lib c view" "lib_laws lib"
    and r: "fmlookup (kRoutings (view w)) name = Some r" "metaDeletionTimestamp (rtgMeta r) \<noteq> None"
  shows "wp (RoutingReconcile lib c name)
    (\<lambda>res w'. routing_cleaned r (view w) (view w') \<and> routing_released r (view w') \<and> delete_safe r (view w) (view w'))
    (\<lambda>_ w'. delete_safe r (view w) (view w')) w"
  unfolding RoutingReconcile_def wp_branch
proof (rule wp_get [OF kube_lawsD(4) [OF laws(1)]])
  fix a w1
  assume "fmlookup (kRoutings (view w)) name = Some a" and w1: "view w1 = view w"
  then have "a = r" using r(1) by simp
  with wp_RoutingReconcileDelete [OF laws w1, of r] r(2)
  show "wp (if metaDeletionTimestamp (rtgMeta a) \<noteq> None then RoutingReconcileDelete lib c a
      else bindA (ensureRoutingFinalizer lib c a) (\<lambda>routing. RoutingChecks lib c (configuringRouting routing)))
    (\<lambda>res w'. routing_cleaned r (view w) (view w') \<and> routing_released r (view w') \<and> delete_safe r (view w) (view w'))
    (\<lambda>_ w'. delete_safe r (view w) (view w')) w1"
    by simp
qed (use r(1) in \<open>auto simp: wp_simps delete_safe_def deletes_objects_def\<close>)

text \<open>
  C14. Deletion of a routing. When it succeeds, the user-defined network of the routing is gone or
  waits for its finalizers, the shared RouteAdvertisements is deleted when this is the last routing
  and untouched otherwise, and the operator's finalizer is off the routing. Whether it succeeds or
  not, the finalizer is removed only after that cleanup, and no other object, routing or
  configuration is changed.
\<close>

theorem RoutingReconcile_delete:
  assumes "kube_laws lib c view" and "lib_laws lib"
    and "fmlookup (kRoutings (view w)) name = Some r" and "metaDeletionTimestamp (rtgMeta r) \<noteq> None"
    and "RoutingReconcile lib c name w = (result, w')"
  shows "(\<forall>res. result = Inr res \<longrightarrow> routing_cleaned r (view w) (view w') \<and> routing_released r (view w')) \<and>
    delete_safe r (view w) (view w')"
  using wp_RoutingReconcile_deleting [OF assms(1-4)] assms(5) by (rule wp_runE) auto

lemma RoutingReconcile_missing:
  assumes "kube_laws lib c view" and "fmlookup (kRoutings (view w)) name = None"
    and "RoutingReconcile lib c name w = (result, w')"
  shows "view w' = view w"
proof -
  have "wp (RoutingReconcile lib c name) (\<lambda>_ w'. view w' = view w) (\<lambda>_ w'. view w' = view w) w"
    unfolding RoutingReconcile_def wp_branch
    by (rule wp_get [OF kube_lawsD(4) [OF assms(1)]]) (use assms(2) in \<open>auto simp: wp_simps\<close>)
  then show ?thesis using assms(3) by (rule wp_anyD)
qed

lemma RoutingReconcile_changes:
  assumes laws: "kube_laws lib c view" "lib_laws lib" and keyed: "routings_keyed (view w)"
    and r: "fmlookup (kRoutings (view w)) name = Some r" and run: "RoutingReconcile lib c name w = (result, w')"
  shows "if metaDeletionTimestamp (rtgMeta r) = None then routing_safe r (view w) (view w') else delete_safe r (view w) (view w')"
proof (cases "metaDeletionTimestamp (rtgMeta r)")
  case None
  have "wp (RoutingReconcile lib c name) (\<lambda>_ w'. routing_safe r (view w) (view w')) (\<lambda>_ w'. routing_safe r (view w) (view w')) w"
    using wp_RoutingReconcile [OF laws keyed r None] by (rule wp_mono) auto
  from wp_anyD [OF this run] show ?thesis using None by simp
next
  case (Some t)
  then have "wp (RoutingReconcile lib c name) (\<lambda>_ w'. delete_safe r (view w) (view w')) (\<lambda>_ w'. delete_safe r (view w) (view w')) w"
    by (intro wp_mono [OF wp_RoutingReconcile_deleting [OF laws r]]) auto
  from wp_anyD [OF this run] show ?thesis using Some by simp
qed

text \<open>
  C12. Safety of every run on every request, whether it succeeds or stops at an error, in terms of the
  Kubernetes cluster, which is all that this reconciler writes to. A request for a routing that does
  not exist changes nothing. A run on a routing that is not being deleted changes no object except the
  user-defined network of this routing and the shared RouteAdvertisements, and these only when the
  network name is unique, the configuration is ready, a namespace is labelled and the finalizer is
  already on the routing; it keeps the spec of the routing. A run on a routing under deletion at most
  deletes its network and, when it is the last routing, the RouteAdvertisements, and changes the
  routing only after that. In both cases no other routing, no configuration, namespace, pod or node is
  changed.
\<close>

theorem RoutingReconcile_safe:
  assumes "kube_laws lib c view" and "lib_laws lib" and "routings_keyed (view w)"
    and "RoutingReconcile lib c name w = (result, w')"
  shows "case fmlookup (kRoutings (view w)) name of
      None \<Rightarrow> view w' = view w
    | Some r \<Rightarrow> (if metaDeletionTimestamp (rtgMeta r) = None then routing_safe r (view w) (view w')
        else delete_safe r (view w) (view w'))"
proof (cases "fmlookup (kRoutings (view w)) name")
  case None
  then show ?thesis using RoutingReconcile_missing [OF assms(1) None assms(4)] by simp
next
  case (Some r)
  then show ?thesis using RoutingReconcile_changes [OF assms(1-3) Some assms(4)] by simp
qed

text \<open>
  C32. Deleting a routing also takes the network away from another routing that claims the same
  name: with no finalizers on the user-defined network, the object is gone although the other
  routing is still there. (The routing that came second is only marked as degraded, and its deletion
  does not ask who owns the network.)
\<close>

theorem RoutingReconcile_delete_shared_network:
  assumes "kube_laws lib c view" and "lib_laws lib"
    and "fmlookup (kRoutings (view w)) name = Some r" and "metaDeletionTimestamp (rtgMeta r) \<noteq> None"
    and "rtgName r = name" and "other \<noteq> name"
    and "fmlookup (kRoutings (view w)) other = Some r2" and "rtgNetwork r2 = rtgNetwork r"
    and "\<forall>obj. fmlookup (kObjects (view w)) (cudn_key (rtgNetwork r)) = Some obj \<longrightarrow> uoFinalizers obj = []"
    and "RoutingReconcile lib c name w = (Inr res, w')"
  shows "fmlookup (kRoutings (view w')) other = Some r2 \<and>
    fmlookup (kObjects (view w')) (cudn_key (rtgNetwork r2)) = None"
  using wp_InrD [OF wp_RoutingReconcile_deleting [OF assms(1-4)] assms(10)] assms(5-9)
  by (simp add: routing_cleaned_def deleted_def delete_safe_def)

section \<open>Watched objects\<close>

text \<open>
  A change of a user-defined network that the operator generated for a network name triggers
  the routing with that network name, when there is exactly one; and a change of an object without
  the operator's label triggers nothing.
\<close>

lemma mapCUDNToRouting_owner:
  assumes "kube_laws lib c view"
    and "stored_as (cudnObject net) obj"
    and "listRoutings c w = (Inr items, w')"
    and "rt \<in> fmran' (kRoutings (view w))" and "rtgNetwork rt = ncName net" and "unique_network rt (view w)"
  shows "fst (mapCUDNToRouting c obj w) = [rtgName rt] \<and>
    (lookup_or '''' (uoLabels other) LabelManagedBy \<noteq> LabelManagedByVal \<longrightarrow> fst (mapCUDNToRouting c other w) = [])"
proof -
  have "wp (listRoutings c) (\<lambda>items w'. set items = fmran' (kRoutings (view w))) (\<lambda>_ _. True) w"
    by (rule wp_read [OF kube_lawsD(5) [OF assms(1)]]) auto
  from wp_InrD [OF this assms(3)] have items: "set items = fmran' (kRoutings (view w))" .
  have labels: "lookup_or '''' (uoLabels obj) LabelManagedBy = LabelManagedByVal"
    using assms(2) by (simp add: stored_as_def cudnObject_def lookup_or_def LabelManagedBy_def LabelAdvertise_def)
  have name: "TrimPrefix (uoName obj) CUDNNamePrefix = ncName net"
    using assms(2) by (simp add: stored_as_def cudnObject_def key_of_def)
  obtain x where x: "find (\<lambda>rt. rtgNetwork rt = ncName net) items = Some x"
    using assms(4,5) items by (cases "find (\<lambda>rt. rtgNetwork rt = ncName net) items") (auto simp: find_None_iff)
  then have "x \<in> fmran' (kRoutings (view w))" "rtgNetwork x = ncName net"
    using items by (auto simp: find_Some_iff intro: nth_mem)
  then have "rtgName x = rtgName rt" using assms(5,6) by (auto simp: unique_network_def)
  with labels name x assms(3) show ?thesis by (simp add: mapCUDNToRouting_def Let_def)
qed

end
