(* ===== verification/Network_Operator.thy ===== *)
theory Network_Operator
  imports Kube_Client
begin

text \<open>
  \<open>internal/controller/network_operator.go\<close>: the merge patch that enables FRR and route
  advertisements in the cluster's Network operator.
\<close>

section \<open>Operation\<close>

definition networkSpecPatch :: json where
  "networkSpecPatch =
     JObj [(''additionalRoutingCapabilities'', JObj [(''providers'', JArr [JStr ''FRR''])]),
           (''defaultNetwork'', JObj [(''ovnKubernetesConfig'', JObj [(''routeAdvertisements'', JStr ''Enabled'')])])]"

definition networkPatch :: json where
  "networkPatch = JObj [(''spec'', networkSpecPatch)]"

text \<open>\<open>json.Marshal\<close> cannot fail on maps, slices and strings, so its error branch is dead.\<close>

definition PatchNetworkOperator :: "'w client \<Rightarrow> ('w, unit) act" where
  "PatchNetworkOperator c =
     (let patchBytes = Marshal networkPatch in
      mergePatch c (gvk_key NetworkGVK '''' ''cluster'') patchBytes)"

section \<open>What it achieves\<close>

abbreviation network_key :: ukey where
  "network_key \<equiv> gvk_key NetworkGVK '''' ''cluster''"

lemma merge_networkSpecPatch:
  "jget (merge_patch networkSpecPatch j) ''additionalRoutingCapabilities'' =
     Some (merge_patch (JObj [(''providers'', JArr [JStr ''FRR''])])
       (case jget j ''additionalRoutingCapabilities'' of None \<Rightarrow> JNull | Some v \<Rightarrow> v))"
  "jget (merge_patch networkSpecPatch j) ''defaultNetwork'' =
     Some (merge_patch (JObj [(''ovnKubernetesConfig'', JObj [(''routeAdvertisements'', JStr ''Enabled'')])])
       (case jget j ''defaultNetwork'' of None \<Rightarrow> JNull | Some v \<Rightarrow> v))"
  "k \<noteq> ''additionalRoutingCapabilities'' \<Longrightarrow> k \<noteq> ''defaultNetwork'' \<Longrightarrow>
     jget (merge_patch networkSpecPatch j) k = jget j k"
  by (simp_all add: networkSpecPatch_def jget_def jmembers_def map_of_jput split: json.split option.split)

text \<open>A patch with one member sets it and keeps the others.\<close>

lemma merge_single:
  assumes "v \<noteq> JNull"
  shows "jget (merge_patch (JObj [(k, v)]) j) k' =
    (if k' = k then Some (merge_patch v (case jget j k of None \<Rightarrow> JNull | Some old \<Rightarrow> old)) else jget j k')"
  using assms by (simp add: jget_def jmembers_def map_of_jput split: json.split option.split)

definition enabled_spec :: "json \<Rightarrow> bool" where
  "enabled_spec j \<longleftrightarrow>
     jpath j [''additionalRoutingCapabilities'', ''providers''] = Some (JArr [JStr ''FRR'']) \<and>
     jpath j [''defaultNetwork'', ''ovnKubernetesConfig'', ''routeAdvertisements''] = Some (JStr ''Enabled'')"

lemma enabled_spec_patch: "enabled_spec (merge_patch networkSpecPatch j)"
  by (simp add: enabled_spec_def merge_networkSpecPatch merge_single del: merge_patch.simps(1))

lemma wp_PatchNetworkOperator:
  assumes "kube_laws lib c view"
    and "\<And>w'. patch_effect network_key networkSpecPatch (view w) (view w') \<Longrightarrow> Q () w'"
    and "\<And>e w'. view w' = view w \<or> patch_effect network_key networkSpecPatch (view w) (view w') \<Longrightarrow> E e w'"
  shows "wp (PatchNetworkOperator c) Q E w"
  unfolding PatchNetworkOperator_def Let_def networkPatch_def
  by (rule wp_write [OF kube_lawsD(17) [OF assms(1)]]) (use assms(2,3) in auto)

text \<open>
  When the patch succeeds, the Network operator's configuration existed, its spec now has FRR
  as the routing provider and route advertisements enabled, every other member of the spec, of
  \<open>additionalRoutingCapabilities\<close>, of \<open>defaultNetwork\<close> and of \<open>ovnKubernetesConfig\<close> is kept, and no
  other object of the cluster has changed.
\<close>

lemma PatchNetworkOperator_enables:
  assumes "kube_laws lib c view" and "PatchNetworkOperator c w = (Inr (), w')"
  shows "\<exists>old new. fmlookup (kObjects (view w)) network_key = Some old \<and>
    fmlookup (kObjects (view w')) network_key = Some new \<and> enabled_spec (uoSpec new) \<and>
    (\<forall>k. k \<noteq> ''additionalRoutingCapabilities'' \<and> k \<noteq> ''defaultNetwork'' \<longrightarrow>
       jget (uoSpec new) k = jget (uoSpec old) k) \<and>
    (\<forall>d k. jget (uoSpec old) ''additionalRoutingCapabilities'' = Some d \<and> k \<noteq> ''providers'' \<longrightarrow>
       jpath (uoSpec new) [''additionalRoutingCapabilities'', k] = jget d k) \<and>
    (\<forall>d k. jget (uoSpec old) ''defaultNetwork'' = Some d \<and> k \<noteq> ''ovnKubernetesConfig'' \<longrightarrow>
       jpath (uoSpec new) [''defaultNetwork'', k] = jget d k) \<and>
    (\<forall>d k. jpath (uoSpec old) [''defaultNetwork'', ''ovnKubernetesConfig''] = Some d \<and>
         k \<noteq> ''routeAdvertisements'' \<longrightarrow>
       jpath (uoSpec new) [''defaultNetwork'', ''ovnKubernetesConfig'', k] = jget d k) \<and>
    (\<forall>key. key \<noteq> network_key \<longrightarrow> fmlookup (kObjects (view w')) key = fmlookup (kObjects (view w)) key)"
proof -
  have "wp (PatchNetworkOperator c)
      (\<lambda>_ w'. patch_effect network_key networkSpecPatch (view w) (view w')) (\<lambda>_ _. True) w"
    by (rule wp_PatchNetworkOperator [OF assms(1)]) auto
  from wp_InrD [OF this assms(2)] obtain old rv where
    old: "fmlookup (kObjects (view w)) network_key = Some old"
    and new: "view w' = (view w)\<lparr>kObjects := fmupd network_key
      (old\<lparr>uoSpec := merge_patch networkSpecPatch (uoSpec old), uoResourceVersion := rv\<rparr>) (kObjects (view w))\<rparr>"
    by (auto simp: patch_effect_def)
  show ?thesis
    using old
    by (intro exI [of _ old]
        exI [of _ "old\<lparr>uoSpec := merge_patch networkSpecPatch (uoSpec old), uoResourceVersion := rv\<rparr>"])
      (auto simp: new enabled_spec_patch merge_networkSpecPatch merge_single
        simp del: merge_patch.simps(1) split: option.splits)
qed

end
