(* ===== verification/Frr.thy ===== *)
theory Frr
  imports Object_Writer Platform
begin

text \<open>
  \<open>internal/controller/frr.go\<close>: the readiness check of FRR, the rendering of one FRRConfiguration
  per availability zone, the two ways to synchronise the set of FRRConfigurations (zones from the
  spec, zones from discovery) with pruning, and their removal. The contract is \<open>frr_synced\<close>: the
  FRRConfigurations of the operator are exactly the expected ones with the expected content, and
  nothing else in the cluster has changed.
\<close>

section \<open>Readiness\<close>

definition IsFRRReady :: "kubeLib \<Rightarrow> 'w client \<Rightarrow> ('w, bool) act" where
  "IsFRRReady lib c =
     branchA (getNamespace c FRRNamespace)
       (\<lambda>err. if IsNotFound lib err then returnA False else throwA err)
       (\<lambda>_. bindA (listPods c FRRNamespace (fmap_of_list [(''app'', ''frr-k8s'')])) (\<lambda>pods.
          if pods = [] then returnA False
          else if list_ex (\<lambda>pod. podPhase pod \<noteq> ''Running'') pods then returnA False
          else returnA True))"

section \<open>Rendering\<close>

text \<open>The two loops over maps: every key is copied, an overlay wins.\<close>

definition mergeLabels :: "(string, string) fmap \<Rightarrow> (string, string) fmap \<Rightarrow> (string, string) fmap" where
  "mergeLabels base overlay = copy_keys (keys overlay) overlay (copy_keys (keys base) base fmempty)"

definition toInterfaceMap :: "(string, string) fmap \<Rightarrow> json" where
  "toInterfaceMap m = JObj (map (\<lambda>k. (k, JStr (lookup_or '''' m k))) (keys m))"

definition frrNeighbor :: "LivenessDetectionType \<Rightarrow> BGPNeighbor \<Rightarrow> json" where
  "frrNeighbor liveness n =
     JObj ([(''address'', JStr (nbAddress n)),
            (''asn'', JInt (nbRemoteASN n)),
            (''disableMP'', JBool True),
            (''toReceive'', JObj [(''allowed'', JObj [(''mode'', JStr ''all'')])])] @
           (if liveness = LivenessDetectionBFD then [(''bfdProfile'', JStr ''default'')] else []))"

definition frrBgpSpec :: "BGPConfig \<Rightarrow> BGPNeighbor list \<Rightarrow> json" where
  "frrBgpSpec bgp ns =
     (let neighbors = map (frrNeighbor (bgpLivenessDetection bgp)) ns;
          router = JObj [(''asn'', JInt (bgpLocalASN bgp)), (''neighbors'', JArr neighbors)]
      in JObj ([(''routers'', JArr [router])] @
           (if bgpLivenessDetection bgp = LivenessDetectionBFD
            then [(''bfdProfiles'', JArr [JObj [(''name'', JStr ''default''),
                    (''receiveInterval'', JInt 300),
                    (''transmitInterval'', JInt 300),
                    (''detectMultiplier'', JInt 3)]])]
            else [])))"

definition frrObject :: "CUDNBgpConfig \<Rightarrow> AvailabilityZone \<Rightarrow> string \<Rightarrow> Unstructured" where
  "frrObject config az name =
     (let nodeSelector = mergeLabels (csRouterNodeSelector (cfgSpec config)) (azNodeSelector az)
      in \<lparr>uoApiVersion = ''frrk8s.metallb.io/v1beta1'',
          uoKind = ''FRRConfiguration'',
          uoName = name,
          uoNamespace = FRRNamespace,
          uoLabels = fmap_of_list [(LabelManagedBy, LabelManagedByVal)],
          uoFinalizers = [],
          uoResourceVersion = '''',
          uoDeleting = False,
          uoSpec = JObj [(''nodeSelector'', JObj [(''matchLabels'', toInterfaceMap nodeSelector)]),
                         (''bgp'', frrBgpSpec (csBGP (cfgSpec config)) (azNeighbors az))],
          uoStatus = JNull\<rparr>)"

definition ensureSingleFRRConfiguration ::
    "kubeLib \<Rightarrow> 'w client \<Rightarrow> CUDNBgpConfig \<Rightarrow> AvailabilityZone \<Rightarrow> string \<Rightarrow> ('w, unit) act" where
  "ensureSingleFRRConfiguration lib c config az name = createOrUpdate lib c (frrObject config az name)"

section \<open>Synchronisation\<close>

text \<open>The name for the zone with index \<open>i\<close>, counted from 0.\<close>

definition frrName :: "nat \<Rightarrow> string" where
  "frrName i = FRRConfigNamePrefix @ itoa (i + 1)"

definition managedSelector :: "(string, string) fmap" where
  "managedSelector = fmap_of_list [(LabelManagedBy, LabelManagedByVal)]"

text \<open>The second half of both functions: delete the operator's objects that are not expected.\<close>

definition pruneFRRConfigurations :: "kubeLib \<Rightarrow> 'w client \<Rightarrow> string list \<Rightarrow> ('w, unit) act" where
  "pruneFRRConfigurations lib c expected =
     bindA (listObjects c FRRConfigurationGVK FRRNamespace managedSelector) (\<lambda>items.
     forA items (\<lambda>item.
       if uoName item \<notin> set expected
       then wrapA (Sprintf [''pruning stale '', uoName item, '': '']) (deleteIgnoreNotFound lib c (key_of item))
       else returnA ()))"

definition EnsureFRRConfigurations :: "kubeLib \<Rightarrow> 'w client \<Rightarrow> CUDNBgpConfig \<Rightarrow> ('w, unit) act" where
  "EnsureFRRConfigurations lib c config =
     (let zones = enumerate 0 (bgpAvailabilityZones (csBGP (cfgSpec config))) in
      bindA (forA zones (\<lambda>x.
          wrapA (Sprintf [''AZ '', itoa (fst x + 1), '': ''])
            (ensureSingleFRRConfiguration lib c config (snd x) (frrName (fst x))))) (\<lambda>_.
        pruneFRRConfigurations lib c (map (\<lambda>x. frrName (fst x)) zones)))"

definition syntheticAZ :: "DiscoveryResult \<Rightarrow> string \<Rightarrow> AvailabilityZone" where
  "syntheticAZ dr az =
     \<lparr>azNodeSelector = fmap_of_list [(''topology.kubernetes.io/zone'', az)],
      azNeighbors = map (\<lambda>n. \<lparr>nbAddress = dnAddress n, nbRemoteASN = dnASN n\<rparr>)
        (lookup_or [] (drsNeighborsByAZ dr) az)\<rparr>"

definition EnsureFRRConfigurationsFromDiscovery ::
    "'w range_order \<Rightarrow> kubeLib \<Rightarrow> 'w client \<Rightarrow> CUDNBgpConfig \<Rightarrow> DiscoveryResult \<Rightarrow> ('w, nat) act" where
  "EnsureFRRConfigurationsFromDiscovery ro lib c config dr =
     bindA (rangeKeys ro (drsNeighborsByAZ dr)) (\<lambda>azs.
     let azNames = sort azs; zones = enumerate 0 azNames in
      bindA (forA zones (\<lambda>x.
          wrapA (Sprintf [''AZ '', snd x, '': ''])
            (ensureSingleFRRConfiguration lib c config (syntheticAZ dr (snd x)) (frrName (fst x))))) (\<lambda>_.
      bindA (pruneFRRConfigurations lib c (map (\<lambda>x. frrName (fst x)) zones)) (\<lambda>_.
      returnA (length azNames))))"

definition DeleteFRRConfigurations :: "kubeLib \<Rightarrow> 'w client \<Rightarrow> ('w, unit) act" where
  "DeleteFRRConfigurations lib c =
     bindA (listObjects c FRRConfigurationGVK FRRNamespace managedSelector) (\<lambda>items.
     forA items (\<lambda>item. deleteIgnoreNotFound lib c (key_of item)))"

section \<open>Labels\<close>

text \<open>
  Merging selectors gives the labels of the zone precedence over those of the router nodes and
  keeps all others; and the result is the same for every order in which the runtime might visit
  the keys of the two maps.
\<close>

lemma mergeLabels_lookup:
  assumes "set ks = fmdom' base" and "set ks' = fmdom' overlay"
  shows "fmlookup (mergeLabels base overlay) k =
      (case fmlookup overlay k of Some v \<Rightarrow> Some v | None \<Rightarrow> fmlookup base k) \<and>
    copy_keys ks' overlay (copy_keys ks base fmempty) = mergeLabels base overlay"
proof -
  have "fmlookup (copy_keys ks' overlay (copy_keys ks base fmempty)) j = fmlookup (mergeLabels base overlay) j" for j
    by (simp add: mergeLabels_def fmlookup_copy_keys assms split: option.split)
  then show ?thesis
    by (simp add: fmap_ext mergeLabels_def fmlookup_copy_keys split: option.split)
qed

section \<open>Readiness is what it says\<close>

text \<open>The namespace exists and has at least one FRR pod, and all FRR pods in it are running.\<close>

definition frr_pods :: "cluster \<Rightarrow> Pod set" where
  "frr_pods k =
     {pod \<in> kPods k. podNamespace pod = FRRNamespace \<and> fmlookup (podLabels pod) ''app'' = Some ''frr-k8s''}"

definition frr_ready :: "cluster \<Rightarrow> bool" where
  "frr_ready k \<longleftrightarrow>
     fmlookup (kNamespaces k) FRRNamespace \<noteq> None \<and> frr_pods k \<noteq> {} \<and>
     (\<forall>pod \<in> frr_pods k. podPhase pod = ''Running'')"

lemma frr_pods_selected:
  "{pod \<in> kPods k. podNamespace pod = FRRNamespace \<and>
      selects (fmap_of_list [(''app'', ''frr-k8s'')]) (podLabels pod)} = frr_pods k"
  by (auto simp: frr_pods_def selects_iff fmlookup_of_list)

lemma wp_IsFRRReady:
  assumes "kube_laws lib c view"
    and "\<And>w'. view w' = view w \<Longrightarrow> Q (frr_ready (view w)) w'"
    and "\<And>e w'. view w' = view w \<Longrightarrow> E e w'"
  shows "wp (IsFRRReady lib c) Q E w"
  unfolding IsFRRReady_def wp_simps
proof (rule wp_get [OF kube_lawsD(8) [OF assms(1)]], rule wp_read [OF kube_lawsD(10) [OF assms(1)]])
  fix a w1 pods w2
  assume ns: "fmlookup (kNamespaces (view w)) FRRNamespace = Some a" and w1: "view w1 = view w"
    and p: "set pods = {pod \<in> kPods (view w1). podNamespace pod = FRRNamespace \<and>
      selects (fmap_of_list [(''app'', ''frr-k8s'')]) (podLabels pod)}" and w2: "view w2 = view w1"
  have pods: "frr_pods (view w) = set pods" using p w1 unfolding frr_pods_selected by simp
  have "frr_ready (view w) \<longleftrightarrow> pods \<noteq> [] \<and> \<not> list_ex (\<lambda>pod. podPhase pod \<noteq> ''Running'') pods"
    by (simp add: frr_ready_def pods ns list_ex_iff)
  with assms(2) [of w2] w1 w2
  show "if pods = [] then Q False w2
      else if list_ex (\<lambda>pod. podPhase pod \<noteq> ''Running'') pods then Q False w2 else Q True w2"
    by (auto split: if_splits)
next
  fix e w1
  assume "IsNotFound lib e \<longrightarrow> fmlookup (kNamespaces (view w)) FRRNamespace = None" "view w1 = view w"
  then show "if IsNotFound lib e then Q False w1 else E e w1"
    using assms(2) [of w1] assms(3) by (cases "IsNotFound lib e") (simp_all add: frr_ready_def)
qed (use assms(3) in auto)

text \<open>
  The check answers yes exactly when the namespace exists and has at least one FRR pod and all
  FRR pods in it are running; and it changes nothing.
\<close>

lemma IsFRRReady_iff:
  assumes "kube_laws lib c view" and "IsFRRReady lib c w = (Inr b, w')"
  shows "(b \<longleftrightarrow> frr_ready (view w)) \<and> view w' = view w"
proof -
  have "wp (IsFRRReady lib c) (\<lambda>b w'. (b \<longleftrightarrow> frr_ready (view w)) \<and> view w' = view w) (\<lambda>_ _. True) w"
    by (rule wp_IsFRRReady [OF assms(1)]) auto
  from wp_InrD [OF this assms(2)] show ?thesis .
qed

section \<open>Names and keys\<close>

lemma frrName_inject [simp]: "frrName i = frrName j \<longleftrightarrow> i = j"
  by (simp add: frrName_def)

abbreviation frr_key :: "string \<Rightarrow> ukey" where
  "frr_key name \<equiv> gvk_key FRRConfigurationGVK FRRNamespace name"

lemma gvk_key_inject [simp]: "gvk_key gvk ns n = gvk_key gvk ns m \<longleftrightarrow> n = m"
  by (simp add: gvk_key_def)

lemma gvk_key_image: "gvk_key gvk ns a \<in> gvk_key gvk ns ` A \<longleftrightarrow> a \<in> A"
  by (auto simp: image_iff)

text \<open>The literals in the object are those of the kind's constant.\<close>

lemma key_of_frrObject [simp]: "key_of (frrObject config az name) = frr_key name"
  by (simp add: key_of_def frrObject_def gvk_key_def apiVersion_of_def gvk_defs Let_def)

lemma frrObject_fields [simp]:
  "uoLabels (frrObject config az name) = managedSelector" "uoFinalizers (frrObject config az name) = []"
  "uoName (frrObject config az name) = name"
  by (simp_all add: frrObject_def managedSelector_def Let_def)

abbreviation managed_frr :: "cluster \<Rightarrow> Unstructured set" where
  "managed_frr k \<equiv> listed FRRConfigurationGVK FRRNamespace managedSelector k"

lemma selects_refl [simp]: "selects sel sel"
  by (simp add: selects_iff)

lemma key_of_name: "key_of obj = gvk_key gvk ns n \<Longrightarrow> uoName obj = n"
  by (simp add: key_of_def gvk_key_def)

lemma present_managed:
  assumes "present (frrObject config az name) k"
  shows "name \<in> uoName ` managed_frr k"
proof -
  from assms obtain st where st: "fmlookup (kObjects k) (frr_key name) = Some st"
    and as: "stored_as (frrObject config az name) st"
    by (auto simp: present_def)
  have key: "key_of st = frr_key name" and "uoLabels st = managedSelector"
    using as by (simp_all add: stored_as_def)
  with st key_of_name [OF key] have "st \<in> managed_frr k" by (simp add: listed_def)
  with key_of_name [OF key] show ?thesis by force
qed

lemma managed_frr_unchanged:
  assumes "changes_only K k k'" and "frr_key (uoName obj) \<notin> K"
  shows "obj \<in> managed_frr k' \<longleftrightarrow> obj \<in> managed_frr k"
  using changes_only_other [OF assms] by (simp add: listed_def)

section \<open>The contract\<close>

text \<open>The FRRConfigurations of the namespace have no finalizers and none is being deleted.\<close>

definition frr_clean :: "cluster \<Rightarrow> bool" where
  "frr_clean k \<longleftrightarrow>
     (\<forall>name obj. fmlookup (kObjects k) (frr_key name) = Some obj \<longrightarrow> uoFinalizers obj = [] \<and> \<not> uoDeleting obj)"

definition frr_scope :: "nat \<Rightarrow> cluster \<Rightarrow> ukey set" where
  "frr_scope n k = frr_key ` (frrName ` {..<n} \<union> uoName ` managed_frr k)"

definition frr_synced :: "CUDNBgpConfig \<Rightarrow> AvailabilityZone list \<Rightarrow> cluster \<Rightarrow> cluster \<Rightarrow> bool" where
  "frr_synced config zones k k' \<longleftrightarrow>
     uoName ` managed_frr k' = frrName ` {..<length zones} \<and>
     (\<forall>i < length zones. present (frrObject config (zones ! i) (frrName i)) k') \<and>
     changes_only (frr_scope (length zones) k) k k'"

section \<open>Deleting listed objects\<close>

text \<open>
  A loop whose body deletes each item that is \<open>stale\<close>. Both loops of the sources have this form,
  with and without wrapping of the error.
\<close>

lemma wp_delete_all:
  assumes laws: "kube_laws lib c view"
    and stale: "\<And>it Q E w. stale it \<Longrightarrow> wp (deleteIgnoreNotFound lib c (key_of it)) Q (\<lambda>_. E) w \<Longrightarrow>
      wp (f it) Q (\<lambda>_. E) w"
    and fresh: "\<And>it. \<not> stale it \<Longrightarrow> f it = returnA ()"
    and nofin: "\<And>it old. it \<in> set items \<Longrightarrow> stale it \<Longrightarrow> fmlookup (kObjects (view w)) (key_of it) = Some old \<Longrightarrow>
      uoFinalizers old = []"
  defines "K \<equiv> key_of ` {it \<in> set items. stale it}"
  shows "wp (forA items f)
    (\<lambda>_ w'. (\<forall>key \<in> K. fmlookup (kObjects (view w')) key = None) \<and> changes_only K (view w) (view w'))
    (\<lambda>_ w'. changes_only K (view w) (view w')) w"
proof -
  let ?done = "\<lambda>ys. key_of ` {it \<in> set ys. stale it}"
  let ?I = "\<lambda>ys w'. (\<forall>key. fmlookup (kObjects (view w')) key =
      (if key \<in> ?done ys then None else fmlookup (kObjects (view w)) key)) \<and> changes_only K (view w) (view w')"
  show ?thesis
  proof (rule wp_for [where I = "\<lambda>ys _. ?I ys"])
    fix ys it zs w1
    assume I: "?I ys w1" and split: "ys @ it # zs = items"
    have it: "it \<in> set items" unfolding split [symmetric] by simp
    show "wp (f it) (\<lambda>_. ?I (ys @ [it])) (\<lambda>_ w'. changes_only K (view w) (view w')) w1"
    proof (cases "stale it")
      case True
      then have K: "{key_of it} \<subseteq> K" using it by (auto simp: K_def)
      have nf: "\<forall>old. fmlookup (kObjects (view w1)) (key_of it) = Some old \<longrightarrow> uoFinalizers old = []"
        using I nofin [OF it True] by auto
      have only: "changes_only K (view w) (view w')" if "changes_only {key_of it} (view w1) (view w')" for w'
        using I changes_only_mono [OF that K] by (blast intro: changes_only_trans)
      show ?thesis
      proof (rule stale [OF True], rule wp_deleteIgnoreNotFound [OF laws])
        fix w'
        assume only': "changes_only {key_of it} (view w1) (view w')"
          and none: "(\<forall>old. fmlookup (kObjects (view w1)) (key_of it) = Some old \<longrightarrow> uoFinalizers old = []) \<Longrightarrow>
            fmlookup (kObjects (view w')) (key_of it) = None"
        have "fmlookup (kObjects (view w')) key =
            (if key = key_of it then None else fmlookup (kObjects (view w1)) key)" for key
          using none [OF nf] changes_only_other [OF only', of key] by auto
        moreover have "?done (ys @ [it]) = insert (key_of it) (?done ys)" using True by auto
        ultimately show "?I (ys @ [it]) w'" using I only [OF only'] by simp
      qed (rule only)
    next
      case False
      then have "?done (ys @ [it]) = ?done ys" by auto
      then show ?thesis using I by (simp add: fresh [OF False] wp_return)
    qed
  qed (auto simp: K_def)
qed

lemma listed_lookup: "it \<in> listed gvk ns sel k \<Longrightarrow>
    fmlookup (kObjects k) (key_of it) = Some it \<and> key_of it = gvk_key gvk ns (uoName it)"
  by (simp add: listed_def)

lemma wp_pruneFRRConfigurations:
  assumes laws: "kube_laws lib c view"
    and nofin: "\<And>it. it \<in> managed_frr (view w) \<Longrightarrow> uoName it \<notin> set expected \<Longrightarrow> uoFinalizers it = []"
  defines "K \<equiv> frr_key ` (uoName ` managed_frr (view w) - set expected)"
  shows "wp (pruneFRRConfigurations lib c expected)
    (\<lambda>_ w'. (\<forall>key \<in> K. fmlookup (kObjects (view w')) key = None) \<and> changes_only K (view w) (view w'))
    (\<lambda>_ w'. changes_only K (view w) (view w')) w"
  unfolding pruneFRRConfigurations_def wp_bind
proof (rule wp_read [OF kube_lawsD(16) [OF laws]])
  fix items w1
  assume items: "set items = managed_frr (view w)" and w1: "view w1 = view w"
  let ?f = "\<lambda>item. if uoName item \<notin> set expected
    then wrapA (Sprintf [''pruning stale '', uoName item, '': '']) (deleteIgnoreNotFound lib c (key_of item))
    else returnA ()"
  have K: "key_of ` {it \<in> set items. uoName it \<notin> set expected} = K"
    unfolding K_def items by (force dest: listed_lookup)
  have "wp (forA items ?f)
      (\<lambda>_ w'. (\<forall>key \<in> key_of ` {it \<in> set items. uoName it \<notin> set expected}. fmlookup (kObjects (view w')) key = None) \<and>
        changes_only (key_of ` {it \<in> set items. uoName it \<notin> set expected}) (view w1) (view w'))
      (\<lambda>_ w'. changes_only (key_of ` {it \<in> set items. uoName it \<notin> set expected}) (view w1) (view w')) w1"
  proof (rule wp_delete_all [OF laws])
    fix it old
    assume "it \<in> set items" "uoName it \<notin> set expected" "fmlookup (kObjects (view w1)) (key_of it) = Some old"
    then show "uoFinalizers old = []"
      using nofin [of it] listed_lookup [of it FRRConfigurationGVK FRRNamespace managedSelector "view w"]
      by (auto simp: items w1)
  qed (simp_all add: wp_simps)
  then show "wp (forA items ?f)
      (\<lambda>_ w'. (\<forall>key \<in> K. fmlookup (kObjects (view w')) key = None) \<and> changes_only K (view w) (view w'))
      (\<lambda>_ w'. changes_only K (view w) (view w')) w1"
    unfolding K w1 .
qed auto

section \<open>Synchronising the zones\<close>

text \<open>Both functions write the objects of the zones in order and then prune.\<close>

lemma frr_synced_intro:
  assumes put: "\<forall>i < n. present (frrObject config (zones ! i) (frrName i)) k1"
      "changes_only (frr_key ` frrName ` {..<n}) k k1"
    and prune: "\<forall>key \<in> frr_key ` (uoName ` managed_frr k1 - frrName ` {..<n}). fmlookup (kObjects k2) key = None"
      "changes_only (frr_key ` (uoName ` managed_frr k1 - frrName ` {..<n})) k1 k2"
    and n: "n = length zones"
  shows "frr_synced config zones k k2"
  unfolding frr_synced_def
proof (intro conjI)
  have present: "\<forall>i < length zones. present (frrObject config (zones ! i) (frrName i)) k2"
  proof (intro allI impI)
    fix i
    assume i: "i < length zones"
    then have "frrName i \<in> frrName ` {..<n}" using n by simp
    then have "frr_key (frrName i) \<notin> frr_key ` (uoName ` managed_frr k1 - frrName ` {..<n})"
      unfolding gvk_key_image by blast
    then show "present (frrObject config (zones ! i) (frrName i)) k2"
      using put(1) i n by (intro present_other [OF prune(2)]) simp_all
  qed
  then show "\<forall>i < length zones. present (frrObject config (zones ! i) (frrName i)) k2" .
  have "uoName obj \<in> frrName ` {..<n}" if "obj \<in> managed_frr k2" for obj
  proof (rule ccontr)
    assume new: "uoName obj \<notin> frrName ` {..<n}"
    have "frr_key (uoName obj) \<notin> frr_key ` (uoName ` managed_frr k1 - frrName ` {..<n})"
      using prune(1) that by (auto simp: listed_def)
    with managed_frr_unchanged [OF prune(2) this] that new show False by (auto simp: listed_def)
  qed
  moreover have "frrName i \<in> uoName ` managed_frr k2" if "i < n" for i
    using present that n by (auto intro: present_managed)
  ultimately show "uoName ` managed_frr k2 = frrName ` {..<length zones}" using n by auto
  have "uoName ` managed_frr k1 - frrName ` {..<n} \<subseteq> uoName ` managed_frr k"
  proof
    fix name
    assume "name \<in> uoName ` managed_frr k1 - frrName ` {..<n}"
    then obtain obj where obj: "obj \<in> managed_frr k1" "name = uoName obj" "name \<notin> frrName ` {..<n}" by auto
    have "frr_key (uoName obj) \<notin> frr_key ` frrName ` {..<n}"
      using obj(2,3) unfolding gvk_key_image by blast
    with managed_frr_unchanged [OF put(2) this] obj show "name \<in> uoName ` managed_frr k" by blast
  qed
  then have s: "frr_key ` (uoName ` managed_frr k1 - frrName ` {..<n}) \<subseteq> frr_scope n k"
    unfolding frr_scope_def by (intro image_mono) blast
  have t: "frr_key ` frrName ` {..<n} \<subseteq> frr_scope n k"
    unfolding frr_scope_def by (intro image_mono) blast
  show "changes_only (frr_scope (length zones) k) k k2"
    using changes_only_trans [OF changes_only_mono [OF put(2) t] changes_only_mono [OF prune(2) s]]
    unfolding n .
qed

lemma wp_frr_sync:
  assumes laws: "kube_laws lib c view" and clean: "frr_clean (view w)"
  shows "wp (bindA (forA (enumerate 0 ys) (\<lambda>x. wrapA (msg x)
        (createOrUpdate lib c (frrObject config (z (snd x)) (frrName (fst x)))))) (\<lambda>_.
      pruneFRRConfigurations lib c (map (\<lambda>x. frrName (fst x)) (enumerate 0 ys))))
    (\<lambda>_ w'. frr_synced config (map z ys) (view w) (view w'))
    (\<lambda>_ w'. changes_only (frr_scope (length ys) (view w)) (view w) (view w')) w"
proof -
  let ?xs = "enumerate 0 ys" and ?n = "length ys"
  let ?obj = "\<lambda>x. frrObject config (z (snd x)) (frrName (fst x))"
  have idx: "fst ` set ?xs = {..<?n}"
    unfolding set_map [symmetric] map_fst_enumerate by auto
  have names: "set (map (\<lambda>x. frrName (fst x)) ?xs) = frrName ` {..<?n}"
    by (simp add: image_image [symmetric] idx flip: image_comp)
  have keys: "(\<lambda>x. key_of (?obj x)) ` set ?xs = frr_key ` frrName ` {..<?n}"
    by (simp add: image_image idx [symmetric])
  have dist: "distinct (map (\<lambda>x. key_of (?obj x)) ?xs)"
  proof -
    have "distinct (map (\<lambda>i. frr_key (frrName i)) (map fst ?xs))"
      by (simp add: distinct_map inj_on_def)
    then show ?thesis unfolding map_map comp_def by simp
  qed
  have nd: "\<forall>x \<in> set ?xs. not_deleting (key_of (?obj x)) (view w)"
    using clean by (simp add: not_deleting_def frr_clean_def)
  have put: "wp (forA ?xs (\<lambda>x. wrapA (msg x) (createOrUpdate lib c (?obj x))))
      (\<lambda>_ w'. (\<forall>x \<in> set ?xs. present (?obj x) (view w')) \<and> changes_only (frr_key ` frrName ` {..<?n}) (view w) (view w'))
      (\<lambda>_ w'. changes_only (frr_key ` frrName ` {..<?n}) (view w) (view w')) w"
    using wp_createOrUpdate_all [OF laws dist nd] unfolding keys .
  have scope: "changes_only (frr_scope ?n (view w)) (view w) k"
    if "changes_only (frr_key ` frrName ` {..<?n}) (view w) k" for k
    using that by (rule changes_only_mono) (auto simp: frr_scope_def)
  show ?thesis
    unfolding wp_bind
  proof (rule wp_mono [OF put])
    fix u w1
    assume A: "(\<forall>x \<in> set ?xs. present (?obj x) (view w1)) \<and>
      changes_only (frr_key ` frrName ` {..<?n}) (view w) (view w1)"
    have stale: "it \<in> managed_frr (view w)" if "it \<in> managed_frr (view w1)" "uoName it \<notin> frrName ` {..<?n}" for it
      using managed_frr_unchanged [OF conjunct2 [OF A], of it] that unfolding gvk_key_image by blast
    have present: "\<forall>i < ?n. present (frrObject config (map z ys ! i) (frrName i)) (view w1)"
    proof (intro allI impI)
      fix i
      assume i: "i < ?n"
      then have "(i, ys ! i) \<in> set ?xs" by (simp add: in_set_enumerate_eq)
      then show "present (frrObject config (map z ys ! i) (frrName i)) (view w1)"
        using A i by fastforce
    qed
    have nofin: "uoFinalizers it = []" if "it \<in> managed_frr (view w1)"
      "uoName it \<notin> set (map (\<lambda>x. frrName (fst x)) ?xs)" for it
      using stale [OF that(1)] that(2) clean unfolding names by (auto simp: listed_def frr_clean_def)
    note prune = wp_pruneFRRConfigurations [OF laws, of w1 "map (\<lambda>x. frrName (fst x)) ?xs", OF nofin, unfolded names]
    show "wp (pruneFRRConfigurations lib c (map (\<lambda>x. frrName (fst x)) ?xs))
        (\<lambda>_ w'. frr_synced config (map z ys) (view w) (view w'))
        (\<lambda>_ w'. changes_only (frr_scope ?n (view w)) (view w) (view w')) w1"
    proof (rule wp_mono [OF prune])
      fix u w2
      assume B: "(\<forall>key \<in> frr_key ` (uoName ` managed_frr (view w1) - frrName ` {..<?n}).
            fmlookup (kObjects (view w2)) key = None) \<and>
          changes_only (frr_key ` (uoName ` managed_frr (view w1) - frrName ` {..<?n})) (view w1) (view w2)"
      show "frr_synced config (map z ys) (view w) (view w2)"
        by (rule frr_synced_intro [OF present conjunct2 [OF A] conjunct1 [OF B] conjunct2 [OF B]]) simp
    next
      fix e w2
      assume only: "changes_only (frr_key ` (uoName ` managed_frr (view w1) - frrName ` {..<?n})) (view w1) (view w2)"
      have "frr_key ` (uoName ` managed_frr (view w1) - frrName ` {..<?n}) \<subseteq> frr_scope ?n (view w)"
        using stale unfolding frr_scope_def by (intro image_mono) blast
      from changes_only_mono [OF only this] scope [OF conjunct2 [OF A]]
      show "changes_only (frr_scope ?n (view w)) (view w) (view w2)" by (rule changes_only_trans [rotated])
    qed
  qed (rule scope)
qed

lemma wp_EnsureFRRConfigurations:
  fixes config :: CUDNBgpConfig
  assumes "kube_laws lib c view" and "frr_clean (view w)"
  defines "zones \<equiv> bgpAvailabilityZones (csBGP (cfgSpec config))"
  shows "wp (EnsureFRRConfigurations lib c config)
    (\<lambda>_ w'. frr_synced config zones (view w) (view w'))
    (\<lambda>_ w'. changes_only (frr_scope (length zones) (view w)) (view w) (view w')) w"
  using wp_frr_sync [OF assms(1,2), where ys = zones and z = "\<lambda>az. az" and config = config
      and msg = "\<lambda>x. Sprintf [''AZ '', itoa (fst x + 1), '': '']"]
  by (simp add: EnsureFRRConfigurations_def ensureSingleFRRConfiguration_def zones_def [symmetric] Let_def)

text \<open>The zones that discovery stands for, in the order of their names.\<close>

definition discovered_zones :: "DiscoveryResult \<Rightarrow> AvailabilityZone list" where
  "discovered_zones dr = map (syntheticAZ dr) (keys (drsNeighborsByAZ dr))"

lemma wp_EnsureFRRConfigurationsFromDiscovery:
  fixes dr :: DiscoveryResult
  assumes "kube_laws lib c view" and "frr_clean (view w)" and "range_laws ro view"
  defines "zones \<equiv> discovered_zones dr"
  shows "wp (EnsureFRRConfigurationsFromDiscovery ro lib c config dr)
    (\<lambda>n w'. n = length zones \<and> frr_synced config zones (view w) (view w'))
    (\<lambda>_ w'. changes_only (frr_scope (length zones) (view w)) (view w) (view w')) w"
  unfolding EnsureFRRConfigurationsFromDiscovery_def wp_bind [of "rangeKeys _ _"]
proof (rule wp_rangeKeys [OF assms(3)])
  fix ks w1
  assume ks: "distinct ks" "set ks = fmdom' (drsNeighborsByAZ dr)" and w1: "view w1 = view w"
  have sorted: "sort ks = keys (drsNeighborsByAZ dr)" by (rule sort_eq_keys [OF ks])
  have "frr_clean (view w1)" using assms(2) w1 by simp
  from wp_frr_sync [OF assms(1) this, where ys = "keys (drsNeighborsByAZ dr)" and z = "syntheticAZ dr"
      and config = config and msg = "\<lambda>x. Sprintf [''AZ '', snd x, '': '']"]
  show "wp (let azNames = sort ks; zs = enumerate 0 azNames in
      bindA (forA zs (\<lambda>x. wrapA (Sprintf [''AZ '', snd x, '': ''])
            (ensureSingleFRRConfiguration lib c config (syntheticAZ dr (snd x)) (frrName (fst x))))) (\<lambda>_.
      bindA (pruneFRRConfigurations lib c (map (\<lambda>x. frrName (fst x)) zs)) (\<lambda>_. returnA (length azNames))))
    (\<lambda>n w'. n = length zones \<and> frr_synced config zones (view w) (view w'))
    (\<lambda>_ w'. changes_only (frr_scope (length zones) (view w)) (view w) (view w')) w1"
    by (simp add: wp_eta sorted w1 zones_def discovered_zones_def ensureSingleFRRConfiguration_def Let_def)
qed

text \<open>
  C15. Explicit zones. When the function succeeds, the operator's FRRConfigurations are exactly
  \<open>cudn-bgp-az-1\<close> to \<open>cudn-bgp-az-n\<close>, one per zone of the spec in its order, each holding the
  rendered content for its zone; all others of the operator are gone, and no object outside this set
  has changed. When it fails, no object outside this set has changed either.
\<close>

theorem EnsureFRRConfigurations_sync:
  assumes "kube_laws lib c view" and "frr_clean (view w)"
    and "EnsureFRRConfigurations lib c config w = (r, w')"
  shows "(r = Inr () \<longrightarrow>
      uoName ` managed_frr (view w') = frrName ` {..<length (bgpAvailabilityZones (csBGP (cfgSpec config)))} \<and>
      (\<forall>i < length (bgpAvailabilityZones (csBGP (cfgSpec config))).
         present (frrObject config (bgpAvailabilityZones (csBGP (cfgSpec config)) ! i) (frrName i)) (view w'))) \<and>
    changes_only (frr_scope (length (bgpAvailabilityZones (csBGP (cfgSpec config)))) (view w)) (view w) (view w')"
  using wp_EnsureFRRConfigurations [OF assms(1,2), of config] assms(3)
  by (rule wp_runE) (simp_all add: frr_synced_def)

text \<open>
  C16. Discovered zones. The function for discovered zones does what the function for explicit zones
  does on the zones sorted by name, whatever order the runtime visits the map in: on success the
  operator's FRRConfigurations are exactly those for these zones, and the count is their number.
\<close>

theorem EnsureFRRConfigurationsFromDiscovery_sync:
  assumes "kube_laws lib c view" and "frr_clean (view w)" and "range_laws ro view"
    and "EnsureFRRConfigurationsFromDiscovery ro lib c config dr w = (r, w')"
  shows "(\<forall>n. r = Inr n \<longrightarrow> n = fcard (fmdom (drsNeighborsByAZ dr)) \<and>
      frr_synced config (discovered_zones dr) (view w) (view w')) \<and>
    changes_only (frr_scope (length (discovered_zones dr)) (view w)) (view w) (view w')"
proof -
  have n: "length (discovered_zones dr) = fcard (fmdom (drsNeighborsByAZ dr))"
    by (simp add: discovered_zones_def keys_def sorted_list_of_fset.rep_eq fcard.rep_eq)
  from wp_EnsureFRRConfigurationsFromDiscovery [OF assms(1-3), of config dr] assms(4) show ?thesis
  proof (rule wp_runE)
    fix a
    assume "r = Inr a" "a = length (discovered_zones dr) \<and> frr_synced config (discovered_zones dr) (view w) (view w')"
    then show ?thesis using n by (simp add: frr_synced_def)
  qed simp
qed

lemma wp_DeleteFRRConfigurations:
  assumes laws: "kube_laws lib c view" and clean: "frr_clean (view w)"
  defines "K \<equiv> frr_key ` uoName ` managed_frr (view w)"
  shows "wp (DeleteFRRConfigurations lib c)
    (\<lambda>_ w'. (\<forall>key \<in> K. fmlookup (kObjects (view w')) key = None) \<and> changes_only K (view w) (view w'))
    (\<lambda>_ w'. changes_only K (view w) (view w')) w"
  unfolding DeleteFRRConfigurations_def wp_bind
proof (rule wp_read [OF kube_lawsD(16) [OF laws]])
  fix items w1
  assume items: "set items = managed_frr (view w)" and w1: "view w1 = view w"
  have K: "key_of ` {it \<in> set items. True} = K"
    unfolding K_def items by (force dest: listed_lookup)
  have "wp (forA items (\<lambda>item. deleteIgnoreNotFound lib c (key_of item)))
      (\<lambda>_ w'. (\<forall>key \<in> key_of ` {it \<in> set items. True}. fmlookup (kObjects (view w')) key = None) \<and>
        changes_only (key_of ` {it \<in> set items. True}) (view w1) (view w'))
      (\<lambda>_ w'. changes_only (key_of ` {it \<in> set items. True}) (view w1) (view w')) w1"
  proof (rule wp_delete_all [OF laws])
    fix it old
    assume "it \<in> set items" "fmlookup (kObjects (view w1)) (key_of it) = Some old"
    then show "uoFinalizers old = []"
      using clean listed_lookup [of it FRRConfigurationGVK FRRNamespace managedSelector "view w"]
      by (auto simp: items w1 frr_clean_def)
  qed simp_all
  then show "wp (forA items (\<lambda>item. deleteIgnoreNotFound lib c (key_of item)))
      (\<lambda>_ w'. (\<forall>key \<in> K. fmlookup (kObjects (view w')) key = None) \<and> changes_only K (view w) (view w'))
      (\<lambda>_ w'. changes_only K (view w) (view w')) w1"
    unfolding K w1 .
qed auto

text \<open>With the listed ones gone and nothing else changed, there are none.\<close>

lemma managed_frr_gone:
  assumes only: "changes_only (frr_key ` uoName ` managed_frr k) k k'"
    and none: "\<forall>key \<in> frr_key ` uoName ` managed_frr k. fmlookup (kObjects k') key = None"
  shows "managed_frr k' = {}"
proof (rule ccontr)
  assume "managed_frr k' \<noteq> {}"
  then obtain obj where obj: "obj \<in> managed_frr k'" by blast
  then have "frr_key (uoName obj) \<notin> frr_key ` uoName ` managed_frr k" using none by (auto simp: listed_def)
  with managed_frr_unchanged [OF only this] obj show False by blast
qed

text \<open>
  C24. Removal. When the removal succeeds no FRRConfiguration of the operator is left, also where
  one disappeared between listing and deletion, and nothing else has changed; when it fails, nothing
  but such FRRConfigurations has changed.
\<close>

theorem DeleteFRRConfigurations_all:
  assumes "kube_laws lib c view" and "frr_clean (view w)"
    and "DeleteFRRConfigurations lib c w = (r, w')"
  shows "(r = Inr () \<longrightarrow> managed_frr (view w') = {}) \<and>
    changes_only (frr_key ` uoName ` managed_frr (view w)) (view w) (view w')"
proof -
  have only: "changes_only (frr_key ` uoName ` managed_frr (view w)) (view w) (view w')"
    using wp_mono [OF wp_DeleteFRRConfigurations [OF assms(1,2)]] assms(3) by (rule wp_anyD) auto
  have "managed_frr (view w') = {}" if "r = Inr ()"
    using wp_InrD [OF wp_DeleteFRRConfigurations [OF assms(1,2)], of "()" w'] assms(3) that
    by (intro managed_frr_gone [OF only]) simp
  with only show ?thesis by blast
qed

section \<open>The rendered content\<close>

text \<open>Reading a rendered BGP section back.\<close>

definition jarr :: "json option \<Rightarrow> json list" where
  "jarr j = (case j of Some (JArr xs) \<Rightarrow> xs | _ \<Rightarrow> [])"

definition rendered_neighbors :: "json \<Rightarrow> json list" where
  "rendered_neighbors spec =
     concat (map (\<lambda>r. jarr (jget r ''neighbors'')) (jarr (jpath spec [''bgp'', ''routers''])))"

definition profile_names :: "json \<Rightarrow> json option set" where
  "profile_names spec = (\<lambda>p. jget p ''name'') ` set (jarr (jpath spec [''bgp'', ''bfdProfiles'']))"

lemma frrObject_routers:
  "jpath (uoSpec (frrObject config az name)) [''bgp'', ''routers''] =
     Some (JArr [JObj [(''asn'', JInt (bgpLocalASN (csBGP (cfgSpec config)))),
       (''neighbors'', JArr (map (frrNeighbor (bgpLivenessDetection (csBGP (cfgSpec config)))) (azNeighbors az)))]])"
  by (simp add: frrObject_def frrBgpSpec_def Let_def jget_def jmembers_def)

lemma frrObject_neighbors:
  "rendered_neighbors (uoSpec (frrObject config az name)) =
     map (frrNeighbor (bgpLivenessDetection (csBGP (cfgSpec config)))) (azNeighbors az)"
  unfolding rendered_neighbors_def frrObject_routers by (simp add: jarr_def jget_def jmembers_def)

text \<open>
  C28. The content of a rendered FRRConfiguration: its node selector requires the labels of the
  router nodes overridden by those of the zone; its one router has the local ASN; its neighbours are
  those of the zone in order, each with its address and ASN and multiprotocol disabled; and every
  BFD profile that a neighbour refers to is defined, which happens exactly with BFD detection.
\<close>

theorem frrObject_content:
  "jpath (uoSpec (frrObject config az name)) [''nodeSelector'', ''matchLabels'', k] =
     map_option JStr (case fmlookup (azNodeSelector az) k of
       Some v \<Rightarrow> Some v | None \<Rightarrow> fmlookup (csRouterNodeSelector (cfgSpec config)) k) \<and>
   map (\<lambda>r. jget r ''asn'') (jarr (jpath (uoSpec (frrObject config az name)) [''bgp'', ''routers''])) =
     [Some (JInt (bgpLocalASN (csBGP (cfgSpec config))))] \<and>
   map (\<lambda>n. (jget n ''address'', jget n ''asn'', jget n ''disableMP''))
       (rendered_neighbors (uoSpec (frrObject config az name))) =
     map (\<lambda>n. (Some (JStr (nbAddress n)), Some (JInt (nbRemoteASN n)), Some (JBool True))) (azNeighbors az) \<and>
   (\<forall>n \<in> set (rendered_neighbors (uoSpec (frrObject config az name))). jget n ''bfdProfile'' \<noteq> None \<longrightarrow>
      jget n ''bfdProfile'' \<in> profile_names (uoSpec (frrObject config az name))) \<and>
   (\<forall>n \<in> set (rendered_neighbors (uoSpec (frrObject config az name))).
      jget n ''bfdProfile'' \<noteq> None \<longleftrightarrow> bgpLivenessDetection (csBGP (cfgSpec config)) = LivenessDetectionBFD)"
proof -
  let ?cfg = "csBGP (cfgSpec config)" and ?spec = "uoSpec (frrObject config az name)"
  let ?bfd = "bgpLivenessDetection ?cfg = LivenessDetectionBFD"
  have labels: "map_of (map (\<lambda>k. (k, JStr (lookup_or '''' m k))) (keys m)) k = map_option JStr (fmlookup m k)" for m
    by (auto simp: map_of_map_restrict restrict_map_def comp_def lookup_or_def fmlookup_dom'_iff split: option.split)
  have bgp: "jget ?spec ''bgp'' = Some (frrBgpSpec ?cfg (azNeighbors az))"
    by (simp add: frrObject_def Let_def jget_def jmembers_def)
  have profiles: "profile_names ?spec = (if ?bfd then {Some (JStr ''default'')} else {})"
    unfolding profile_names_def
    by (simp add: bgp) (simp add: frrBgpSpec_def Let_def jget_def jmembers_def jarr_def)
  have nb: "jget (frrNeighbor l n) ''address'' = Some (JStr (nbAddress n))"
    "jget (frrNeighbor l n) ''asn'' = Some (JInt (nbRemoteASN n))"
    "jget (frrNeighbor l n) ''disableMP'' = Some (JBool True)"
    "jget (frrNeighbor l n) ''bfdProfile'' = (if l = LivenessDetectionBFD then Some (JStr ''default'') else None)" for l n
    by (simp_all add: frrNeighbor_def jget_def jmembers_def)
  have sel: "jpath ?spec [''nodeSelector'', ''matchLabels'', k] = map_option JStr (case fmlookup (azNodeSelector az) k of
       Some v \<Rightarrow> Some v | None \<Rightarrow> fmlookup (csRouterNodeSelector (cfgSpec config)) k)"
    by (simp add: frrObject_def Let_def jget_def jmembers_def toInterfaceMap_def labels mergeLabels_def
        fmlookup_copy_keys split: option.split)
  have asn: "map (\<lambda>r. jget r ''asn'') (jarr (jpath ?spec [''bgp'', ''routers''])) = [Some (JInt (bgpLocalASN ?cfg))]"
    unfolding frrObject_routers by (simp add: jarr_def jget_def jmembers_def)
  show ?thesis
    unfolding sel frrObject_neighbors profiles asn by (auto simp: nb)
qed

end
