(* ===== verification/Config_Controller.thy ===== *)
theory Config_Controller
  imports Network_Operator Frr Platform
begin

text \<open>
  \<open>internal/controller/cudnbgpconfig_controller.go\<close>: the reconciler of CUDNBgpConfig. It is generic
  in the cloud platform, as the source is through the \<open>CloudPlatform\<close> interface and the optional
  \<open>PlatformBuilder\<close>; the default builder for AWS is in \<open>Config_Aws\<close>. The body of \<open>Reconcile\<close> is
  split at its phases, each taking the in-memory configuration as the phases before left it. The
  locale \<open>config_platform\<close> extends the contract of the platform by that of its builder; the theorems
  about the reconciler are proved in it once.
\<close>

section \<open>The reconciler\<close>

text \<open>
  \<open>ceRange\<close> is the order of map iteration, \<open>ceMethods\<close> the methods of the platform that the builder
  returns, \<open>ceDefaultBuilder\<close> stands for \<open>defaultPlatformBuilder\<close>.
\<close>

record ('w, 'p) configEnv =
  ceLib :: kubeLib
  ceRange :: "'w range_order"
  ceMethods :: "('w, 'p) CloudPlatform"
  ceDefaultBuilder :: "'w client \<Rightarrow> CUDNBgpConfig \<Rightarrow> ('w, 'p) act"

record ('w, 'p) CUDNBgpConfigReconciler =
  ccClient :: "'w client"
  ccPlatformBuilder :: "('w client \<Rightarrow> CUDNBgpConfig \<Rightarrow> ('w, 'p) act) option"

definition buildPlatform ::
    "('w, 'p) configEnv \<Rightarrow> ('w, 'p) CUDNBgpConfigReconciler \<Rightarrow> CUDNBgpConfig \<Rightarrow> ('w, 'p) act" where
  "buildPlatform env r config =
     (case ccPlatformBuilder r of None \<Rightarrow> ceDefaultBuilder env | Some b \<Rightarrow> b) (ccClient r) config"

section \<open>Status\<close>

definition setConfigCondition ::
    "kubeLib \<Rightarrow> CUDNBgpConfig \<Rightarrow> string \<Rightarrow> ConditionStatus \<Rightarrow> string \<Rightarrow> string \<Rightarrow> CUDNBgpConfig" where
  "setConfigCondition lib config ty st reason message =
     config\<lparr>cfgStatus := (cfgStatus config)\<lparr>ctConditions := SetStatusCondition lib (ctConditions (cfgStatus config))
       \<lparr>condType = ty, condStatus = st, condReason = reason, condMessage = message,
        condObservedGeneration = metaGeneration (cfgMeta config)\<rparr>\<rparr>\<rparr>"

definition setConfigPhase :: "CUDNBgpConfig \<Rightarrow> PhaseType \<Rightarrow> CUDNBgpConfig" where
  "setConfigPhase config ph = config\<lparr>cfgStatus := (cfgStatus config)\<lparr>ctPhase := ph\<rparr>\<rparr>"

definition degradedConfig :: "kubeLib \<Rightarrow> CUDNBgpConfig \<Rightarrow> string \<Rightarrow> string \<Rightarrow> string \<Rightarrow> CUDNBgpConfig" where
  "degradedConfig lib config condTy reason message =
     setConfigCondition lib (setConfigPhase config PhaseDegraded) condTy ConditionFalse reason message"

definition ConfigSetDegraded ::
    "kubeLib \<Rightarrow> 'w client \<Rightarrow> CUDNBgpConfig \<Rightarrow> string \<Rightarrow> string \<Rightarrow> string \<Rightarrow> ('w, Result) act" where
  "ConfigSetDegraded lib c config condTy reason message =
     bindA (updateConfigStatus c (degradedConfig lib config condTy reason message)) (\<lambda>_.
     returnA \<lparr>RequeueAfter = 30 * Second\<rparr>)"

definition discoveryResultToStatus :: "DiscoveryResult \<Rightarrow> AWSStatus" where
  "discoveryResultToStatus dr =
     \<lparr>asRouteServers = map (\<lambda>rs.
        \<lparr>srRouteServerID = drRouteServerID rs, srRemoteASN = drRemoteASN rs,
         srEndpoints = map (\<lambda>ep.
           \<lparr>seEndpointID = deEndpointID ep, seAvailabilityZone = deAZ ep, seAddress = deAddress ep\<rparr>)
           (drEndpoints rs)\<rparr>) (drsRouteServers dr)\<rparr>"

section \<open>Router nodes\<close>

definition routerNode :: "Node \<Rightarrow> RouterNode option" where
  "routerNode node =
     (let rn = \<lparr>rnName = ndName node,
                rnPrivateIP = (case find (\<lambda>addr. addrType addr = ''InternalIP'')
                    (case ndAddresses node of None \<Rightarrow> [] | Some as \<Rightarrow> as) of
                  Some addr \<Rightarrow> addrAddress addr | None \<Rightarrow> ''''),
                rnAZ = lookup_or '''' (node_labels node) ''topology.kubernetes.io/zone'',
                rnProviderID = ndProviderID node\<rparr>
      in if rnPrivateIP rn = '''' \<or> rnAZ rn = '''' \<or> rnProviderID rn = '''' then None else Some rn)"

definition listRouterNodes :: "'w client \<Rightarrow> CUDNBgpConfig \<Rightarrow> ('w, RouterNode list) act" where
  "listRouterNodes c config =
     bindA (listNodes c (csRouterNodeSelector (cfgSpec config))) (\<lambda>items.
     returnA (List.map_filter routerNode items))"

section \<open>Deletion\<close>

text \<open>Failures to build the platform or to discover endpoints are logged and skipped.\<close>

definition cleanupCloud ::
    "('w, 'p) configEnv \<Rightarrow> ('w, 'p) CUDNBgpConfigReconciler \<Rightarrow> CUDNBgpConfig \<Rightarrow> ('w, unit) act" where
  "cleanupCloud env r config =
     (if csAWS (cfgSpec config) = None then returnA ()
      else branchA (buildPlatform env r config)
        (\<lambda>_. returnA ())
        (\<lambda>p. branchA (cpDiscoverEndpoints (ceMethods env) p)
           (\<lambda>_. returnA ())
           (\<lambda>(_, p). wrapA ''cleaning up AWS resources: '' (cpCleanup (ceMethods env) p))))"

definition ConfigReconcileDelete ::
    "('w, 'p) configEnv \<Rightarrow> ('w, 'p) CUDNBgpConfigReconciler \<Rightarrow> CUDNBgpConfig \<Rightarrow> ('w, Result) act" where
  "ConfigReconcileDelete env r config =
     bindA (listRoutings (ccClient r)) (\<lambda>items.
     if items \<noteq> [] then returnA \<lparr>RequeueAfter = 10 * Second\<rparr>
     else
       bindA (cleanupCloud env r config) (\<lambda>_.
       bindA (DeleteFRRConfigurations (ceLib env) (ccClient r)) (\<lambda>_.
       bindA (updateConfig (ccClient r) (config\<lparr>cfgMeta := (cfgMeta config)\<lparr>metaFinalizers :=
          RemoveFinalizer (ceLib env) (metaFinalizers (cfgMeta config)) ConfigFinalizerName\<rparr>\<rparr>)) (\<lambda>_.
       returnA emptyResult))))"

section \<open>Reconciliation\<close>

definition readyConfig :: "CUDNBgpConfig \<Rightarrow> CUDNBgpConfig" where
  "readyConfig config = setConfigPhase config PhaseReady"

definition ConfigFinish ::
    "('w, 'p) CUDNBgpConfigReconciler \<Rightarrow> CUDNBgpConfig \<Rightarrow> ('w, Result) act" where
  "ConfigFinish r config =
     bindA (updateConfigStatus (ccClient r) (readyConfig config)) (\<lambda>_. returnA \<lparr>RequeueAfter = 5 * Minute\<rparr>)"

text \<open>Phase 5: the cloud resources, when there is a platform.\<close>

definition ConfigPhase5 ::
    "('w, 'p) configEnv \<Rightarrow> ('w, 'p) CUDNBgpConfigReconciler \<Rightarrow> CUDNBgpConfig \<Rightarrow> 'p option \<Rightarrow> ('w, Result) act" where
  "ConfigPhase5 env r config awsPlatform =
     (case awsPlatform of
        None \<Rightarrow> ConfigFinish r config
      | Some p \<Rightarrow>
          branchA (listRouterNodes (ccClient r) config)
            (\<lambda>err. ConfigSetDegraded (ceLib env) (ccClient r) config ConditionAWSResourcesReconciled
               ''AWSReconcileFailed'' (Sprintf [''failed to list router nodes: '', Error err]))
            (\<lambda>nodes. branchA (cpReconcileNodes (ceMethods env) p nodes)
               (\<lambda>err. ConfigSetDegraded (ceLib env) (ccClient r) config ConditionAWSResourcesReconciled
                  ''AWSReconcileFailed'' (Sprintf [''failed to reconcile AWS resources: '', Error err]))
               (\<lambda>_. ConfigFinish r (setConfigCondition (ceLib env) config ConditionAWSResourcesReconciled
                  ConditionTrue ''Reconciled'' ''Route Server peers and source/dest check reconciled''))))"

text \<open>Phase 4: the FRR configurations, from discovery or from the spec.\<close>

definition applyFRR ::
    "('w, 'p) configEnv \<Rightarrow> ('w, 'p) CUDNBgpConfigReconciler \<Rightarrow> CUDNBgpConfig \<Rightarrow>
     (DiscoveryResult \<times> 'p) option \<Rightarrow> ('w, nat) act" where
  "applyFRR env r config disc =
     (case (csAWS (cfgSpec config), disc) of
        (Some _, Some (dr, _)) \<Rightarrow>
          EnsureFRRConfigurationsFromDiscovery (ceRange env) (ceLib env) (ccClient r) config dr
      | _ \<Rightarrow> bindA (EnsureFRRConfigurations (ceLib env) (ccClient r) config) (\<lambda>_.
               returnA (length (bgpAvailabilityZones (csBGP (cfgSpec config))))))"

definition ConfigPhase4 ::
    "('w, 'p) configEnv \<Rightarrow> ('w, 'p) CUDNBgpConfigReconciler \<Rightarrow> CUDNBgpConfig \<Rightarrow>
     (DiscoveryResult \<times> 'p) option \<Rightarrow> ('w, Result) act" where
  "ConfigPhase4 env r config disc =
     branchA (applyFRR env r config disc)
       (\<lambda>err. ConfigSetDegraded (ceLib env) (ccClient r) config ConditionFRRConfigurationApplied ''ApplyFailed''
          (Sprintf [''failed to apply FRR configurations: '', Error err]))
       (\<lambda>frrCount. ConfigPhase5 env r
          (setConfigCondition (ceLib env) config ConditionFRRConfigurationApplied ConditionTrue ''Applied''
            (Sprintf [''Applied '', itoa frrCount, '' FRRConfiguration(s)'']))
          (map_option snd disc))"

text \<open>Phase 3: build the platform and discover, when \<open>spec.aws\<close> is set.\<close>

definition discoveredConfig :: "kubeLib \<Rightarrow> CUDNBgpConfig \<Rightarrow> DiscoveryResult \<Rightarrow> CUDNBgpConfig" where
  "discoveredConfig lib config dr =
     setConfigCondition lib
       (config\<lparr>cfgStatus := (cfgStatus config)\<lparr>ctAWS := Some (discoveryResultToStatus dr)\<rparr>\<rparr>)
       ConditionAWSEndpointsDiscovered ConditionTrue ''Discovered''
       (Sprintf [''Discovered '', itoa (length (drsRouteServers dr)), '' Route Server(s) with endpoints across '',
         itoa (length (keys (drsNeighborsByAZ dr))), '' AZ(s)''])"

definition ConfigPhase3 ::
    "('w, 'p) configEnv \<Rightarrow> ('w, 'p) CUDNBgpConfigReconciler \<Rightarrow> CUDNBgpConfig \<Rightarrow> ('w, Result) act" where
  "ConfigPhase3 env r config =
     (if csAWS (cfgSpec config) = None then ConfigPhase4 env r config None
      else branchA (buildPlatform env r config)
        (\<lambda>err. case as_CredentialError err of
            Some msg \<Rightarrow> ConfigSetDegraded (ceLib env) (ccClient r) config ConditionAWSEndpointsDiscovered
              ''AWSCredentialsInvalid'' msg
          | None \<Rightarrow> ConfigSetDegraded (ceLib env) (ccClient r) config ConditionAWSEndpointsDiscovered
              ''AWSDiscoveryFailed'' (Sprintf [''failed to build AWS platform: '', Error err]))
        (\<lambda>p. branchA (cpDiscoverEndpoints (ceMethods env) p)
           (\<lambda>err. ConfigSetDegraded (ceLib env) (ccClient r) config ConditionAWSEndpointsDiscovered
              ''AWSDiscoveryFailed'' (Sprintf [''failed to discover Route Server endpoints: '', Error err]))
           (\<lambda>(dr, p). ConfigPhase4 env r (discoveredConfig (ceLib env) config dr) (Some (dr, p)))))"

text \<open>Phase 2: wait for FRR.\<close>

definition waitingConfig :: "kubeLib \<Rightarrow> CUDNBgpConfig \<Rightarrow> CUDNBgpConfig" where
  "waitingConfig lib config =
     setConfigCondition lib config ConditionFRRNamespaceReady ConditionFalse ''WaitingForFRR''
       ''Waiting for openshift-frr-k8s namespace and pods''"

definition ConfigPhase2 ::
    "('w, 'p) configEnv \<Rightarrow> ('w, 'p) CUDNBgpConfigReconciler \<Rightarrow> CUDNBgpConfig \<Rightarrow> ('w, Result) act" where
  "ConfigPhase2 env r config =
     branchA (IsFRRReady (ceLib env) (ccClient r))
       (\<lambda>err. ConfigSetDegraded (ceLib env) (ccClient r) config ConditionFRRNamespaceReady ''CheckFailed''
          (Sprintf [''failed to check FRR readiness: '', Error err]))
       (\<lambda>ready.
          if \<not> ready
          then bindA (updateConfigStatus (ccClient r) (waitingConfig (ceLib env) config)) (\<lambda>_.
               returnA \<lparr>RequeueAfter = 10 * Second\<rparr>)
          else ConfigPhase3 env r (setConfigCondition (ceLib env) config ConditionFRRNamespaceReady
            ConditionTrue ''Ready'' ''FRR namespace and pods are running''))"

text \<open>Phase 1: patch the Network operator.\<close>

definition ConfigPhase1 ::
    "('w, 'p) configEnv \<Rightarrow> ('w, 'p) CUDNBgpConfigReconciler \<Rightarrow> CUDNBgpConfig \<Rightarrow> ('w, Result) act" where
  "ConfigPhase1 env r config =
     branchA (PatchNetworkOperator (ccClient r))
       (\<lambda>err. ConfigSetDegraded (ceLib env) (ccClient r) config ConditionNetworkOperatorPatched ''PatchFailed''
          (Sprintf [''failed to patch Network operator: '', Error err]))
       (\<lambda>_. ConfigPhase2 env r (setConfigCondition (ceLib env) config ConditionNetworkOperatorPatched
          ConditionTrue ''Patched'' ''Network operator patched with FRR and routeAdvertisements''))"

definition configuringConfig :: "CUDNBgpConfig \<Rightarrow> CUDNBgpConfig" where
  "configuringConfig config =
     (setConfigPhase config PhaseConfiguring)\<lparr>cfgStatus :=
       (cfgStatus (setConfigPhase config PhaseConfiguring))\<lparr>ctObservedGeneration := metaGeneration (cfgMeta config)\<rparr>\<rparr>"

definition ensureConfigFinalizer :: "kubeLib \<Rightarrow> 'w client \<Rightarrow> CUDNBgpConfig \<Rightarrow> ('w, CUDNBgpConfig) act" where
  "ensureConfigFinalizer lib c config =
     (if \<not> ContainsFinalizer lib (metaFinalizers (cfgMeta config)) ConfigFinalizerName
      then updateConfig c (config\<lparr>cfgMeta := (cfgMeta config)\<lparr>metaFinalizers :=
        AddFinalizer lib (metaFinalizers (cfgMeta config)) ConfigFinalizerName\<rparr>\<rparr>)
      else returnA config)"

definition ConfigReconcile ::
    "('w, 'p) configEnv \<Rightarrow> ('w, 'p) CUDNBgpConfigReconciler \<Rightarrow> string \<Rightarrow> ('w, Result) act" where
  "ConfigReconcile env r name =
     branchA (getConfig (ccClient r) name)
       (\<lambda>err. if IsNotFound (ceLib env) err then returnA emptyResult else throwA err)
       (\<lambda>config.
          if cfgName config \<noteq> SingletonName
          then ConfigSetDegraded (ceLib env) (ccClient r) config ConditionNetworkOperatorPatched ''InvalidName''
            (Sprintf [''CUDNBgpConfig must be named '', quote SingletonName, '', got '', quote (cfgName config)])
          else if metaDeletionTimestamp (cfgMeta config) \<noteq> None then ConfigReconcileDelete env r config
          else bindA (ensureConfigFinalizer (ceLib env) (ccClient r) config) (\<lambda>config.
            ConfigPhase1 env r (configuringConfig config)))"

section \<open>Watches\<close>

text \<open>
  \<open>None\<close> is an object of another type than Node. A nil map or slice differs from an empty one, as
  it does for \<open>reflect.DeepEqual\<close>.
\<close>

definition nodeRelevantChange :: "Node option \<Rightarrow> Node option \<Rightarrow> bool" where
  "nodeRelevantChange objectOld objectNew =
     (case (objectOld, objectNew) of
        (Some oldNode, Some newNode) \<Rightarrow>
          if ndLabels oldNode \<noteq> ndLabels newNode then True
          else if ndProviderID oldNode \<noteq> ndProviderID newNode then True
          else ndAddresses oldNode \<noteq> ndAddresses newNode
      | _ \<Rightarrow> True)"

definition mapNodeToConfig :: "Node \<Rightarrow> string list" where
  "mapNodeToConfig node = [SingletonName]"

definition mapFRRToConfig :: "Unstructured \<Rightarrow> string list" where
  "mapFRRToConfig obj =
     (if lookup_or '''' (uoLabels obj) LabelManagedBy \<noteq> LabelManagedByVal then [] else [SingletonName])"

section \<open>Nodes\<close>

lemma map_filter_set: "set (List.map_filter f xs) = {y. \<exists>x \<in> set xs. f x = Some y}"
  by (force simp: List.map_filter_def)

lemma wp_listRouterNodes:
  assumes "kube_laws lib c view"
    and "\<And>ns w'. set ns = {rn. \<exists>n \<in> kNodes (view w). selects (csRouterNodeSelector (cfgSpec config)) (node_labels n) \<and>
      routerNode n = Some rn} \<Longrightarrow> view w' = view w \<Longrightarrow> Q ns w'"
    and "\<And>e w'. view w' = view w \<Longrightarrow> E e w'"
  shows "wp (listRouterNodes c config) Q E w"
  unfolding listRouterNodes_def wp_eta
proof (rule wp_read [OF kube_lawsD(11) [OF assms(1)]])
  fix items w'
  assume "set items = {n \<in> kNodes (view w). selects (csRouterNodeSelector (cfgSpec config)) (node_labels n)}"
    and w': "view w' = view w"
  then have "set (List.map_filter routerNode items) = {rn. \<exists>n \<in> kNodes (view w).
      selects (csRouterNodeSelector (cfgSpec config)) (node_labels n) \<and> routerNode n = Some rn}"
    unfolding map_filter_set by auto
  then show "Q (List.map_filter routerNode items) w'" using w' by (rule assms(2))
qed (rule assms(3))

lemma routerNode_complete: "routerNode n = Some rn \<Longrightarrow> rnPrivateIP rn \<noteq> [] \<and> rnAZ rn \<noteq> [] \<and> rnProviderID rn \<noteq> []"
  unfolding routerNode_def Let_def by (metis option.distinct(1) option.inject)

text \<open>
  The event filter loses nothing: an update that it drops leaves the node's router node and its
  selection as they were.
\<close>

lemma nodeRelevantChange_complete:
  assumes "\<not> nodeRelevantChange (Some oldNode) (Some newNode)" and "ndName newNode = ndName oldNode"
  shows "routerNode newNode = routerNode oldNode \<and>
    (\<forall>sel. selects sel (node_labels newNode) \<longleftrightarrow> selects sel (node_labels oldNode))"
  using assms by (simp add: nodeRelevantChange_def routerNode_def node_labels_def split: if_splits)

text \<open>
  The router nodes handed to the cloud platform are exactly the selected nodes that have an
  internal address, a zone label and a provider identifier, each with these three; no incomplete
  node is passed on.
\<close>

lemma listRouterNodes_exact:
  assumes "kube_laws lib c view" and "listRouterNodes c config w = (Inr ns, w')"
  shows "set ns = {rn. \<exists>n \<in> kNodes (view w).
      selects (csRouterNodeSelector (cfgSpec config)) (node_labels n) \<and> routerNode n = Some rn} \<and>
    (\<forall>rn \<in> set ns. rnPrivateIP rn \<noteq> '''' \<and> rnAZ rn \<noteq> '''' \<and> rnProviderID rn \<noteq> '''') \<and> view w' = view w"
proof -
  have "wp (listRouterNodes c config) (\<lambda>ns w'. set ns = {rn. \<exists>n \<in> kNodes (view w).
      selects (csRouterNodeSelector (cfgSpec config)) (node_labels n) \<and> routerNode n = Some rn} \<and> view w' = view w)
      (\<lambda>_ _. True) w"
    by (rule wp_listRouterNodes [OF assms(1)]) auto
  from wp_InrD [OF this assms(2)] show ?thesis
    using routerNode_complete by blast
qed

end
