(* ===== verification/Config_Contract.thy ===== *)
theory Config_Contract
  imports Config_Controller
begin

text \<open>
  The contract of the CUDNBgpConfig reconciler and its proof, for every cloud platform that keeps
  the contract of \<open>config_platform\<close>: what the answer of a successful run says about the cluster
  (\<open>config_report\<close>), what a run may change at all (\<open>config_safe\<close>), and what deletion does.
\<close>

section \<open>The in-memory configuration\<close>

lemmas config_states = setConfigCondition_def setConfigPhase_def degradedConfig_def readyConfig_def
  discoveredConfig_def waitingConfig_def configuringConfig_def

text \<open>\<open>cf\<close> is \<open>cfg\<close> but for its status, of which the observed generation is kept.\<close>

definition same_config :: "CUDNBgpConfig \<Rightarrow> CUDNBgpConfig \<Rightarrow> bool" where
  "same_config cfg cf \<longleftrightarrow>
     cfgMeta cf = cfgMeta cfg \<and> cfgSpec cf = cfgSpec cfg \<and>
     ctObservedGeneration (cfgStatus cf) = ctObservedGeneration (cfgStatus cfg)"

lemma same_config_refl [simp]: "same_config cfg cfg"
  by (simp add: same_config_def)

lemma same_config_states [simp]:
  "same_config cfg (setConfigCondition lib cf t s re m) = same_config cfg cf"
  "same_config cfg (degradedConfig lib cf t re m) = same_config cfg cf"
  "same_config cfg (readyConfig cf) = same_config cfg cf"
  "same_config cfg (discoveredConfig lib cf dr) = same_config cfg cf"
  "same_config cfg (waitingConfig lib cf) = same_config cfg cf"
  by (simp_all add: same_config_def config_states)

lemma config_aws [simp]:
  "ctAWS (cfgStatus (setConfigCondition lib cf t s re m)) = ctAWS (cfgStatus cf)"
  "ctAWS (cfgStatus (readyConfig cf)) = ctAWS (cfgStatus cf)"
  "ctAWS (cfgStatus (discoveredConfig lib cf dr)) = Some (discoveryResultToStatus dr)"
  by (simp_all add: config_states)

lemma frrObject_same: "cfgSpec cf = cfgSpec cfg \<Longrightarrow> frrObject cf az n = frrObject cfg az n"
  by (simp add: frrObject_def)

definition conds_true :: "string set \<Rightarrow> CUDNBgpConfigStatus \<Rightarrow> bool" where
  "conds_true ts st \<longleftrightarrow> (\<forall>t \<in> ts. \<exists>c. cond_of t (ctConditions st) = Some c \<and> condStatus c = ConditionTrue)"

lemma conds_true_set:
  assumes "lib_laws lib" and "conds_true ts (cfgStatus cf)"
  shows "conds_true (insert t ts) (cfgStatus (setConfigCondition lib cf t ConditionTrue re m))"
  using assms(2) by (auto simp: conds_true_def setConfigCondition_def lib_lawsD [OF assms(1)])

lemma conds_true_discovered:
  assumes "lib_laws lib" and "conds_true ts (cfgStatus cf)"
  shows "conds_true (insert ConditionAWSEndpointsDiscovered ts) (cfgStatus (discoveredConfig lib cf dr))"
  unfolding discoveredConfig_def
  by (rule conds_true_set [OF assms(1)]) (use assms(2) in \<open>simp add: conds_true_def\<close>)

lemma conds_true_ready [simp]: "conds_true ts (cfgStatus (readyConfig cf)) = conds_true ts (cfgStatus cf)"
  by (simp add: conds_true_def config_states)

section \<open>What may change\<close>

definition config_core :: "CUDNBgpConfig \<Rightarrow> CUDNBgpConfigSpec \<times> ObjectMeta" where
  "config_core c = (cfgSpec c, (cfgMeta c)\<lparr>metaResourceVersion := ''''\<rparr>)"

definition config_evolves :: "ukey set \<Rightarrow> string \<Rightarrow> cluster \<Rightarrow> cluster \<Rightarrow> bool" where
  "config_evolves K name k k' \<longleftrightarrow>
     (\<forall>key. key \<notin> K \<longrightarrow> fmlookup (kObjects k') key = fmlookup (kObjects k) key) \<and>
     kRoutings k' = kRoutings k \<and> kNamespaces k' = kNamespaces k \<and> kPods k' = kPods k \<and> kNodes k' = kNodes k \<and>
     (\<forall>n. n \<noteq> name \<longrightarrow> fmlookup (kConfigs k') n = fmlookup (kConfigs k) n) \<and>
     map_option config_core (fmlookup (kConfigs k') name) = map_option config_core (fmlookup (kConfigs k) name)"

lemma config_evolves_refl [simp, intro]: "config_evolves K n k k"
  by (simp add: config_evolves_def)

lemma config_evolves_trans: "config_evolves K n k k1 \<Longrightarrow> config_evolves K n k1 k2 \<Longrightarrow> config_evolves K n k k2"
  by (simp add: config_evolves_def)

lemma config_evolves_mono: "config_evolves K n k k' \<Longrightarrow> K \<subseteq> L \<Longrightarrow> config_evolves L n k k'"
  by (auto simp: config_evolves_def)

lemma changes_only_config: "changes_only K k k' \<Longrightarrow> config_evolves K n k k'"
  by (simp add: config_evolves_def changes_only_def)

lemma config_status_evolves: "config_status_effect x k k' \<Longrightarrow> config_evolves K (cfgName x) k k'"
  by (auto simp: config_evolves_def config_status_effect_def config_core_def)

lemma config_status_stored:
  assumes "config_status_effect x k k'"
  obtains st where "fmlookup (kConfigs k') (cfgName x) = Some st" "cfgStatus st = cfgStatus x" "kObjects k' = kObjects k"
  using assms by (auto simp: config_status_effect_def)

text \<open>The objects a reconciliation may touch: the Network operator's, and the operator's FRRConfigurations.\<close>

definition config_scope :: "cluster \<Rightarrow> ukey set" where
  "config_scope k = insert network_key (frr_key ` (range frrName \<union> uoName ` managed_frr k))"

lemma network_not_frr [simp]: "network_key \<noteq> frr_key n" "frr_key n \<noteq> network_key"
  by (simp_all add: gvk_key_def gvk_defs)

lemma patch_evolves: "patch_effect network_key p k k' \<Longrightarrow> config_evolves {network_key} n k k'"
  by (auto simp: config_evolves_def patch_effect_def)

lemma managed_frr_after_patch:
  assumes "config_evolves {network_key} n k k1"
  shows "managed_frr k1 = managed_frr k"
  using assms by (auto simp: listed_def config_evolves_def)

lemma frr_scope_config:
  assumes "config_evolves {network_key} n k k1"
  shows "frr_scope m k1 \<subseteq> config_scope k"
  unfolding frr_scope_def config_scope_def managed_frr_after_patch [OF assms]
  by (rule subset_insertI2, rule image_mono) blast

text \<open>The cluster but for those objects and the configuration itself.\<close>

definition config_safe :: "string \<Rightarrow> cluster \<Rightarrow> cluster \<Rightarrow> bool" where
  "config_safe name k k' \<longleftrightarrow>
     (\<forall>key. key \<notin> config_scope k \<longrightarrow> fmlookup (kObjects k') key = fmlookup (kObjects k) key) \<and>
     kRoutings k' = kRoutings k \<and> kNamespaces k' = kNamespaces k \<and> kPods k' = kPods k \<and> kNodes k' = kNodes k \<and>
     (\<forall>n. n \<noteq> name \<longrightarrow> fmlookup (kConfigs k') n = fmlookup (kConfigs k) n)"

lemma config_evolves_safe: "config_evolves (config_scope k) name k k' \<Longrightarrow> config_safe name k k'"
  by (simp add: config_evolves_def config_safe_def)

section \<open>What is reported\<close>

definition config_degraded :: "(string \<Rightarrow> string \<Rightarrow> string \<Rightarrow> bool) \<Rightarrow> CUDNBgpConfigStatus \<Rightarrow> bool" where
  "config_degraded because st \<longleftrightarrow>
     ctPhase st = PhaseDegraded \<and>
     (\<exists>t c. cond_of t (ctConditions st) = Some c \<and> condStatus c = ConditionFalse \<and> because t (condReason c) (condMessage c))"

lemma config_degraded_mono: "config_degraded P st \<Longrightarrow> (\<And>t re m. P t re m \<Longrightarrow> Q t re m) \<Longrightarrow> config_degraded Q st"
  unfolding config_degraded_def by blast

definition config_waiting :: "CUDNBgpConfigStatus \<Rightarrow> bool" where
  "config_waiting st \<longleftrightarrow>
     ctPhase st = PhaseConfiguring \<and>
     (\<exists>c. cond_of ConditionFRRNamespaceReady (ctConditions st) = Some c \<and> condStatus c = ConditionFalse)"

definition all_conditions :: "CUDNBgpConfigSpec \<Rightarrow> string set" where
  "all_conditions s =
     {ConditionNetworkOperatorPatched, ConditionFRRNamespaceReady, ConditionFRRConfigurationApplied} \<union>
     (if csAWS s = None then {} else {ConditionAWSEndpointsDiscovered, ConditionAWSResourcesReconciled})"

definition network_enabled :: "cluster \<Rightarrow> bool" where
  "network_enabled k \<longleftrightarrow> (\<exists>obj. fmlookup (kObjects k) network_key = Some obj \<and> enabled_spec (uoSpec obj))"

definition frr_exact :: "CUDNBgpConfig \<Rightarrow> AvailabilityZone list \<Rightarrow> cluster \<Rightarrow> bool" where
  "frr_exact config zones k \<longleftrightarrow>
     uoName ` managed_frr k = frrName ` {..<length zones} \<and>
     (\<forall>i < length zones. present (frrObject config (zones ! i) (frrName i)) k)"

text \<open>
  The reasons to degrade the configuration \<open>cfg\<close> in the cluster \<open>k\<close>, with the condition, its reason and
  its message. There is one for each call of \<open>Reconcile\<close> that may fail, with the error of that call,
  and each comes only when the phases before it have done their work: \<open>w1\<close> is the world in which the
  call fails.
\<close>

definition config_stage :: "CUDNBgpConfig \<Rightarrow> cluster \<Rightarrow> cluster \<Rightarrow> bool" where
  "config_stage cfg k k1 \<longleftrightarrow> config_safe (cfgName cfg) k k1 \<and> network_enabled k1 \<and> frr_ready k"

inductive config_failure ::
    "('w, 'p) configEnv \<Rightarrow> ('w, 'p) CUDNBgpConfigReconciler \<Rightarrow> ('w \<Rightarrow> cluster) \<Rightarrow> CUDNBgpConfig \<Rightarrow> cluster \<Rightarrow>
     string \<Rightarrow> string \<Rightarrow> string \<Rightarrow> bool"
  for env r view cfg k where
  patch_failed: "config_safe (cfgName cfg) k (view w1) \<Longrightarrow> PatchNetworkOperator (ccClient r) w1 = (Inl err, w2) \<Longrightarrow>
    config_failure env r view cfg k ConditionNetworkOperatorPatched ''PatchFailed''
      (Sprintf [''failed to patch Network operator: '', Error err])"
| check_failed: "config_safe (cfgName cfg) k (view w1) \<Longrightarrow> network_enabled (view w1) \<Longrightarrow>
    IsFRRReady (ceLib env) (ccClient r) w1 = (Inl err, w2) \<Longrightarrow>
    config_failure env r view cfg k ConditionFRRNamespaceReady ''CheckFailed''
      (Sprintf [''failed to check FRR readiness: '', Error err])"
| credentials_invalid: "config_stage cfg k (view w1) \<Longrightarrow> csAWS (cfgSpec cfg) \<noteq> None \<Longrightarrow> cfgSpec cf = cfgSpec cfg \<Longrightarrow>
    buildPlatform env r cf w1 = (Inl err, w2) \<Longrightarrow> as_CredentialError err = Some msg \<Longrightarrow>
    config_failure env r view cfg k ConditionAWSEndpointsDiscovered ''AWSCredentialsInvalid'' msg"
| build_failed: "config_stage cfg k (view w1) \<Longrightarrow> csAWS (cfgSpec cfg) \<noteq> None \<Longrightarrow> cfgSpec cf = cfgSpec cfg \<Longrightarrow>
    buildPlatform env r cf w1 = (Inl err, w2) \<Longrightarrow> as_CredentialError err = None \<Longrightarrow>
    config_failure env r view cfg k ConditionAWSEndpointsDiscovered ''AWSDiscoveryFailed''
      (Sprintf [''failed to build AWS platform: '', Error err])"
| discovery_failed: "config_stage cfg k (view w1) \<Longrightarrow> csAWS (cfgSpec cfg) \<noteq> None \<Longrightarrow> cfgSpec cf = cfgSpec cfg \<Longrightarrow>
    buildPlatform env r cf w0 = (Inr p, w1) \<Longrightarrow> cpDiscoverEndpoints (ceMethods env) p w1 = (Inl err, w2) \<Longrightarrow>
    config_failure env r view cfg k ConditionAWSEndpointsDiscovered ''AWSDiscoveryFailed''
      (Sprintf [''failed to discover Route Server endpoints: '', Error err])"
| apply_failed: "config_stage cfg k (view w1) \<Longrightarrow> cfgSpec cf = cfgSpec cfg \<Longrightarrow>
    disc = None \<longleftrightarrow> csAWS (cfgSpec cfg) = None \<Longrightarrow> applyFRR env r cf disc w1 = (Inl err, w2) \<Longrightarrow>
    config_failure env r view cfg k ConditionFRRConfigurationApplied ''ApplyFailed''
      (Sprintf [''failed to apply FRR configurations: '', Error err])"
| nodes_failed: "config_stage cfg k (view w1) \<Longrightarrow> csAWS (cfgSpec cfg) \<noteq> None \<Longrightarrow> frr_exact cfg zones (view w1) \<Longrightarrow>
    cfgSpec cf = cfgSpec cfg \<Longrightarrow> listRouterNodes (ccClient r) cf w1 = (Inl err, w2) \<Longrightarrow>
    config_failure env r view cfg k ConditionAWSResourcesReconciled ''AWSReconcileFailed''
      (Sprintf [''failed to list router nodes: '', Error err])"
| reconcile_failed: "config_stage cfg k (view w1) \<Longrightarrow> csAWS (cfgSpec cfg) \<noteq> None \<Longrightarrow> frr_exact cfg zones (view w1) \<Longrightarrow>
    cfgSpec cf = cfgSpec cfg \<Longrightarrow> listRouterNodes (ccClient r) cf w0 = (Inr nodes, w1) \<Longrightarrow>
    cpReconcileNodes (ceMethods env) p nodes w1 = (Inl err, w2) \<Longrightarrow>
    config_failure env r view cfg k ConditionAWSResourcesReconciled ''AWSReconcileFailed''
      (Sprintf [''failed to reconcile AWS resources: '', Error err])"

text \<open>Where the zones come from: the spec, or a discovery that the status records.\<close>

definition zones_from :: "CUDNBgpConfigSpec \<Rightarrow> AvailabilityZone list \<Rightarrow> AWSStatus option \<Rightarrow> bool" where
  "zones_from s zones aws \<longleftrightarrow>
     (if csAWS s = None then zones = bgpAvailabilityZones (csBGP s)
      else \<exists>dr. discovery_wf dr \<and> zones = discovered_zones dr \<and> aws = Some (discoveryResultToStatus dr))"

definition config_ready_report :: "CUDNBgpConfig \<Rightarrow> cluster \<Rightarrow> CUDNBgpConfigStatus \<Rightarrow> cluster \<Rightarrow> bool" where
  "config_ready_report cfg k st k' \<longleftrightarrow>
     ctPhase st = PhaseReady \<and> conds_true (all_conditions (cfgSpec cfg)) st \<and> frr_ready k \<and> network_enabled k' \<and>
     (\<exists>zones. frr_exact cfg zones k' \<and> zones_from (cfgSpec cfg) zones (ctAWS st))"

definition config_outcome ::
    "('w, 'p) configEnv \<Rightarrow> ('w, 'p) CUDNBgpConfigReconciler \<Rightarrow> ('w \<Rightarrow> cluster) \<Rightarrow> CUDNBgpConfig \<Rightarrow> cluster \<Rightarrow> Result \<Rightarrow> cluster \<Rightarrow> bool" where
  "config_outcome env r view cfg k res k' \<longleftrightarrow>
     (\<exists>st. fmlookup (kConfigs k') (cfgName cfg) = Some st \<and>
        ctObservedGeneration (cfgStatus st) = ctObservedGeneration (cfgStatus cfg) \<and>
        (res = \<lparr>RequeueAfter = 30 * Second\<rparr> \<and> config_degraded (config_failure env r view cfg k) (cfgStatus st) \<or>
         res = \<lparr>RequeueAfter = 10 * Second\<rparr> \<and> config_waiting (cfgStatus st) \<and> \<not> frr_ready k \<or>
         res = \<lparr>RequeueAfter = 5 * Minute\<rparr> \<and> config_ready_report cfg k (cfgStatus st) k'))"

definition config_post ::
    "('w, 'p) configEnv \<Rightarrow> ('w, 'p) CUDNBgpConfigReconciler \<Rightarrow> ('w \<Rightarrow> cluster) \<Rightarrow> CUDNBgpConfig \<Rightarrow> cluster \<Rightarrow> Result \<Rightarrow> 'w \<Rightarrow> bool" where
  "config_post env r view cfg k res w' \<longleftrightarrow>
     config_outcome env r view cfg k res (view w') \<and> config_evolves (config_scope k) (cfgName cfg) k (view w')"

definition config_fail :: "CUDNBgpConfig \<Rightarrow> cluster \<Rightarrow> ('w \<Rightarrow> cluster) \<Rightarrow> go_error \<Rightarrow> 'w \<Rightarrow> bool" where
  "config_fail cfg k view e w' \<longleftrightarrow> config_evolves (config_scope k) (cfgName cfg) k (view w')"

text \<open>Every status update that ends a run.\<close>

lemma wp_report:
  assumes laws: "kube_laws lib c view" and ev: "config_evolves (config_scope k) (cfgName cfg) k (view w)"
    and x: "same_config cfg x"
    and out: "\<And>w' (st :: CUDNBgpConfig). kObjects (view w') = kObjects (view w) \<Longrightarrow> cfgStatus st = cfgStatus x \<Longrightarrow>
      res = \<lparr>RequeueAfter = 30 * Second\<rparr> \<and> config_degraded (config_failure env r view cfg k) (cfgStatus st) \<or>
      res = \<lparr>RequeueAfter = 10 * Second\<rparr> \<and> config_waiting (cfgStatus st) \<and> \<not> frr_ready k \<or>
      res = \<lparr>RequeueAfter = 5 * Minute\<rparr> \<and> config_ready_report cfg k (cfgStatus st) (view w')"
  shows "wp (bindA (updateConfigStatus c x) (\<lambda>_. returnA res)) (config_post env r view cfg k) (config_fail cfg k view) w"
proof -
  have name: "cfgName x = cfgName cfg" using x by (simp add: same_config_def)
  have evolves: "config_evolves (config_scope k) (cfgName cfg) k (view w')"
    if "config_status_effect x (view w) (view w')" for w'
    using config_evolves_trans [OF ev config_status_evolves [OF that, unfolded name]] .
  have post: "config_post env r view cfg k res w'" if eff: "config_status_effect x (view w) (view w')" for w'
  proof -
    obtain st :: CUDNBgpConfig where "fmlookup (kConfigs (view w')) (cfgName cfg) = Some st" and st: "cfgStatus st = cfgStatus x"
      and same: "kObjects (view w') = kObjects (view w)"
      using config_status_stored [OF eff] name by metis
    with out [OF same st] x evolves [OF eff] show ?thesis
      by (simp add: config_post_def config_outcome_def same_config_def)
  qed
  show ?thesis
    unfolding wp_eta
    by (rule wp_write [OF kube_lawsD(3) [OF laws]]) (use post evolves ev in \<open>auto simp: config_fail_def\<close>)
qed

lemma wp_config_degraded:
  assumes laws: "kube_laws lib c view" "lib_laws lib"
    and ev: "config_evolves (config_scope k) (cfgName cfg) k (view w)" and cf: "same_config cfg cf"
    and why: "config_failure env r view cfg k t re m"
  shows "wp (ConfigSetDegraded lib c cf t re m) (config_post env r view cfg k) (config_fail cfg k view) w"
  unfolding ConfigSetDegraded_def
proof (rule wp_report [OF laws(1) ev])
  show "same_config cfg (degradedConfig lib cf t re m)" using cf by simp
  have deg: "config_degraded (config_failure env r view cfg k) (cfgStatus (degradedConfig lib cf t re m))"
    unfolding config_degraded_def
    by (rule conjI, simp add: config_states, rule exI [of _ t])
      (use why in \<open>simp add: config_states lib_lawsD [OF laws(2)]\<close>)
  fix w' and st :: CUDNBgpConfig
  assume "cfgStatus st = cfgStatus (degradedConfig lib cf t re m)"
  with deg show "\<lparr>RequeueAfter = 30 * Second\<rparr> = \<lparr>RequeueAfter = 30 * Second\<rparr> \<and> config_degraded (config_failure env r view cfg k) (cfgStatus st) \<or>
      \<lparr>RequeueAfter = 30 * Second\<rparr> = \<lparr>RequeueAfter = 10 * Second\<rparr> \<and> config_waiting (cfgStatus st) \<and> \<not> frr_ready k \<or>
      \<lparr>RequeueAfter = 30 * Second\<rparr> = \<lparr>RequeueAfter = 5 * Minute\<rparr> \<and> config_ready_report cfg k (cfgStatus st) (view w')"
    by simp
qed

section \<open>The phases\<close>

text \<open>
  What holds between two phases: \<open>cf\<close> is the configuration in memory, \<open>ts\<close> the conditions set to
  true so far, \<open>k\<close> the cluster before the first phase and \<open>k1\<close> the cluster now.
\<close>

definition in_phase :: "CUDNBgpConfig \<Rightarrow> cluster \<Rightarrow> string set \<Rightarrow> CUDNBgpConfig \<Rightarrow> cluster \<Rightarrow> bool" where
  "in_phase cfg k ts cf k1 \<longleftrightarrow>
     config_evolves (config_scope k) (cfgName cfg) k k1 \<and> same_config cfg cf \<and>
     ctPhase (cfgStatus cf) = PhaseConfiguring \<and> conds_true ts (cfgStatus cf)"

lemma in_phaseD:
  assumes "in_phase cfg k ts cf k1"
  shows "config_evolves (config_scope k) (cfgName cfg) k k1" "same_config cfg cf"
    "ctPhase (cfgStatus cf) = PhaseConfiguring" "conds_true ts (cfgStatus cf)" "cfgSpec cf = cfgSpec cfg"
  using assms by (simp_all add: in_phase_def same_config_def)

lemma in_phase_same: "in_phase cfg k ts cf k1 \<Longrightarrow> k2 = k1 \<Longrightarrow> in_phase cfg k ts cf k2"
  by simp

lemma in_phase_set:
  assumes "lib_laws lib" and "in_phase cfg k ts cf k1"
  shows "in_phase cfg k (insert t ts) (setConfigCondition lib cf t ConditionTrue re m) k1"
  using assms(2) conds_true_set [OF assms(1) in_phaseD(4) [OF assms(2)]]
  by (simp add: in_phase_def) (simp add: setConfigCondition_def)

lemma in_phase_discovered:
  assumes "lib_laws lib" and "in_phase cfg k ts cf k1"
  shows "in_phase cfg k (insert ConditionAWSEndpointsDiscovered ts) (discoveredConfig lib cf dr) k1"
  using assms(2) conds_true_discovered [OF assms(1) in_phaseD(4) [OF assms(2)]]
  by (simp add: in_phase_def) (simp add: config_states)

lemma in_phase_objects:
  assumes "in_phase cfg k ts cf k1" and "config_evolves (config_scope k) (cfgName cfg) k1 k2"
  shows "in_phase cfg k ts cf k2"
  using assms config_evolves_trans unfolding in_phase_def by blast

lemma wp_phase_degraded:
  assumes "kube_laws lib c view" "lib_laws lib" and "in_phase cfg k ts cf (view w)"
    and "config_failure env r view cfg k t re m"
  shows "wp (ConfigSetDegraded lib c cf t re m) (config_post env r view cfg k) (config_fail cfg k view) w"
  by (rule wp_config_degraded [OF assms(1,2) in_phaseD(1,2) [OF assms(3)] assms(4)])

lemma in_phase_stage:
  "in_phase cfg k ts cf k1 \<Longrightarrow> network_enabled k1 \<Longrightarrow> frr_ready k \<Longrightarrow> config_stage cfg k k1"
  by (simp add: in_phase_def config_stage_def config_evolves_safe)

lemma frr_exact_same: "kObjects k' = kObjects k \<Longrightarrow> frr_exact cfg zones k' = frr_exact cfg zones k"
  by (simp only: frr_exact_def present_def listed_def)

lemma network_enabled_same: "kObjects k' = kObjects k \<Longrightarrow> network_enabled k' = network_enabled k"
  by (simp add: network_enabled_def)

text \<open>What the FRR phase leaves for the rest.\<close>

definition frr_done :: "CUDNBgpConfig \<Rightarrow> cluster \<Rightarrow> CUDNBgpConfig \<Rightarrow> cluster \<Rightarrow> bool" where
  "frr_done cfg k cf k1 \<longleftrightarrow>
     frr_ready k \<and> network_enabled k1 \<and>
     (\<exists>zones. frr_exact cfg zones k1 \<and> zones_from (cfgSpec cfg) zones (ctAWS (cfgStatus cf)))"

lemma frr_done_same: "frr_done cfg k cf k1 \<Longrightarrow> kObjects k2 = kObjects k1 \<Longrightarrow> frr_done cfg k cf k2"
  unfolding frr_done_def using network_enabled_same frr_exact_same by metis

lemma frr_done_condition [simp]: "frr_done cfg k (setConfigCondition lib cf t s re m) k1 = frr_done cfg k cf k1"
  by (simp add: frr_done_def)

lemma wp_ConfigFinish:
  assumes laws: "kube_laws lib (ccClient r) view"
    and ph: "in_phase cfg k (all_conditions (cfgSpec cfg)) cf (view w)" and frr: "frr_done cfg k cf (view w)"
  shows "wp (ConfigFinish r cf) (config_post env r view cfg k) (config_fail cfg k view) w"
  unfolding ConfigFinish_def
proof (rule wp_report [OF laws in_phaseD(1) [OF ph]])
  show "same_config cfg (readyConfig cf)" using in_phaseD(2) [OF ph] by simp
  fix w' and st :: CUDNBgpConfig
  assume same: "kObjects (view w') = kObjects (view w)" and st: "cfgStatus st = cfgStatus (readyConfig cf)"
  have "ctPhase (cfgStatus st) = PhaseReady" unfolding st by (simp add: config_states)
  then have "config_ready_report cfg k (cfgStatus st) (view w')"
    using frr_done_same [OF frr same] in_phaseD(4) [OF ph] st by (simp add: config_ready_report_def frr_done_def)
  then show "\<lparr>RequeueAfter = 5 * Minute\<rparr> = \<lparr>RequeueAfter = 30 * Second\<rparr> \<and> config_degraded (config_failure env r view cfg k) (cfgStatus st) \<or>
      \<lparr>RequeueAfter = 5 * Minute\<rparr> = \<lparr>RequeueAfter = 10 * Second\<rparr> \<and> config_waiting (cfgStatus st) \<and> \<not> frr_ready k \<or>
      \<lparr>RequeueAfter = 5 * Minute\<rparr> = \<lparr>RequeueAfter = 5 * Minute\<rparr> \<and> config_ready_report cfg k (cfgStatus st) (view w')"
    by simp
qed

subsection \<open>Phase 4: FRR\<close>

definition patched :: "CUDNBgpConfig \<Rightarrow> cluster \<Rightarrow> cluster \<Rightarrow> bool" where
  "patched cfg k k1 \<longleftrightarrow>
     config_evolves {network_key} (cfgName cfg) k k1 \<and> network_enabled k1 \<and> frr_clean k1 \<and> frr_ready k"

definition disc_ok :: "CUDNBgpConfig \<Rightarrow> (DiscoveryResult \<times> 'p) option \<Rightarrow> bool" where
  "disc_ok cf disc \<longleftrightarrow>
     (case disc of
        None \<Rightarrow> csAWS (cfgSpec cf) = None
      | Some (dr, p) \<Rightarrow> csAWS (cfgSpec cf) \<noteq> None \<and> discovery_wf dr \<and>
          ctAWS (cfgStatus cf) = Some (discoveryResultToStatus dr))"

lemma frr_synced_done:
  assumes "frr_synced cf zones k1 k2" and "patched cfg k k1" and "cfgSpec cf = cfgSpec cfg"
    and "zones_from (cfgSpec cfg) zones (ctAWS (cfgStatus cf))"
  shows "frr_done cfg k cf k2"
proof -
  have "network_key \<notin> frr_scope (length zones) k1" by (auto simp: frr_scope_def)
  then have "fmlookup (kObjects k2) network_key = fmlookup (kObjects k1) network_key"
    using assms(1) changes_only_other unfolding frr_synced_def by blast
  moreover have "frr_exact cfg zones k2"
    using assms(1) unfolding frr_synced_def frr_exact_def frrObject_same [OF assms(3)] by blast
  ultimately show ?thesis
    using assms(2,4) by (auto simp: frr_done_def patched_def network_enabled_def)
qed

lemma wp_applyFRR:
  assumes laws: "kube_laws (ceLib env) (ccClient r) view" "range_laws (ceRange env) view"
    and patched: "patched cfg k (view w)" and cf: "cfgSpec cf = cfgSpec cfg" and disc: "disc_ok cf disc"
  shows "wp (applyFRR env r cf disc)
    (\<lambda>_ w'. frr_done cfg k cf (view w') \<and> config_evolves (config_scope k) (cfgName cfg) (view w) (view w'))
    (\<lambda>_ w'. config_evolves (config_scope k) (cfgName cfg) (view w) (view w')) w"
proof -
  let ?Q = "\<lambda>_ w'. frr_done cfg k cf (view w') \<and> config_evolves (config_scope k) (cfgName cfg) (view w) (view w')"
  let ?E = "\<lambda>_ w'. config_evolves (config_scope k) (cfgName cfg) (view w) (view w')"
  have clean: "frr_clean (view w)" using patched by (simp add: patched_def)
  have scope: "config_evolves (config_scope k) (cfgName cfg) (view w) k2"
    if "changes_only (frr_scope n (view w)) (view w) k2" for n k2
    by (rule config_evolves_mono [OF changes_only_config [OF that] frr_scope_config [where n = "cfgName cfg"]])
      (use patched in \<open>simp add: patched_def\<close>)
  have synced: "?Q n w'" if "frr_synced cf zones (view w) (view w')"
    and "zones_from (cfgSpec cfg) zones (ctAWS (cfgStatus cf))" for n :: nat and zones w'
    using frr_synced_done [OF that(1) patched cf that(2)] scope [of "length zones"] that(1) by (simp add: frr_synced_def)
  show ?thesis
  proof (cases disc)
    case None
    then have none: "csAWS (cfgSpec cf) = None" using disc by (simp add: disc_ok_def)
    have "wp (EnsureFRRConfigurations (ceLib env) (ccClient r) cf)
        (\<lambda>_. ?Q (length (bgpAvailabilityZones (csBGP (cfgSpec cf))))) ?E w"
      by (rule wp_mono [OF wp_EnsureFRRConfigurations [OF laws(1) clean]])
        (use synced scope none cf in \<open>auto simp: zones_from_def\<close>)
    then show ?thesis using None none by (simp add: applyFRR_def wp_eta)
  next
    case (Some d)
    obtain dr p where d: "disc = Some (dr, p)" using Some by (cases d) auto
    then obtain s where aws: "csAWS (cfgSpec cf) = Some s" and "discovery_wf dr"
      "ctAWS (cfgStatus cf) = Some (discoveryResultToStatus dr)"
      using disc by (auto simp: disc_ok_def)
    then have from': "zones_from (cfgSpec cfg) (discovered_zones dr) (ctAWS (cfgStatus cf))"
      using cf by (auto simp: zones_from_def)
    have "wp (EnsureFRRConfigurationsFromDiscovery (ceRange env) (ceLib env) (ccClient r) cf dr) ?Q ?E w"
      by (rule wp_mono [OF wp_EnsureFRRConfigurationsFromDiscovery [OF laws(1) clean laws(2)]])
        (use synced [OF _ from'] scope in auto)
    then show ?thesis by (simp add: applyFRR_def d aws)
  qed
qed

section \<open>The finalizer\<close>

text \<open>\<open>c1\<close> is \<open>cfg\<close> with the finalizer, in memory and in the cluster \<open>k1\<close>; nothing else has changed.\<close>

definition only_config :: "string \<Rightarrow> cluster \<Rightarrow> cluster \<Rightarrow> bool" where
  "only_config name k k' \<longleftrightarrow>
     kObjects k' = kObjects k \<and> kRoutings k' = kRoutings k \<and> kNamespaces k' = kNamespaces k \<and>
     kPods k' = kPods k \<and> kNodes k' = kNodes k \<and>
     (\<forall>n. n \<noteq> name \<longrightarrow> fmlookup (kConfigs k') n = fmlookup (kConfigs k) n)"

definition config_finalized :: "CUDNBgpConfig \<Rightarrow> cluster \<Rightarrow> CUDNBgpConfig \<Rightarrow> cluster \<Rightarrow> bool" where
  "config_finalized cfg k c1 k1 \<longleftrightarrow>
     cfgName c1 = cfgName cfg \<and> cfgSpec c1 = cfgSpec cfg \<and>
     metaGeneration (cfgMeta c1) = metaGeneration (cfgMeta cfg) \<and>
     ConfigFinalizerName \<in> set (metaFinalizers (cfgMeta c1)) \<and>
     fmlookup (kConfigs k1) (cfgName cfg) = Some c1 \<and> only_config (cfgName cfg) k k1"

lemma only_config_refl [simp]: "only_config n k k"
  by (simp add: only_config_def)

lemma update_config_only:
  assumes "update_config_effect x c1 k k1"
  shows "only_config (cfgName x) k k1"
proof -
  from assms obtain old :: CUDNBgpConfig where k1: "k1 = (if metaDeletionTimestamp (cfgMeta old) \<noteq> None \<and> metaFinalizers (cfgMeta x) = []
      then k\<lparr>kConfigs := fmdrop (cfgName x) (kConfigs k)\<rparr> else k\<lparr>kConfigs := fmupd (cfgName x) c1 (kConfigs k)\<rparr>)"
    unfolding update_config_effect_def by blast
  show ?thesis
    by (cases "metaDeletionTimestamp (cfgMeta old) \<noteq> None \<and> metaFinalizers (cfgMeta x) = []")
      (simp_all only: k1 if_True if_False, simp_all add: only_config_def)
qed

lemma wp_ensureConfigFinalizer:
  assumes laws: "kube_laws lib c view" "lib_laws lib"
    and cfg: "fmlookup (kConfigs (view w)) (cfgName cfg) = Some cfg" "metaDeletionTimestamp (cfgMeta cfg) = None"
  shows "wp (ensureConfigFinalizer lib c cfg) (\<lambda>c1 w'. config_finalized cfg (view w) c1 (view w'))
    (\<lambda>_ w'. only_config (cfgName cfg) (view w) (view w')) w"
proof (cases "ContainsFinalizer lib (metaFinalizers (cfgMeta cfg)) ConfigFinalizerName")
  case True
  then show ?thesis
    using cfg(1) by (simp add: ensureConfigFinalizer_def wp_return config_finalized_def lib_lawsD [OF laws(2)])
next
  case False
  let ?x = "cfg\<lparr>cfgMeta := (cfgMeta cfg)\<lparr>metaFinalizers :=
      AddFinalizer lib (metaFinalizers (cfgMeta cfg)) ConfigFinalizerName\<rparr>\<rparr>"
  have only: "only_config (cfgName cfg) (view w) (view w')" if "update_config_effect ?x c1 (view w) (view w')" for c1 w'
    using update_config_only [OF that] by simp
  have fin: "config_finalized cfg (view w) c1 (view w')" if eff: "update_config_effect ?x c1 (view w) (view w')" for c1 w'
    using only [OF eff] eff cfg by (auto simp: update_config_effect_def config_finalized_def lib_lawsD [OF laws(2)])
  have "wp (updateConfig c ?x) (\<lambda>c1 w'. config_finalized cfg (view w) c1 (view w'))
    (\<lambda>_ w'. only_config (cfgName cfg) (view w) (view w')) w"
    by (rule wp_write [OF kube_lawsD(2) [OF laws(1)]]) (use fin only in auto)
  with False show ?thesis by (simp add: ensureConfigFinalizer_def)
qed

section \<open>The whole run\<close>

text \<open>The final state of a run on a configuration that is not being deleted.\<close>

definition config_report ::
    "('w, 'p) configEnv \<Rightarrow> ('w, 'p) CUDNBgpConfigReconciler \<Rightarrow> ('w \<Rightarrow> cluster) \<Rightarrow> CUDNBgpConfig \<Rightarrow> cluster \<Rightarrow> Result \<Rightarrow> cluster \<Rightarrow> bool" where
  "config_report env r view cfg k res k' \<longleftrightarrow>
     (\<exists>st. fmlookup (kConfigs k') (cfgName cfg) = Some st \<and> cfgSpec st = cfgSpec cfg \<and>
        ConfigFinalizerName \<in> set (metaFinalizers (cfgMeta st)) \<and>
        ctObservedGeneration (cfgStatus st) = metaGeneration (cfgMeta cfg) \<and>
        (res = \<lparr>RequeueAfter = 30 * Second\<rparr> \<and> config_degraded (config_failure env r view cfg k) (cfgStatus st) \<or>
         res = \<lparr>RequeueAfter = 10 * Second\<rparr> \<and> config_waiting (cfgStatus st) \<and> \<not> frr_ready k \<or>
         res = \<lparr>RequeueAfter = 5 * Minute\<rparr> \<and> config_ready_report cfg k (cfgStatus st) k'))"


lemma config_scope_same: "kObjects k1 = kObjects k \<Longrightarrow> config_scope k1 = config_scope k"
  by (simp only: config_scope_def listed_def)

lemma only_config_safe: "only_config n k k' \<Longrightarrow> config_safe n k k'"
  by (simp add: only_config_def config_safe_def)

lemma config_safe_intro:
  assumes "config_finalized cfg k c1 k1" and "config_evolves (config_scope k1) (cfgName cfg) k1 k'"
  shows "config_safe (cfgName cfg) k k'"
  using assms config_scope_same [of k1 k]
  by (simp add: config_safe_def config_finalized_def only_config_def config_evolves_def)

lemma core_eqD:
  assumes "config_core a = config_core b"
  shows "cfgSpec a = cfgSpec b" "metaFinalizers (cfgMeta a) = metaFinalizers (cfgMeta b)"
proof -
  show "cfgSpec a = cfgSpec b" using assms by (simp add: config_core_def)
  have "metaFinalizers ((cfgMeta a)\<lparr>metaResourceVersion := []\<rparr>) = metaFinalizers ((cfgMeta b)\<lparr>metaResourceVersion := []\<rparr>)"
    using assms by (simp add: config_core_def)
  then show "metaFinalizers (cfgMeta a) = metaFinalizers (cfgMeta b)" by simp
qed

lemma config_ready_report_cong:
  assumes "cfgSpec c1 = cfgSpec cfg" and "frr_ready k1 = frr_ready k" and "config_ready_report c1 k1 st k'"
  shows "config_ready_report cfg k st k'"
proof -
  have "frr_exact c1 zones k' = frr_exact cfg zones k'" for zones
    by (simp add: frr_exact_def frrObject_same [OF assms(1)])
  then show ?thesis using assms by (simp add: config_ready_report_def)
qed

lemma config_stage_cong:
  assumes "config_finalized cfg k c1 k1"
  shows "config_safe (cfgName (configuringConfig c1)) k1 k2 \<Longrightarrow> config_safe (cfgName cfg) k k2"
    and "config_stage (configuringConfig c1) k1 k2 \<Longrightarrow> config_stage cfg k k2"
proof -
  have fin: "cfgName (configuringConfig c1) = cfgName cfg" "only_config (cfgName cfg) k k1"
    using assms by (simp_all add: config_finalized_def config_states)
  then have "config_scope k1 = config_scope k" by (intro config_scope_same) (simp add: only_config_def)
  then show safe: "config_safe (cfgName cfg) k k2" if "config_safe (cfgName (configuringConfig c1)) k1 k2" for k2
    using that fin by (simp add: config_safe_def only_config_def)
  have "frr_ready k1 = frr_ready k" using fin(2) by (simp add: only_config_def frr_ready_def frr_pods_def)
  then show "config_stage (configuringConfig c1) k1 k2 \<Longrightarrow> config_stage cfg k k2"
    unfolding config_stage_def using safe by blast
qed

text \<open>The reasons to degrade are the same before the finalizer was added.\<close>

lemma config_failure_cong:
  assumes fin: "config_finalized cfg k c1 k1" and "config_failure env r view (configuringConfig c1) k1 t re m"
  shows "config_failure env r view cfg k t re m"
proof -
  note stage = config_stage_cong [OF fin]
  have spec: "cfgSpec (configuringConfig c1) = cfgSpec cfg" using fin by (simp add: config_finalized_def config_states)
  have exact: "frr_exact (configuringConfig c1) zones k2 = frr_exact cfg zones k2" for zones k2
    by (simp add: frr_exact_def frrObject_same [OF spec])
  from assms(2) show ?thesis
  proof (cases rule: config_failure.cases)
    case patch_failed
    show ?thesis unfolding patch_failed(1-3) by (rule config_failure.patch_failed [where view = view, OF stage(1) [OF patch_failed(4)] patch_failed(5)])
  next
    case check_failed
    show ?thesis unfolding check_failed(1-3) by (rule config_failure.check_failed [where view = view, OF stage(1) [OF check_failed(4)] check_failed(5,6)])
  next
    case credentials_invalid
    show ?thesis unfolding credentials_invalid(1,2)
      by (rule config_failure.credentials_invalid [where view = view, OF stage(2) [OF credentials_invalid(3)] credentials_invalid(4-7) [unfolded spec]])
  next
    case build_failed
    show ?thesis unfolding build_failed(1-3)
      by (rule config_failure.build_failed [where view = view, OF stage(2) [OF build_failed(4)] build_failed(5-8) [unfolded spec]])
  next
    case discovery_failed
    show ?thesis unfolding discovery_failed(1-3)
      by (rule config_failure.discovery_failed [where view = view, OF stage(2) [OF discovery_failed(4)] discovery_failed(5-8) [unfolded spec]])
  next
    case apply_failed
    show ?thesis unfolding apply_failed(1-3)
      by (rule config_failure.apply_failed [where view = view, OF stage(2) [OF apply_failed(4)] apply_failed(5-7) [unfolded spec]])
  next
    case nodes_failed
    show ?thesis unfolding nodes_failed(1-3)
      by (rule config_failure.nodes_failed [where view = view, OF stage(2) [OF nodes_failed(4)] nodes_failed(5-8) [unfolded spec exact]])
  next
    case reconcile_failed
    show ?thesis unfolding reconcile_failed(1-3)
      by (rule config_failure.reconcile_failed [where view = view, OF stage(2) [OF reconcile_failed(4)] reconcile_failed(5-9) [unfolded spec exact]])
  qed
qed

lemma config_report_intro:
  assumes fin: "config_finalized cfg k c1 k1" and out: "config_outcome env r view (configuringConfig c1) k1 res k'"
    and ev: "config_evolves (config_scope k1) (cfgName cfg) k1 k'"
  shows "config_report env r view cfg k res k'"
proof -
  let ?c = "configuringConfig c1"
  have same: "cfgMeta ?c = cfgMeta c1" "cfgSpec ?c = cfgSpec cfg"
    "ctObservedGeneration (cfgStatus ?c) = metaGeneration (cfgMeta cfg)" "cfgName c1 = cfgName cfg"
    using fin by (simp_all add: config_finalized_def config_states)
  have frr: "frr_ready k1 = frr_ready k"
    using fin by (simp add: config_finalized_def only_config_def frr_ready_def frr_pods_def)
  from out same obtain st where st: "fmlookup (kConfigs k') (cfgName cfg) = Some st"
    "ctObservedGeneration (cfgStatus st) = metaGeneration (cfgMeta cfg)"
    and cases: "res = \<lparr>RequeueAfter = 30 * Second\<rparr> \<and> config_degraded (config_failure env r view ?c k1) (cfgStatus st) \<or>
         res = \<lparr>RequeueAfter = 10 * Second\<rparr> \<and> config_waiting (cfgStatus st) \<and> \<not> frr_ready k1 \<or>
         res = \<lparr>RequeueAfter = 5 * Minute\<rparr> \<and> config_ready_report ?c k1 (cfgStatus st) k'"
    unfolding config_outcome_def by auto
  have "config_core st = config_core c1"
    using ev st(1) fin by (auto simp: config_evolves_def config_finalized_def)
  from core_eqD [OF this] have "cfgSpec st = cfgSpec cfg" "ConfigFinalizerName \<in> set (metaFinalizers (cfgMeta st))"
    using fin by (simp_all add: config_finalized_def)
  moreover have "config_degraded (config_failure env r view cfg k) (cfgStatus st)"
    if "config_degraded (config_failure env r view ?c k1) (cfgStatus st)"
    using that config_failure_cong [OF fin] by (rule config_degraded_mono)
  ultimately show ?thesis
    using st cases config_ready_report_cong [OF same(2) frr] frr unfolding config_report_def by blast
qed

section \<open>Deletion\<close>

text \<open>
  What a run on a configuration under deletion may change: the operator's FRRConfigurations, and the
  configuration itself only when no routing exists and no such FRRConfiguration is left.
\<close>

definition config_delete_safe :: "string \<Rightarrow> cluster \<Rightarrow> cluster \<Rightarrow> bool" where
  "config_delete_safe name k k' \<longleftrightarrow>
     (\<forall>key. key \<notin> frr_key ` uoName ` managed_frr k \<longrightarrow> fmlookup (kObjects k') key = fmlookup (kObjects k) key) \<and>
     kRoutings k' = kRoutings k \<and> kNamespaces k' = kNamespaces k \<and> kPods k' = kPods k \<and> kNodes k' = kNodes k \<and>
     (\<forall>n. n \<noteq> name \<longrightarrow> fmlookup (kConfigs k') n = fmlookup (kConfigs k) n) \<and>
     (k' \<noteq> k \<longrightarrow> kRoutings k = fmempty) \<and> (kConfigs k' \<noteq> kConfigs k \<longrightarrow> managed_frr k' = {})"

definition config_released :: "string \<Rightarrow> cluster \<Rightarrow> bool" where
  "config_released name k' \<longleftrightarrow>
     (case fmlookup (kConfigs k') name of
        None \<Rightarrow> True | Some st \<Rightarrow> ConfigFinalizerName \<notin> set (metaFinalizers (cfgMeta st)))"

definition config_deleted :: "string \<Rightarrow> cluster \<Rightarrow> Result \<Rightarrow> cluster \<Rightarrow> bool" where
  "config_deleted name k res k' \<longleftrightarrow>
     (if kRoutings k = fmempty then res = emptyResult \<and> managed_frr k' = {} \<and> config_released name k'
      else res = \<lparr>RequeueAfter = 10 * Second\<rparr> \<and> k' = k)"

lemma managed_frr_same: "kObjects k' = kObjects k \<Longrightarrow> managed_frr k' = managed_frr k"
  by (simp only: listed_def)

lemma config_delete_safe_refl [simp]: "config_delete_safe n k k"
  by (simp add: config_delete_safe_def)

lemma config_delete_safe_objects:
  "changes_only (frr_key ` uoName ` managed_frr k) k k' \<Longrightarrow> kRoutings k = fmempty \<Longrightarrow> config_delete_safe n k k'"
  by (simp add: config_delete_safe_def changes_only_def)

lemma config_delete_safe_release:
  assumes "changes_only (frr_key ` uoName ` managed_frr k) k k1" "kRoutings k = fmempty" "managed_frr k1 = {}"
    and "only_config n k1 k2"
  shows "config_delete_safe n k k2 \<and> managed_frr k2 = {}"
  using assms managed_frr_same [of k2 k1] by (simp add: config_delete_safe_def changes_only_def only_config_def)

lemma wp_releaseConfig:
  fixes cfg :: CUDNBgpConfig
  assumes laws: "kube_laws lib c view" "lib_laws lib"
    and pre: "changes_only (frr_key ` uoName ` managed_frr k) k (view w)" "kRoutings k = fmempty" "managed_frr (view w) = {}"
  defines "x \<equiv> cfg\<lparr>cfgMeta := (cfgMeta cfg)\<lparr>metaFinalizers :=
      RemoveFinalizer lib (metaFinalizers (cfgMeta cfg)) ConfigFinalizerName\<rparr>\<rparr>"
  shows "wp (bindA (updateConfig c x) (\<lambda>_. returnA emptyResult))
    (\<lambda>res w'. config_deleted (cfgName cfg) k res (view w') \<and> config_delete_safe (cfgName cfg) k (view w'))
    (\<lambda>_ w'. config_delete_safe (cfgName cfg) k (view w')) w"
proof -
  have name: "cfgName x = cfgName cfg" by (simp add: x_def)
  have released: "config_released (cfgName cfg) k'" if "update_config_effect x c1 (view w) k'" for c1 k'
    using that unfolding update_config_effect_def config_released_def name
    by (auto simp: x_def lib_lawsD [OF laws(2)])
  have safe: "config_delete_safe (cfgName cfg) k k' \<and> managed_frr k' = {}"
    if "update_config_effect x c1 (view w) k'" for c1 k'
    using config_delete_safe_release [OF pre] update_config_only [OF that] name by simp
  have "config_delete_safe (cfgName cfg) k (view w)" by (rule config_delete_safe_objects [OF pre(1,2)])
  then show ?thesis
    unfolding wp_eta
    by (intro wp_write [OF kube_lawsD(2) [OF laws(1)]]) (use released safe pre(2) in \<open>auto simp: config_deleted_def\<close>)
qed

section \<open>The platform and its builder\<close>

text \<open>
  The contract of a platform together with its builder: in a good environment the builder changes
  nothing in the cluster, and what it returns may be used. \<open>e\<close> is the environment of platform and
  builder.
\<close>

locale config_platform = cloud_platform M legal
  for M :: "'e \<Rightarrow> ('w, 'p) CloudPlatform" and legal :: "'e \<Rightarrow> 'p \<Rightarrow> ('w \<Rightarrow> cluster) \<Rightarrow> bool" +
  fixes builder :: "'e \<Rightarrow> 'w client \<Rightarrow> CUDNBgpConfig \<Rightarrow> ('w, 'p) act"
    and good :: "'e \<Rightarrow> 'w client \<Rightarrow> ('w \<Rightarrow> cluster) \<Rightarrow> bool"
  assumes builder_spec: "good e c view \<Longrightarrow>
    wp (builder e c config) (\<lambda>p w'. legal e p view \<and> view w' = view w) (\<lambda>_ w'. view w' = view w) w"
begin

lemma wp_builder:
  assumes "good e c view"
    and "\<And>p w'. legal e p view \<Longrightarrow> view w' = view w \<Longrightarrow> Q p w'" and "\<And>err w'. view w' = view w \<Longrightarrow> E err w'"
  shows "wp (builder e c config) Q E w"
  by (rule wp_mono [OF builder_spec [OF assms(1)]]) (use assms(2,3) in auto)

lemma wp_ConfigPhase5:
  assumes laws: "kube_laws (ceLib env) (ccClient r) view" "lib_laws (ceLib env)" and M: "ceMethods env = M e"
    and ph: "in_phase cfg k ts cf (view w)" and frr: "frr_done cfg k cf (view w)"
    and legal: "\<forall>p. plat = Some p \<longrightarrow> legal e p view"
    and ts: "all_conditions (cfgSpec cfg) = (if plat = None then ts else insert ConditionAWSResourcesReconciled ts)"
  shows "wp (ConfigPhase5 env r cf plat) (config_post env r view cfg k) (config_fail cfg k view) w"
proof (cases plat)
  case None
  then show ?thesis
    using wp_ConfigFinish [OF laws(1) _ frr] ph ts by (simp add: ConfigPhase5_def)
next
  case (Some p)
  let ?Q = "config_post env r view cfg k" and ?E = "config_fail cfg k view"
  let ?degrade = "\<lambda>m. ConfigSetDegraded (ceLib env) (ccClient r) cf ConditionAWSResourcesReconciled ''AWSReconcileFailed'' m"
  obtain zones where stage: "config_stage cfg k (view w)" "frr_exact cfg zones (view w)"
    using in_phase_stage [OF ph] frr by (auto simp: frr_done_def)
  have "ConditionAWSResourcesReconciled \<in> all_conditions (cfgSpec cfg)" using ts Some by simp
  then have aws: "csAWS (cfgSpec cfg) \<noteq> None" by (cases "csAWS (cfgSpec cfg)") (simp_all add: all_conditions_def go_consts)
  let ?cf = "setConfigCondition (ceLib env) cf ConditionAWSResourcesReconciled
    ConditionTrue ''Reconciled'' ''Route Server peers and source/dest check reconciled''"
  have degrade: "wp (?degrade m) ?Q ?E w1" if "view w1 = view w"
      "config_failure env r view cfg k ConditionAWSResourcesReconciled ''AWSReconcileFailed'' m" for m w1
    by (rule wp_phase_degraded [OF laws in_phase_same [OF ph that(1)] that(2)])
  have finish: "wp (ConfigFinish r ?cf) ?Q ?E w1" if "view w1 = view w" for w1
    by (rule wp_ConfigFinish [OF laws(1)])
      (use in_phase_set [OF laws(2) ph] frr ts Some that in simp_all)
  have reconcile: "wp (cpReconcileNodes (ceMethods env) p nodes) (\<lambda>_. wp (ConfigFinish r ?cf) ?Q ?E)
      (\<lambda>err. wp (?degrade (Sprintf [''failed to reconcile AWS resources: '', Error err])) ?Q ?E) w1"
    if w1: "view w1 = view w" and list: "listRouterNodes (ccClient r) cf w = (Inr nodes, w1)" for nodes w1
  proof -
    have why: "config_failure env r view cfg k ConditionAWSResourcesReconciled ''AWSReconcileFailed''
        (Sprintf [''failed to reconcile AWS resources: '', Error err])"
      if "cpReconcileNodes (ceMethods env) p nodes w1 = (Inl err, w2)" for err w2
      by (rule reconcile_failed [where view = view, OF _ aws _ in_phaseD(5) [OF ph] list that]) (use stage w1 in simp_all)
    show ?thesis
      by (rule wp_recall, unfold M, rule wp_reconcile) (use Some legal w1 degrade [OF _ why] finish M in auto)
  qed
  have "wp (listRouterNodes (ccClient r) cf)
      (\<lambda>nodes. wp (cpReconcileNodes (ceMethods env) p nodes) (\<lambda>_. wp (ConfigFinish r ?cf) ?Q ?E)
        (\<lambda>err. wp (?degrade (Sprintf [''failed to reconcile AWS resources: '', Error err])) ?Q ?E))
      (\<lambda>err. wp (?degrade (Sprintf [''failed to list router nodes: '', Error err])) ?Q ?E) w"
    by (rule wp_recall, rule wp_listRouterNodes [OF laws(1)])
      (blast intro: reconcile degrade nodes_failed [where view = view, OF stage(1) aws stage(2) in_phaseD(5) [OF ph]])+
  then show ?thesis by (simp add: Some ConfigPhase5_def wp_eta)
qed

lemma wp_ConfigPhase4:
  assumes laws: "kube_laws (ceLib env) (ccClient r) view" "lib_laws (ceLib env)" "range_laws (ceRange env) view"
    and M: "ceMethods env = M e" and ph: "in_phase cfg k ts cf (view w)" and patched: "patched cfg k (view w)"
    and disc: "disc_ok cf disc" and legal: "\<forall>d. disc = Some d \<longrightarrow> legal e (snd d) view"
    and ts: "ts = {ConditionNetworkOperatorPatched, ConditionFRRNamespaceReady} \<union>
      (if disc = None then {} else {ConditionAWSEndpointsDiscovered})"
  shows "wp (ConfigPhase4 env r cf disc) (config_post env r view cfg k) (config_fail cfg k view) w"
proof -
  let ?Q = "config_post env r view cfg k" and ?E = "config_fail cfg k view"
  have aws: "csAWS (cfgSpec cfg) = None \<longleftrightarrow> disc = None"
    using disc in_phaseD(5) [OF ph] by (auto simp: disc_ok_def split: option.splits prod.splits)
  have degrade: "wp (ConfigSetDegraded (ceLib env) (ccClient r) cf ConditionFRRConfigurationApplied ''ApplyFailed'' m) ?Q ?E w1"
    if "config_evolves (config_scope k) (cfgName cfg) (view w) (view w1)"
      "config_failure env r view cfg k ConditionFRRConfigurationApplied ''ApplyFailed'' m" for m w1
    by (rule wp_phase_degraded [OF laws(1,2) in_phase_objects [OF ph that(1)] that(2)])
  have why: "config_failure env r view cfg k ConditionFRRConfigurationApplied ''ApplyFailed''
      (Sprintf [''failed to apply FRR configurations: '', Error err])"
    if "applyFRR env r cf disc w = (Inl err, w1)" for err w1
    by (rule apply_failed [where view = view, OF in_phase_stage [OF ph] in_phaseD(5) [OF ph] _ that]) (use patched aws in \<open>auto simp: patched_def\<close>)
  have next': "wp (ConfigPhase5 env r (setConfigCondition (ceLib env) cf ConditionFRRConfigurationApplied ConditionTrue
      ''Applied'' m) (map_option snd disc)) ?Q ?E w1"
    if "config_evolves (config_scope k) (cfgName cfg) (view w) (view w1)" "frr_done cfg k cf (view w1)" for m w1
    by (rule wp_ConfigPhase5 [OF laws(1,2) M in_phase_set [OF laws(2) in_phase_objects [OF ph that(1)]]])
      (use that legal aws in \<open>auto simp: ts all_conditions_def\<close>)
  have "wp (applyFRR env r cf disc)
      (\<lambda>n. wp (ConfigPhase5 env r (setConfigCondition (ceLib env) cf ConditionFRRConfigurationApplied ConditionTrue
        ''Applied'' (Sprintf [''Applied '', itoa n, '' FRRConfiguration(s)''])) (map_option snd disc)) ?Q ?E)
      (\<lambda>err. wp (ConfigSetDegraded (ceLib env) (ccClient r) cf ConditionFRRConfigurationApplied ''ApplyFailed''
        (Sprintf [''failed to apply FRR configurations: '', Error err])) ?Q ?E) w"
    by (rule wp_recall, rule wp_mono [OF wp_applyFRR [OF laws(1,3) patched in_phaseD(5) [OF ph] disc]])
      (use degrade [OF _ why] next' in auto)
  then show ?thesis by (simp add: ConfigPhase4_def wp_eta)
qed

lemma wp_ConfigPhase3:
  assumes laws: "kube_laws (ceLib env) (ccClient r) view" "lib_laws (ceLib env)" "range_laws (ceRange env) view"
    and M: "ceMethods env = M e" and builder: "buildPlatform env r = builder e (ccClient r)" "good e (ccClient r) view"
    and ph: "in_phase cfg k {ConditionNetworkOperatorPatched, ConditionFRRNamespaceReady} cf (view w)"
    and patched: "patched cfg k (view w)"
  shows "wp (ConfigPhase3 env r cf) (config_post env r view cfg k) (config_fail cfg k view) w"
proof (cases "csAWS (cfgSpec cf)")
  case None
  then show ?thesis
    using wp_ConfigPhase4 [OF laws M ph patched, of None] by (simp add: ConfigPhase3_def disc_ok_def)
next
  case (Some s)
  let ?Q = "config_post env r view cfg k" and ?E = "config_fail cfg k view"
  have degrade: "wp (ConfigSetDegraded (ceLib env) (ccClient r) cf ConditionAWSEndpointsDiscovered re m) ?Q ?E w1"
    if "view w1 = view w" "config_failure env r view cfg k ConditionAWSEndpointsDiscovered re m" for re m w1
    by (rule wp_phase_degraded [OF laws(1,2) in_phase_same [OF ph that(1)] that(2)])
  have stage: "config_stage cfg k (view w)" using in_phase_stage [OF ph] patched by (simp add: patched_def)
  have aws: "csAWS (cfgSpec cfg) \<noteq> None" and spec: "cfgSpec cf = cfgSpec cfg" using Some in_phaseD(5) [OF ph] by simp_all
  have next': "wp (ConfigPhase4 env r (discoveredConfig (ceLib env) cf dr) (Some (dr, p))) ?Q ?E w1"
    if "discovery_wf dr" "legal e p view" and same: "view w1 = view w" for dr p w1
    by (rule wp_ConfigPhase4 [OF laws M in_phase_discovered [OF laws(2) in_phase_same [OF ph same]]])
      (use that patched Some in \<open>auto simp: disc_ok_def\<close>, simp add: discoveredConfig_def setConfigCondition_def)
  let ?discover = "\<lambda>p. wp (cpDiscoverEndpoints (ceMethods env) p)
      (\<lambda>x. wp (case x of (dr, p) \<Rightarrow> ConfigPhase4 env r (discoveredConfig (ceLib env) cf dr) (Some (dr, p))) ?Q ?E)
      (\<lambda>err. wp (ConfigSetDegraded (ceLib env) (ccClient r) cf ConditionAWSEndpointsDiscovered
         ''AWSDiscoveryFailed'' (Sprintf [''failed to discover Route Server endpoints: '', Error err])) ?Q ?E)"
  let ?fail = "\<lambda>err. wp (case as_CredentialError err of
          Some msg \<Rightarrow> ConfigSetDegraded (ceLib env) (ccClient r) cf ConditionAWSEndpointsDiscovered ''AWSCredentialsInvalid'' msg
        | None \<Rightarrow> ConfigSetDegraded (ceLib env) (ccClient r) cf ConditionAWSEndpointsDiscovered
            ''AWSDiscoveryFailed'' (Sprintf [''failed to build AWS platform: '', Error err])) ?Q ?E"
  have discover: "?discover p w1"
    if legal: "legal e p view" and w1: "view w1 = view w" and build: "buildPlatform env r cf w = (Inr p, w1)" for p w1
  proof -
    have why: "config_failure env r view cfg k ConditionAWSEndpointsDiscovered ''AWSDiscoveryFailed''
        (Sprintf [''failed to discover Route Server endpoints: '', Error err])"
      if "cpDiscoverEndpoints (ceMethods env) p w1 = (Inl err, w2)" for err w2
      by (rule discovery_failed [where view = view, OF _ aws spec build that]) (use stage w1 in simp)
    show ?thesis
      by (rule wp_recall, unfold M, rule wp_discover [OF legal]) (use w1 next' degrade [OF _ why] M in auto)
  qed
  have fail: "?fail err w1" if w1: "view w1 = view w" and build: "buildPlatform env r cf w = (Inl err, w1)" for err w1
    using degrade [OF w1] credentials_invalid [where view = view, OF stage aws spec build]
      build_failed [where view = view, OF stage aws spec build]
    by (cases "as_CredentialError err") simp_all
  have "wp (buildPlatform env r cf) ?discover ?fail w"
    by (rule wp_recall, unfold builder(1), rule wp_builder [OF builder(2)])
      (use discover fail builder(1) in \<open>simp_all add: wp_simps\<close>)
  then show ?thesis by (simp add: ConfigPhase3_def Some wp_eta)
qed

lemma wp_ConfigPhase2:
  assumes laws: "kube_laws (ceLib env) (ccClient r) view" "lib_laws (ceLib env)" "range_laws (ceRange env) view"
    and M: "ceMethods env = M e" and builder: "buildPlatform env r = builder e (ccClient r)" "good e (ccClient r) view"
    and ph: "in_phase cfg k {ConditionNetworkOperatorPatched} cf (view w)"
    and patched: "config_evolves {network_key} (cfgName cfg) k (view w)" "network_enabled (view w)" "frr_clean (view w)"
  shows "wp (ConfigPhase2 env r cf) (config_post env r view cfg k) (config_fail cfg k view) w"
proof -
  let ?Q = "config_post env r view cfg k" and ?E = "config_fail cfg k view"
  have frr: "frr_ready (view w) = frr_ready k"
    using patched(1) by (simp add: frr_ready_def frr_pods_def config_evolves_def)
  have degrade: "wp (ConfigSetDegraded (ceLib env) (ccClient r) cf ConditionFRRNamespaceReady re m) ?Q ?E w1"
    if "view w1 = view w" "config_failure env r view cfg k ConditionFRRNamespaceReady re m" for re m w1
    by (rule wp_phase_degraded [OF laws(1,2) in_phase_same [OF ph that(1)] that(2)])
  have wait: "wp (bindA (updateConfigStatus (ccClient r) (waitingConfig (ceLib env) cf))
      (\<lambda>_. returnA \<lparr>RequeueAfter = 10 * Second\<rparr>)) ?Q ?E w1" if "view w1 = view w" "\<not> frr_ready k" for w1
  proof (rule wp_report [OF laws(1)])
    show "config_evolves (config_scope k) (cfgName cfg) k (view w1)" using in_phaseD(1) [OF ph] that(1) by simp
    show "same_config cfg (waitingConfig (ceLib env) cf)" using in_phaseD(2) [OF ph] by simp
    fix w' and st :: CUDNBgpConfig
    assume st: "cfgStatus st = cfgStatus (waitingConfig (ceLib env) cf)"
    have "config_waiting (cfgStatus st)"
      unfolding st config_waiting_def
      using in_phaseD(3) [OF ph] by (simp add: waitingConfig_def setConfigCondition_def lib_lawsD [OF laws(2)])
    with that(2) show "\<lparr>RequeueAfter = 10 * Second\<rparr> = \<lparr>RequeueAfter = 30 * Second\<rparr> \<and> config_degraded (config_failure env r view cfg k) (cfgStatus st) \<or>
      \<lparr>RequeueAfter = 10 * Second\<rparr> = \<lparr>RequeueAfter = 10 * Second\<rparr> \<and> config_waiting (cfgStatus st) \<and> \<not> frr_ready k \<or>
      \<lparr>RequeueAfter = 10 * Second\<rparr> = \<lparr>RequeueAfter = 5 * Minute\<rparr> \<and> config_ready_report cfg k (cfgStatus st) (view w')"
      by simp
  qed
  have next': "wp (ConfigPhase3 env r (setConfigCondition (ceLib env) cf ConditionFRRNamespaceReady ConditionTrue re m)) ?Q ?E w1"
    if same: "view w1 = view w" and "frr_ready k" for re m w1
  proof (rule wp_ConfigPhase3 [OF laws M builder])
    show "in_phase cfg k {ConditionNetworkOperatorPatched, ConditionFRRNamespaceReady}
        (setConfigCondition (ceLib env) cf ConditionFRRNamespaceReady ConditionTrue re m) (view w1)"
      using in_phase_set [OF laws(2) in_phase_same [OF ph same], of ConditionFRRNamespaceReady re m]
      by (simp add: insert_commute)
    show "patched cfg k (view w1)" using patched that by (simp add: patched_def)
  qed
  show ?thesis
    unfolding ConfigPhase2_def wp_branch
  proof (rule wp_recall, rule wp_IsFRRReady [OF laws(1)])
    fix w1
    assume "view w1 = view w"
    then show "IsFRRReady (ceLib env) (ccClient r) w = (Inr (frr_ready (view w)), w1) \<longrightarrow> wp (if \<not> frr_ready (view w)
        then bindA (updateConfigStatus (ccClient r) (waitingConfig (ceLib env) cf)) (\<lambda>_. returnA \<lparr>RequeueAfter = 10 * Second\<rparr>)
        else ConfigPhase3 env r (setConfigCondition (ceLib env) cf ConditionFRRNamespaceReady
            ConditionTrue ''Ready'' ''FRR namespace and pods are running'')) ?Q ?E w1"
      unfolding frr using wait next' by (cases "frr_ready k") simp_all
  next
    fix err w1
    assume "view w1 = view w"
    then show "IsFRRReady (ceLib env) (ccClient r) w = (Inl err, w1) \<longrightarrow> wp (ConfigSetDegraded (ceLib env) (ccClient r) cf
        ConditionFRRNamespaceReady ''CheckFailed'' (Sprintf [''failed to check FRR readiness: '', Error err])) ?Q ?E w1"
      using degrade check_failed [where view = view, OF config_evolves_safe [OF in_phaseD(1) [OF ph]] patched(2)] by blast
  qed
qed

lemma wp_ConfigPhase1:
  assumes laws: "kube_laws (ceLib env) (ccClient r) view" "lib_laws (ceLib env)" "range_laws (ceRange env) view"
    and M: "ceMethods env = M e" and builder: "buildPlatform env r = builder e (ccClient r)" "good e (ccClient r) view"
    and k: "view w = k" and clean: "frr_clean k" and cfg: "ctPhase (cfgStatus cfg) = PhaseConfiguring"
  shows "wp (ConfigPhase1 env r cfg) (config_post env r view cfg k) (config_fail cfg k view) w"
proof -
  let ?Q = "config_post env r view cfg k" and ?E = "config_fail cfg k view"
  have start: "in_phase cfg k {} cfg k1" if "config_evolves {network_key} (cfgName cfg) k k1" for k1
    using cfg config_evolves_mono [OF that, of "config_scope k"] by (simp add: in_phase_def conds_true_def config_scope_def)
  have eff: "config_evolves {network_key} (cfgName cfg) k k1" if "patch_effect network_key networkSpecPatch k k1" for k1
    by (rule patch_evolves [OF that])
  have degrade: "wp (ConfigSetDegraded (ceLib env) (ccClient r) cfg ConditionNetworkOperatorPatched re m) ?Q ?E w1"
    if "view w1 = k \<or> patch_effect network_key networkSpecPatch k (view w1)"
      "config_failure env r view cfg k ConditionNetworkOperatorPatched re m" for re m w1
    by (rule wp_phase_degraded [OF laws(1,2) start that(2)]) (use that(1) eff in auto)
  have why: "config_failure env r view cfg k ConditionNetworkOperatorPatched ''PatchFailed''
      (Sprintf [''failed to patch Network operator: '', Error err])" if "PatchNetworkOperator (ccClient r) w = (Inl err, w1)" for err w1
    by (rule patch_failed [where view = view, OF _ that]) (simp add: k config_safe_def)
  have next': "wp (ConfigPhase2 env r (setConfigCondition (ceLib env) cfg ConditionNetworkOperatorPatched ConditionTrue re m)) ?Q ?E w1"
    if patch: "patch_effect network_key networkSpecPatch k (view w1)" for re m w1
  proof (rule wp_ConfigPhase2 [OF laws M builder in_phase_set [OF laws(2) start [OF eff [OF patch]]] eff [OF patch]])
    show "network_enabled (view w1)"
      using patch enabled_spec_patch by (auto simp: network_enabled_def patch_effect_def)
    show "frr_clean (view w1)"
      using clean eff [OF patch] by (simp add: frr_clean_def config_evolves_def)
  qed
  show ?thesis
    unfolding ConfigPhase1_def wp_branch
    by (rule wp_recall, rule wp_PatchNetworkOperator [OF laws(1)]) (use degrade [OF _ why] next' k in auto)
qed

lemma wp_ConfigReconcile:
  assumes laws: "kube_laws (ceLib env) (ccClient r) view" "lib_laws (ceLib env)" "range_laws (ceRange env) view"
    and M: "ceMethods env = M e" and builder: "buildPlatform env r = builder e (ccClient r)" "good e (ccClient r) view"
    and clean: "frr_clean (view w)" and cfg: "fmlookup (kConfigs (view w)) SingletonName = Some cfg"
      "cfgName cfg = SingletonName" "metaDeletionTimestamp (cfgMeta cfg) = None"
  shows "wp (ConfigReconcile env r SingletonName)
    (\<lambda>res w'. config_report env r view cfg (view w) res (view w') \<and> config_safe SingletonName (view w) (view w'))
    (\<lambda>_ w'. config_safe SingletonName (view w) (view w')) w"
  unfolding ConfigReconcile_def wp_branch
proof (rule wp_get [OF kube_lawsD(1) [OF laws(1)]])
  let ?Q = "\<lambda>res w'. config_report env r view cfg (view w) res (view w') \<and> config_safe SingletonName (view w) (view w')"
  let ?E = "\<lambda>_ w'. config_safe SingletonName (view w) (view w')"
  fix a w1
  assume "fmlookup (kConfigs (view w)) SingletonName = Some a" and w1: "view w1 = view w"
  then have a: "a = cfg" using cfg by simp
  have phases: "wp (ConfigPhase1 env r (configuringConfig c1)) ?Q ?E w2"
    if fin: "config_finalized cfg (view w) c1 (view w2)" for c1 w2
  proof -
    let ?c = "configuringConfig c1"
    have name: "cfgName ?c = cfgName cfg" using fin by (simp add: config_finalized_def config_states)
    have clean2: "frr_clean (view w2)"
      using fin clean by (simp add: config_finalized_def only_config_def frr_clean_def)
    have conf: "ctPhase (cfgStatus ?c) = PhaseConfiguring" by (simp add: config_states)
    show ?thesis
      by (rule wp_mono [OF wp_ConfigPhase1 [OF laws M builder refl clean2 conf]])
        (use config_report_intro [OF fin] config_safe_intro [OF fin] name cfg(2) in
          \<open>auto simp: config_post_def config_fail_def\<close>)
  qed
  have "wp (ensureConfigFinalizer (ceLib env) (ccClient r) cfg) (\<lambda>c1. wp (ConfigPhase1 env r (configuringConfig c1)) ?Q ?E) ?E w1"
    by (rule wp_mono [OF wp_ensureConfigFinalizer [OF laws(1,2), of w1 cfg]])
      (use cfg w1 phases only_config_safe in auto)
  then show "wp (if cfgName a \<noteq> SingletonName
      then ConfigSetDegraded (ceLib env) (ccClient r) a ConditionNetworkOperatorPatched ''InvalidName''
        (Sprintf [''CUDNBgpConfig must be named '', quote SingletonName, '', got '', quote (cfgName a)])
      else if metaDeletionTimestamp (cfgMeta a) \<noteq> None then ConfigReconcileDelete env r a
      else bindA (ensureConfigFinalizer (ceLib env) (ccClient r) a) (\<lambda>config. ConfigPhase1 env r (configuringConfig config)))
    ?Q ?E w1"
    using cfg by (simp add: a wp_eta)
next
  fix e w1
  assume "IsNotFound (ceLib env) e \<longrightarrow> fmlookup (kConfigs (view w)) SingletonName = None" and "view w1 = view w"
  then show "wp (if IsNotFound (ceLib env) e then returnA emptyResult else throwA e)
    (\<lambda>res w'. config_report env r view cfg (view w) res (view w') \<and> config_safe SingletonName (view w) (view w'))
    (\<lambda>_ w'. config_safe SingletonName (view w) (view w')) w1"
    using cfg(1) by (simp add: wp_simps config_safe_def)
qed

lemma wp_cleanupCloud:
  assumes M: "ceMethods env = M e" and builder: "buildPlatform env r = builder e (ccClient r)" "good e (ccClient r) view"
  shows "wp (cleanupCloud env r cfg) (\<lambda>_ w'. view w' = view w) (\<lambda>_ w'. view w' = view w) w"
proof -
  have clean: "wp (cpCleanup (ceMethods env) p) (\<lambda>_ w'. view w' = view w) (\<lambda>_ w'. view w' = view w) w1"
    if "legal e p view" "view w1 = view w" for p w1
    unfolding M by (rule wp_cleanup [OF that(1)]) (use that in auto)
  have discover: "wp (cpDiscoverEndpoints (ceMethods env) p)
      (\<lambda>x. wp (case x of (_, p) \<Rightarrow> wrapA ''cleaning up AWS resources: '' (cpCleanup (ceMethods env) p))
        (\<lambda>_ w'. view w' = view w) (\<lambda>_ w'. view w' = view w)) (\<lambda>_ w'. view w' = view w) w1"
    if "legal e p view" "view w1 = view w" for p w1
    unfolding M by (rule wp_discover [OF that(1)]) (use that clean in \<open>auto simp: wp_eta M\<close>)
  have "wp (builder e (ccClient r) cfg) (\<lambda>p. wp (cpDiscoverEndpoints (ceMethods env) p)
      (\<lambda>x. wp (case x of (_, p) \<Rightarrow> wrapA ''cleaning up AWS resources: '' (cpCleanup (ceMethods env) p))
        (\<lambda>_ w'. view w' = view w) (\<lambda>_ w'. view w' = view w)) (\<lambda>_ w'. view w' = view w))
      (\<lambda>_ w'. view w' = view w) w"
    by (rule wp_builder [OF builder(2)]) (use discover in auto)
  then show ?thesis by (cases "csAWS (cfgSpec cfg)") (simp_all add: cleanupCloud_def wp_eta builder(1))
qed

lemma wp_ConfigReconcileDelete:
  assumes laws: "kube_laws (ceLib env) (ccClient r) view" "lib_laws (ceLib env)"
    and M: "ceMethods env = M e" and builder: "buildPlatform env r = builder e (ccClient r)" "good e (ccClient r) view"
    and k: "view w = k" and clean: "frr_clean k"
  shows "wp (ConfigReconcileDelete env r cfg)
    (\<lambda>res w'. config_deleted (cfgName cfg) k res (view w') \<and> config_delete_safe (cfgName cfg) k (view w'))
    (\<lambda>_ w'. config_delete_safe (cfgName cfg) k (view w')) w"
  unfolding ConfigReconcileDelete_def wp_bind
proof (rule wp_read [OF kube_lawsD(5) [OF laws(1)]])
  let ?Q = "\<lambda>res w'. config_deleted (cfgName cfg) k res (view w') \<and> config_delete_safe (cfgName cfg) k (view w')"
  let ?E = "\<lambda>_ w'. config_delete_safe (cfgName cfg) k (view w')"
  let ?release = "bindA (updateConfig (ccClient r) (cfg\<lparr>cfgMeta := (cfgMeta cfg)\<lparr>metaFinalizers :=
    RemoveFinalizer (ceLib env) (metaFinalizers (cfgMeta cfg)) ConfigFinalizerName\<rparr>\<rparr>)) (\<lambda>_. returnA emptyResult)"
  fix items :: "CUDNBgpRouting list" and w1
  assume items: "set items = fmran' (kRoutings (view w))" and w1: "view w1 = view w"
  have empty: "items = [] \<longleftrightarrow> kRoutings k = fmempty"
    using items k by (metis fmran'_alt_def fmran_empty bot_fset.rep_eq fmap_ext fmlookup_ran'_iff empty_iff
        set_empty2 fmempty_lookup not_Some_eq)
  show "wp (if items \<noteq> [] then returnA \<lparr>RequeueAfter = 10 * Second\<rparr>
      else bindA (cleanupCloud env r cfg) (\<lambda>_. bindA (DeleteFRRConfigurations (ceLib env) (ccClient r)) (\<lambda>_. ?release))) ?Q ?E w1"
  proof (cases "items = []")
    case True
    then have none: "kRoutings k = fmempty" using empty by simp
    have delete: "wp (DeleteFRRConfigurations (ceLib env) (ccClient r)) (\<lambda>_. wp ?release ?Q ?E) ?E w2" if w2: "view w2 = k" for w2
    proof -
      have "frr_clean (view w2)" using clean w2 by simp
      from wp_DeleteFRRConfigurations [OF laws(1) this] show ?thesis
        unfolding w2
        by (rule wp_mono) (use none in \<open>auto intro!: wp_releaseConfig [OF laws] config_delete_safe_objects managed_frr_gone\<close>)
    qed
    have "wp (cleanupCloud env r cfg) (\<lambda>_. wp (DeleteFRRConfigurations (ceLib env) (ccClient r)) (\<lambda>_. wp ?release ?Q ?E) ?E) ?E w1"
      by (rule wp_mono [OF wp_cleanupCloud [OF M builder]]) (use delete w1 k in auto)
    then show ?thesis by (simp only: True simp_thms if_False wp_bind_eta)
  next
    case False
    then show ?thesis using empty w1 k by (simp add: wp_simps config_deleted_def)
  qed
qed (simp add: k)

lemma wp_ConfigReconcile_deleting:
  assumes laws: "kube_laws (ceLib env) (ccClient r) view" "lib_laws (ceLib env)"
    and M: "ceMethods env = M e" and builder: "buildPlatform env r = builder e (ccClient r)" "good e (ccClient r) view"
    and clean: "frr_clean (view w)" and cfg: "fmlookup (kConfigs (view w)) SingletonName = Some cfg"
      "cfgName cfg = SingletonName" "metaDeletionTimestamp (cfgMeta cfg) \<noteq> None"
  shows "wp (ConfigReconcile env r SingletonName)
    (\<lambda>res w'. config_deleted SingletonName (view w) res (view w') \<and> config_delete_safe SingletonName (view w) (view w'))
    (\<lambda>_ w'. config_delete_safe SingletonName (view w) (view w')) w"
  unfolding ConfigReconcile_def wp_branch
proof (rule wp_get [OF kube_lawsD(1) [OF laws(1)]])
  fix a w1
  assume "fmlookup (kConfigs (view w)) SingletonName = Some a" and w1: "view w1 = view w"
  then have "a = cfg" using cfg by simp
  with wp_ConfigReconcileDelete [OF laws M builder w1 clean, of cfg] cfg
  show "wp (if cfgName a \<noteq> SingletonName
      then ConfigSetDegraded (ceLib env) (ccClient r) a ConditionNetworkOperatorPatched ''InvalidName''
        (Sprintf [''CUDNBgpConfig must be named '', quote SingletonName, '', got '', quote (cfgName a)])
      else if metaDeletionTimestamp (cfgMeta a) \<noteq> None then ConfigReconcileDelete env r a
      else bindA (ensureConfigFinalizer (ceLib env) (ccClient r) a) (\<lambda>config. ConfigPhase1 env r (configuringConfig config)))
    (\<lambda>res w'. config_deleted SingletonName (view w) res (view w') \<and> config_delete_safe SingletonName (view w) (view w'))
    (\<lambda>_ w'. config_delete_safe SingletonName (view w) (view w')) w1"
    by simp
qed (use cfg(1) in \<open>auto simp: wp_simps\<close>)

end

section \<open>Other names\<close>

text \<open>The status of a configuration with a wrong name.\<close>

definition invalid_name :: "string \<Rightarrow> cluster \<Rightarrow> bool" where
  "invalid_name name k \<longleftrightarrow>
     (\<exists>st c. fmlookup (kConfigs k) name = Some st \<and> ctPhase (cfgStatus st) = PhaseDegraded \<and>
        cond_of ConditionNetworkOperatorPatched (ctConditions (cfgStatus st)) = Some c \<and>
        condStatus c = ConditionFalse \<and> condReason c = ''InvalidName'')"

lemma wp_ConfigReconcile_wrong_name:
  assumes laws: "kube_laws (ceLib env) (ccClient r) view" "lib_laws (ceLib env)"
    and cfg: "fmlookup (kConfigs (view w)) name = Some cfg" "cfgName cfg = name" "name \<noteq> SingletonName"
  shows "wp (ConfigReconcile env r name)
    (\<lambda>res w'. res = \<lparr>RequeueAfter = 30 * Second\<rparr> \<and> invalid_name name (view w') \<and> config_evolves {} name (view w) (view w'))
    (\<lambda>_ w'. config_evolves {} name (view w) (view w')) w"
proof -
  let ?x = "\<lambda>m. degradedConfig (ceLib env) cfg ConditionNetworkOperatorPatched ''InvalidName'' m"
  have name: "cfgName (?x m) = name" for m using cfg(2) by (simp add: config_states)
  have ev: "config_evolves {} name (view w) (view w')" if "config_status_effect (?x m) (view w) (view w')" for m w'
    using config_status_evolves [OF that] unfolding name .
  have invalid: "invalid_name name (view w')" if eff: "config_status_effect (?x m) (view w) (view w')" for m w'
  proof -
    obtain st where "fmlookup (kConfigs (view w')) name = Some st" and st: "cfgStatus st = cfgStatus (?x m)"
      using config_status_stored [OF eff] unfolding name .
    then show ?thesis
      unfolding invalid_name_def by (intro exI [of _ st]) (simp add: st config_states lib_lawsD [OF laws(2)])
  qed
  have degrade: "wp (ConfigSetDegraded (ceLib env) (ccClient r) cfg ConditionNetworkOperatorPatched ''InvalidName'' m)
      (\<lambda>res w'. res = \<lparr>RequeueAfter = 30 * Second\<rparr> \<and> invalid_name name (view w') \<and> config_evolves {} name (view w) (view w'))
      (\<lambda>_ w'. config_evolves {} name (view w) (view w')) w1" if w1: "view w1 = view w" for m w1
    unfolding ConfigSetDegraded_def wp_eta
    by (rule wp_write [OF kube_lawsD(3) [OF laws(1)]]) (use ev invalid w1 in auto)
  show ?thesis
    unfolding ConfigReconcile_def wp_branch
    by (rule wp_get [OF kube_lawsD(1) [OF laws(1)]]) (use cfg degrade in \<open>auto simp: wp_simps\<close>)
qed

lemma ConfigReconcile_missing:
  assumes "kube_laws (ceLib env) (ccClient r) view" and "fmlookup (kConfigs (view w)) name = None"
    and "ConfigReconcile env r name w = (result, w')"
  shows "view w' = view w"
proof -
  have "wp (ConfigReconcile env r name) (\<lambda>_ w'. view w' = view w) (\<lambda>_ w'. view w' = view w) w"
    unfolding ConfigReconcile_def wp_branch
    by (rule wp_get [OF kube_lawsD(1) [OF assms(1)]]) (use assms(2) in \<open>auto simp: wp_simps\<close>)
  then show ?thesis using assms(3) by (rule wp_anyD)
qed

text \<open>
  C31. A CUDNBgpConfig with another name than \<open>cluster\<close> is inert: a run on it only marks its own
  status as degraded with the reason \<open>InvalidName\<close>; no finalizer is added, and no object, routing or
  other configuration changes, whether the run succeeds or not.
\<close>

theorem ConfigReconcile_wrong_name:
  assumes "kube_laws (ceLib env) (ccClient r) view" and "lib_laws (ceLib env)"
    and "fmlookup (kConfigs (view w)) name = Some cfg" and "cfgName cfg = name" and "name \<noteq> SingletonName"
    and "ConfigReconcile env r name w = (result, w')"
  shows "(\<forall>res. result = Inr res \<longrightarrow> res = \<lparr>RequeueAfter = 30 * Second\<rparr> \<and>
      (\<exists>st c. fmlookup (kConfigs (view w')) name = Some st \<and> ctPhase (cfgStatus st) = PhaseDegraded \<and>
         cond_of ConditionNetworkOperatorPatched (ctConditions (cfgStatus st)) = Some c \<and>
         condStatus c = ConditionFalse \<and> condReason c = ''InvalidName'')) \<and>
    config_evolves {} name (view w) (view w')"
  using wp_ConfigReconcile_wrong_name [OF assms(1-5)] assms(6)
  by (rule wp_runE) (auto simp: invalid_name_def)

end
