(* ===== verification/Config_Aws.thy ===== *)
theory Config_Aws
  imports Config_Contract Aws_Methods
begin

text \<open>
  The CUDNBgpConfig reconciler on AWS: \<open>defaultPlatformBuilder\<close> and \<open>getInfrastructureName\<close> of
  \<open>internal/controller/cudnbgpconfig_controller.go\<close>, the proof that the AWS platform with this builder
  keeps the contract of \<open>config_platform\<close>, and the theorems about the reconciler that follow.
\<close>

section \<open>The default builder\<close>

definition InfrastructureGVK :: GroupVersionKind where
  "InfrastructureGVK = \<lparr>gvkGroup = ''config.openshift.io'', gvkVersion = ''v1'', gvkKind = ''Infrastructure''\<rparr>"

definition getInfrastructureName :: "kubeLib \<Rightarrow> 'w client \<Rightarrow> ('w, string) act" where
  "getInfrastructureName lib c =
     bindA (getObject c (gvk_key InfrastructureGVK '''' ''cluster'')) (\<lambda>infra.
     let unset = throwA (NewError ''status.infrastructureName not set on Infrastructure/cluster'') in
     case NestedString lib (object_json infra) [''status'', ''infrastructureName''] of
       Inl _ \<Rightarrow> unset
     | Inr None \<Rightarrow> unset
     | Inr (Some name) \<Rightarrow> if name = '''' then unset else returnA name)"

text \<open>
  The configuration of the platform. The builder is called only when \<open>spec.aws\<close> is set; without it
  the access to its fields panics, which the runtime turns into an error.
\<close>

definition awsConfig_of :: "CUDNBgpConfig \<Rightarrow> AWSConfig \<Rightarrow> string \<Rightarrow> AwsConfig" where
  "awsConfig_of config awsSpec clusterID =
     \<lparr>acRegion = awsRegion awsSpec,
      acRouteServerIDs = awsRouteServerIDs awsSpec,
      acLocalASN = bgpLocalASN (csBGP (cfgSpec config)),
      acLivenessDetection = bgpLivenessDetection (csBGP (cfgSpec config)),
      acClusterID = clusterID\<rparr>"

definition defaultPlatformBuilder ::
    "kubeLib \<Rightarrow> ('w, 'c) awsClients \<Rightarrow> 'w client \<Rightarrow> CUDNBgpConfig \<Rightarrow> ('w, 'w Platform) act" where
  "defaultPlatformBuilder lib api c config =
     bindA (wrapA ''reading cluster infrastructure name: '' (getInfrastructureName lib c)) (\<lambda>clusterID.
     case csAWS (cfgSpec config) of
       None \<Rightarrow> throwA (ExternalError ''panic'' ''invalid memory address or nil pointer dereference'')
     | Some awsSpec \<Rightarrow> New api (awsConfig_of config awsSpec clusterID))"

section \<open>The reconciler on AWS\<close>

record ('w, 'c) awsEnv =
  aeLib :: kubeLib
  aeSdk :: "'w awsSDK"
  aeApi :: "('w, 'c) awsClients"

definition awsConfigEnv :: "('w, 'c) awsEnv \<Rightarrow> ('w, 'w Platform) configEnv" where
  "awsConfigEnv e =
     \<lparr>ceLib = aeLib e, ceRange = rangeOrder (aeSdk e), ceMethods = awsMethods (aeSdk e),
      ceDefaultBuilder = defaultPlatformBuilder (aeLib e) (aeApi e)\<rparr>"

definition awsReconciler :: "'w client \<Rightarrow> ('w, 'w Platform) CUDNBgpConfigReconciler" where
  "awsReconciler c = \<lparr>ccClient = c, ccPlatformBuilder = None\<rparr>"

definition awsConfigReconcile :: "('w, 'c) awsEnv \<Rightarrow> 'w client \<Rightarrow> string \<Rightarrow> ('w, Result) act" where
  "awsConfigReconcile e c = ConfigReconcile (awsConfigEnv e) (awsReconciler c)"

text \<open>The cloud does not touch the cluster, and the cluster behaves as documented.\<close>

definition aws_good :: "('w, 'c) awsEnv \<Rightarrow> 'w client \<Rightarrow> ('w \<Rightarrow> cluster) \<Rightarrow> bool" where
  "aws_good e c view \<longleftrightarrow>
     kube_laws (aeLib e) c view \<and> lib_laws (aeLib e) \<and> range_laws (rangeOrder (aeSdk e)) view \<and>
     (\<forall>region. keeps view (LoadDefaultConfig (aeApi e) region)) \<and>
     (\<forall>cfg. keeps view (GetCallerIdentity (stsNewFromConfig (aeApi e) cfg))) \<and>
     (\<forall>cfg. ec2_keeps (ec2NewFromConfig (aeApi e) cfg) view)"

lemma aws_goodD:
  assumes "aws_good e c view"
  shows "kube_laws (aeLib e) c view" "lib_laws (aeLib e)" "range_laws (rangeOrder (aeSdk e)) view"
  using assms by (simp_all add: aws_good_def)

lemma wp_getInfrastructureName:
  assumes "kube_laws lib c view"
    and "\<And>name w'. name \<noteq> '''' \<Longrightarrow> view w' = view w \<Longrightarrow> Q name w'" and "\<And>e w'. view w' = view w \<Longrightarrow> E e w'"
  shows "wp (getInfrastructureName lib c) Q E w"
  unfolding getInfrastructureName_def wp_bind Let_def
  by (rule wp_get [OF kube_lawsD(12) [OF assms(1)]])
    (use assms(2,3) in \<open>auto simp: wp_simps split: sum.split option.split\<close>)

lemma wp_New:
  assumes good: "aws_good e c view"
    and "\<And>p w'. aws_legal (aeSdk e) p view \<Longrightarrow> view w' = view w \<Longrightarrow> Q p w'" and "\<And>err w'. view w' = view w \<Longrightarrow> E err w'"
  shows "wp (New (aeApi e) cfg) Q E w"
proof (rule wpI)
  have keeps: "keeps view (LoadDefaultConfig (aeApi e) region)"
    "keeps view (GetCallerIdentity (stsNewFromConfig (aeApi e) awsCfg))" for region awsCfg
    using good by (simp_all add: aws_good_def)
  fix p w'
  assume "New (aeApi e) cfg w = (Inr p, w')"
  then obtain awsCfg w1 where load: "LoadDefaultConfig (aeApi e) (acRegion cfg) w = (Inr awsCfg, w1)"
    and sts: "\<exists>i. GetCallerIdentity (stsNewFromConfig (aeApi e) awsCfg) w1 = (Inr i, w')"
    and p: "plEc2Client p = ec2NewFromConfig (aeApi e) awsCfg"
    by (auto simp: New_def newPlatform_def act_iffs)
  have "view w' = view w" using keepsD [OF keeps(1) load] sts keepsD [OF keeps(2)] by metis
  moreover have "aws_legal (aeSdk e) p view" using good p by (simp add: aws_legal_def aws_good_def)
  ultimately show "Q p w'" by (rule assms(2) [rotated])
next
  have keeps: "keeps view (LoadDefaultConfig (aeApi e) region)"
    "keeps view (GetCallerIdentity (stsNewFromConfig (aeApi e) awsCfg))" for region awsCfg
    using good by (simp_all add: aws_good_def)
  fix err w'
  assume "New (aeApi e) cfg w = (Inl err, w')"
  then show "E err w'"
  proof (rule New_error)
    fix e'
    assume "LoadDefaultConfig (aeApi e) (acRegion cfg) w = (Inl e', w')"
    from keepsD [OF keeps(1) this] show ?thesis by (rule assms(3))
  next
    fix awsCfg w1 e'
    assume load: "LoadDefaultConfig (aeApi e) (acRegion cfg) w = (Inr awsCfg, w1)"
      and sts: "GetCallerIdentity (stsNewFromConfig (aeApi e) awsCfg) w1 = (Inl e', w')"
    have "view w' = view w" using keepsD [OF keeps(1) load] keepsD [OF keeps(2) sts] by simp
    then show ?thesis by (rule assms(3))
  qed
qed

section \<open>The contract holds\<close>

interpretation awsConfig: config_platform
  "\<lambda>e :: ('w, 'c) awsEnv. awsMethods (aeSdk e)" "\<lambda>e. aws_legal (aeSdk e)"
  "\<lambda>e. defaultPlatformBuilder (aeLib e) (aeApi e)" aws_good
proof
  fix e :: "('w, 'c) awsEnv" and p w r p' w' ns and kube :: "'w \<Rightarrow> cluster" and c config
  show "discovery_wf r" if "cpDiscoverEndpoints (awsMethods (aeSdk e)) p w = (Inr (r, p'), w')"
    using that by (rule aws.discover_wf)
  show "aws_legal (aeSdk e) p' kube" if "aws_legal (aeSdk e) p kube"
    "cpDiscoverEndpoints (awsMethods (aeSdk e)) p w = (Inr (r, p'), w')"
    using that by (rule aws.discover_legal)
  show "kube (snd (cpDiscoverEndpoints (awsMethods (aeSdk e)) p w)) = kube w" if "aws_legal (aeSdk e) p kube"
    using that by (rule aws.discover_frame)
  show "kube (snd (cpReconcileNodes (awsMethods (aeSdk e)) p ns w)) = kube w" if "aws_legal (aeSdk e) p kube"
    using that by (rule aws.reconcile_frame)
  show "kube (snd (cpCleanup (awsMethods (aeSdk e)) p w)) = kube w" if "aws_legal (aeSdk e) p kube"
    using that by (rule aws.cleanup_frame)
  show "wp (defaultPlatformBuilder (aeLib e) (aeApi e) c config)
      (\<lambda>p w'. aws_legal (aeSdk e) p kube \<and> kube w' = kube w) (\<lambda>_ w'. kube w' = kube w) w" if good: "aws_good e c kube"
    unfolding defaultPlatformBuilder_def wp_eta
    by (rule wp_getInfrastructureName [OF aws_goodD(1) [OF good]])
      (auto simp: wp_simps intro!: wp_New [OF good] split: option.split)
qed

lemma awsConfigEnv_simps [simp]:
  "ceLib (awsConfigEnv e) = aeLib e" "ceRange (awsConfigEnv e) = rangeOrder (aeSdk e)"
  "ceMethods (awsConfigEnv e) = awsMethods (aeSdk e)" "ccClient (awsReconciler c) = c"
  "buildPlatform (awsConfigEnv e) (awsReconciler c) = defaultPlatformBuilder (aeLib e) (aeApi e) c"
  by (auto simp: awsConfigEnv_def awsReconciler_def buildPlatform_def fun_eq_iff)

section \<open>The theorems\<close>

lemma wp_awsConfigReconcile:
  assumes good: "aws_good e c view" and "frr_clean (view w)"
    and "fmlookup (kConfigs (view w)) SingletonName = Some cfg" and "cfgName cfg = SingletonName"
    and "metaDeletionTimestamp (cfgMeta cfg) = None"
  shows "wp (awsConfigReconcile e c SingletonName)
    (\<lambda>res w'. config_report (awsConfigEnv e) (awsReconciler c) view cfg (view w) res (view w') \<and> config_safe SingletonName (view w) (view w'))
    (\<lambda>_ w'. config_safe SingletonName (view w) (view w')) w"
  unfolding awsConfigReconcile_def
  by (rule awsConfig.wp_ConfigReconcile [where e = e]) (use assms aws_goodD [OF good] in simp_all)

text \<open>
  C2. What the answer means. A successful reconciliation of the configuration leaves it in the
  cluster with its spec, the finalizer and the observed generation, and answer and status agree.
  \<open>Ready\<close> (after five minutes again) is reported only when FRR is running, the Network operator has
  FRR and route advertisements enabled, the operator's FRRConfigurations are exactly the rendered
  ones for the zones of the spec or of the discovery that the status records, and every condition
  that applies is true. \<open>Configuring\<close> (ten seconds) is reported only when FRR was not ready. \<open>Degraded\<close>
  (thirty seconds) is reported only for one of the reasons of \<open>config_failure\<close>, which the false
  condition names with its reason and message: a call that \<open>Reconcile\<close> makes in one of its phases
  returned the error that the message quotes, while the phases before had done their work (the Network
  operator enabled, FRR ready, the FRRConfigurations exact). There is no other outcome. The run is one
  on a configuration that is not being deleted, while FRRConfigurations carry no finalizers and none is
  being deleted.
\<close>

theorem ConfigReconcile_outcome:
  assumes "aws_good e c view" and "frr_clean (view w)"
    and "fmlookup (kConfigs (view w)) SingletonName = Some cfg" and "cfgName cfg = SingletonName"
    and "metaDeletionTimestamp (cfgMeta cfg) = None"
    and "awsConfigReconcile e c SingletonName w = (Inr res, w')"
  shows "config_report (awsConfigEnv e) (awsReconciler c) view cfg (view w) res (view w')"
  using wp_InrD [OF wp_awsConfigReconcile [OF assms(1-5)] assms(6)] by simp

lemma wp_awsConfigReconcile_deleting:
  assumes good: "aws_good e c view" and "frr_clean (view w)"
    and "fmlookup (kConfigs (view w)) SingletonName = Some cfg" and "cfgName cfg = SingletonName"
    and "metaDeletionTimestamp (cfgMeta cfg) \<noteq> None"
  shows "wp (awsConfigReconcile e c SingletonName)
    (\<lambda>res w'. config_deleted SingletonName (view w) res (view w') \<and> config_delete_safe SingletonName (view w) (view w'))
    (\<lambda>_ w'. config_delete_safe SingletonName (view w) (view w')) w"
  unfolding awsConfigReconcile_def
  by (rule awsConfig.wp_ConfigReconcile_deleting [where e = e]) (use assms aws_goodD [OF good] in simp_all)

definition configs_keyed :: "cluster \<Rightarrow> bool" where
  "configs_keyed k \<longleftrightarrow> (\<forall>n cfg. fmlookup (kConfigs k) n = Some cfg \<longrightarrow> cfgName cfg = n)"

lemma ConfigReconcile_changes:
  assumes good: "aws_good e c view" "frr_clean (view w)" and name: "cfgName cfg = name"
    and cfg: "fmlookup (kConfigs (view w)) name = Some cfg" and run: "awsConfigReconcile e c name w = (result, w')"
  shows "if name \<noteq> SingletonName then config_evolves {} name (view w) (view w')
    else if metaDeletionTimestamp (cfgMeta cfg) \<noteq> None then config_delete_safe name (view w) (view w')
    else config_safe name (view w) (view w')"
proof (cases "name = SingletonName")
  case False
  have "wp (awsConfigReconcile e c name) (\<lambda>_ w'. config_evolves {} name (view w) (view w'))
      (\<lambda>_ w'. config_evolves {} name (view w) (view w')) w"
    unfolding awsConfigReconcile_def
    by (rule wp_mono [OF wp_ConfigReconcile_wrong_name]) (use aws_goodD [OF good(1)] cfg name False in auto)
  from wp_anyD [OF this run] show ?thesis using False by simp
next
  case True
  note single = cfg [unfolded True] name [unfolded True]
  show ?thesis
  proof (cases "metaDeletionTimestamp (cfgMeta cfg)")
    case None
    have "wp (awsConfigReconcile e c SingletonName) (\<lambda>_ w'. config_safe SingletonName (view w) (view w'))
        (\<lambda>_ w'. config_safe SingletonName (view w) (view w')) w"
      by (rule wp_mono [OF wp_awsConfigReconcile [OF good single None]]) auto
    from wp_anyD [OF this run [unfolded True]] show ?thesis using True None by simp
  next
    case (Some t)
    have "wp (awsConfigReconcile e c SingletonName) (\<lambda>_ w'. config_delete_safe SingletonName (view w) (view w'))
        (\<lambda>_ w'. config_delete_safe SingletonName (view w) (view w')) w"
      by (rule wp_mono [OF wp_awsConfigReconcile_deleting [OF good single]]) (use Some in auto)
    from wp_anyD [OF this run [unfolded True]] show ?thesis using True Some by simp
  qed
qed

text \<open>
  C11. What a run changes in the Kubernetes cluster, for every request and whether it succeeds or
  stops at an error, while FRRConfigurations carry no finalizers and none is being deleted. A request for a
  configuration that does not exist changes nothing; one with another name than \<open>cluster\<close> changes only
  the status of that configuration. A run on \<open>cluster\<close> changes no object except the Network operator's
  configuration and the FRRConfigurations with the operator's names or label, and when it is under
  deletion no object except the FRRConfigurations with the operator's label, and nothing at all while a
  routing exists. No run changes another configuration, a routing, a namespace, a pod or a node. (The
  resources in AWS that a run changes are the subject of other properties.)
\<close>

theorem ConfigReconcile_safe:
  assumes "aws_good e c view" and "frr_clean (view w)" and "configs_keyed (view w)"
    and "awsConfigReconcile e c name w = (result, w')"
  shows "case fmlookup (kConfigs (view w)) name of
      None \<Rightarrow> view w' = view w
    | Some cfg \<Rightarrow>
        (if name \<noteq> SingletonName then config_evolves {} name (view w) (view w')
         else if metaDeletionTimestamp (cfgMeta cfg) \<noteq> None then config_delete_safe name (view w) (view w')
         else config_safe name (view w) (view w'))"
proof (cases "fmlookup (kConfigs (view w)) name")
  case None
  have "view w' = view w"
    using assms(4) aws_goodD [OF assms(1)] unfolding awsConfigReconcile_def
    by (intro ConfigReconcile_missing [where view = view, OF _ None]) simp_all
  with None show ?thesis by simp
next
  case (Some cfg)
  then have "cfgName cfg = name" using assms(3) by (simp add: configs_keyed_def)
  from ConfigReconcile_changes [OF assms(1,2) this Some assms(4)] Some show ?thesis by simp
qed

text \<open>
  C13. Deletion of the configuration. While a routing exists, a run changes nothing and asks to be
  repeated after ten seconds. Otherwise a successful run has removed all FRRConfigurations of the
  operator and taken the finalizer off. Whether a run succeeds or not, the configuration itself
  changes only when no routing exists and no FRRConfiguration of the operator is left, and nothing
  but these FRRConfigurations and the configuration changes.
\<close>

theorem ConfigReconcile_delete:
  assumes "aws_good e c view" and "frr_clean (view w)"
    and "fmlookup (kConfigs (view w)) SingletonName = Some cfg" and "cfgName cfg = SingletonName"
    and "metaDeletionTimestamp (cfgMeta cfg) \<noteq> None"
    and "awsConfigReconcile e c SingletonName w = (result, w')"
  shows "(\<forall>res. result = Inr res \<longrightarrow> config_deleted SingletonName (view w) res (view w')) \<and>
    config_delete_safe SingletonName (view w) (view w')"
  using wp_awsConfigReconcile_deleting [OF assms(1-5)] assms(6) by (rule wp_runE) auto

end
