(* ===== verification/In_Memory_Kube.thy ===== *)
theory In_Memory_Kube
  imports In_Memory_Cloud Routing_Controller Config_Aws
begin

text \<open>
  A concrete Kubernetes API server held in memory, beside the in-memory cloud: a client and helpers
  that satisfy everything \<open>Kube_Client\<close> says about them.
\<close>

section \<open>Stores\<close>

text \<open>A list of values with keys, of which the first counts.\<close>

definition sget :: "('a \<Rightarrow> 'k) \<Rightarrow> 'k \<Rightarrow> 'a list \<Rightarrow> 'a option" where
  "sget key k xs = find (\<lambda>x. key x = k) xs"

definition sdel :: "('a \<Rightarrow> 'k) \<Rightarrow> 'k \<Rightarrow> 'a list \<Rightarrow> 'a list" where
  "sdel key k xs = filter (\<lambda>x. key x \<noteq> k) xs"

definition sput :: "('a \<Rightarrow> 'k) \<Rightarrow> 'a \<Rightarrow> 'a list \<Rightarrow> 'a list" where
  "sput key x xs = x # sdel key (key x) xs"

fun slist :: "('a \<Rightarrow> 'k) \<Rightarrow> 'a list \<Rightarrow> 'a list" where
  "slist key [] = []"
| "slist key (x # xs) = x # filter (\<lambda>y. key y \<noteq> key x) (slist key xs)"

definition store :: "('a \<Rightarrow> 'k) \<Rightarrow> 'a list \<Rightarrow> ('k, 'a) fmap" where
  "store key xs = fmap_of_list (map (\<lambda>x. (key x, x)) xs)"

lemma store_lookup [simp]: "fmlookup (store key xs) k = sget key k xs"
  unfolding store_def sget_def fmlookup_of_list by (induction xs) auto

lemma sget_sdel: "sget key k' (sdel key k xs) = (if k' = k then None else sget key k' xs)"
  unfolding sget_def sdel_def by (induction xs) auto

lemma store_sdel [simp]: "store key (sdel key k xs) = fmdrop k (store key xs)"
  by (rule fmap_ext) (simp add: sget_sdel)

lemma sget_sput: "sget key k (sput key x xs) = (if k = key x then Some x else sget key k xs)"
  using sget_sdel [of key k "key x" xs] by (auto simp: sput_def sget_def)

lemma store_sput [simp]: "store key (sput key x xs) = fmupd (key x) x (store key xs)"
  by (rule fmap_ext) (simp add: sget_sput)

lemma slist_iff: "x \<in> set (slist key xs) \<longleftrightarrow> sget key (key x) xs = Some x"
  unfolding sget_def by (induction xs) (auto simp: find_Some_iff)

lemma sget_key: "sget key k xs = Some x \<Longrightarrow> key x = k"
  by (auto simp: sget_def find_Some_iff)

lemma set_slist: "set (slist key xs) = fmran' (store key xs)"
  using sget_key [of key _ xs] by (fastforce simp: slist_iff fmlookup_ran'_iff)

section \<open>The server\<close>

record kube = cloud +
  kbConfigs :: "CUDNBgpConfig list"
  kbRoutings :: "CUDNBgpRouting list"
  kbObjects :: "Unstructured list"
  kbNamespaces :: "Namespace list"
  kbPods :: "Pod list"
  kbNodes :: "Node list"

definition memView :: "kube \<Rightarrow> cluster" where
  "memView w =
     \<lparr>kConfigs = store cfgName (kbConfigs w), kRoutings = store rtgName (kbRoutings w),
      kObjects = store key_of (kbObjects w), kNamespaces = store nsName (kbNamespaces w),
      kPods = set (kbPods w), kNodes = set (kbNodes w)\<rparr>"

definition notFound :: go_error where
  "notFound = ExternalError ''NotFound'' ''not found''"

definition alreadyExists :: go_error where
  "alreadyExists = ExternalError ''AlreadyExists'' ''already exists''"

definition invalid :: go_error where
  "invalid = ExternalError ''Invalid'' ''not a patch of the spec''"

definition orNotFound :: "'a option \<Rightarrow> ('w, 'a) act" where
  "orNotFound x = (case x of None \<Rightarrow> throwA notFound | Some a \<Rightarrow> returnA a)"

text \<open>The metadata after an update: the generation counts the changes of the spec.\<close>

definition updated_meta :: "ObjectMeta \<Rightarrow> ObjectMeta \<Rightarrow> bool \<Rightarrow> ObjectMeta" where
  "updated_meta old new same_spec =
     new\<lparr>metaDeletionTimestamp := metaDeletionTimestamp old,
         metaGeneration := (if same_spec then metaGeneration old else metaGeneration old + 1)\<rparr>"

definition updated_config :: "CUDNBgpConfig \<Rightarrow> CUDNBgpConfig \<Rightarrow> CUDNBgpConfig" where
  "updated_config old x =
     x\<lparr>cfgStatus := cfgStatus old, cfgMeta := updated_meta (cfgMeta old) (cfgMeta x) (cfgSpec x = cfgSpec old)\<rparr>"

definition updated_routing :: "CUDNBgpRouting \<Rightarrow> CUDNBgpRouting \<Rightarrow> CUDNBgpRouting" where
  "updated_routing old x =
     x\<lparr>rtgStatus := rtgStatus old, rtgMeta := updated_meta (rtgMeta old) (rtgMeta x) (rtgSpec x = rtgSpec old)\<rparr>"

definition memUpdateConfig :: "CUDNBgpConfig \<Rightarrow> (kube, CUDNBgpConfig) act" where
  "memUpdateConfig x w =
     (case sget cfgName (cfgName x) (kbConfigs w) of
        None \<Rightarrow> (Inl notFound, w)
      | Some old \<Rightarrow>
          (Inr (updated_config old x),
           if metaDeletionTimestamp (cfgMeta old) \<noteq> None \<and> metaFinalizers (cfgMeta x) = []
           then w\<lparr>kbConfigs := sdel cfgName (cfgName x) (kbConfigs w)\<rparr>
           else w\<lparr>kbConfigs := sput cfgName (updated_config old x) (kbConfigs w)\<rparr>))"

definition memUpdateConfigStatus :: "CUDNBgpConfig \<Rightarrow> (kube, unit) act" where
  "memUpdateConfigStatus x w =
     (case sget cfgName (cfgName x) (kbConfigs w) of
        None \<Rightarrow> (Inl notFound, w)
      | Some old \<Rightarrow> (Inr (), w\<lparr>kbConfigs := sput cfgName (old\<lparr>cfgStatus := cfgStatus x\<rparr>) (kbConfigs w)\<rparr>))"

definition memUpdateRouting :: "CUDNBgpRouting \<Rightarrow> (kube, CUDNBgpRouting) act" where
  "memUpdateRouting x w =
     (case sget rtgName (rtgName x) (kbRoutings w) of
        None \<Rightarrow> (Inl notFound, w)
      | Some old \<Rightarrow>
          (Inr (updated_routing old x),
           if metaDeletionTimestamp (rtgMeta old) \<noteq> None \<and> metaFinalizers (rtgMeta x) = []
           then w\<lparr>kbRoutings := sdel rtgName (rtgName x) (kbRoutings w)\<rparr>
           else w\<lparr>kbRoutings := sput rtgName (updated_routing old x) (kbRoutings w)\<rparr>))"

definition memUpdateRoutingStatus :: "CUDNBgpRouting \<Rightarrow> (kube, unit) act" where
  "memUpdateRoutingStatus x w =
     (case sget rtgName (rtgName x) (kbRoutings w) of
        None \<Rightarrow> (Inl notFound, w)
      | Some old \<Rightarrow> (Inr (), w\<lparr>kbRoutings := sput rtgName (old\<lparr>rtgStatus := rtgStatus x\<rparr>) (kbRoutings w)\<rparr>))"

definition memCreate :: "Unstructured \<Rightarrow> (kube, unit) act" where
  "memCreate x w =
     (case sget key_of (key_of x) (kbObjects w) of
        Some _ \<Rightarrow> (Inl alreadyExists, w)
      | None \<Rightarrow> (Inr (), w\<lparr>kbObjects := sput key_of (x\<lparr>uoDeleting := False\<rparr>) (kbObjects w)\<rparr>))"

definition memUpdate :: "Unstructured \<Rightarrow> (kube, unit) act" where
  "memUpdate x w =
     (case sget key_of (key_of x) (kbObjects w) of
        None \<Rightarrow> (Inl notFound, w)
      | Some old \<Rightarrow>
          (Inr (),
           if uoDeleting old \<and> uoFinalizers x = [] then w\<lparr>kbObjects := sdel key_of (key_of x) (kbObjects w)\<rparr>
           else w\<lparr>kbObjects := sput key_of (x\<lparr>uoDeleting := uoDeleting old, uoStatus := uoStatus old\<rparr>) (kbObjects w)\<rparr>))"

definition memDelete :: "ukey \<Rightarrow> (kube, unit) act" where
  "memDelete key w =
     (case sget key_of key (kbObjects w) of
        None \<Rightarrow> (Inl notFound, w)
      | Some old \<Rightarrow>
          (Inr (),
           if uoFinalizers old = [] then w\<lparr>kbObjects := sdel key_of key (kbObjects w)\<rparr>
           else w\<lparr>kbObjects := sput key_of (old\<lparr>uoDeleting := True\<rparr>) (kbObjects w)\<rparr>))"

definition memPatch :: "ukey \<Rightarrow> document \<Rightarrow> (kube, unit) act" where
  "memPatch key doc w =
     (case doc of Document j \<Rightarrow>
       (case (sget key_of key (kbObjects w), jmembers j) of
          (None, _) \<Rightarrow> (Inl notFound, w)
        | (Some old, [(m, p)]) \<Rightarrow>
            if m = ''spec''
            then (Inr (), w\<lparr>kbObjects := sput key_of (old\<lparr>uoSpec := merge_patch p (uoSpec old)\<rparr>) (kbObjects w)\<rparr>)
            else (Inl invalid, w)
        | _ \<Rightarrow> (Inl invalid, w)))"

definition memList :: "GroupVersionKind \<Rightarrow> string \<Rightarrow> (string, string) fmap \<Rightarrow> (kube, Unstructured list) act" where
  "memList gvk ns sel w =
     (Inr (filter (\<lambda>x. key_of x = gvk_key gvk ns (uoName x) \<and> selects sel (uoLabels x)) (slist key_of (kbObjects w))), w)"

definition memClient :: "kube client" where
  "memClient =
     \<lparr>getConfig = (\<lambda>n w. orNotFound (sget cfgName n (kbConfigs w)) w),
      updateConfig = memUpdateConfig,
      updateConfigStatus = memUpdateConfigStatus,
      getRouting = (\<lambda>n w. orNotFound (sget rtgName n (kbRoutings w)) w),
      listRoutings = (\<lambda>w. (Inr (slist rtgName (kbRoutings w)), w)),
      updateRouting = memUpdateRouting,
      updateRoutingStatus = memUpdateRoutingStatus,
      getNamespace = (\<lambda>n w. orNotFound (sget nsName n (kbNamespaces w)) w),
      listNamespaces = (\<lambda>sel w. (Inr (filter (\<lambda>x. selects sel (nsLabels x)) (slist nsName (kbNamespaces w))), w)),
      listPods = (\<lambda>ns sel w. (Inr (filter (\<lambda>x. podNamespace x = ns \<and> selects sel (podLabels x)) (kbPods w)), w)),
      listNodes = (\<lambda>sel w. (Inr (filter (\<lambda>x. selects sel (node_labels x)) (kbNodes w)), w)),
      getObject = (\<lambda>key w. orNotFound (sget key_of key (kbObjects w)) w),
      createObject = memCreate,
      updateObject = memUpdate,
      deleteObject = memDelete,
      listObjects = memList,
      mergePatch = memPatch\<rparr>"

section \<open>The helpers\<close>

definition setCondition :: "Condition list \<Rightarrow> Condition \<Rightarrow> Condition list" where
  "setCondition cs c =
     (if list_ex (\<lambda>x. condType x = condType c) cs
      then map (\<lambda>x. if condType x = condType c then c else x) cs
      else cs @ [c])"

definition nestedString :: "json \<Rightarrow> string list \<Rightarrow> go_error + string option" where
  "nestedString j path =
     (case jpath j path of
        None \<Rightarrow> Inr None
      | Some v \<Rightarrow> (case v of JStr s \<Rightarrow> Inr (Some s) | _ \<Rightarrow> Inl (NewError ''not a string'')))"

definition memLib :: kubeLib where
  "memLib =
     \<lparr>IsNotFound = (\<lambda>e. e = notFound),
      SetStatusCondition = setCondition,
      ContainsFinalizer = (\<lambda>fs f. f \<in> set fs),
      AddFinalizer = (\<lambda>fs f. if f \<in> set fs then fs else fs @ [f]),
      RemoveFinalizer = (\<lambda>fs f. filter (\<lambda>x. x \<noteq> f) fs),
      NestedString = nestedString\<rparr>"

lemma setCondition_lookup: "cond_of t (setCondition cs c) = (if t = condType c then Some c else cond_of t cs)"
proof -
  have "find (\<lambda>x. condType x = t) (map (\<lambda>x. if condType x = condType c then c else x) cs) =
      (if t = condType c \<and> list_ex (\<lambda>x. condType x = condType c) cs then Some c else find (\<lambda>x. condType x = t) cs)"
    by (induction cs) auto
  moreover have "find (\<lambda>x. condType x = t) (cs @ [c]) =
      (case find (\<lambda>x. condType x = t) cs of Some d \<Rightarrow> Some d | None \<Rightarrow> if t = condType c then Some c else None)"
    by (induction cs) auto
  moreover have "find (\<lambda>x. condType x = condType c) cs = None" if "\<not> list_ex (\<lambda>x. condType x = condType c) cs"
    using that by (auto simp: find_None_iff list_ex_iff)
  ultimately show ?thesis by (auto simp: cond_of_def setCondition_def split: option.split)
qed

lemma lib_laws_mem: "lib_laws memLib"
  by (auto simp: lib_laws_def memLib_def setCondition_lookup nestedString_def
      split: option.splits json.splits if_splits)

section \<open>It behaves as documented\<close>

lemma memView_simps [simp]:
  "kConfigs (memView w) = store cfgName (kbConfigs w)" "kRoutings (memView w) = store rtgName (kbRoutings w)"
  "kObjects (memView w) = store key_of (kbObjects w)" "kNamespaces (memView w) = store nsName (kbNamespaces w)"
  "kPods (memView w) = set (kbPods w)" "kNodes (memView w) = set (kbNodes w)"
  by (simp_all add: memView_def)

lemma memView_update [simp]:
  "memView (w\<lparr>kbConfigs := cs\<rparr>) = (memView w)\<lparr>kConfigs := store cfgName cs\<rparr>"
  "memView (w\<lparr>kbRoutings := rs\<rparr>) = (memView w)\<lparr>kRoutings := store rtgName rs\<rparr>"
  "memView (w\<lparr>kbObjects := os\<rparr>) = (memView w)\<lparr>kObjects := store key_of os\<rparr>"
  "memView (w\<lparr>clPeers := ps\<rparr>) = memView w" "memView (w\<lparr>clInstances := is\<rparr>) = memView w"
  by (simp_all add: memView_def)

lemma get_law_mem:
  "(\<And>w. look (memView w) = x w) \<Longrightarrow> get_law memLib memView (\<lambda>w. orNotFound (x w) w) look"
  by (simp add: get_law_def wp_def orNotFound_def memLib_def throwA_def returnA_def split: option.split)

lemma read_law_mem: "(\<And>w. P (memView w) (x w)) \<Longrightarrow> read_law memView (\<lambda>w. (Inr (x w), w)) P"
  by (simp add: read_law_def wp_def)

lemma updated_meta_simps [simp]:
  "metaName (updated_meta old new b) = metaName new" "metaFinalizers (updated_meta old new b) = metaFinalizers new"
  "metaDeletionTimestamp (updated_meta old new b) = metaDeletionTimestamp old"
  "metaGeneration (updated_meta old new True) = metaGeneration old"
  by (simp_all add: updated_meta_def)

lemma updateConfig_mem: "write_law memLib memView (memUpdateConfig x) (has_config (cfgName x)) (update_config_effect x)"
  by (auto simp: write_law_def wp_def memUpdateConfig_def memLib_def update_config_effect_def updated_config_def
      split: option.split)

text \<open>A status update leaves the resource version alone.\<close>

lemma same_rv:
  "m\<lparr>metaResourceVersion := metaResourceVersion m\<rparr> = (m :: ObjectMeta)"
  "c\<lparr>cfgStatus := s, cfgMeta := cfgMeta c\<rparr> = (c :: CUDNBgpConfig)\<lparr>cfgStatus := s\<rparr>"
  "r\<lparr>rtgStatus := t, rtgMeta := rtgMeta r\<rparr> = (r :: CUDNBgpRouting)\<lparr>rtgStatus := t\<rparr>"
  "u\<lparr>uoSpec := j, uoResourceVersion := uoResourceVersion u\<rparr> = (u :: Unstructured)\<lparr>uoSpec := j\<rparr>"
  by simp_all

lemma updateConfigStatus_mem:
  "write_law memLib memView (memUpdateConfigStatus x) (has_config (cfgName x)) (\<lambda>_. config_status_effect x)"
proof -
  have "config_status_effect x (memView w) ((memView w)\<lparr>kConfigs :=
      fmupd (cfgName old) (old\<lparr>cfgStatus := cfgStatus x\<rparr>) (store cfgName (kbConfigs w))\<rparr>)"
    if "sget cfgName (cfgName x) (kbConfigs w) = Some old" for old w
    unfolding config_status_effect_def
    by (intro exI [of _ old] exI [of _ "metaResourceVersion (cfgMeta old)"]) (use that sget_key [OF that] in \<open>simp add: same_rv\<close>)
  then show ?thesis
    by (auto simp: write_law_def wp_def memUpdateConfigStatus_def memLib_def split: option.split)
qed

lemma updateRouting_mem:
  "write_law memLib memView (memUpdateRouting x) (has_routing (rtgName x)) (update_routing_effect x)"
  by (auto simp: write_law_def wp_def memUpdateRouting_def memLib_def update_routing_effect_def updated_routing_def
      split: option.split)

lemma updateRoutingStatus_mem:
  "write_law memLib memView (memUpdateRoutingStatus x) (has_routing (rtgName x)) (\<lambda>_. routing_status_effect x)"
proof -
  have "routing_status_effect x (memView w) ((memView w)\<lparr>kRoutings :=
      fmupd (rtgName old) (old\<lparr>rtgStatus := rtgStatus x\<rparr>) (store rtgName (kbRoutings w))\<rparr>)"
    if "sget rtgName (rtgName x) (kbRoutings w) = Some old" for old w
    unfolding routing_status_effect_def
    by (intro exI [of _ old] exI [of _ "metaResourceVersion (rtgMeta old)"]) (use that sget_key [OF that] in \<open>simp add: same_rv\<close>)
  then show ?thesis
    by (auto simp: write_law_def wp_def memUpdateRoutingStatus_def memLib_def split: option.split)
qed

lemma key_of_updates [simp]:
  "key_of (x\<lparr>uoStatus := j\<rparr>) = key_of x" "key_of (x\<lparr>uoSpec := j\<rparr>) = key_of x"
  by (simp_all add: key_of_def)

lemma create_mem: "write_law memLib memView (memCreate x) (\<lambda>_. False) (\<lambda>_. create_object_effect x)"
proof -
  have "create_object_effect x (memView w) ((memView w)\<lparr>kObjects := fmupd (key_of x) (x\<lparr>uoDeleting := False\<rparr>) (store key_of (kbObjects w))\<rparr>)"
    if "sget key_of (key_of x) (kbObjects w) = None" for w
    unfolding create_object_effect_def
    by (rule conjI, simp add: that, rule exI [of _ "x\<lparr>uoDeleting := False\<rparr>"]) (simp add: stored_as_def)
  then show ?thesis
    by (auto simp: write_law_def wp_def memCreate_def memLib_def notFound_def alreadyExists_def split: option.split)
qed

lemma update_mem: "write_law memLib memView (memUpdate x) (has_object (key_of x)) (\<lambda>_. update_object_effect x)"
proof -
  have "update_object_effect x (memView w) (memView (snd (memUpdate x w)))"
    if "sget key_of (key_of x) (kbObjects w) = Some old" for old w
    unfolding update_object_effect_def
    by (intro exI [of _ old] conjI)
      (use that in \<open>auto simp: memUpdate_def stored_as_def
        intro!: exI [of _ "x\<lparr>uoDeleting := uoDeleting old, uoStatus := uoStatus old\<rparr>"]\<close>)
  then show ?thesis
    by (auto simp: write_law_def wp_def memUpdate_def memLib_def split: option.split)
qed

lemma delete_mem: "write_law memLib memView (memDelete key) (has_object key) (\<lambda>_. delete_object_effect key)"
  by (auto simp: write_law_def wp_def memDelete_def memLib_def delete_object_effect_def dest: sget_key split: option.split)

lemma patch_mem:
  "write_law memLib memView (memPatch key (Marshal (JObj [(''spec'', p)]))) (has_object key) (\<lambda>_. patch_effect key p)"
proof -
  have "patch_effect key p (memView w) ((memView w)\<lparr>kObjects :=
      fmupd (key_of old) (old\<lparr>uoSpec := merge_patch p (uoSpec old)\<rparr>) (store key_of (kbObjects w))\<rparr>)"
    if "sget key_of key (kbObjects w) = Some old" for old w
    unfolding patch_effect_def
    by (intro exI [of _ old] exI [of _ "uoResourceVersion old"]) (use that sget_key [OF that] in \<open>simp add: same_rv\<close>)
  then show ?thesis
    by (auto simp: write_law_def wp_def memPatch_def memLib_def Marshal_def jmembers_def split: option.split)
qed

lemma list_mem: "read_law memView (memList gvk ns sel) (\<lambda>k xs. set xs = listed gvk ns sel k)"
  unfolding memList_def read_law_def wp_def by (auto simp: listed_def slist_iff)

lemma kube_laws_mem: "kube_laws memLib memClient memView"
  unfolding kube_laws_def memClient_def client.select_convs
  by (intro conjI allI get_law_mem read_law_mem updateConfig_mem updateConfigStatus_mem updateRouting_mem
      updateRoutingStatus_mem create_mem update_mem delete_mem list_mem patch_mem)
    (auto simp: set_slist)

end
