(* ===== verification/Config_Cloud.thy ===== *)
theory Config_Cloud
  imports Config_Aws
begin

text \<open>
  From the custom resource to the cloud: what a run of the CUDNBgpConfig reconciler that reports
  \<open>Ready\<close> has achieved at AWS. The theorem composes the reconciler, discovery, the reconciliation of
  peers and the source/destination check. The cloud is described by an inventory (servers, endpoints,
  zones of subnets), its peers and its instances; \<open>cloud_env\<close> collects what is assumed of the
  environment.
\<close>

section \<open>The environment\<close>

text \<open>No call of the Kubernetes client changes what \<open>obs\<close> observes.\<close>

definition client_keeps :: "'w client \<Rightarrow> ('w \<Rightarrow> 'o) \<Rightarrow> bool" where
  "client_keeps c obs \<longleftrightarrow>
     (\<forall>n. keeps obs (getConfig c n)) \<and> (\<forall>x. keeps obs (updateConfig c x)) \<and>
     (\<forall>x. keeps obs (updateConfigStatus c x)) \<and> (\<forall>n. keeps obs (getNamespace c n)) \<and>
     (\<forall>ns sel. keeps obs (listPods c ns sel)) \<and> (\<forall>sel. keeps obs (listNodes c sel)) \<and>
     (\<forall>key. keeps obs (getObject c key)) \<and> (\<forall>x. keeps obs (createObject c x)) \<and>
     (\<forall>x. keeps obs (updateObject c x)) \<and> (\<forall>key. keeps obs (deleteObject c key)) \<and>
     (\<forall>gvk ns sel. keeps obs (listObjects c gvk ns sel)) \<and> (\<forall>key d. keeps obs (mergePatch c key d))"

lemma client_keepsD:
  assumes "client_keeps c obs"
  shows "keeps obs (getConfig c n)" "keeps obs (updateConfig c x)" "keeps obs (updateConfigStatus c x)"
    "keeps obs (getNamespace c n)" "keeps obs (listPods c ns sel)" "keeps obs (listNodes c sel)"
    "keeps obs (getObject c key)" "keeps obs (createObject c u)" "keeps obs (updateObject c u)"
    "keeps obs (deleteObject c key)" "keeps obs (listObjects c gvk ns sel)" "keeps obs (mergePatch c key d)"
  using assms by (simp_all add: client_keeps_def)

text \<open>
  \<open>peers\<close> and \<open>enis\<close> observe the cloud. The inventory does not change during a run, every endpoint in
  it has its own identifier and a subnet, and the calls of one kind do not disturb the rest.
\<close>

record inventory_of =
  ioServers :: "string \<Rightarrow> RouteServer list"
  ioEndpoints :: "RouteServerEndpoint list"
  ioZone :: "string \<Rightarrow> string"

type_synonym 'w cloud_obs = "'w \<Rightarrow> RouteServerPeer set \<times> instances \<times> Node set"

definition inventory_wf :: "inventory_of \<Rightarrow> bool" where
  "inventory_wf iv \<longleftrightarrow>
     (\<forall>ep \<in> set (ioEndpoints iv). rseSubnetId ep \<noteq> None \<and> rseRouteServerEndpointId ep \<noteq> None) \<and>
     inj_on rseRouteServerEndpointId (set (ioEndpoints iv))"

definition ec2_env ::
    "'w awsSDK \<Rightarrow> 'w ec2API \<Rightarrow> inventory_of \<Rightarrow> ('w \<Rightarrow> RouteServerPeer set) \<Rightarrow> ('w \<Rightarrow> instances) \<Rightarrow> ('w \<Rightarrow> Node set) \<Rightarrow> bool" where
  "ec2_env sdk ec2 iv peers enis nodes \<longleftrightarrow>
     peer_laws ec2 peers \<and> eni_laws ec2 enis \<and> inventory_laws ec2 (ioServers iv) (ioEndpoints iv) (ioZone iv) \<and>
     query_keeps ec2 (\<lambda>w. (peers w, enis w, nodes w)) \<and> peer_keeps ec2 enis \<and> eni_keeps ec2 peers"

definition cloud_env ::
    "('w, 'c) awsEnv \<Rightarrow> 'w client \<Rightarrow> ('w \<Rightarrow> cluster) \<Rightarrow> inventory_of \<Rightarrow> ('w \<Rightarrow> RouteServerPeer set) \<Rightarrow> ('w \<Rightarrow> instances) \<Rightarrow> bool" where
  "cloud_env e c view iv peers enis \<longleftrightarrow>
     aws_good e c view \<and> sdk_laws (aeSdk e) \<and> inventory_wf iv \<and>
     range_laws (rangeOrder (aeSdk e)) (\<lambda>w. (peers w, enis w, kNodes (view w))) \<and>
     client_keeps c (\<lambda>w. (peers w, enis w, kNodes (view w))) \<and>
     (\<forall>region. keeps (\<lambda>w. (peers w, enis w, kNodes (view w))) (LoadDefaultConfig (aeApi e) region)) \<and>
     (\<forall>cfg. keeps (\<lambda>w. (peers w, enis w, kNodes (view w))) (GetCallerIdentity (stsNewFromConfig (aeApi e) cfg))) \<and>
     (\<forall>cfg. ec2_env (aeSdk e) (ec2NewFromConfig (aeApi e) cfg) iv peers enis (\<lambda>w. kNodes (view w)))"

lemma cloud_envD:
  assumes "cloud_env e c view iv peers enis"
  shows "aws_good e c view" "sdk_laws (aeSdk e)" "inventory_wf iv"
    "range_laws (rangeOrder (aeSdk e)) (\<lambda>w. (peers w, enis w, kNodes (view w)))"
    "client_keeps c (\<lambda>w. (peers w, enis w, kNodes (view w)))"
    "keeps (\<lambda>w. (peers w, enis w, kNodes (view w))) (LoadDefaultConfig (aeApi e) region)"
    "keeps (\<lambda>w. (peers w, enis w, kNodes (view w))) (GetCallerIdentity (stsNewFromConfig (aeApi e) cfg))"
    "ec2_env (aeSdk e) (ec2NewFromConfig (aeApi e) cfg) iv peers enis (\<lambda>w. kNodes (view w))"
    "kube_laws (aeLib e) c view"
  using assms aws_goodD(1) by (auto simp: cloud_env_def)

lemma range_laws_part: "range_laws ro (\<lambda>w. (f w, g w)) \<Longrightarrow> range_laws ro f \<and> range_laws ro g"
  by (simp add: range_laws_def)

lemma keeps_part: "keeps (\<lambda>w. (f w, g w)) m \<Longrightarrow> keeps f m \<and> keeps g m"
  by (simp add: keeps_def)

text \<open>Adding a frame to a specification.\<close>

lemma wp_frame:
  assumes "keeps obs m" and "wp m (\<lambda>a w'. obs w' = obs w \<longrightarrow> Q a w') (\<lambda>e w'. obs w' = obs w \<longrightarrow> E e w') w"
  shows "wp m Q E w"
  using wp_conj [OF keeps_wp [OF assms(1)] assms(2)] by (rule wp_mono) auto

lemma wp_keeps:
  assumes "keeps obs m" and "\<And>a w'. obs w' = obs w \<Longrightarrow> Q a w'" and "\<And>e w'. obs w' = obs w \<Longrightarrow> E e w'"
  shows "wp m Q E w"
  by (rule wp_mono [OF keeps_wp [OF assms(1)]]) (use assms(2,3) in auto)

section \<open>What Ready promises of the cloud\<close>

definition router_nodes :: "CUDNBgpConfigSpec \<Rightarrow> Node set \<Rightarrow> RouterNode set" where
  "router_nodes s ns = {rn. \<exists>n \<in> ns. selects (csRouterNodeSelector s) (node_labels n) \<and> routerNode n = Some rn}"

text \<open>A peer with the tag of the cluster \<open>cid\<close>.\<close>

definition tagged :: "'w awsSDK \<Rightarrow> string \<Rightarrow> RouteServerPeer \<Rightarrow> bool" where
  "tagged sdk cid q = hasTag sdk (peerTags q) ''managed-by'' (''cudn-bgp-routing-operator/'' @ cid)"

text \<open>
  On every endpoint of a configured route server the cluster's peers are exactly those for the router
  nodes of the endpoint's zone, and no router node has the source/destination check on.
\<close>

definition cloud_ready ::
    "'w awsSDK \<Rightarrow> inventory_of \<Rightarrow> AWSConfig \<Rightarrow> string \<Rightarrow> RouterNode set \<Rightarrow> RouteServerPeer set \<Rightarrow> instances \<Rightarrow> bool" where
  "cloud_ready sdk iv a cid ns P N \<longleftrightarrow>
     (\<forall>ep \<in> set (ioEndpoints iv). ToString sdk (rseRouteServerId ep) \<in> set (awsRouteServerIDs a) \<longrightarrow>
        peerAddress ` {q \<in> P. endpoint sdk q = ToString sdk (rseRouteServerEndpointId ep) \<and> tagged sdk cid q} =
          {Some (rnPrivateIP n) |n. n \<in> ns \<and> rnAZ n = ioZone iv (ToString sdk (rseSubnetId ep))}) \<and>
     (\<forall>n \<in> ns. check_off sdk N n)"

definition infrastructure_name :: "cluster \<Rightarrow> string option" where
  "infrastructure_name k =
     (case fmlookup (kObjects k) (gvk_key InfrastructureGVK '''' ''cluster'') of
        None \<Rightarrow> None
      | Some infra \<Rightarrow> (case jpath (object_json infra) [''status'', ''infrastructureName''] of
            Some (JStr s) \<Rightarrow> Some s | _ \<Rightarrow> None))"

section \<open>Discovery\<close>

lemma grouped_mem:
  assumes "grouped m kvs"
  shows "(\<exists>vs. fmlookup m k = Some vs \<and> v \<in> set vs) \<longleftrightarrow> (k, v) \<in> set kvs"
  using assms by (force simp: grouped_def group_at_def)

definition zone_endpoints :: "'w awsSDK \<Rightarrow> inventory_of \<Rightarrow> string list \<Rightarrow> (string \<times> string) set" where
  "zone_endpoints sdk iv ids =
     (\<lambda>ep. (ioZone iv (ToString sdk (rseSubnetId ep)), ToString sdk (rseRouteServerEndpointId ep))) `
       {ep \<in> set (ioEndpoints iv). ToString sdk (rseRouteServerId ep) \<in> set ids}"

lemma discovered_endpoints:
  assumes laws: "inventory_laws (plEc2Client p) (ioServers iv) (ioEndpoints iv) (ioZone iv)" "sdk_laws sdk" "inventory_wf iv"
    and run: "DiscoverEndpoints sdk p w = (Inr (dr, p'), w')"
  shows "(\<exists>l. fmlookup (plEndpointsByAZ p') az = Some l \<and> i \<in> set l) \<longleftrightarrow> (az, i) \<in> zone_endpoints sdk iv (plRouteServerIDs p)"
    and "one_zone p'"
proof -
  have servers: "drsRouteServers dr =
      map (inventory_server sdk (ioServers iv) (ioEndpoints iv) (ioZone iv)) (plRouteServerIDs p)"
    using DiscoverEndpoints_servers [OF laws(1,2) _ run] laws(3) by (simp add: inventory_wf_def)
  have grouped: "grouped (plEndpointsByAZ p') (map endpoint_of (all_endpoints dr))"
    using DiscoverEndpoints_run [OF run] by (simp add: discovery_wf_def)
  have "set (map endpoint_of (all_endpoints dr)) = zone_endpoints sdk iv (plRouteServerIDs p)"
    by (auto simp: all_endpoints_def servers inventory_server_def endpoint_of_def zone_endpoints_def image_iff) blast
  then have mem: "(\<exists>l. fmlookup (plEndpointsByAZ p') az = Some l \<and> i \<in> set l) \<longleftrightarrow>
      (az, i) \<in> zone_endpoints sdk iv (plRouteServerIDs p)" for az i
    using grouped_mem [OF grouped] by simp
  then show "(\<exists>l. fmlookup (plEndpointsByAZ p') az = Some l \<and> i \<in> set l) \<longleftrightarrow>
      (az, i) \<in> zone_endpoints sdk iv (plRouteServerIDs p)" .
  have "az = az'" if az: "(az, i) \<in> zone_endpoints sdk iv ids" and az': "(az', i) \<in> zone_endpoints sdk iv ids" for az az' i ids
  proof -
    from az az' obtain ep ep' where ep: "ep \<in> set (ioEndpoints iv)" "ep' \<in> set (ioEndpoints iv)"
      and i: "ToString sdk (rseRouteServerEndpointId ep) = ToString sdk (rseRouteServerEndpointId ep')"
      and zones: "az = ioZone iv (ToString sdk (rseSubnetId ep))" "az' = ioZone iv (ToString sdk (rseSubnetId ep'))"
      unfolding zone_endpoints_def by auto
    obtain x y where "rseRouteServerEndpointId ep = Some x" "rseRouteServerEndpointId ep' = Some y"
      using ep laws(3) unfolding inventory_wf_def by blast
    then have "rseRouteServerEndpointId ep = rseRouteServerEndpointId ep'" using i by (simp add: sdk_lawsD [OF laws(2)])
    then have "ep = ep'" using ep laws(3) unfolding inventory_wf_def by (meson inj_onD)
    then show ?thesis using zones by simp
  qed
  then show "one_zone p'"
    unfolding one_zone_def using mem by blast
qed

section \<open>The last phase\<close>

text \<open>The same promise in terms of the platform after discovery.\<close>

definition platform_done :: "'w awsSDK \<Rightarrow> 'w Platform \<Rightarrow> RouterNode set \<Rightarrow> RouteServerPeer set \<Rightarrow> instances \<Rightarrow> bool" where
  "platform_done sdk p ns P N \<longleftrightarrow>
     (\<forall>az l i. fmlookup (plEndpointsByAZ p) az = Some l \<longrightarrow> i \<in> set l \<longrightarrow>
        peerAddress ` {q \<in> P. endpoint sdk q = i \<and> managed sdk p q} = {Some (rnPrivateIP n) |n. n \<in> ns \<and> rnAZ n = az}) \<and>
     (\<forall>n \<in> ns. check_off sdk N n)"

lemma wp_ReconcileNodes:
  assumes env: "sdk_laws sdk" "ec2_env sdk (plEc2Client p) iv peers enis nodesOf" "range_laws (rangeOrder sdk) peers"
    "range_laws (rangeOrder sdk) enis" and zone: "one_zone p"
    and wf: "peers_wf sdk (peers w)" "enis_wf (enis w)"
  shows "wp (ReconcileNodes sdk p nodes) (\<lambda>_ w'. platform_done sdk p (set nodes) (peers w') (enis w')) (\<lambda>_ _. True) w"
proof -
  have penv: "peer_env sdk p peers" and eenv: "eni_env sdk p enis"
    and keeps: "peer_keeps (plEc2Client p) enis" "eni_keeps (plEc2Client p) peers"
    using env by (simp_all add: peer_env_def eni_env_def ec2_env_def)
  let ?P = "\<lambda>w'. \<forall>az l i. fmlookup (plEndpointsByAZ p) az = Some l \<longrightarrow> i \<in> set l \<longrightarrow>
        peerAddress ` {q \<in> peers w'. endpoint sdk q = i \<and> managed sdk p q} = {Some (rnPrivateIP n) |n. n \<in> set nodes \<and> rnAZ n = az}"
  have check: "wp (disableSourceDestCheck sdk p nodes) (\<lambda>_ w'. platform_done sdk p (set nodes) (peers w') (enis w')) (\<lambda>_ _. True) w1"
    if "?P w1" "enis w1 = enis w" for w1
  proof (rule wp_frame [OF keeps_disableSourceDestCheck [OF keeps(2)]])
    show "wp (disableSourceDestCheck sdk p nodes)
      (\<lambda>_ w'. peers w' = peers w1 \<longrightarrow> platform_done sdk p (set nodes) (peers w') (enis w')) (\<lambda>_ w'. peers w' = peers w1 \<longrightarrow> True) w1"
      by (rule wp_mono [OF wp_disableSourceDestCheck [OF eenv]]) (use that wf(2) in \<open>auto simp: platform_done_def\<close>)
  qed
  have conv: "?P w1"
    if "\<forall>e \<in> own_endpoints p. converged_on sdk p e (the (desired_on p nodes e)) (peers w1)" for w1
  proof (intro allI impI)
    fix az l i
    assume l: "fmlookup (plEndpointsByAZ p) az = Some l" "i \<in> set l"
    then have "i \<in> own_endpoints p" by (auto simp: own_endpoints_def)
    with that have "converged_on sdk p i (the (desired_on p nodes i)) (peers w1)" by blast
    then show "peerAddress ` {q \<in> peers w1. endpoint sdk q = i \<and> managed sdk p q} = {Some (rnPrivateIP n) |n. n \<in> set nodes \<and> rnAZ n = az}"
      by (auto simp: converged_on_def desired_on_zone [OF zone l])
  qed
  have "wp (reconcileRouteServerPeers sdk p nodes) (\<lambda>_ w1. ?P w1 \<and> enis w1 = enis w) (\<lambda>_ _. True) w"
  proof (rule wp_frame [OF keeps_reconcileRouteServerPeers [OF keeps(1) env(4)]])
    show "wp (reconcileRouteServerPeers sdk p nodes) (\<lambda>_ w1. enis w1 = enis w \<longrightarrow> ?P w1 \<and> enis w1 = enis w)
      (\<lambda>_ w1. enis w1 = enis w \<longrightarrow> True) w"
      by (rule wp_mono [OF wp_reconcileRouteServerPeers [OF penv zone wf(1)]]) (use conv in simp_all)
  qed
  then show ?thesis
    unfolding ReconcileNodes_def wp_eta by (rule wp_mono) (use check in auto)
qed

section \<open>The phases\<close>

text \<open>A run that answers \<open>Ready\<close> has achieved \<open>G\<close>; every other answer is of no interest here.\<close>

definition when_ready :: "('w \<Rightarrow> bool) \<Rightarrow> Result \<Rightarrow> 'w \<Rightarrow> bool" where
  "when_ready G res w' \<longleftrightarrow> res = \<lparr>RequeueAfter = 5 * Minute\<rparr> \<longrightarrow> G w'"

abbreviation achieves :: "('w, Result) act \<Rightarrow> ('w \<Rightarrow> bool) \<Rightarrow> 'w \<Rightarrow> bool" where
  "achieves m G w \<equiv> wp m (when_ready G) (\<lambda>_ _. True) w"

lemma other_answers:
  "achieves (ConfigSetDegraded lib c cf t re m) G w"
  "achieves (bindA m' (\<lambda>_. returnA \<lparr>RequeueAfter = 10 * Second\<rparr>)) G w"
  "achieves (ConfigReconcileDelete env r cf) G w"
  by (rule wpI; auto simp: ConfigSetDegraded_def ConfigReconcileDelete_def act_iffs when_ready_def
      Minute_def Second_def emptyResult_def)+

lemma achieves_ConfigFinish:
  assumes "client_keeps (ccClient r) obs" and "\<And>w'. obs w' = obs w \<Longrightarrow> G w'"
  shows "achieves (ConfigFinish r cf) G w"
  unfolding ConfigFinish_def wp_eta
  by (rule wp_keeps [OF client_keepsD(3) [OF assms(1)]]) (use assms(2) in \<open>auto simp: when_ready_def\<close>)

lemma keeps_listRouterNodes: "client_keeps c obs \<Longrightarrow> keeps obs (listRouterNodes c cf)"
  unfolding listRouterNodes_def by (intro keeps_bind keeps_return client_keepsD)

lemma keeps_writer:
  assumes "client_keeps c obs"
  shows "keeps obs (createOrUpdate lib c u)" "keeps obs (deleteIgnoreNotFound lib c key)"
  unfolding createOrUpdate_def deleteIgnoreNotFound_def
  by (auto intro!: keeps_branch client_keepsD [OF assms])

lemma keeps_prune: "client_keeps c obs \<Longrightarrow> keeps obs (pruneFRRConfigurations lib c names)"
  unfolding pruneFRRConfigurations_def
  by (auto intro!: keeps_bind keeps_for keeps_wrap keeps_writer client_keepsD)

lemma keeps_applyFRR:
  assumes c: "client_keeps (ccClient r) obs" and ro: "range_laws (ceRange env) obs"
  shows "keeps obs (applyFRR env r cf disc)"
proof -
  have "keeps obs (EnsureFRRConfigurations (ceLib env) (ccClient r) cf)"
    unfolding EnsureFRRConfigurations_def ensureSingleFRRConfiguration_def Let_def
    by (intro keeps_bind keeps_for keeps_wrap keeps_prune keeps_writer c)
  moreover have "keeps obs (EnsureFRRConfigurationsFromDiscovery (ceRange env) (ceLib env) (ccClient r) cf dr)" for dr
    unfolding EnsureFRRConfigurationsFromDiscovery_def ensureSingleFRRConfiguration_def Let_def
    by (intro keeps_bind keeps_for keeps_wrap keeps_range keeps_prune keeps_writer keeps_return c ro)
  ultimately show ?thesis
    by (auto simp: applyFRR_def split: option.split prod.split intro!: keeps_bind keeps_return)
qed

lemma keeps_IsFRRReady: "client_keeps c obs \<Longrightarrow> keeps obs (IsFRRReady lib c)"
  unfolding IsFRRReady_def by (auto intro!: keeps_branch keeps_bind client_keepsD)

lemma achieves_ConfigPhase5:
  assumes env: "cloud_env e c view iv peers enis" and p: "plEc2Client p = ec2NewFromConfig (aeApi e) a"
    and zone: "one_zone p" and wf: "peers_wf (aeSdk e) (peers w)" "enis_wf (enis w)"
    and G: "\<And>w'. platform_done (aeSdk e) p (router_nodes (cfgSpec cf) (kNodes (view w))) (peers w') (enis w') \<Longrightarrow> G w'"
  shows "achieves (ConfigPhase5 (awsConfigEnv e) (awsReconciler c) cf (Some p)) G w"
proof -
  let ?obs = "\<lambda>w. (peers w, enis w, kNodes (view w))"
  note c = cloud_envD(5) [OF env]
  have ro: "range_laws (rangeOrder (aeSdk e)) peers" "range_laws (rangeOrder (aeSdk e)) enis"
    using cloud_envD(4) [OF env] by (simp_all add: range_laws_def)
  have ec2: "ec2_env (aeSdk e) (plEc2Client p) iv peers enis (\<lambda>w. kNodes (view w))" unfolding p by (rule cloud_envD(8) [OF env])
  have finish: "achieves (ConfigFinish (awsReconciler c) x) G w2"
    if "platform_done (aeSdk e) p (router_nodes (cfgSpec cf) (kNodes (view w))) (peers w2) (enis w2)" for x w2
    by (rule achieves_ConfigFinish [where obs = ?obs]) (use c that G in auto)
  have nodes: "wp (listRouterNodes c cf) (\<lambda>ns w1. set ns = router_nodes (cfgSpec cf) (kNodes (view w)) \<and>
      peers w1 = peers w \<and> enis w1 = enis w) (\<lambda>_ _. True) w"
    by (rule wp_frame [OF keeps_listRouterNodes [OF c]], rule wp_listRouterNodes [OF cloud_envD(9) [OF env]])
      (auto simp: router_nodes_def)
  have reconcile: "wp (cpReconcileNodes (awsMethods (aeSdk e)) p ns)
      (\<lambda>_. achieves (ConfigFinish (awsReconciler c) x) G)
      (\<lambda>err. achieves (ConfigSetDegraded (aeLib e) c cf t re (m err)) G) w1"
    if "set ns = router_nodes (cfgSpec cf) (kNodes (view w))" "peers w1 = peers w" "enis w1 = enis w" for ns x t re m w1
  proof -
    have "wp (ReconcileNodes (aeSdk e) p ns) (\<lambda>_ w'. platform_done (aeSdk e) p (set ns) (peers w') (enis w')) (\<lambda>_ _. True) w1"
      by (rule wp_ReconcileNodes [OF cloud_envD(2) [OF env] ec2 ro zone]) (use that wf in simp_all)
    then show ?thesis
      unfolding awsMethods_def CloudPlatform.select_convs
      by (rule wp_mono) (use finish other_answers(1) that(1) in auto)
  qed
  show ?thesis
    unfolding ConfigPhase5_def option.case wp_eta awsConfigEnv_simps
    by (rule wp_mono [OF nodes]) (use reconcile other_answers(1) in auto)
qed

lemma achieves_ConfigPhase4:
  assumes env: "cloud_env e c view iv peers enis" and p: "plEc2Client p = ec2NewFromConfig (aeApi e) a"
    and zone: "one_zone p" and wf: "peers_wf (aeSdk e) (peers w)" "enis_wf (enis w)"
    and G: "\<And>w'. platform_done (aeSdk e) p (router_nodes (cfgSpec cf) (kNodes (view w))) (peers w') (enis w') \<Longrightarrow> G w'"
  shows "achieves (ConfigPhase4 (awsConfigEnv e) (awsReconciler c) cf (Some (dr, p))) G w"
proof -
  let ?obs = "\<lambda>w. (peers w, enis w, kNodes (view w))"
  have keeps: "keeps ?obs (applyFRR (awsConfigEnv e) (awsReconciler c) cf (Some (dr, p)))"
    by (rule keeps_applyFRR) (use cloud_envD(4,5) [OF env] in simp_all)
  have next': "achieves (ConfigPhase5 (awsConfigEnv e) (awsReconciler c) (setConfigCondition lib cf t s re m) (Some p)) G w1"
    if "?obs w1 = ?obs w" for lib t s re m w1
    by (rule achieves_ConfigPhase5 [OF env p zone]) (use that wf G in \<open>auto simp: setConfigCondition_def\<close>)
  show ?thesis
    unfolding ConfigPhase4_def wp_eta awsConfigEnv_simps option.map snd_conv
    by (rule wp_keeps [OF keeps]) (use next' other_answers(1) in auto)
qed

text \<open>What the builder gives, when it succeeds.\<close>

lemma New_eq:
  "New api cfg =
     bindA (wrapA ''loading AWS config: '' (LoadDefaultConfig api (acRegion cfg))) (\<lambda>awsCfg.
     branchA (GetCallerIdentity (stsNewFromConfig api awsCfg))
       (\<lambda>err. throwA (CredentialError (Sprintf
         [''AWS credential verification failed (sts:GetCallerIdentity): '', Error err])))
       (\<lambda>_. returnA
         \<lparr>plEc2Client = ec2NewFromConfig api awsCfg, plRegion = acRegion cfg, plRouteServerIDs = acRouteServerIDs cfg,
          plEndpointsByAZ = fmempty, plLocalASN = acLocalASN cfg, plLivenessDetection = acLivenessDetection cfg,
          plClusterID = acClusterID cfg\<rparr>))"
  by (rule ext) (simp add: New_def newPlatform_def bindA_def returnA_def split: prod.split sum.split)

lemma keeps_builder:
  assumes env: "cloud_env e c view iv peers enis"
  shows "keeps (\<lambda>w. (peers w, enis w, kNodes (view w))) (defaultPlatformBuilder (aeLib e) (aeApi e) c cf)"
  unfolding defaultPlatformBuilder_def getInfrastructureName_def New_eq Let_def
  by (auto split: option.split sum.split
      intro!: keeps_bind keeps_branch keeps_wrap client_keepsD [OF cloud_envD(5) [OF env]] cloud_envD(6,7) [OF env])

lemma wp_builder_settings:
  assumes env: "cloud_env e c view iv peers enis" and aws: "csAWS (cfgSpec cf) = Some a"
  shows "wp (defaultPlatformBuilder (aeLib e) (aeApi e) c cf)
    (\<lambda>p _. infrastructure_name (view w) = Some (plClusterID p) \<and> plRouteServerIDs p = awsRouteServerIDs a \<and>
      (\<exists>x. plEc2Client p = ec2NewFromConfig (aeApi e) x)) (\<lambda>_ _. True) w"
proof -
  have lib: "lib_laws (aeLib e)" using aws_goodD(2) [OF cloud_envD(1) [OF env]] .
  have new: "wp (New (aeApi e) (awsConfig_of cf a cid)) (\<lambda>p _. plClusterID p = cid \<and> plRouteServerIDs p = awsRouteServerIDs a \<and>
      (\<exists>x. plEc2Client p = ec2NewFromConfig (aeApi e) x)) (\<lambda>_ _. True) w1" for cid w1
    by (rule wpI) (auto simp: New_def newPlatform_def act_iffs awsConfig_of_def)
  have name: "wp (getInfrastructureName (aeLib e) c) (\<lambda>cid _. infrastructure_name (view w) = Some cid) (\<lambda>_ _. True) w"
    unfolding getInfrastructureName_def wp_bind Let_def
    by (rule wp_get [OF kube_lawsD(12) [OF cloud_envD(9) [OF env]]])
      (auto simp: wp_simps infrastructure_name_def lib_lawsD(5) [OF lib] split: sum.split option.split)
  show ?thesis
    unfolding defaultPlatformBuilder_def wp_eta aws option.case
    by (rule wp_mono [OF name]) (auto intro!: wp_mono [OF new])
qed

text \<open>The promise in terms of the inventory.\<close>

lemma platform_done_ready:
  assumes laws: "inventory_laws (plEc2Client p) (ioServers iv) (ioEndpoints iv) (ioZone iv)" "sdk_laws sdk" "inventory_wf iv"
    and run: "DiscoverEndpoints sdk p w = (Inr (dr, p'), w1)" and ids: "plRouteServerIDs p = awsRouteServerIDs a"
    and fin: "platform_done sdk p' ns P N"
  shows "cloud_ready sdk iv a (plClusterID p) ns P N"
  unfolding cloud_ready_def
proof (intro conjI ballI impI)
  fix ep
  assume ep: "ep \<in> set (ioEndpoints iv)" "ToString sdk (rseRouteServerId ep) \<in> set (awsRouteServerIDs a)"
  let ?az = "ioZone iv (ToString sdk (rseSubnetId ep))" and ?i = "ToString sdk (rseRouteServerEndpointId ep)"
  have "(?az, ?i) \<in> zone_endpoints sdk iv (plRouteServerIDs p)" using ep ids by (auto simp: zone_endpoints_def)
  then obtain l where l: "fmlookup (plEndpointsByAZ p') ?az = Some l" "?i \<in> set l"
    using discovered_endpoints(1) [OF laws run] by blast
  have "managed sdk p' q = tagged sdk (plClusterID p) q" for q
    using DiscoverEndpoints_run [OF run] by (simp add: managed_def tagged_def managedByTagKey_def peerTagValue_def)
  with fin l show "peerAddress ` {q \<in> P. endpoint sdk q = ?i \<and> tagged sdk (plClusterID p) q} =
      {Some (rnPrivateIP n) |n. n \<in> ns \<and> rnAZ n = ?az}"
    unfolding platform_done_def by simp
qed (use fin in \<open>simp add: platform_done_def\<close>)

definition cloud_goal ::
    "'w awsSDK \<Rightarrow> inventory_of \<Rightarrow> CUDNBgpConfigSpec \<Rightarrow> cluster \<Rightarrow> RouteServerPeer set \<Rightarrow> instances \<Rightarrow> bool" where
  "cloud_goal sdk iv s k P N \<longleftrightarrow>
     (\<exists>a cid. csAWS s = Some a \<and> infrastructure_name k = Some cid \<and>
        cloud_ready sdk iv a cid (router_nodes s (kNodes k)) P N)"

lemma achieves_ConfigPhase3:
  assumes env: "cloud_env e c view iv peers enis" and aws: "csAWS (cfgSpec cf) \<noteq> None"
    and wf: "peers_wf (aeSdk e) (peers w)" "enis_wf (enis w)"
  shows "achieves (ConfigPhase3 (awsConfigEnv e) (awsReconciler c) cf)
    (\<lambda>w'. cloud_goal (aeSdk e) iv (cfgSpec cf) (view w) (peers w') (enis w')) w"
proof -
  let ?obs = "\<lambda>w. (peers w, enis w, kNodes (view w))"
  let ?G = "\<lambda>w'. cloud_goal (aeSdk e) iv (cfgSpec cf) (view w) (peers w') (enis w')"
  obtain a where a: "csAWS (cfgSpec cf) = Some a" using aws by blast
  have phase4: "achieves (ConfigPhase4 (awsConfigEnv e) (awsReconciler c) (discoveredConfig (aeLib e) cf dr) (Some (dr, p'))) ?G w2"
    if p: "infrastructure_name (view w) = Some (plClusterID p)" "plRouteServerIDs p = awsRouteServerIDs a"
      "plEc2Client p = ec2NewFromConfig (aeApi e) x"
      and run: "DiscoverEndpoints (aeSdk e) p w1 = (Inr (dr, p'), w2)" and obs: "?obs w2 = ?obs w" for p x dr p' w1 w2
  proof (rule achieves_ConfigPhase4 [OF env])
    have inv: "inventory_laws (plEc2Client p) (ioServers iv) (ioEndpoints iv) (ioZone iv)"
      using cloud_envD(8) [OF env, of x] p(3) by (simp add: ec2_env_def)
    note laws = inv cloud_envD(2,3) [OF env]
    show "plEc2Client p' = ec2NewFromConfig (aeApi e) x" using DiscoverEndpoints_run [OF run] p(3) by simp
    show "one_zone p'" by (rule discovered_endpoints(2) [OF laws run])
    fix w'
    assume "platform_done (aeSdk e) p' (router_nodes (cfgSpec (discoveredConfig (aeLib e) cf dr)) (kNodes (view w2))) (peers w') (enis w')"
    then have "platform_done (aeSdk e) p' (router_nodes (cfgSpec cf) (kNodes (view w))) (peers w') (enis w')"
      using obs by (simp add: discoveredConfig_def setConfigCondition_def)
    from platform_done_ready [OF laws run p(2) this] show "?G w'"
      using a p(1) by (simp add: cloud_goal_def)
  qed (use obs wf in simp_all)
  have discover: "wp (DiscoverEndpoints (aeSdk e) p)
      (\<lambda>x. achieves (case x of (dr, p') \<Rightarrow>
        ConfigPhase4 (awsConfigEnv e) (awsReconciler c) (discoveredConfig (aeLib e) cf dr) (Some (dr, p'))) ?G)
      (\<lambda>err. achieves (ConfigSetDegraded (aeLib e) c cf t re (m err)) ?G) w1"
    if p: "infrastructure_name (view w) = Some (plClusterID p)" "plRouteServerIDs p = awsRouteServerIDs a"
      "plEc2Client p = ec2NewFromConfig (aeApi e) x" and obs: "?obs w1 = ?obs w" for p x t re m w1
  proof (rule wp_frame [where obs = ?obs])
    show "keeps ?obs (DiscoverEndpoints (aeSdk e) p)"
      by (rule keeps_DiscoverEndpoints) (use cloud_envD(8) [OF env, of x] p(3) in \<open>simp add: ec2_env_def\<close>)
  qed (rule wpI; use phase4 [OF p] obs other_answers(1) in auto)
  have "wp (defaultPlatformBuilder (aeLib e) (aeApi e) c cf)
      (\<lambda>p w1. (infrastructure_name (view w) = Some (plClusterID p) \<and> plRouteServerIDs p = awsRouteServerIDs a \<and>
        (\<exists>x. plEc2Client p = ec2NewFromConfig (aeApi e) x)) \<and> ?obs w1 = ?obs w) (\<lambda>_ _. True) w"
    by (rule wp_frame [OF keeps_builder [OF env]], rule wp_mono [OF wp_builder_settings [OF env a]]) simp_all
  then show ?thesis
    unfolding ConfigPhase3_def wp_eta awsConfigEnv_simps a
    by (simp add: wp_eta, elim wp_mono)
      (use discover other_answers(1) in \<open>auto simp: awsMethods_def split: option.split prod.splits\<close>)
qed

lemma cloud_goal_cong:
  "infrastructure_name k1 = infrastructure_name k \<Longrightarrow> kNodes k1 = kNodes k \<Longrightarrow> cloud_goal sdk iv s k1 = cloud_goal sdk iv s k"
  by (simp add: cloud_goal_def fun_eq_iff)

lemma infrastructure_name_other:
  "fmlookup (kObjects k1) (gvk_key InfrastructureGVK '''' ''cluster'') =
     fmlookup (kObjects k) (gvk_key InfrastructureGVK '''' ''cluster'') \<Longrightarrow> infrastructure_name k1 = infrastructure_name k"
  by (simp add: infrastructure_name_def)

lemma achieves_ConfigPhase2:
  assumes env: "cloud_env e c view iv peers enis" and aws: "csAWS (cfgSpec cf) \<noteq> None"
    and wf: "peers_wf (aeSdk e) (peers w)" "enis_wf (enis w)"
  shows "achieves (ConfigPhase2 (awsConfigEnv e) (awsReconciler c) cf)
    (\<lambda>w'. cloud_goal (aeSdk e) iv (cfgSpec cf) (view w) (peers w') (enis w')) w"
proof -
  let ?obs = "\<lambda>w. (peers w, enis w, kNodes (view w))"
  let ?G = "\<lambda>w'. cloud_goal (aeSdk e) iv (cfgSpec cf) (view w) (peers w') (enis w')"
  have next': "achieves (ConfigPhase3 (awsConfigEnv e) (awsReconciler c) (setConfigCondition lib cf t s re m)) ?G w1"
    if "?obs w1 = ?obs w" "view w1 = view w" for lib t s re m w1
    using achieves_ConfigPhase3 [OF env, of "setConfigCondition lib cf t s re m" w1] that wf aws
    by (simp add: setConfigCondition_def)
  show ?thesis
    unfolding ConfigPhase2_def wp_eta awsConfigEnv_simps
    by (rule wp_frame [OF keeps_IsFRRReady [OF cloud_envD(5) [OF env]]], rule wp_IsFRRReady [OF cloud_envD(9) [OF env]])
      (use next' other_answers in auto)
qed

lemma achieves_ConfigPhase1:
  assumes env: "cloud_env e c view iv peers enis" and aws: "csAWS (cfgSpec cf) \<noteq> None"
    and wf: "peers_wf (aeSdk e) (peers w)" "enis_wf (enis w)"
  shows "achieves (ConfigPhase1 (awsConfigEnv e) (awsReconciler c) cf)
    (\<lambda>w'. cloud_goal (aeSdk e) iv (cfgSpec cf) (view w) (peers w') (enis w')) w"
proof -
  let ?obs = "\<lambda>w. (peers w, enis w, kNodes (view w))"
  let ?G = "\<lambda>w'. cloud_goal (aeSdk e) iv (cfgSpec cf) (view w) (peers w') (enis w')"
  have keeps: "keeps ?obs (PatchNetworkOperator c)"
    unfolding PatchNetworkOperator_def Let_def by (rule client_keepsD [OF cloud_envD(5) [OF env]])
  have same: "infrastructure_name (view w1) = infrastructure_name (view w)"
    if "patch_effect network_key networkSpecPatch (view w) (view w1)" for w1
    using that by (intro infrastructure_name_other) (auto simp: patch_effect_def gvk_key_def gvk_defs InfrastructureGVK_def)
  have next': "achieves (ConfigPhase2 (awsConfigEnv e) (awsReconciler c) (setConfigCondition lib cf t s re m)) ?G w1"
    if "?obs w1 = ?obs w" "patch_effect network_key networkSpecPatch (view w) (view w1)" for lib t s re m w1
    using achieves_ConfigPhase2 [OF env, of "setConfigCondition lib cf t s re m" w1] that wf aws
      cloud_goal_cong [OF same [OF that(2)], where sdk = "aeSdk e"]
    by (simp add: setConfigCondition_def)
  show ?thesis
    unfolding ConfigPhase1_def wp_eta awsConfigEnv_simps
    by (rule wp_frame [OF keeps], rule wp_PatchNetworkOperator [OF cloud_envD(9) [OF env]])
      (use next' other_answers(1) in auto)
qed

lemma keeps_ensureConfigFinalizer: "client_keeps c obs \<Longrightarrow> keeps obs (ensureConfigFinalizer lib c cfg)"
  by (auto simp: ensureConfigFinalizer_def intro: client_keepsD)

lemma achieves_ConfigReconcile:
  assumes env: "cloud_env e c view iv peers enis" and wf: "peers_wf (aeSdk e) (peers w)" "enis_wf (enis w)"
    and cfg: "fmlookup (kConfigs (view w)) SingletonName = Some cfg" "cfgName cfg = SingletonName" "csAWS (cfgSpec cfg) \<noteq> None"
  shows "achieves (awsConfigReconcile e c SingletonName)
    (\<lambda>w'. cloud_goal (aeSdk e) iv (cfgSpec cfg) (view w) (peers w') (enis w')) w"
proof -
  let ?obs = "\<lambda>w. (peers w, enis w, kNodes (view w))"
  let ?G = "\<lambda>w'. cloud_goal (aeSdk e) iv (cfgSpec cfg) (view w) (peers w') (enis w')"
  note laws = cloud_envD(9) [OF env] aws_goodD(2) [OF cloud_envD(1) [OF env]]
  have phases: "achieves (ConfigPhase1 (awsConfigEnv e) (awsReconciler c) (configuringConfig c1)) ?G w2"
    if fin: "config_finalized cfg (view w) c1 (view w2)" and obs: "?obs w2 = ?obs w" for c1 w2
  proof -
    have "infrastructure_name (view w2) = infrastructure_name (view w)"
      using fin by (intro infrastructure_name_other) (simp add: config_finalized_def only_config_def)
    moreover have "cfgSpec (configuringConfig c1) = cfgSpec cfg" using fin by (simp add: config_finalized_def config_states)
    ultimately show ?thesis
      using achieves_ConfigPhase1 [OF env, of "configuringConfig c1" w2] obs wf cfg(3)
        cloud_goal_cong [of "view w2" "view w" "aeSdk e"]
      by simp
  qed
  have live: "wp (ensureConfigFinalizer (aeLib e) c cfg)
      (\<lambda>c1. achieves (ConfigPhase1 (awsConfigEnv e) (awsReconciler c) (configuringConfig c1)) ?G) (\<lambda>_ _. True) w1"
    if w1: "view w1 = view w" "?obs w1 = ?obs w" and del: "metaDeletionTimestamp (cfgMeta cfg) = None" for w1
    by (rule wp_frame [OF keeps_ensureConfigFinalizer [OF cloud_envD(5) [OF env]]],
        rule wp_mono [OF wp_ensureConfigFinalizer [OF laws]])
      (use w1 del cfg phases in auto)
  show ?thesis
    unfolding awsConfigReconcile_def ConfigReconcile_def wp_branch awsConfigEnv_simps
  proof (rule wp_frame [OF client_keepsD(1) [OF cloud_envD(5) [OF env]]], rule wp_get [OF kube_lawsD(1) [OF laws(1)]], intro impI)
    fix a w1
    assume "fmlookup (kConfigs (view w)) SingletonName = Some a" and w1: "view w1 = view w" "?obs w1 = ?obs w"
    then have "a = cfg" using cfg by simp
    then show "achieves (if cfgName a \<noteq> SingletonName
        then ConfigSetDegraded (aeLib e) c a ConditionNetworkOperatorPatched ''InvalidName''
          (Sprintf [''CUDNBgpConfig must be named '', quote SingletonName, '', got '', quote (cfgName a)])
        else if metaDeletionTimestamp (cfgMeta a) \<noteq> None then ConfigReconcileDelete (awsConfigEnv e) (awsReconciler c) a
        else bindA (ensureConfigFinalizer (aeLib e) c a)
          (\<lambda>config. ConfigPhase1 (awsConfigEnv e) (awsReconciler c) (configuringConfig config))) ?G w1"
      using cfg live [OF w1] by (simp add: wp_eta other_answers(3))
  qed (use cfg in \<open>auto simp: wp_simps\<close>)
qed

text \<open>
  C1. \<open>Ready\<close> means peered. When the reconciliation of a configuration for AWS reports \<open>Ready\<close>, then
  on every endpoint of the configured route servers in the inventory of the cloud the peers with the
  tag of this cluster are exactly those for the internal addresses of the selected nodes in the
  endpoint's zone, and the source/destination check is off on the primary interface of each of these
  nodes. The tag carries the infrastructure name that the cluster had at the start.
\<close>

theorem ConfigReconcile_ready_cloud:
  assumes "cloud_env e c view iv peers enis" and "peers_wf (aeSdk e) (peers w)" and "enis_wf (enis w)"
    and "fmlookup (kConfigs (view w)) SingletonName = Some cfg" and "cfgName cfg = SingletonName"
    and "csAWS (cfgSpec cfg) = Some a"
    and "awsConfigReconcile e c SingletonName w = (Inr \<lparr>RequeueAfter = 5 * Minute\<rparr>, w')"
  shows "\<exists>cid. infrastructure_name (view w) = Some cid \<and>
    cloud_ready (aeSdk e) iv a cid (router_nodes (cfgSpec cfg) (kNodes (view w))) (peers w') (enis w')"
  using wp_InrD [OF achieves_ConfigReconcile [OF assms(1-5)] assms(7)] assms(6)
  by (auto simp: when_ready_def cloud_goal_def)

end
