(* ===== verification/Demo_Cluster.thy ===== *)
theory Demo_Cluster
  imports In_Memory_Kube Config_Cloud
begin

text \<open>
  One small cluster on the in-memory server and cloud, in which the theorems about the controllers
  are applied: two zones and router nodes, a running FRR pod, a labelled namespace, a configuration
  for AWS and a routing, an FRRConfiguration of the operator that is no longer expected, and one that
  somebody else made.
\<close>

section \<open>The cluster\<close>

definition demoMeta :: "string \<Rightarrow> string list \<Rightarrow> int option \<Rightarrow> ObjectMeta" where
  "demoMeta name fs del =
     \<lparr>metaName = name, metaGeneration = 3, metaFinalizers = fs, metaDeletionTimestamp = del,
      metaResourceVersion = ''7''\<rparr>"

definition demoSpec :: CUDNBgpConfigSpec where
  "demoSpec =
     \<lparr>csBGP = \<lparr>bgpLocalASN = 65001, bgpLivenessDetection = LivenessDetectionBFD, bgpAvailabilityZones = []\<rparr>,
      csRouterNodeSelector = fmap_of_list [(''bgp'', ''router'')],
      csAWS = Some \<lparr>awsRegion = ''us-east-1'', awsRouteServerIDs = [''rs-1'']\<rparr>\<rparr>"

definition demoZones :: "AvailabilityZone list" where
  "demoZones =
     [\<lparr>azNodeSelector = fmap_of_list [(''topology.kubernetes.io/zone'', ''us-east-1a'')],
       azNeighbors = [\<lparr>nbAddress = ''10.0.1.10'', nbRemoteASN = 65000\<rparr>]\<rparr>]"

definition explicitSpec :: CUDNBgpConfigSpec where
  "explicitSpec =
     \<lparr>csBGP = \<lparr>bgpLocalASN = 65001, bgpLivenessDetection = LivenessDetectionBFD, bgpAvailabilityZones = demoZones\<rparr>,
      csRouterNodeSelector = fmap_of_list [(''bgp'', ''router'')], csAWS = None\<rparr>"

definition demoConfig :: "CUDNBgpConfigSpec \<Rightarrow> string \<Rightarrow> PhaseType \<Rightarrow> int option \<Rightarrow> CUDNBgpConfig" where
  "demoConfig spec name ph del =
     \<lparr>cfgMeta = demoMeta name (if del = None then [] else [ConfigFinalizerName]) del, cfgSpec = spec,
      cfgStatus = \<lparr>ctPhase = ph, ctConditions = [], ctObservedGeneration = 0, ctAWS = None\<rparr>\<rparr>"

definition demoNet :: NetworkConfig where
  "demoNet = \<lparr>ncName = ''prod'', ncSubnets = [''10.100.0.0/16'']\<rparr>"

definition demoRouting :: "string \<Rightarrow> int option \<Rightarrow> CUDNBgpRouting" where
  "demoRouting name del =
     \<lparr>rtgMeta = demoMeta name (if del = None then [] else [RoutingFinalizerName]) del,
      rtgSpec = \<lparr>rsNetwork = demoNet\<rparr>,
      rtgStatus = \<lparr>rtPhase = PhaseUnset, rtConditions = [], rtObservedGeneration = 0\<rparr>\<rparr>"

definition demoObject :: "GroupVersionKind \<Rightarrow> string \<Rightarrow> string \<Rightarrow> (string, string) fmap \<Rightarrow> json \<Rightarrow> Unstructured" where
  "demoObject gvk ns name ls status =
     \<lparr>uoApiVersion = apiVersion_of gvk, uoKind = gvkKind gvk, uoName = name, uoNamespace = ns, uoLabels = ls,
      uoFinalizers = [], uoResourceVersion = ''5'', uoDeleting = False,
      uoSpec = JObj [(''defaultNetwork'', JObj [(''type'', JStr ''OVNKubernetes'')])], uoStatus = status\<rparr>"

definition demoObjects :: "Unstructured list" where
  "demoObjects =
     [demoObject NetworkGVK '''' ''cluster'' fmempty JNull,
      demoObject InfrastructureGVK '''' ''cluster'' fmempty (JObj [(''infrastructureName'', JStr ''demo-1'')]),
      demoObject FRRConfigurationGVK FRRNamespace ''cudn-bgp-az-9'' managedSelector JNull,
      demoObject FRRConfigurationGVK FRRNamespace ''metallb'' fmempty JNull,
      demoObject CUDNNetworkGVK '''' ''cluster-udn-prod'' managedSelector JNull]"

definition kubeNode :: "string \<Rightarrow> string \<Rightarrow> string \<Rightarrow> string \<Rightarrow> Node" where
  "kubeNode name ip az pid =
     \<lparr>ndName = name,
      ndLabels = Some (fmap_of_list [(''bgp'', ''router''), (''topology.kubernetes.io/zone'', az)]),
      ndProviderID = pid,
      ndAddresses = Some [\<lparr>addrType = ''Hostname'', addrAddress = name\<rparr>, \<lparr>addrType = ''InternalIP'', addrAddress = ip\<rparr>],
      ndResourceVersion = ''1''\<rparr>"

definition demoWorld :: "CUDNBgpConfig list \<Rightarrow> CUDNBgpRouting list \<Rightarrow> kube" where
  "demoWorld cfgs rts =
     \<lparr>clPeers = demoPeers, clInstances = demoInstances, kbConfigs = cfgs, kbRoutings = rts, kbObjects = demoObjects,
      kbNamespaces =
        [\<lparr>nsName = FRRNamespace, nsLabels = fmempty\<rparr>,
         \<lparr>nsName = ''shop'', nsLabels = fmap_of_list [(LabelPrimaryUDN, ''''), (LabelCUDN, ''prod'')]\<rparr>],
      kbPods = [\<lparr>podName = ''frr-1'', podNamespace = FRRNamespace,
        podLabels = fmap_of_list [(''app'', ''frr-k8s'')], podPhase = ''Running''\<rparr>],
      kbNodes = [kubeNode ''worker-a'' ''10.0.1.5'' ''us-east-1a'' ''aws:///us-east-1a/i-a'',
        kubeNode ''worker-b'' ''10.0.2.5'' ''us-east-1b'' ''aws:///us-east-1b/i-b'',
        kubeNode ''worker-c'' '''' ''us-east-1b'' ''aws:///us-east-1b/i-c'']\<rparr>"

definition demoEnv :: "(kube, unit) awsEnv" where
  "demoEnv =
     \<lparr>aeLib = memLib, aeSdk = memSdk,
      aeApi = \<lparr>LoadDefaultConfig = (\<lambda>_. returnA ()), ec2NewFromConfig = (\<lambda>_. memEc2 demoInventory),
        stsNewFromConfig = (\<lambda>_. \<lparr>GetCallerIdentity = returnA ()\<rparr>)\<rparr>\<rparr>"

section \<open>Its properties\<close>

lemma demo_good: "aws_good demoEnv memClient memView"
  using kube_laws_mem lib_laws_mem range_laws_mem
  by (auto simp: aws_good_def demoEnv_def intro!: ec2_keeps_mem)

lemma sget_set: "sget key k xs = Some x \<Longrightarrow> x \<in> set xs"
  by (auto simp: sget_def find_Some_iff intro: nth_mem)

lemma demo_objects_clean: "list_all (\<lambda>x. uoFinalizers x = [] \<and> \<not> uoDeleting x) demoObjects"
  by code_simp

lemma demo_clean: "frr_clean (memView (demoWorld cfgs rts))"
  using demo_objects_clean by (auto simp: frr_clean_def demoWorld_def list_all_iff dest: sget_set)

lemma demo_not_deleting: "not_deleting key (memView (demoWorld cfgs rts))"
  using demo_objects_clean by (auto simp: not_deleting_def demoWorld_def list_all_iff dest: sget_set)

definition demoKube :: kube where
  "demoKube = demoWorld [demoConfig demoSpec ''cluster'' PhaseUnset None] []"

definition demoRun :: "kube \<Rightarrow> (go_error + Result) \<times> kube" where
  "demoRun = awsConfigReconcile demoEnv memClient SingletonName"

lemma demoRun_ready: "fst (demoRun demoKube) = Inr \<lparr>RequeueAfter = 5 * Minute\<rparr>"
  by code_simp

section \<open>The configuration\<close>

lemma demo_config: "fmlookup (kConfigs (memView demoKube)) SingletonName = Some (demoConfig demoSpec ''cluster'' PhaseUnset None)"
  by (simp add: demoKube_def demoWorld_def sget_def demoConfig_def demoMeta_def SingletonName_def)

lemma demo_config_name [simp]: "cfgName (demoConfig spec name ph del) = name"
  by (simp add: demoConfig_def demoMeta_def)

lemma demo_config_del [simp]: "metaDeletionTimestamp (cfgMeta (demoConfig spec name ph del)) = del"
  by (simp add: demoConfig_def demoMeta_def)

lemma demo_run: "demoRun demoKube = (Inr \<lparr>RequeueAfter = 5 * Minute\<rparr>, snd (demoRun demoKube))"
  by (rule pair_run [where m = demoRun, OF demoRun_ready])

lemma cluster_name: "''cluster'' = SingletonName"
  by (simp add: SingletonName_def)

theorem ConfigReconcile_outcome_witness:
  "fst (demoRun demoKube) = Inr \<lparr>RequeueAfter = 5 * Minute\<rparr> \<and>
   config_report (awsConfigEnv demoEnv) (awsReconciler memClient) memView (demoConfig demoSpec ''cluster'' PhaseUnset None) (memView demoKube) \<lparr>RequeueAfter = 5 * Minute\<rparr>
     (memView (snd (demoRun demoKube)))"
  using ConfigReconcile_outcome [OF demo_good _ demo_config _ _ demo_run [unfolded demoRun_def]] demoRun_ready
  by (simp add: cluster_name demoRun_def) (simp add: demoKube_def demo_clean)

lemma configs_keyed_mem: "configs_keyed (memView w)"
  by (auto simp: configs_keyed_def dest: sget_key)

definition deletingKube :: "CUDNBgpRouting list \<Rightarrow> kube" where
  "deletingKube rts = demoWorld [demoConfig demoSpec ''cluster'' PhaseReady (Some 1)] rts"

lemma deletingRun_ok:
  "fst (demoRun (deletingKube [])) = Inr emptyResult"
  "fst (demoRun (deletingKube [demoRouting ''prod'' None])) = Inr \<lparr>RequeueAfter = 10 * Second\<rparr>"
  by code_simp+

lemma deleting_config:
  "fmlookup (kConfigs (memView (deletingKube rts))) SingletonName = Some (demoConfig demoSpec ''cluster'' PhaseReady (Some 1))"
  by (simp add: deletingKube_def demoWorld_def sget_def demoConfig_def demoMeta_def SingletonName_def)

theorem ConfigReconcile_safe_witness:
  "config_safe SingletonName (memView demoKube) (memView (snd (demoRun demoKube))) \<and>
   config_delete_safe SingletonName (memView (deletingKube [])) (memView (snd (demoRun (deletingKube []))))"
proof -
  have clean: "frr_clean (memView demoKube)" "frr_clean (memView (deletingKube []))"
    by (simp_all add: demoKube_def deletingKube_def demo_clean)
  from ConfigReconcile_safe [OF demo_good clean(1) configs_keyed_mem demo_run [unfolded demoRun_def]]
    ConfigReconcile_safe [OF demo_good clean(2) configs_keyed_mem pair_run [where m = demoRun, OF deletingRun_ok(1), unfolded demoRun_def]]
  show ?thesis unfolding demo_config deleting_config option.case by (simp add: demoRun_def)
qed

theorem ConfigReconcile_delete_witness:
  "config_deleted SingletonName (memView (deletingKube [])) emptyResult (memView (snd (demoRun (deletingKube [])))) \<and>
   config_deleted SingletonName (memView (deletingKube [demoRouting ''prod'' None])) \<lparr>RequeueAfter = 10 * Second\<rparr>
     (memView (snd (demoRun (deletingKube [demoRouting ''prod'' None]))))"
  using ConfigReconcile_delete [OF demo_good _ deleting_config _ _
      pair_run [where m = demoRun, OF deletingRun_ok(1), unfolded demoRun_def]]
    ConfigReconcile_delete [OF demo_good _ deleting_config _ _
      pair_run [where m = demoRun, OF deletingRun_ok(2), unfolded demoRun_def]]
  by (simp add: cluster_name demoRun_def) (simp add: deletingKube_def demo_clean)

definition otherKube :: kube where
  "otherKube = demoWorld [demoConfig demoSpec ''other'' PhaseUnset None] []"

lemma other_run: "fst (awsConfigReconcile demoEnv memClient ''other'' otherKube) = Inr \<lparr>RequeueAfter = 30 * Second\<rparr>"
  by code_simp

theorem ConfigReconcile_wrong_name_witness:
  "config_evolves {} ''other'' (memView otherKube) (memView (snd (awsConfigReconcile demoEnv memClient ''other'' otherKube)))"
proof -
  have laws: "kube_laws (ceLib (awsConfigEnv demoEnv)) (ccClient (awsReconciler memClient)) memView"
    "lib_laws (ceLib (awsConfigEnv demoEnv))"
    using aws_goodD [OF demo_good] by simp_all
  have cfg: "fmlookup (kConfigs (memView otherKube)) ''other'' = Some (demoConfig demoSpec ''other'' PhaseUnset None)"
    by (simp add: otherKube_def demoWorld_def sget_def)
  show ?thesis
    using ConfigReconcile_wrong_name [OF laws cfg _ _
        pair_run [where m = "awsConfigReconcile demoEnv memClient ''other''", OF other_run, unfolded awsConfigReconcile_def]]
    by (simp add: SingletonName_def awsConfigReconcile_def)
qed

section \<open>Network operator and FRR\<close>

lemma kube_clean: "frr_clean (memView demoKube)"
  by (simp add: demoKube_def demo_clean)

definition explicitConfig :: CUDNBgpConfig where
  "explicitConfig = demoConfig explicitSpec ''cluster'' PhaseUnset None"

definition syncRun :: "kube \<Rightarrow> (go_error + unit) \<times> kube" where
  "syncRun = EnsureFRRConfigurations memLib memClient explicitConfig"

lemma sync_run: "fst (syncRun demoKube) = Inr ()"
  by code_simp

theorem EnsureFRRConfigurations_sync_witness:
  "uoName ` managed_frr (memView (snd (syncRun demoKube))) = {''cudn-bgp-az-1''}"
proof -
  have zones: "bgpAvailabilityZones (csBGP (cfgSpec explicitConfig)) = demoZones"
    by (simp add: explicitConfig_def demoConfig_def explicitSpec_def)
  have "map frrName [0..<length demoZones] = [''cudn-bgp-az-1'']" by code_simp
  then have "frrName ` {..<length demoZones} = {''cudn-bgp-az-1''}"
    by (metis atLeast_upt list.set_map list.set(1,2))
  with EnsureFRRConfigurations_sync [OF kube_laws_mem kube_clean
      pair_run [where m = syncRun, OF sync_run, unfolded syncRun_def]]
  show ?thesis by (simp add: zones syncRun_def)
qed

definition demoDiscovery :: DiscoveryResult where
  "demoDiscovery =
     \<lparr>drsRouteServers = [],
      drsNeighborsByAZ = fmap_of_list
        [(''us-east-1b'', [\<lparr>dnAddress = ''10.0.2.10'', dnASN = 65000\<rparr>]), (''us-east-1a'', [\<lparr>dnAddress = ''10.0.1.10'', dnASN = 65000\<rparr>])],
      drsEndpointsByAZ = fmempty\<rparr>"

definition discRun :: "kube \<Rightarrow> (go_error + nat) \<times> kube" where
  "discRun = EnsureFRRConfigurationsFromDiscovery (rangeOrder memSdk) memLib memClient
     (demoConfig demoSpec ''cluster'' PhaseUnset None) demoDiscovery"

lemma disc_run: "fst (discRun demoKube) = Inr 2"
  by code_simp

theorem EnsureFRRConfigurationsFromDiscovery_sync_witness:
  "frr_synced (demoConfig demoSpec ''cluster'' PhaseUnset None) (discovered_zones demoDiscovery)
     (memView demoKube) (memView (snd (discRun demoKube)))"
  using EnsureFRRConfigurationsFromDiscovery_sync [OF kube_laws_mem kube_clean range_laws_mem
      pair_run [where m = discRun, OF disc_run, unfolded discRun_def]]
  by (simp add: discRun_def)

lemma delete_run: "fst (DeleteFRRConfigurations memLib memClient demoKube) = Inr ()"
  by code_simp

theorem DeleteFRRConfigurations_all_witness:
  "managed_frr (memView (snd (DeleteFRRConfigurations memLib memClient demoKube))) = {}"
  using DeleteFRRConfigurations_all [OF kube_laws_mem kube_clean
      pair_run [where m = "DeleteFRRConfigurations memLib memClient", OF delete_run]]
  by simp

lemma demo_neighbor:
  "hd (rendered_neighbors (uoSpec (frrObject explicitConfig (hd demoZones) ''cudn-bgp-az-1''))) \<in>
   set (rendered_neighbors (uoSpec (frrObject explicitConfig (hd demoZones) ''cudn-bgp-az-1'')))"
  by code_simp

theorem frrObject_content_witness:
  "jget (hd (rendered_neighbors (uoSpec (frrObject explicitConfig (hd demoZones) ''cudn-bgp-az-1'')))) ''bfdProfile'' \<in>
   profile_names (uoSpec (frrObject explicitConfig (hd demoZones) ''cudn-bgp-az-1''))"
proof -
  have "bgpLivenessDetection (csBGP (cfgSpec explicitConfig)) = LivenessDetectionBFD"
    by (simp add: explicitConfig_def demoConfig_def explicitSpec_def)
  with frrObject_content [of explicitConfig "hd demoZones" "''cudn-bgp-az-1''"] demo_neighbor show ?thesis by blast
qed

theorem generated_objects_fit_witness:
  "json_selects (jpath (uoSpec (cudnObject demoNet)) [''namespaceSelector'', ''matchLabels''])
     (nsLabels \<lparr>nsName = ''shop'', nsLabels = fmap_of_list [(LabelPrimaryUDN, ''''), (LabelCUDN, ''prod'')]\<rparr>)"
  using generated_objects_fit [of demoNet
      "\<lparr>nsName = ''shop'', nsLabels = fmap_of_list [(LabelPrimaryUDN, ''''), (LabelCUDN, ''prod'')]\<rparr>" demoNet]
  by (simp add: labelled_for_def demoNet_def LabelPrimaryUDN_def LabelCUDN_def)

section \<open>The routing\<close>

definition routingKube :: "CUDNBgpRouting list \<Rightarrow> kube" where
  "routingKube rts = demoWorld [demoConfig demoSpec ''cluster'' PhaseReady None] rts"

definition routingRun :: "kube \<Rightarrow> (go_error + Result) \<times> kube" where
  "routingRun = RoutingReconcile memLib memClient ''prod''"

lemma demo_routing_simps [simp]:
  "rtgName (demoRouting name del) = name" "rtgNetwork (demoRouting name del) = ''prod''"
  "metaDeletionTimestamp (rtgMeta (demoRouting name del)) = del"
  by (simp_all add: demoRouting_def demoMeta_def demoNet_def)

lemma routing_lookup:
  "fmlookup (kRoutings (memView (routingKube (demoRouting ''prod'' del # rts)))) ''prod'' = Some (demoRouting ''prod'' del)"
  by (simp add: routingKube_def demoWorld_def sget_def)

lemma routing_env: "routings_keyed (memView w)" "not_deleting key (memView (routingKube rts))"
  by (auto simp: routings_keyed_def routingKube_def demo_not_deleting dest: sget_key)

lemma routing_run_ok: "fst (routingRun (routingKube [demoRouting ''prod'' None])) = Inr \<lparr>RequeueAfter = 5 * Minute\<rparr>"
  by code_simp

lemmas routing_run = pair_run [where m = routingRun, OF routing_run_ok, unfolded routingRun_def]

theorem RoutingReconcile_outcome_witness:
  "routing_report memLib memClient memView (demoRouting ''prod'' None) (memView (routingKube [demoRouting ''prod'' None])) \<lparr>RequeueAfter = 5 * Minute\<rparr>
     (memView (snd (routingRun (routingKube [demoRouting ''prod'' None]))))"
  using RoutingReconcile_outcome [OF kube_laws_mem lib_laws_mem routing_env(1) routing_lookup _ routing_run]
  by (simp add: routing_env routingRun_def)


lemma routing_delete_ok:
  "fst (routingRun (routingKube [demoRouting ''prod'' (Some 1)])) = Inr emptyResult"
  "fst (routingRun (routingKube [demoRouting ''prod'' (Some 1), demoRouting ''second'' None])) = Inr emptyResult"
  by code_simp+

lemmas routing_delete_run = routing_delete_ok [THEN pair_run [where m = routingRun], unfolded routingRun_def]

theorem RoutingReconcile_safe_witness:
  "routing_safe (demoRouting ''prod'' None) (memView (routingKube [demoRouting ''prod'' None]))
     (memView (snd (routingRun (routingKube [demoRouting ''prod'' None])))) \<and>
   delete_safe (demoRouting ''prod'' (Some 1)) (memView (routingKube [demoRouting ''prod'' (Some 1)]))
     (memView (snd (routingRun (routingKube [demoRouting ''prod'' (Some 1)]))))"
  using RoutingReconcile_safe [OF kube_laws_mem lib_laws_mem routing_env(1) routing_run]
    RoutingReconcile_safe [OF kube_laws_mem lib_laws_mem routing_env(1) routing_delete_run(1)]
  unfolding routing_lookup option.case by (simp add: routingRun_def)

theorem RoutingReconcile_delete_witness:
  "routing_cleaned (demoRouting ''prod'' (Some 1)) (memView (routingKube [demoRouting ''prod'' (Some 1)]))
     (memView (snd (routingRun (routingKube [demoRouting ''prod'' (Some 1)]))))"
  using RoutingReconcile_delete [OF kube_laws_mem lib_laws_mem routing_lookup _ routing_delete_run(1)]
  by (simp add: routingRun_def)

theorem RoutingReconcile_delete_shared_network_witness:
  "fmlookup (kRoutings (memView (snd (routingRun (routingKube [demoRouting ''prod'' (Some 1), demoRouting ''second'' None])))))
     ''second'' = Some (demoRouting ''second'' None) \<and>
   fmlookup (kObjects (memView (snd (routingRun (routingKube [demoRouting ''prod'' (Some 1), demoRouting ''second'' None])))))
     (cudn_key ''prod'') = None"
proof -
  let ?w = "routingKube [demoRouting ''prod'' (Some 1), demoRouting ''second'' None]"
  have second: "fmlookup (kRoutings (memView ?w)) ''second'' = Some (demoRouting ''second'' None)"
    by (simp add: routingKube_def demoWorld_def sget_def)
  have nofin: "\<forall>obj. fmlookup (kObjects (memView ?w)) (cudn_key (rtgNetwork (demoRouting ''prod'' (Some 1)))) = Some obj \<longrightarrow>
      uoFinalizers obj = []"
    using demo_objects_clean by (auto simp: routingKube_def demoWorld_def list_all_iff dest: sget_set)
  show ?thesis
    using RoutingReconcile_delete_shared_network [OF kube_laws_mem lib_laws_mem routing_lookup _ _ _ second _ nofin
        routing_delete_run(2)]
    by (simp add: routingRun_def)
qed

section \<open>The cloud\<close>

definition demoInventoryOf :: inventory_of where
  "demoInventoryOf =
     \<lparr>ioServers = servers_of demoInventory, ioEndpoints = ivEndpoints demoInventory, ioZone = ivZone demoInventory\<rparr>"

abbreviation kubePeers :: "kube \<Rightarrow> RouteServerPeer set" where
  "kubePeers w \<equiv> set (clPeers w)"

abbreviation kubeInstances :: "kube \<Rightarrow> instances" where
  "kubeInstances w \<equiv> instances_of w"

lemma instances_cong: "clInstances w = clInstances w' \<Longrightarrow> instances_of w = instances_of w'"
  by (rule ext) (simp add: instances_of_def)

lemma mem_client_keeps: "client_keeps memClient (\<lambda>w. (kubePeers w, kubeInstances w, kNodes (memView w)))"
  by (auto simp: client_keeps_def keeps_def memClient_def orNotFound_def returnA_def throwA_def instances_of_def
      memUpdateConfig_def memUpdateConfigStatus_def memCreate_def memUpdate_def memDelete_def memPatch_def memList_def
      split: option.split list.split document.split prod.split)

lemma mem_ec2_env: "ec2_env memSdk (memEc2 demoInventory) demoInventoryOf kubePeers kubeInstances (\<lambda>w. kNodes (memView w))"
  unfolding ec2_env_def demoInventoryOf_def inventory_of.select_convs
proof (intro conjI)
  show "peer_laws (memEc2 demoInventory) kubePeers" by (rule peer_laws_mem)
  show "eni_laws (memEc2 demoInventory) kubeInstances" by (rule eni_laws_mem)
  show "inventory_laws (memEc2 demoInventory) (servers_of demoInventory) (ivEndpoints demoInventory) (ivZone demoInventory)"
    by (rule inventory_laws_mem)
  show "query_keeps (memEc2 demoInventory) (\<lambda>w. (kubePeers w, kubeInstances w, kNodes (memView w)))"
    by (simp add: query_keeps_def keeps_def memEc2_def returnA_def)
  show "peer_keeps (memEc2 demoInventory) kubeInstances"
    by (auto simp: peer_keeps_def keeps_def memEc2_def intro: instances_cong)
  show "eni_keeps (memEc2 demoInventory) kubePeers"
    by (auto simp: eni_keeps_def keeps_def memEc2_def split: option.split)
qed

lemma demo_cloud_env: "cloud_env demoEnv memClient memView demoInventoryOf kubePeers kubeInstances"
proof -
  have "inventory_wf demoInventoryOf"
    by (auto simp: inventory_wf_def demoInventoryOf_def demoInventory_def inj_on_def)
  then show ?thesis
    using demo_good mem_client_keeps mem_ec2_env sdk_laws_mem [where ?'a = kube]
    by (auto simp: cloud_env_def demoEnv_def range_laws_mem)
qed

lemma demo_cloud_wf: "peers_wf memSdk (kubePeers demoKube)" "enis_wf (kubeInstances demoKube)"
  using demo_peers_wf demo_enis_wf instances_cong [of demoKube demoCloud]
  by (simp_all add: demoKube_def demoWorld_def demoCloud_def)

theorem ConfigReconcile_ready_cloud_witness:
  "\<exists>cid. infrastructure_name (memView demoKube) = Some cid \<and>
     cloud_ready (aeSdk demoEnv) demoInventoryOf \<lparr>awsRegion = ''us-east-1'', awsRouteServerIDs = [''rs-1'']\<rparr> cid
       (router_nodes demoSpec (kNodes (memView demoKube)))
       (kubePeers (snd (demoRun demoKube))) (kubeInstances (snd (demoRun demoKube)))"
proof -
  have sdk: "peers_wf (aeSdk demoEnv) (kubePeers demoKube)" using demo_cloud_wf(1) by (simp add: demoEnv_def)
  have aws: "csAWS (cfgSpec (demoConfig demoSpec ''cluster'' PhaseUnset None)) =
      Some \<lparr>awsRegion = ''us-east-1'', awsRouteServerIDs = [''rs-1'']\<rparr>"
    and spec: "cfgSpec (demoConfig demoSpec ''cluster'' PhaseUnset None) = demoSpec"
    by (simp_all add: demoConfig_def demoSpec_def)
  show ?thesis
    using ConfigReconcile_ready_cloud [OF demo_cloud_env sdk demo_cloud_wf(2) demo_config _ aws demo_run [unfolded demoRun_def]]
    unfolding spec by (simp add: demoRun_def cluster_name)
qed

end
