(* ===== verification/Controller_Setup.thy ===== *)
theory Controller_Setup
  imports Config_Aws Routing_Controller
begin

text \<open>
  \<open>SetupWithManager\<close> of both controllers: which objects each watches, which changes pass the filter,
  and which reconciliations a change requests. The builder of controller-runtime is not part of the
  repository; what the sources hand to it is the record \<open>controllerBuild\<close>, and \<open>Complete\<close> and the
  handling of events are parameters.
\<close>

section \<open>Events\<close>

datatype watchedObject =
    ConfigObject CUDNBgpConfig
  | RoutingObject CUDNBgpRouting
  | NodeObject Node
  | UnstructuredObject Unstructured

text \<open>The labels and the name of an object, as \<open>client.Object\<close> exposes them.\<close>

definition asNode :: "watchedObject \<Rightarrow> Node option" where
  "asNode obj = (case obj of NodeObject n \<Rightarrow> Some n | _ \<Rightarrow> None)"

datatype watchEvent =
    CreateEvent watchedObject
  | UpdateEvent watchedObject watchedObject
  | DeleteEvent watchedObject
  | GenericEvent watchedObject

text \<open>\<open>predicate.Funcs\<close>: a missing function lets the event pass.\<close>

record predicateFuncs =
  pfCreate :: "(watchedObject \<Rightarrow> bool) option"
  pfUpdate :: "(watchedObject \<Rightarrow> watchedObject \<Rightarrow> bool) option"
  pfDelete :: "(watchedObject \<Rightarrow> bool) option"
  pfGeneric :: "(watchedObject \<Rightarrow> bool) option"

definition passes :: "predicateFuncs \<Rightarrow> watchEvent \<Rightarrow> bool" where
  "passes p ev =
     (case ev of
        CreateEvent obj \<Rightarrow> (case pfCreate p of None \<Rightarrow> True | Some f \<Rightarrow> f obj)
      | UpdateEvent obj obj' \<Rightarrow> (case pfUpdate p of None \<Rightarrow> True | Some f \<Rightarrow> f obj obj')
      | DeleteEvent obj \<Rightarrow> (case pfDelete p of None \<Rightarrow> True | Some f \<Rightarrow> f obj)
      | GenericEvent obj \<Rightarrow> (case pfGeneric p of None \<Rightarrow> True | Some f \<Rightarrow> f obj))"

section \<open>Builders\<close>

text \<open>The objects a watch is on: a typed Go object, or unstructured ones of a kind.\<close>

datatype watchTarget = WatchNodes | WatchUnstructured GroupVersionKind

record 'w watch =
  waTarget :: watchTarget
  waMap :: "watchedObject \<Rightarrow> 'w \<Rightarrow> string list \<times> 'w"
  waPredicates :: "predicateFuncs list"

datatype reconciledType = ForCUDNBgpConfig | ForCUDNBgpRouting

record 'w controllerBuild =
  cbFor :: reconciledType
  cbWatches :: "'w watch list"
  cbNamed :: string
  cbReconcile :: "string \<Rightarrow> ('w, Result) act"

section \<open>The two controllers\<close>

definition nodeRelevantChangePredicate :: predicateFuncs where
  "nodeRelevantChangePredicate =
     \<lparr>pfCreate = None,
      pfUpdate = Some (\<lambda>objectOld objectNew. nodeRelevantChange (asNode objectOld) (asNode objectNew)),
      pfDelete = None, pfGeneric = None\<rparr>"

text \<open>The map functions of the sources take any object; the watches only hand them the objects of their target.\<close>

definition onNode :: "(Node \<Rightarrow> string list) \<Rightarrow> watchedObject \<Rightarrow> 'w \<Rightarrow> string list \<times> 'w" where
  "onNode f obj w = (case obj of NodeObject n \<Rightarrow> (f n, w) | _ \<Rightarrow> ([], w))"

definition onUnstructured ::
    "(Unstructured \<Rightarrow> 'w \<Rightarrow> string list \<times> 'w) \<Rightarrow> watchedObject \<Rightarrow> 'w \<Rightarrow> string list \<times> 'w" where
  "onUnstructured f obj w = (case obj of UnstructuredObject u \<Rightarrow> f u w | _ \<Rightarrow> ([], w))"

definition configController ::
    "('w, 'p) configEnv \<Rightarrow> ('w, 'p) CUDNBgpConfigReconciler \<Rightarrow> 'w controllerBuild" where
  "configController env r =
     \<lparr>cbFor = ForCUDNBgpConfig,
      cbWatches =
        [\<lparr>waTarget = WatchNodes, waMap = onNode mapNodeToConfig, waPredicates = [nodeRelevantChangePredicate]\<rparr>,
         \<lparr>waTarget = WatchUnstructured FRRConfigurationGVK,
          waMap = onUnstructured (\<lambda>obj w. (mapFRRToConfig obj, w)), waPredicates = []\<rparr>],
      cbNamed = ''cudnbgpconfig'',
      cbReconcile = ConfigReconcile env r\<rparr>"

definition ConfigSetupWithManager ::
    "('w controllerBuild \<Rightarrow> ('w, unit) act) \<Rightarrow> ('w, 'p) configEnv \<Rightarrow> ('w, 'p) CUDNBgpConfigReconciler \<Rightarrow> ('w, unit) act" where
  "ConfigSetupWithManager complete env r = complete (configController env r)"

definition routingController :: "kubeLib \<Rightarrow> 'w client \<Rightarrow> 'w controllerBuild" where
  "routingController lib c =
     \<lparr>cbFor = ForCUDNBgpRouting,
      cbWatches =
        [\<lparr>waTarget = WatchUnstructured CUDNNetworkGVK,
          waMap = onUnstructured (mapCUDNToRouting c), waPredicates = []\<rparr>,
         \<lparr>waTarget = WatchUnstructured RouteAdvertisementsGVK,
          waMap = onUnstructured (mapRAToRouting c), waPredicates = []\<rparr>],
      cbNamed = ''cudnbgprouting'',
      cbReconcile = RoutingReconcile lib c\<rparr>"

definition RoutingSetupWithManager ::
    "('w controllerBuild \<Rightarrow> ('w, unit) act) \<Rightarrow> kubeLib \<Rightarrow> 'w client \<Rightarrow> ('w, unit) act" where
  "RoutingSetupWithManager complete lib c = complete (routingController lib c)"

section \<open>What a change requests\<close>

text \<open>The watches of a controller that are on an object.\<close>

definition watches :: "watchTarget \<Rightarrow> watchedObject \<Rightarrow> bool" where
  "watches t obj =
     (case (t, obj) of
        (WatchNodes, NodeObject _) \<Rightarrow> True
      | (WatchUnstructured gvk, UnstructuredObject u) \<Rightarrow> uoApiVersion u = apiVersion_of gvk \<and> uoKind u = gvkKind gvk
      | _ \<Rightarrow> False)"

fun event_objects :: "watchEvent \<Rightarrow> watchedObject list" where
  "event_objects (CreateEvent obj) = [obj]"
| "event_objects (UpdateEvent objectOld objectNew) = [objectOld, objectNew]"
| "event_objects (DeleteEvent obj) = [obj]"
| "event_objects (GenericEvent obj) = [obj]"

primrec mapped :: "(watchedObject \<Rightarrow> 'w \<Rightarrow> string list \<times> 'w) \<Rightarrow> watchedObject list \<Rightarrow> 'w \<Rightarrow> string set" where
  "mapped f [] w = {}"
| "mapped f (obj # objs) w = (let (names, w') = f obj w in set names \<union> mapped f objs w')"

text \<open>
  The handling of events belongs to controller-runtime. The parameter gives the names that a watch
  requests for an event. It is documented for \<open>builder.WithPredicates\<close> that an event has to pass all
  predicates, and for \<open>handler.EnqueueRequestsFromMapFunc\<close> that the function is run on the object of
  the event, and for updates on the old and on the new object.
\<close>

type_synonym 'w enqueue = "'w watch \<Rightarrow> watchEvent \<Rightarrow> 'w \<Rightarrow> string set"

definition enqueue_laws :: "'w enqueue \<Rightarrow> bool" where
  "enqueue_laws enq \<longleftrightarrow>
     (\<forall>wa ev w. enq wa ev w =
        (if \<forall>p \<in> set (waPredicates wa). passes p ev then mapped (waMap wa) (event_objects ev) w else {}))"

text \<open>An event requests a reconciliation when some watch on its objects requests that name.\<close>

definition requested :: "'w enqueue \<Rightarrow> 'w controllerBuild \<Rightarrow> watchEvent \<Rightarrow> 'w \<Rightarrow> string \<Rightarrow> bool" where
  "requested enq b ev w name \<longleftrightarrow>
     (\<exists>wa \<in> set (cbWatches b). list_all (watches (waTarget wa)) (event_objects ev) \<and> name \<in> enq wa ev w)"

lemma requested_iff:
  assumes "enqueue_laws enq"
  shows "requested enq b ev w name \<longleftrightarrow>
    (\<exists>wa \<in> set (cbWatches b). list_all (watches (waTarget wa)) (event_objects ev) \<and>
      (\<forall>p \<in> set (waPredicates wa). passes p ev) \<and> name \<in> mapped (waMap wa) (event_objects ev) w)"
  unfolding requested_def using assms by (auto simp: enqueue_laws_def split: if_splits)

lemmas setup_defs = watches_def configController_def routingController_def onNode_def onUnstructured_def

section \<open>Drift\<close>

definition operator_labelled :: "Unstructured \<Rightarrow> bool" where
  "operator_labelled obj \<longleftrightarrow> lookup_or '''' (uoLabels obj) LabelManagedBy = LabelManagedByVal"

text \<open>An event on the unstructured object with a key, and on one that carries the label before or after it.\<close>

definition event_on :: "ukey \<Rightarrow> watchEvent \<Rightarrow> bool" where
  "event_on key ev \<longleftrightarrow> (\<forall>obj \<in> set (event_objects ev). \<exists>u. obj = UnstructuredObject u \<and> key_of u = key)"

definition event_labelled :: "watchEvent \<Rightarrow> bool" where
  "event_labelled ev \<longleftrightarrow> (\<exists>u. UnstructuredObject u \<in> set (event_objects ev) \<and> operator_labelled u)"

lemma stored_as_labelled:
  "stored_as (frrObject config az name) st \<Longrightarrow> operator_labelled st"
  "stored_as raObject st \<Longrightarrow> operator_labelled st"
  "stored_as (cudnObject net) st \<Longrightarrow> operator_labelled st"
  by (simp_all add: operator_labelled_def stored_as_def frrObject_def raObject_def cudnObject_def lookup_or_def Let_def
    LabelManagedBy_def LabelAdvertise_def)

text \<open>
  A map function that ignores objects without the label without a call is first run, of the objects
  of an event, on one with the label.
\<close>

lemma mapped_labelled:
  assumes "\<And>u w. \<not> operator_labelled u \<Longrightarrow> f (UnstructuredObject u) w = ([], w)"
    and "UnstructuredObject u \<in> set objs" and "operator_labelled u" and "\<forall>obj \<in> set objs. \<exists>u. obj = UnstructuredObject u \<and> P u"
  shows "\<exists>v. P v \<and> operator_labelled v \<and> set (fst (f (UnstructuredObject v) w)) \<subseteq> mapped f objs w"
  using assms(2-4)
proof (induction objs)
  case (Cons obj objs)
  obtain v where v: "obj = UnstructuredObject v" "P v" using Cons.prems(3) by auto
  show ?case
  proof (cases "operator_labelled v")
    case True
    then show ?thesis using v by (intro exI [of _ v]) (auto simp: case_prod_unfold Let_def)
  next
    case False
    then have same: "mapped f (obj # objs) w = mapped f objs w" and "UnstructuredObject u \<in> set objs"
      using assms(1) v Cons.prems(1,2) by auto
    then show ?thesis unfolding same using Cons.IH Cons.prems(2,3) by simp
  qed
qed simp

lemma event_on_watched:
  assumes "event_on (gvk_key gvk ns n) ev"
  shows "list_all (watches (WatchUnstructured gvk)) (event_objects ev)"
  using assms by (auto simp: event_on_def list_all_iff watches_def key_of_def gvk_key_def)

lemma requested_labelled:
  assumes "enqueue_laws enq" and "event_on (gvk_key gvk ns n) ev" and "event_labelled ev"
    and "\<lparr>waTarget = WatchUnstructured gvk, waMap = onUnstructured f, waPredicates = []\<rparr> \<in> set (cbWatches b)"
    and "\<And>u w. \<not> operator_labelled u \<Longrightarrow> f u w = ([], w)"
    and "\<And>u. key_of u = gvk_key gvk ns n \<Longrightarrow> operator_labelled u \<Longrightarrow> name \<in> set (fst (f u w))"
  shows "requested enq b ev w name"
proof -
  obtain u where u: "UnstructuredObject u \<in> set (event_objects ev)" "operator_labelled u"
    using assms(3) by (auto simp: event_labelled_def)
  obtain v where "key_of v = gvk_key gvk ns n" "operator_labelled v"
    and sub: "set (fst (onUnstructured f (UnstructuredObject v) w)) \<subseteq> mapped (onUnstructured f) (event_objects ev) w"
    using mapped_labelled [of "onUnstructured f" u "event_objects ev" "\<lambda>v. key_of v = gvk_key gvk ns n" w]
      u assms(2,5) by (auto simp: onUnstructured_def event_on_def)
  then have "name \<in> mapped (onUnstructured f) (event_objects ev) w"
    using assms(6) by (auto simp: onUnstructured_def)
  then show ?thesis
    unfolding requested_iff [OF assms(1)] using event_on_watched [OF assms(2)] assms(4)
    by (intro bexI [OF _ assms(4)]) simp
qed

lemma frr_drift:
  assumes "enqueue_laws enq" and "event_on (frr_key name) ev" and "event_labelled ev"
  shows "requested enq (configController env r) ev w SingletonName"
  by (rule requested_labelled [OF assms(1,2,3), where f = "\<lambda>obj w. (mapFRRToConfig obj, w)"])
    (auto simp: configController_def mapFRRToConfig_def operator_labelled_def)

lemma ra_drift:
  assumes "enqueue_laws enq" and "event_on ra_key ev" and "event_labelled ev"
    and "listRoutings c w = (Inr items, w')" and "rt \<in> set items"
  shows "requested enq (routingController lib c) ev w (rtgName rt)"
  by (rule requested_labelled [OF assms(1,2,3), where f = "mapRAToRouting c"])
    (use assms(4,5) in \<open>auto simp: routingController_def mapRAToRouting_def operator_labelled_def\<close>)

lemma cudn_drift:
  assumes "enqueue_laws enq" and "event_on (cudn_key n) ev" and "event_labelled ev"
    and "listRoutings c w = (Inr items, w')" and "rt \<in> set items" and "rtgNetwork rt = n"
  shows "\<exists>rt \<in> set items. rtgNetwork rt = n \<and> requested enq (routingController lib c) ev w (rtgName rt)"
proof -
  obtain x where x: "find (\<lambda>rt. rtgNetwork rt = n) items = Some x"
    using assms(5,6) by (cases "find (\<lambda>rt. rtgNetwork rt = n) items") (auto simp: find_None_iff)
  then have "x \<in> set items" "rtgNetwork x = n"
    by (auto simp: find_Some_iff intro: nth_mem)
  moreover have "requested enq (routingController lib c) ev w (rtgName x)"
    by (rule requested_labelled [OF assms(1,2,3), where f = "mapCUDNToRouting c"])
      (use assms(4) x in \<open>auto simp: routingController_def mapCUDNToRouting_def operator_labelled_def key_of_def gvk_key_def\<close>)
  ultimately show ?thesis by blast
qed

lemma mapped_foreign:
  assumes "\<And>u w. \<not> operator_labelled u \<Longrightarrow> f (UnstructuredObject u) w = ([], w)"
    and "\<forall>obj \<in> set objs. \<exists>u. obj = UnstructuredObject u \<and> \<not> operator_labelled u"
  shows "mapped f objs w = {}"
  using assms(2) by (induction objs) (auto simp: assms(1))

lemma foreign_ignored:
  assumes "enqueue_laws enq" and "event_on key ev" and "\<not> event_labelled ev"
  shows "\<not> requested enq (configController env r) ev w any"
    and "\<not> requested enq (routingController lib c) ev w any"
proof -
  have objs: "\<forall>obj \<in> set (event_objects ev). \<exists>u. obj = UnstructuredObject u \<and> \<not> operator_labelled u"
  proof
    fix obj
    assume obj: "obj \<in> set (event_objects ev)"
    then obtain u where "obj = UnstructuredObject u" using assms(2) by (auto simp: event_on_def)
    with obj assms(3) show "\<exists>u. obj = UnstructuredObject u \<and> \<not> operator_labelled u" by (auto simp: event_labelled_def)
  qed
  have none: "mapped (onUnstructured f) (event_objects ev) w = {}" if "\<And>u w. \<not> operator_labelled u \<Longrightarrow> f u w = ([], w)" for f
    by (rule mapped_foreign [OF _ objs]) (simp add: onUnstructured_def that)
  have node: "\<not> list_all (watches WatchNodes) (event_objects ev)"
    using objs by (cases ev) (auto simp: watches_def)
  have "mapped (onUnstructured (\<lambda>obj w. (mapFRRToConfig obj, w))) (event_objects ev) w = {}"
    "mapped (onUnstructured (mapCUDNToRouting c)) (event_objects ev) w = {}"
    "mapped (onUnstructured (mapRAToRouting c)) (event_objects ev) w = {}"
    by (rule none; simp add: mapFRRToConfig_def mapCUDNToRouting_def mapRAToRouting_def operator_labelled_def)+
  then show "\<not> requested enq (configController env r) ev w any" "\<not> requested enq (routingController lib c) ev w any"
    using node by (simp_all add: requested_iff [OF assms(1)] configController_def routingController_def)
qed

text \<open>
  C39. No change of an object with the operator's label goes unnoticed. Take any event (creation,
  update, deletion, resynchronisation) on an object that carries the label, or did so before an
  update, whatever has happened to its spec, its other labels or that label itself. On an
  FRRConfiguration in the FRR namespace it requests the configuration \<open>cluster\<close>, on the shared
  RouteAdvertisements every routing, and on the user-defined network of a name a routing that claims
  this name when there is one. Everything the operator stores carries the label. An event on an
  object that has the label neither before nor after requests nothing.
\<close>

theorem drift_requested:
  assumes "kube_laws lib c view" and "enqueue_laws enq" and "listRoutings c w = (Inr items, w')"
  shows "(event_on (frr_key name) ev \<and> event_labelled ev \<longrightarrow>
      requested enq (configController env r) ev w SingletonName) \<and>
    (event_on ra_key ev \<and> event_labelled ev \<and> rt \<in> fmran' (kRoutings (view w)) \<longrightarrow>
      requested enq (routingController lib c) ev w (rtgName rt)) \<and>
    (event_on (cudn_key n) ev \<and> event_labelled ev \<and> rt \<in> fmran' (kRoutings (view w)) \<and> rtgNetwork rt = n \<longrightarrow>
      (\<exists>rt \<in> fmran' (kRoutings (view w)). rtgNetwork rt = n \<and>
        requested enq (routingController lib c) ev w (rtgName rt))) \<and>
    (event_on key ev \<and> \<not> event_labelled ev \<longrightarrow>
      \<not> requested enq (configController env r) ev w any \<and> \<not> requested enq (routingController lib c) ev w any) \<and>
    (stored_as (frrObject config az name) obj \<or> stored_as raObject obj \<or> stored_as (cudnObject net) obj \<longrightarrow>
      operator_labelled obj)"
proof -
  have "wp (listRoutings c) (\<lambda>items w'. set items = fmran' (kRoutings (view w))) (\<lambda>_ _. True) w"
    by (rule wp_read [OF kube_lawsD(5) [OF assms(1)]]) auto
  from wp_InrD [OF this assms(3)] have items: "set items = fmran' (kRoutings (view w))" .
  show ?thesis
  proof (intro conjI impI)
    assume "event_on (cudn_key n) ev \<and> event_labelled ev \<and> rt \<in> fmran' (kRoutings (view w)) \<and> rtgNetwork rt = n"
    then show "\<exists>rt \<in> fmran' (kRoutings (view w)). rtgNetwork rt = n \<and>
        requested enq (routingController lib c) ev w (rtgName rt)"
      using cudn_drift [OF assms(2) _ _ assms(3)] items by blast
  qed (use items in \<open>auto intro: frr_drift [OF assms(2)] ra_drift [OF assms(2) _ _ assms(3)] stored_as_labelled
      dest: foreign_ignored [OF assms(2)]\<close>)
qed

text \<open>
  C40. Every change of a node that matters reaches the reconciler: creation and deletion of a node
  always request \<open>cluster\<close>, and an update does when it changes the router node that is read from the
  node, or whether some selector selects it. An update that only renews the resource version, as
  heartbeats do, requests nothing.
\<close>

theorem node_changes_requested:
  assumes "enqueue_laws enq" and "ndName new = ndName old"
  shows "requested enq (configController env r) (CreateEvent (NodeObject new)) w SingletonName \<and>
    requested enq (configController env r) (DeleteEvent (NodeObject new)) w SingletonName \<and>
    (routerNode new \<noteq> routerNode old \<or> selects sel (node_labels new) \<noteq> selects sel (node_labels old) \<longrightarrow>
      requested enq (configController env r) (UpdateEvent (NodeObject old) (NodeObject new)) w SingletonName) \<and>
    \<not> requested enq (configController env r) (UpdateEvent (NodeObject old) (NodeObject (old\<lparr>ndResourceVersion := rv\<rparr>))) w any"
proof -
  have "nodeRelevantChange (Some old) (Some new)"
    if "routerNode new \<noteq> routerNode old \<or> selects sel (node_labels new) \<noteq> selects sel (node_labels old)"
    using that nodeRelevantChange_complete [of old new] assms(2) by blast
  then show ?thesis
    by (auto simp: requested_iff [OF assms(1)] setup_defs passes_def nodeRelevantChangePredicate_def asNode_def
      mapNodeToConfig_def nodeRelevantChange_def)
qed

end
