(* ===== verification/Go_Runtime.thy ===== *)
theory Go_Runtime
  imports Prelude
begin

text \<open>
  The parts of Go's language and standard library that \<open>cmd/main.go\<close> uses and no other file does:
  slices that share a backing array, \<open>append\<close>, the command-line parser of the package \<open>flag\<close>, and
  \<open>filepath.Join\<close>.
\<close>

section \<open>Slices\<close>

text \<open>
  A slice is a window on a backing array: the array's address, the length and the capacity. The
  arrays live in a list, addressed by position; a cell that was never written holds \<open>None\<close>. The
  capacity that \<open>append\<close> chooses for a new array is left to the implementation by the language, which
  only promises that it is large enough: \<open>grow\<close> is a parameter with the law \<open>growth_laws\<close>.
\<close>

type_synonym 'a arrays = "'a option list list"

record slice =
  slPtr :: nat
  slLen :: nat
  slCap :: nat

type_synonym growth = "nat \<Rightarrow> nat \<Rightarrow> nat"

definition nilSlice :: slice where
  "nilSlice = \<lparr>slPtr = 0, slLen = 0, slCap = 0\<rparr>"

definition elems :: "'a arrays \<Rightarrow> slice \<Rightarrow> 'a option list" where
  "elems h s = (if slLen s = 0 then [] else take (slLen s) (h ! slPtr s))"

definition append :: "growth \<Rightarrow> slice \<Rightarrow> 'a \<Rightarrow> 'a arrays \<Rightarrow> slice \<times> 'a arrays" where
  "append grow s x h =
     (if slLen s < slCap s
      then (s\<lparr>slLen := Suc (slLen s)\<rparr>, h[slPtr s := (h ! slPtr s)[slLen s := Some x]])
      else let cap = grow (slCap s) (Suc (slLen s)) in
        (\<lparr>slPtr = length h, slLen = Suc (slLen s), slCap = cap\<rparr>,
         h @ [elems h s @ Some x # replicate (cap - Suc (slLen s)) None]))"

definition slice_wf :: "'a arrays \<Rightarrow> slice \<Rightarrow> bool" where
  "slice_wf h s \<longleftrightarrow> slLen s \<le> slCap s \<and> (slCap s > 0 \<longrightarrow> slPtr s < length h \<and> length (h ! slPtr s) = slCap s)"

lemma nilSlice_wf [simp]: "slice_wf h nilSlice" and elems_nil [simp]: "elems h nilSlice = []"
  by (simp_all add: slice_wf_def nilSlice_def elems_def)

lemma length_elems: "slice_wf h s \<Longrightarrow> length (elems h s) = slLen s"
  by (auto simp: slice_wf_def elems_def)

definition growth_laws :: "growth \<Rightarrow> bool" where
  "growth_laws grow \<longleftrightarrow> (\<forall>c n. n \<le> grow c n)"

lemma append_wf:
  assumes "growth_laws grow" and "slice_wf h s" and "append grow s x h = (s', h')"
  shows "slice_wf h' s'"
  using assms(2,3) assms(1) [unfolded growth_laws_def, rule_format, of "Suc (slLen s)" "slCap s"] length_elems [OF assms(2)]
  by (auto simp: append_def slice_wf_def Let_def split: if_splits)

lemma append_elems:
  assumes "slice_wf h s" and "append grow s x h = (s', h')"
  shows "elems h' s' = elems h s @ [Some x]"
proof (cases "slLen s < slCap s")
  case True
  with assms(1) have p: "slPtr s < length h" "slLen s < length (h ! slPtr s)" by (auto simp: slice_wf_def)
  from True assms(2) have "s' = s\<lparr>slLen := Suc (slLen s)\<rparr>"
    and "h' = h[slPtr s := (h ! slPtr s)[slLen s := Some x]]" by (simp_all add: append_def)
  with p show ?thesis by (simp add: elems_def take_Suc_conv_app_nth)
next
  case False
  with assms(2) have "s' = \<lparr>slPtr = length h, slLen = Suc (slLen s), slCap = grow (slCap s) (Suc (slLen s))\<rparr>"
    and "h' = h @ [elems h s @ Some x # replicate (grow (slCap s) (Suc (slLen s)) - Suc (slLen s)) None]"
    by (simp_all add: append_def Let_def)
  then show ?thesis using length_elems [OF assms(1)] by (simp add: elems_def)
qed

text \<open>
  The frame of \<open>append\<close>: another slice is unchanged when it does not reach beyond the length of the
  extended one, or lives in another array, or when there was no room left.
\<close>

lemma append_frame:
  assumes "slice_wf h t" and "append grow s x h = (s', h')"
    and "slLen t \<le> slLen s \<or> slPtr t \<noteq> slPtr s \<or> slCap s \<le> slLen s"
  shows "elems h' t = elems h t" and "slice_wf h' t"
proof -
  show "elems h' t = elems h t"
  proof (cases "slLen s < slCap s")
    case True
    then show ?thesis using assms(2,3)
      by (cases "slPtr s = slPtr t"; cases "slPtr s < length h")
        (auto simp: append_def elems_def take_update_cancel list_update_beyond)
  next
    case False
    then show ?thesis using assms(1,2) by (auto simp: append_def elems_def Let_def nth_append slice_wf_def)
  qed
  show "slice_wf h' t"
    using assms(1,2) by (cases "slPtr t = slPtr s")
      (auto simp: append_def slice_wf_def Let_def nth_append nth_list_update split: if_splits)
qed

text \<open>Two appends to the same slice that has room share the new cell, and the second one wins.\<close>

lemma append_twice_shares:
  assumes "slLen s < slCap s" and "append grow s x h = (s1, h1)" and "append grow s y h1 = (s2, h2)"
  shows "s1 = s2"
  using assms by (simp add: append_def)

section \<open>The package flag\<close>

text \<open>
  A flag is bound to a string or a boolean variable of the program, here a field of its record of
  variables. \<open>ext\<close> stands for the flags that other packages bind on the same flag set: whether such
  a flag is boolean, and which values it accepts; their variables are not part of the model.
\<close>

datatype 'f flagVar =
    StringVar "string \<Rightarrow> 'f \<Rightarrow> 'f"
  | BoolVar "bool \<Rightarrow> 'f \<Rightarrow> 'f"

type_synonym 'f flagSet = "(string \<times> 'f flagVar) list"
type_synonym externalFlags = "string \<Rightarrow> (bool \<times> (string \<Rightarrow> bool)) option"

text \<open>\<open>strconv.ParseBool\<close>\<close>

definition ParseBool :: "string \<Rightarrow> bool option" where
  "ParseBool s =
     (if s \<in> {''1'', ''t'', ''T'', ''TRUE'', ''true'', ''True''} then Some True
      else if s \<in> {''0'', ''f'', ''F'', ''FALSE'', ''false'', ''False''} then Some False
      else None)"

definition isBoolFlag :: "'f flagSet \<Rightarrow> externalFlags \<Rightarrow> string \<Rightarrow> bool option" where
  "isBoolFlag fs ext name =
     (case map_of fs name of
        Some (StringVar _) \<Rightarrow> Some False
      | Some (BoolVar _) \<Rightarrow> Some True
      | None \<Rightarrow> map_option fst (ext name))"

definition setFlag :: "'f flagSet \<Rightarrow> externalFlags \<Rightarrow> string \<Rightarrow> string \<Rightarrow> 'f \<Rightarrow> 'f option" where
  "setFlag fs ext name v fl =
     (case map_of fs name of
        Some (StringVar assign) \<Rightarrow> Some (assign v fl)
      | Some (BoolVar assign) \<Rightarrow> map_option (\<lambda>b. assign b fl) (ParseBool v)
      | None \<Rightarrow> (case ext name of Some (_, ok) \<Rightarrow> if ok v then Some fl else None | None \<Rightarrow> None))"

text \<open>\<open>name=value\<close>, where the equals sign cannot come first.\<close>

fun splitEq :: "string \<Rightarrow> string \<times> string option" where
  "splitEq [] = ([], None)"
| "splitEq (c # s) =
     (c # takeWhile (\<lambda>x. x \<noteq> CHR ''='') s,
      (case dropWhile (\<lambda>x. x \<noteq> CHR ''='') s of [] \<Rightarrow> None | _ # v \<Rightarrow> Some v))"

text \<open>
  One argument of \<open>flag.Parse\<close>: parsing ends at the first argument that is not a flag; a malformed
  flag ends the process with code 2 and \<open>-help\<close> with code 0; otherwise a variable was set and the
  remaining arguments follow.
\<close>

datatype 'f flagStep =
    FlagsEnd
  | FlagsExit nat
  | FlagSet 'f "string list"

definition assignFlag :: "'f flagSet \<Rightarrow> externalFlags \<Rightarrow> string \<Rightarrow> string \<Rightarrow> string list \<Rightarrow> 'f \<Rightarrow> 'f flagStep" where
  "assignFlag fs ext name v rest fl =
     (case setFlag fs ext name v fl of None \<Rightarrow> FlagsExit 2 | Some fl' \<Rightarrow> FlagSet fl' rest)"

definition flagName :: "string \<Rightarrow> string" where
  "flagName s = (if s ! 1 = CHR ''-'' then drop 2 s else drop 1 s)"

definition parseOne :: "'f flagSet \<Rightarrow> externalFlags \<Rightarrow> string \<Rightarrow> string list \<Rightarrow> 'f \<Rightarrow> 'f flagStep" where
  "parseOne fs ext s args fl =
     (if length s < 2 \<or> hd s \<noteq> CHR ''-'' \<or> s = ''--'' then FlagsEnd
      else if flagName s = [] \<or> hd (flagName s) = CHR ''-'' \<or> hd (flagName s) = CHR ''='' then FlagsExit 2
      else (case splitEq (flagName s) of (name, val) \<Rightarrow>
        (case isBoolFlag fs ext name of
           None \<Rightarrow> FlagsExit (if name \<in> {''help'', ''h''} then 0 else 2)
         | Some True \<Rightarrow> assignFlag fs ext name (case val of None \<Rightarrow> ''true'' | Some v \<Rightarrow> v) args fl
         | Some False \<Rightarrow>
             (case val of
                Some v \<Rightarrow> assignFlag fs ext name v args fl
              | None \<Rightarrow> (case args of [] \<Rightarrow> FlagsExit 2 | v # rest \<Rightarrow> assignFlag fs ext name v rest fl)))))"

lemma parseOne_setD:
  assumes "parseOne fs ext s args fl = FlagSet fl' rest"
  shows "\<exists>v. setFlag fs ext (fst (splitEq (flagName s))) v fl = Some fl'"
    and "suffix rest args"
    and "\<not> (length s < 2 \<or> hd s \<noteq> CHR ''-'' \<or> s = ''--'')"
proof -
  obtain name val where eq: "splitEq (flagName s) = (name, val)" by force
  show "\<exists>v. setFlag fs ext (fst (splitEq (flagName s))) v fl = Some fl'" and "suffix rest args"
      and "\<not> (length s < 2 \<or> hd s \<noteq> CHR ''-'' \<or> s = ''--'')"
    using assms by (auto simp: parseOne_def eq assignFlag_def suffix_ConsI
      split: if_splits option.splits bool.splits list.splits)
qed

function parseFlags :: "'f flagSet \<Rightarrow> externalFlags \<Rightarrow> string list \<Rightarrow> 'f \<Rightarrow> nat + 'f" where
  "parseFlags fs ext [] fl = Inr fl"
| "parseFlags fs ext (s # args) fl =
     (case parseOne fs ext s args fl of
        FlagsEnd \<Rightarrow> Inr fl
      | FlagsExit n \<Rightarrow> Inl n
      | FlagSet fl' rest \<Rightarrow> parseFlags fs ext rest fl')"
  by pat_completeness auto
termination
  by (relation "measure (\<lambda>(fs, ext, args, fl). length args)")
    (auto dest!: parseOne_setD(2) suffix_length_le)

lemma splitEq_assign:
  assumes "name \<noteq> []" and "CHR ''='' \<notin> set name"
  shows "splitEq (name @ CHR ''='' # v) = (name, Some v)"
proof -
  obtain c t where name: "name = c # t" and t: "\<forall>x \<in> set t. x \<noteq> CHR ''=''"
    using assms by (cases name) auto
  have "takeWhile (\<lambda>x. x \<noteq> CHR ''='') (t @ CHR ''='' # v) = t"
    and "dropWhile (\<lambda>x. x \<noteq> CHR ''='') (t @ CHR ''='' # v) = CHR ''='' # v"
    using t by (simp_all add: takeWhile_append2 dropWhile_append2)
  then show ?thesis by (simp add: name)
qed

lemma parse_assignment:
  assumes "name \<noteq> []" and "CHR ''='' \<notin> set name" and "hd name \<noteq> CHR ''-''"
    and "setFlag fs ext name v fl = Some fl'" and "isBoolFlag fs ext name = Some b"
  shows "parseFlags fs ext ((CHR ''-'' # CHR ''-'' # name @ CHR ''='' # v) # args) fl = parseFlags fs ext args fl'"
proof -
  have "hd name \<noteq> CHR ''=''" using assms(1,2) by (cases name) auto
  with assms have "parseOne fs ext (CHR ''-'' # CHR ''-'' # name @ CHR ''='' # v) args fl = FlagSet fl' args"
    by (cases b) (simp_all add: parseOne_def flagName_def splitEq_assign assignFlag_def)
  then show ?thesis by simp
qed

lemma splitEq_prefix: "prefix (fst (splitEq name)) name"
  by (cases name) (simp_all add: takeWhile_is_prefix)

definition mentions :: "string \<Rightarrow> string \<Rightarrow> bool" where
  "mentions f a \<longleftrightarrow> prefix (CHR ''-'' # f) a \<or> prefix (CHR ''-'' # CHR ''-'' # f) a"

lemma flag_name_mentioned:
  assumes "\<not> (length s < 2 \<or> hd s \<noteq> CHR ''-'' \<or> s = ''--'')"
  shows "mentions (fst (splitEq (flagName s))) s"
proof -
  obtain c t where s: "s = CHR ''-'' # c # t"
    using assms by (cases s; cases "tl s") auto
  show ?thesis
    using splitEq_prefix [of "flagName s"] unfolding s mentions_def by (auto simp: flagName_def split: if_splits)
qed

text \<open>A variable changes only through a flag that names it.\<close>

lemma parseFlags_keeps:
  assumes "parseFlags fs ext args fl = Inr fl'"
    and "\<And>name v fl fl'. setFlag fs ext name v fl = Some fl' \<Longrightarrow> obs fl' \<noteq> obs fl \<Longrightarrow> name = f"
    and "\<And>a. a \<in> set args \<Longrightarrow> \<not> mentions f a"
  shows "obs fl' = obs fl"
  using assms
proof (induction fs ext args fl rule: parseFlags.induct)
  case (1 fs ext fl)
  then show ?case by simp
next
  case (2 fs ext s args fl)
  show ?case
  proof (cases "parseOne fs ext s args fl")
    case (FlagSet fl1 rest)
    have "fst (splitEq (flagName s)) \<noteq> f"
      using flag_name_mentioned [OF parseOne_setD(3) [OF FlagSet]] "2.prems"(3) [of s] by auto
    then have "obs fl1 = obs fl" using parseOne_setD(1) [OF FlagSet] "2.prems"(2) by metis
    moreover have "obs fl' = obs fl1"
      using "2.prems" set_mono_suffix [OF parseOne_setD(2) [OF FlagSet]] FlagSet
      by (intro "2.IH" [OF FlagSet]) auto
    ultimately show ?thesis by simp
  qed (use 2 in auto)
qed

section \<open>Paths\<close>

text \<open>\<open>filepath.Clean\<close> on a slash-separated path: the parts kept so far are in reverse order.\<close>

fun cleanParts :: "bool \<Rightarrow> string list \<Rightarrow> string list \<Rightarrow> string list" where
  "cleanParts rooted out [] = rev out"
| "cleanParts rooted out (p # ps) =
     (if p = [] \<or> p = ''.'' then cleanParts rooted out ps
      else if p = ''..'' then
        (case out of
           o1 # os \<Rightarrow> if o1 \<noteq> ''..'' then cleanParts rooted os ps else cleanParts rooted (p # out) ps
         | [] \<Rightarrow> if rooted then cleanParts rooted out ps else cleanParts rooted (p # out) ps)
      else cleanParts rooted (p # out) ps)"

definition Clean :: "string \<Rightarrow> string" where
  "Clean path =
     (if path = [] then ''.''
      else let rooted = (hd path = CHR ''/''); parts = cleanParts rooted [] (Split path CHR ''/'') in
        if rooted then CHR ''/'' # Join parts CHR ''/''
        else if parts = [] then ''.'' else Join parts CHR ''/'')"

text \<open>\<open>filepath.Join\<close> of two elements\<close>

definition pathJoin :: "string \<Rightarrow> string \<Rightarrow> string" where
  "pathJoin a b = (if a \<noteq> [] then Clean (a @ ''/'' @ b) else if b \<noteq> [] then Clean b else [])"

end
