(* ===== verification/Manager.thy ===== *)
theory Manager
  imports Controller_Setup Go_Runtime
begin

text \<open>
  \<open>cmd/main.go\<close>: the process. It registers the API types in a scheme, parses the command line,
  prepares the TLS options of the metrics and the webhook server, creates the manager, sets up both
  controllers and starts. The manager, the certificate watchers and the scheme belong to
  controller-runtime and apimachinery and are parameters (\<open>ctrlRuntime\<close>). An error of an action stands
  for \<open>os.Exit(1)\<close> after the error was logged.
\<close>

section \<open>Flags\<close>

record managerFlags =
  metricsAddr :: string
  metricsCertPath :: string
  metricsCertName :: string
  metricsCertKey :: string
  webhookCertPath :: string
  webhookCertName :: string
  webhookCertKey :: string
  enableLeaderElection :: bool
  probeAddr :: string
  secureMetrics :: bool
  enableHTTP2 :: bool

definition defaultFlags :: managerFlags where
  "defaultFlags =
     \<lparr>metricsAddr = ''0'', metricsCertPath = '''', metricsCertName = ''tls.crt'', metricsCertKey = ''tls.key'',
      webhookCertPath = '''', webhookCertName = ''tls.crt'', webhookCertKey = ''tls.key'',
      enableLeaderElection = False, probeAddr = '':8081'', secureMetrics = True, enableHTTP2 = False\<rparr>"

definition mainFlags :: "managerFlags flagSet" where
  "mainFlags =
     [(''metrics-bind-address'', StringVar (\<lambda>v fl. fl\<lparr>metricsAddr := v\<rparr>)),
      (''health-probe-bind-address'', StringVar (\<lambda>v fl. fl\<lparr>probeAddr := v\<rparr>)),
      (''leader-elect'', BoolVar (\<lambda>b fl. fl\<lparr>enableLeaderElection := b\<rparr>)),
      (''metrics-secure'', BoolVar (\<lambda>b fl. fl\<lparr>secureMetrics := b\<rparr>)),
      (''webhook-cert-path'', StringVar (\<lambda>v fl. fl\<lparr>webhookCertPath := v\<rparr>)),
      (''webhook-cert-name'', StringVar (\<lambda>v fl. fl\<lparr>webhookCertName := v\<rparr>)),
      (''webhook-cert-key'', StringVar (\<lambda>v fl. fl\<lparr>webhookCertKey := v\<rparr>)),
      (''metrics-cert-path'', StringVar (\<lambda>v fl. fl\<lparr>metricsCertPath := v\<rparr>)),
      (''metrics-cert-name'', StringVar (\<lambda>v fl. fl\<lparr>metricsCertName := v\<rparr>)),
      (''metrics-cert-key'', StringVar (\<lambda>v fl. fl\<lparr>metricsCertKey := v\<rparr>)),
      (''enable-http2'', BoolVar (\<lambda>b fl. fl\<lparr>enableHTTP2 := b\<rparr>))]"

section \<open>TLS options\<close>

text \<open>The functions that \<open>main\<close> collects in \<open>tlsOpts\<close>, and what they do to a \<open>tls.Config\<close>.\<close>

datatype 'cw tlsOption = DisableHTTP2 | GetCertificateOf 'cw

record 'cw tlsConfig =
  NextProtos :: "string list"
  GetCertificate :: "'cw option"

fun applyTLSOption :: "'cw tlsOption \<Rightarrow> 'cw tlsConfig \<Rightarrow> 'cw tlsConfig" where
  "applyTLSOption DisableHTTP2 c = c\<lparr>NextProtos := [''http/1.1'']\<rparr>"
| "applyTLSOption (GetCertificateOf cw) c = c\<lparr>GetCertificate := Some cw\<rparr>"

text \<open>A server applies its options in order; calling a nil function panics.\<close>

primrec serverTLS :: "'cw tlsOption option list \<Rightarrow> 'cw tlsConfig \<Rightarrow> 'cw tlsConfig option" where
  "serverTLS [] c = Some c"
| "serverTLS (o1 # os) c = (case o1 of None \<Rightarrow> None | Some f \<Rightarrow> serverTLS os (applyTLSOption f c))"

section \<open>The runtime\<close>

record webhookOptions =
  woTLSOpts :: slice

datatype filterProvider = WithAuthenticationAndAuthorization

record metricsOptions =
  moBindAddress :: string
  moSecureServing :: bool
  moTLSOpts :: slice
  moFilterProvider :: "filterProvider option"

record ('sc, 'ws) managerOptions =
  mgScheme :: 'sc
  mgMetrics :: metricsOptions
  mgWebhookServer :: 'ws
  mgHealthProbeBindAddress :: string
  mgLeaderElection :: bool
  mgLeaderElectionID :: string

text \<open>
  \<open>NewManager\<close> also gets the arrays behind the slices in its options, which the servers read when
  they start; nothing is appended after that call.
\<close>

record ('w, 'sc, 'cw, 'rc, 'ws, 'm) ctrlRuntime =
  NewScheme :: 'sc
  clientgoAddToScheme :: "'sc \<Rightarrow> go_error + 'sc"
  builderAddToScheme :: "string \<Rightarrow> string \<Rightarrow> string list \<Rightarrow> 'sc \<Rightarrow> go_error + 'sc"
  certwatcherNew :: "string \<Rightarrow> string \<Rightarrow> ('w, 'cw) act"
  webhookNewServer :: "webhookOptions \<Rightarrow> 'ws"
  GetConfigOrDie :: "('w, 'rc) act"
  NewManager :: "'rc \<Rightarrow> 'cw tlsOption arrays \<Rightarrow> ('sc, 'ws) managerOptions \<Rightarrow> ('w, 'm) act"
  mgrGetClient :: "'m \<Rightarrow> 'w client"
  builderComplete :: "'m \<Rightarrow> 'w controllerBuild \<Rightarrow> ('w, unit) act"
  mgrAdd :: "'m \<Rightarrow> 'cw \<Rightarrow> ('w, unit) act"
  mgrAddHealthzCheck :: "'m \<Rightarrow> string \<Rightarrow> ('w, unit) act"
  mgrAddReadyzCheck :: "'m \<Rightarrow> string \<Rightarrow> ('w, unit) act"
  mgrStart :: "'m \<Rightarrow> ('w, unit) act"

section \<open>The scheme\<close>

definition GroupVersion_Group :: string where
  "GroupVersion_Group = ''networking.openshift.io''"

definition GroupVersion_Version :: string where
  "GroupVersion_Version = ''v1alpha1''"

text \<open>The types that the two \<open>init\<close> functions of the package register.\<close>

definition configTypes :: "string list" where
  "configTypes = [''CUDNBgpConfig'', ''CUDNBgpConfigList'']"

definition routingTypes :: "string list" where
  "routingTypes = [''CUDNBgpRouting'', ''CUDNBgpRoutingList'']"

definition AddToScheme :: "('w, 'sc, 'cw, 'rc, 'ws, 'm) ctrlRuntime \<Rightarrow> 'sc \<Rightarrow> go_error + 'sc" where
  "AddToScheme rt s = builderAddToScheme rt GroupVersion_Group GroupVersion_Version (configTypes @ routingTypes) s"

text \<open>\<open>init\<close>: the panic of \<open>utilruntime.Must\<close> is the error case.\<close>

definition initScheme :: "('w, 'sc, 'cw, 'rc, 'ws, 'm) ctrlRuntime \<Rightarrow> go_error + 'sc" where
  "initScheme rt =
     (case clientgoAddToScheme rt (NewScheme rt) of Inl e \<Rightarrow> Inl e | Inr s \<Rightarrow> AddToScheme rt s)"

section \<open>The servers\<close>

definition initialTLSOpts :: "growth \<Rightarrow> managerFlags \<Rightarrow> slice \<times> 'cw tlsOption arrays" where
  "initialTLSOpts grow fl =
     (if \<not> enableHTTP2 fl then append grow nilSlice DisableHTTP2 [] else (nilSlice, []))"

definition certWatcher ::
    "('w, 'sc, 'cw, 'rc, 'ws, 'm) ctrlRuntime \<Rightarrow> string \<Rightarrow> string \<Rightarrow> string \<Rightarrow> ('w, 'cw option) act" where
  "certWatcher rt path name key =
     (if path \<noteq> '''' then bindA (certwatcherNew rt (pathJoin path name) (pathJoin path key)) (\<lambda>cw. returnA (Some cw))
      else returnA None)"

definition appendCertificate ::
    "growth \<Rightarrow> slice \<Rightarrow> 'cw option \<Rightarrow> 'cw tlsOption arrays \<Rightarrow> slice \<times> 'cw tlsOption arrays" where
  "appendCertificate grow s cw h =
     (case cw of None \<Rightarrow> (s, h) | Some c \<Rightarrow> append grow s (GetCertificateOf c) h)"

definition metricsServerOptions :: "managerFlags \<Rightarrow> slice \<Rightarrow> metricsOptions" where
  "metricsServerOptions fl tlsOpts =
     \<lparr>moBindAddress = metricsAddr fl, moSecureServing = secureMetrics fl, moTLSOpts = tlsOpts,
      moFilterProvider = (if secureMetrics fl then Some WithAuthenticationAndAuthorization else None)\<rparr>"

record ('cw, 'ws) servers =
  svMetrics :: metricsOptions
  svWebhookServer :: 'ws
  svArrays :: "'cw tlsOption arrays"
  svMetricsWatcher :: "'cw option"
  svWebhookWatcher :: "'cw option"

definition prepareServers ::
    "('w, 'sc, 'cw, 'rc, 'ws, 'm) ctrlRuntime \<Rightarrow> growth \<Rightarrow> managerFlags \<Rightarrow> ('w, ('cw, 'ws) servers) act" where
  "prepareServers rt grow fl =
     (let (tlsOpts, h0) = initialTLSOpts grow fl in
      bindA (certWatcher rt (webhookCertPath fl) (webhookCertName fl) (webhookCertKey fl)) (\<lambda>webhookCertWatcher.
      let (webhookTLSOpts, h1) = appendCertificate grow tlsOpts webhookCertWatcher h0;
          webhookServer = webhookNewServer rt \<lparr>woTLSOpts = webhookTLSOpts\<rparr>;
          options = metricsServerOptions fl tlsOpts
      in
      bindA (certWatcher rt (metricsCertPath fl) (metricsCertName fl) (metricsCertKey fl)) (\<lambda>metricsCertWatcher.
      let (metricsTLSOpts, h2) = appendCertificate grow (moTLSOpts options) metricsCertWatcher h1 in
      returnA \<lparr>svMetrics = options\<lparr>moTLSOpts := metricsTLSOpts\<rparr>, svWebhookServer = webhookServer, svArrays = h2,
        svMetricsWatcher = metricsCertWatcher, svWebhookWatcher = webhookCertWatcher\<rparr>)))"

section \<open>Start\<close>

definition addWatcher :: "('w, 'sc, 'cw, 'rc, 'ws, 'm) ctrlRuntime \<Rightarrow> 'm \<Rightarrow> 'cw option \<Rightarrow> ('w, unit) act" where
  "addWatcher rt mgr cw = (case cw of None \<Rightarrow> returnA () | Some c \<Rightarrow> mgrAdd rt mgr c)"

definition managerOptions_of ::
    "'sc \<Rightarrow> managerFlags \<Rightarrow> ('cw, 'ws) servers \<Rightarrow> ('sc, 'ws) managerOptions" where
  "managerOptions_of scheme fl sv =
     \<lparr>mgScheme = scheme, mgMetrics = svMetrics sv, mgWebhookServer = svWebhookServer sv,
      mgHealthProbeBindAddress = probeAddr fl, mgLeaderElection = enableLeaderElection fl,
      mgLeaderElectionID = ''5914cf41.openshift.io''\<rparr>"

definition startManager ::
    "('w, 'sc, 'cw, 'rc, 'ws, 'm) ctrlRuntime \<Rightarrow> ('w, 'c) awsEnv \<Rightarrow> ('cw, 'ws) servers \<Rightarrow> 'm \<Rightarrow> ('w, unit) act" where
  "startManager rt e sv mgr =
     bindA (ConfigSetupWithManager (builderComplete rt mgr) (awsConfigEnv e) (awsReconciler (mgrGetClient rt mgr))) (\<lambda>_.
     bindA (RoutingSetupWithManager (builderComplete rt mgr) (aeLib e) (mgrGetClient rt mgr)) (\<lambda>_.
     bindA (addWatcher rt mgr (svMetricsWatcher sv)) (\<lambda>_.
     bindA (addWatcher rt mgr (svWebhookWatcher sv)) (\<lambda>_.
     bindA (mgrAddHealthzCheck rt mgr ''healthz'') (\<lambda>_.
     bindA (mgrAddReadyzCheck rt mgr ''readyz'') (\<lambda>_.
     mgrStart rt mgr))))))"

definition main_run ::
    "('w, 'sc, 'cw, 'rc, 'ws, 'm) ctrlRuntime \<Rightarrow> growth \<Rightarrow> ('w, 'c) awsEnv \<Rightarrow> 'sc \<Rightarrow> managerFlags \<Rightarrow> ('w, unit) act" where
  "main_run rt grow e scheme fl =
     bindA (prepareServers rt grow fl) (\<lambda>sv.
     bindA (GetConfigOrDie rt) (\<lambda>rc.
     bindA (NewManager rt rc (svArrays sv) (managerOptions_of scheme fl sv)) (\<lambda>mgr.
     startManager rt e sv mgr)))"

text \<open>The process with its exit code. A panic in \<open>init\<close> ends a Go process with code 2.\<close>

definition main ::
    "('w, 'sc, 'cw, 'rc, 'ws, 'm) ctrlRuntime \<Rightarrow> growth \<Rightarrow> ('w, 'c) awsEnv \<Rightarrow> externalFlags \<Rightarrow> string list \<Rightarrow>
     'w \<Rightarrow> nat \<times> 'w" where
  "main rt grow e ext args w =
     (case initScheme rt of
        Inl _ \<Rightarrow> (2, w)
      | Inr scheme \<Rightarrow>
          (case parseFlags mainFlags ext args defaultFlags of
             Inl code \<Rightarrow> (code, w)
           | Inr fl \<Rightarrow> (case main_run rt grow e scheme fl w of (Inl _, w') \<Rightarrow> (1, w') | (Inr _, w') \<Rightarrow> (0, w'))))"

section \<open>The command line\<close>

text \<open>The command line that sets every flag of the program explicitly.\<close>

definition assignArg :: "string \<Rightarrow> string \<Rightarrow> string" where
  "assignArg name v = CHR ''-'' # CHR ''-'' # name @ CHR ''='' # v"

definition boolString :: "bool \<Rightarrow> string" where
  "boolString b = (if b then ''true'' else ''false'')"

definition renderFlags :: "managerFlags \<Rightarrow> string list" where
  "renderFlags fl =
     [assignArg ''metrics-bind-address'' (metricsAddr fl),
      assignArg ''health-probe-bind-address'' (probeAddr fl),
      assignArg ''leader-elect'' (boolString (enableLeaderElection fl)),
      assignArg ''metrics-secure'' (boolString (secureMetrics fl)),
      assignArg ''webhook-cert-path'' (webhookCertPath fl),
      assignArg ''webhook-cert-name'' (webhookCertName fl),
      assignArg ''webhook-cert-key'' (webhookCertKey fl),
      assignArg ''metrics-cert-path'' (metricsCertPath fl),
      assignArg ''metrics-cert-name'' (metricsCertName fl),
      assignArg ''metrics-cert-key'' (metricsCertKey fl),
      assignArg ''enable-http2'' (boolString (enableHTTP2 fl))]"

lemma ParseBool_boolString [simp]: "ParseBool (boolString b) = Some b"
  by (simp add: ParseBool_def boolString_def)

lemma parse_string_flag:
  assumes "map_of fs name = Some (StringVar f)" and "name \<noteq> []" and "CHR ''='' \<notin> set name" and "hd name \<noteq> CHR ''-''"
  shows "parseFlags fs ext (assignArg name v # args) fl = parseFlags fs ext args (f v fl)"
  unfolding assignArg_def
  by (rule parse_assignment) (use assms in \<open>simp_all add: setFlag_def isBoolFlag_def\<close>)

lemma parse_bool_flag:
  assumes "map_of fs name = Some (BoolVar f)" and "name \<noteq> []" and "CHR ''='' \<notin> set name" and "hd name \<noteq> CHR ''-''"
    and "ParseBool v = Some b"
  shows "parseFlags fs ext (assignArg name v # args) fl = parseFlags fs ext args (f b fl)"
  unfolding assignArg_def
  by (rule parse_assignment) (use assms in \<open>simp_all add: setFlag_def isBoolFlag_def\<close>)

lemma main_flag_vars:
  "map_of mainFlags ''metrics-bind-address'' = Some (StringVar (\<lambda>v fl. fl\<lparr>metricsAddr := v\<rparr>))"
  "map_of mainFlags ''health-probe-bind-address'' = Some (StringVar (\<lambda>v fl. fl\<lparr>probeAddr := v\<rparr>))"
  "map_of mainFlags ''leader-elect'' = Some (BoolVar (\<lambda>v fl. fl\<lparr>enableLeaderElection := v\<rparr>))"
  "map_of mainFlags ''metrics-secure'' = Some (BoolVar (\<lambda>v fl. fl\<lparr>secureMetrics := v\<rparr>))"
  "map_of mainFlags ''webhook-cert-path'' = Some (StringVar (\<lambda>v fl. fl\<lparr>webhookCertPath := v\<rparr>))"
  "map_of mainFlags ''webhook-cert-name'' = Some (StringVar (\<lambda>v fl. fl\<lparr>webhookCertName := v\<rparr>))"
  "map_of mainFlags ''webhook-cert-key'' = Some (StringVar (\<lambda>v fl. fl\<lparr>webhookCertKey := v\<rparr>))"
  "map_of mainFlags ''metrics-cert-path'' = Some (StringVar (\<lambda>v fl. fl\<lparr>metricsCertPath := v\<rparr>))"
  "map_of mainFlags ''metrics-cert-name'' = Some (StringVar (\<lambda>v fl. fl\<lparr>metricsCertName := v\<rparr>))"
  "map_of mainFlags ''metrics-cert-key'' = Some (StringVar (\<lambda>v fl. fl\<lparr>metricsCertKey := v\<rparr>))"
  "map_of mainFlags ''enable-http2'' = Some (BoolVar (\<lambda>v fl. fl\<lparr>enableHTTP2 := v\<rparr>))"
  by (simp_all add: mainFlags_def)

text \<open>
  C38. Any setting of the flags can be given on the command line: for every value of the program's
  variables the explicit assignments are parsed back to exactly this value, whatever the variables
  were before.
\<close>

theorem parse_render_flags: "parseFlags mainFlags ext (renderFlags fl) fl0 = Inr fl"
  by (simp add: renderFlags_def main_flag_vars parse_string_flag parse_bool_flag del: parseFlags.simps(2))

lemma http2_only_by_flag:
  assumes "setFlag mainFlags ext name v fl = Some fl'" and "enableHTTP2 fl' \<noteq> enableHTTP2 fl"
  shows "name = ''enable-http2''"
  using assms by (auto simp: setFlag_def mainFlags_def split: if_splits option.splits)

lemma secure_only_by_flag:
  assumes "setFlag mainFlags ext name v fl = Some fl'" and "secureMetrics fl' \<noteq> secureMetrics fl"
  shows "name = ''metrics-secure''"
  using assms by (auto simp: setFlag_def mainFlags_def split: if_splits option.splits)


section \<open>The TLS options of the servers\<close>

definition http2Options :: "managerFlags \<Rightarrow> 'cw tlsOption list" where
  "http2Options fl = (if enableHTTP2 fl then [] else [DisableHTTP2])"

definition certOptions :: "'cw option \<Rightarrow> 'cw tlsOption list" where
  "certOptions cw = (case cw of None \<Rightarrow> [] | Some c \<Rightarrow> [GetCertificateOf c])"

text \<open>
  Both servers extend the same slice \<open>tlsOpts\<close>. When its array has room, the second extension
  overwrites the first.
\<close>

definition sharesArray :: "growth \<Rightarrow> managerFlags \<Rightarrow> ('cw, 'ws) servers \<Rightarrow> bool" where
  "sharesArray grow fl sv \<longleftrightarrow>
     \<not> enableHTTP2 fl \<and> 1 < grow 0 1 \<and> svWebhookWatcher sv \<noteq> None \<and> svMetricsWatcher sv \<noteq> None"

lemma initialTLSOpts_elems:
  assumes "growth_laws grow" and "initialTLSOpts grow fl = (s, h)"
  shows "slice_wf h s" and "elems h s = map Some (http2Options fl)"
    and "slLen s < slCap s \<longleftrightarrow> \<not> enableHTTP2 fl \<and> 1 < grow 0 1"
proof -
  show "slice_wf h s"
    using assms append_wf [OF assms(1), of _ nilSlice] by (auto simp: initialTLSOpts_def split: if_splits)
  show "elems h s = map Some (http2Options fl)"
    using assms(2) append_elems [of _ nilSlice] by (force simp: initialTLSOpts_def http2Options_def split: if_splits)
  show "slLen s < slCap s \<longleftrightarrow> \<not> enableHTTP2 fl \<and> 1 < grow 0 1"
    using assms(2) by (auto simp: initialTLSOpts_def append_def nilSlice_def Let_def split: if_splits)
qed

lemma appendCertificate_elems:
  assumes "growth_laws grow" and "slice_wf h s" and "appendCertificate grow s cw h = (s', h')"
  shows "slice_wf h' s'" and "elems h' s' = elems h s @ map Some (certOptions cw)"
    and "elems h' s = elems h s" and "slice_wf h' s"
  using assms append_wf [OF assms(1,2)] append_elems [OF assms(2)] append_frame [OF assms(2)]
  by (cases cw; fastforce simp: appendCertificate_def certOptions_def)+

lemma second_append:
  assumes "growth_laws grow" and "slice_wf h s"
    and "appendCertificate grow s cw h = (s1, h1)" and "appendCertificate grow s cw' h1 = (s2, h2)"
  shows "elems h2 s1 = elems h s @ map Some (certOptions
    (if slLen s < slCap s \<and> cw \<noteq> None \<and> cw' \<noteq> None then cw' else cw))"
proof (cases "slLen s < slCap s \<and> cw \<noteq> None \<and> cw' \<noteq> None")
  case True
  then have "s1 = s2"
    using assms(3,4) append_twice_shares [of s grow] by (auto simp: appendCertificate_def)
  then show ?thesis
    using True appendCertificate_elems [OF assms(1,2,3)] appendCertificate_elems(2) [OF assms(1) _ assms(4)] by simp
next
  case False
  have wf: "slice_wf h1 s1" "slice_wf h1 s" using appendCertificate_elems [OF assms(1,2,3)] by blast+
  have "elems h2 s1 = elems h1 s1"
  proof (cases cw')
    case None
    with assms(4) show ?thesis by (simp add: appendCertificate_def)
  next
    case (Some c)
    then have a: "append grow s (GetCertificateOf c) h1 = (s2, h2)" using assms(4) by (simp add: appendCertificate_def)
    have "slLen s1 \<le> slLen s \<or> slCap s \<le> slLen s"
      using False Some assms(3) by (auto simp: appendCertificate_def)
    then show ?thesis using append_frame(1) [OF wf(1) a] by blast
  qed
  then show ?thesis using appendCertificate_elems(2) [OF assms(1-3)] False by auto
qed

lemma case_prod_run: "(case x of (a, b) \<Rightarrow> m a b) w = z \<longleftrightarrow> (\<exists>a b. x = (a, b) \<and> m a b w = z)"
  by (cases x) simp

lemma prepareServers_elems:
  fixes sv :: "('cw, 'ws) servers"
  assumes "growth_laws grow" and "prepareServers rt grow fl w = (Inr sv, w')"
  obtains ws where "svWebhookServer sv = webhookNewServer rt \<lparr>woTLSOpts = ws\<rparr>"
    and "elems (svArrays sv) (moTLSOpts (svMetrics sv)) = map Some (http2Options fl @ certOptions (svMetricsWatcher sv))"
    and "elems (svArrays sv) ws = map Some (http2Options fl @ certOptions
      (if sharesArray grow fl sv then svMetricsWatcher sv else svWebhookWatcher sv))"
proof -
  obtain s and h :: "'cw tlsOption arrays" where i: "initialTLSOpts grow fl = (s, h)" by force
  from assms(2) obtain cw cw' s1 h1 s2 h2 where
      a: "appendCertificate grow s cw h = (s1, h1)" "appendCertificate grow s cw' h1 = (s2, h2)"
    and sv: "sv = \<lparr>svMetrics = (metricsServerOptions fl s)\<lparr>moTLSOpts := s2\<rparr>,
      svWebhookServer = webhookNewServer rt \<lparr>woTLSOpts = s1\<rparr>, svArrays = h2,
      svMetricsWatcher = cw', svWebhookWatcher = cw\<rparr>"
    by (auto simp: prepareServers_def i act_iffs Let_def case_prod_run metricsServerOptions_def)
  note init = initialTLSOpts_elems [OF assms(1) i]
  show ?thesis
  proof (rule that)
    show "svWebhookServer sv = webhookNewServer rt \<lparr>woTLSOpts = s1\<rparr>" by (simp add: sv)
    show "elems (svArrays sv) (moTLSOpts (svMetrics sv)) = map Some (http2Options fl @ certOptions (svMetricsWatcher sv))"
      using appendCertificate_elems [OF assms(1) init(1) a(1)] appendCertificate_elems(2) [OF assms(1) _ a(2)] init(2)
      by (simp add: sv)
    show "elems (svArrays sv) s1 = map Some (http2Options fl @ certOptions
        (if sharesArray grow fl sv then svMetricsWatcher sv else svWebhookWatcher sv))"
      using second_append [OF assms(1) init(1) a] init by (auto simp: sv sharesArray_def)
  qed
qed

lemma serverTLS_options:
  "serverTLS (map Some (http2Options fl @ certOptions cw)) base =
     Some \<lparr>NextProtos = (if enableHTTP2 fl then NextProtos base else [''http/1.1'']),
           GetCertificate = (case cw of None \<Rightarrow> GetCertificate base | Some c \<Rightarrow> Some c)\<rparr>"
  by (cases base) (simp add: http2Options_def certOptions_def split: option.split)


text \<open>
  C36. What the two servers do with their options. Unless HTTP/2 is enabled both only speak HTTP/1.1,
  whatever else is configured. The metrics server presents the certificate of its watcher. The webhook
  server presents its own certificate provided that appending one element to a nil slice allocates an
  array for just that element, as the Go compiler's runtime does, or that not both certificates are
  given, or that HTTP/2 is enabled. No option is nil, so that no server panics on it.
\<close>

theorem servers_tls:
  assumes "growth_laws grow" and "prepareServers rt grow fl w = (Inr sv, w')"
  shows "\<exists>ws mc wc. svWebhookServer sv = webhookNewServer rt \<lparr>woTLSOpts = ws\<rparr> \<and>
    serverTLS (elems (svArrays sv) (moTLSOpts (svMetrics sv))) base = Some mc \<and>
    serverTLS (elems (svArrays sv) ws) base = Some wc \<and>
    NextProtos mc = (if enableHTTP2 fl then NextProtos base else [''http/1.1'']) \<and>
    NextProtos wc = (if enableHTTP2 fl then NextProtos base else [''http/1.1'']) \<and>
    GetCertificate mc = (case svMetricsWatcher sv of None \<Rightarrow> GetCertificate base | Some c \<Rightarrow> Some c) \<and>
    (grow 0 1 = 1 \<or> enableHTTP2 fl \<or> svMetricsWatcher sv = None \<or> svWebhookWatcher sv = None \<longrightarrow>
      GetCertificate wc = (case svWebhookWatcher sv of None \<Rightarrow> GetCertificate base | Some c \<Rightarrow> Some c))"
  using assms
proof (rule prepareServers_elems)
  fix ws
  assume ws: "svWebhookServer sv = webhookNewServer rt \<lparr>woTLSOpts = ws\<rparr>"
    "elems (svArrays sv) (moTLSOpts (svMetrics sv)) = map Some (http2Options fl @ certOptions (svMetricsWatcher sv))"
    "elems (svArrays sv) ws = map Some (http2Options fl @ certOptions
      (if sharesArray grow fl sv then svMetricsWatcher sv else svWebhookWatcher sv))"
  then show ?thesis
    by (intro exI [of _ ws] exI conjI ws(1)) (auto simp only: serverTLS_options option.inject refl, auto simp: sharesArray_def)
qed

text \<open>
  C37. The language does not promise what the previous property assumes. With an implementation of
  \<open>append\<close> that leaves room in the first array, and both certificates given, the webhook server
  presents the certificate of the metrics server, because both extensions of \<open>tlsOpts\<close> write the same
  cell.
\<close>

theorem webhook_certificate_overwritten:
  assumes "growth_laws grow" and "1 < grow 0 1" and "\<not> enableHTTP2 fl"
    and "prepareServers rt grow fl w = (Inr sv, w')" and "svWebhookWatcher sv = Some cw" and "svMetricsWatcher sv = Some cm"
  shows "\<exists>ws wc. svWebhookServer sv = webhookNewServer rt \<lparr>woTLSOpts = ws\<rparr> \<and>
    serverTLS (elems (svArrays sv) ws) base = Some wc \<and> GetCertificate wc = Some cm"
  using assms(1,4)
proof (rule prepareServers_elems)
  fix ws
  assume ws: "svWebhookServer sv = webhookNewServer rt \<lparr>woTLSOpts = ws\<rparr>"
    "elems (svArrays sv) ws = map Some (http2Options fl @ certOptions
      (if sharesArray grow fl sv then svMetricsWatcher sv else svWebhookWatcher sv))"
  then have "elems (svArrays sv) ws = map Some (http2Options fl @ certOptions (Some cm))"
    using assms(2,3,5,6) by (simp add: sharesArray_def)
  then have "serverTLS (elems (svArrays sv) ws) base =
      Some \<lparr>NextProtos = (if enableHTTP2 fl then NextProtos base else [''http/1.1'']), GetCertificate = Some cm\<rparr>"
    by (simp only: serverTLS_options option.case)
  with ws(1) show ?thesis by auto
qed


section \<open>The order of the start\<close>

text \<open>
  What the process asks of the runtime, in the order of the calls, and whether each call succeeded.
  \<open>runtime_traced\<close> says that \<open>obs\<close> records this.
\<close>

datatype ('sc, 'cw, 'ws) runtimeCall =
    CallCertWatcher string string
  | CallGetConfig
  | CallNewManager "'cw tlsOption arrays" "('sc, 'ws) managerOptions"
  | CallController string
  | CallAdd 'cw
  | CallHealthzCheck string
  | CallReadyzCheck string
  | CallStart

definition succeeded :: "go_error + 'a \<Rightarrow> bool" where
  "succeeded r = (case r of Inl _ \<Rightarrow> False | Inr _ \<Rightarrow> True)"

definition traces :: "('w \<Rightarrow> ('c \<times> bool) list) \<Rightarrow> ('w, 'a) act \<Rightarrow> 'c \<Rightarrow> bool" where
  "traces obs m c \<longleftrightarrow> (\<forall>w. obs (snd (m w)) = obs w @ [(c, succeeded (fst (m w)))])"

definition runtime_traced ::
    "('w, 'sc, 'cw, 'rc, 'ws, 'm) ctrlRuntime \<Rightarrow> ('w \<Rightarrow> (('sc, 'cw, 'ws) runtimeCall \<times> bool) list) \<Rightarrow> bool" where
  "runtime_traced rt obs \<longleftrightarrow>
     (\<forall>a b. traces obs (certwatcherNew rt a b) (CallCertWatcher a b)) \<and>
     traces obs (GetConfigOrDie rt) CallGetConfig \<and>
     (\<forall>rc h o1. traces obs (NewManager rt rc h o1) (CallNewManager h o1)) \<and>
     (\<forall>mgr b. traces obs (builderComplete rt mgr b) (CallController (cbNamed b))) \<and>
     (\<forall>mgr cw. traces obs (mgrAdd rt mgr cw) (CallAdd cw)) \<and>
     (\<forall>mgr n. traces obs (mgrAddHealthzCheck rt mgr n) (CallHealthzCheck n)) \<and>
     (\<forall>mgr n. traces obs (mgrAddReadyzCheck rt mgr n) (CallReadyzCheck n)) \<and>
     (\<forall>mgr. traces obs (mgrStart rt mgr) CallStart)"

definition certCalls :: "managerFlags \<Rightarrow> ('sc, 'cw, 'ws) runtimeCall list" where
  "certCalls fl =
     (if webhookCertPath fl = '''' then []
      else [CallCertWatcher (pathJoin (webhookCertPath fl) (webhookCertName fl)) (pathJoin (webhookCertPath fl) (webhookCertKey fl))]) @
     (if metricsCertPath fl = '''' then []
      else [CallCertWatcher (pathJoin (metricsCertPath fl) (metricsCertName fl)) (pathJoin (metricsCertPath fl) (metricsCertKey fl))])"

definition addCalls :: "'cw option \<Rightarrow> ('sc, 'cw, 'ws) runtimeCall list" where
  "addCalls cw = (case cw of None \<Rightarrow> [] | Some c \<Rightarrow> [CallAdd c])"

text \<open>The complete start for servers that were prepared as \<open>sv\<close>, up to the last call.\<close>

definition registrationCalls :: "'sc \<Rightarrow> managerFlags \<Rightarrow> ('cw, 'ws) servers \<Rightarrow> ('sc, 'cw, 'ws) runtimeCall list" where
  "registrationCalls scheme fl sv =
     [CallGetConfig, CallNewManager (svArrays sv) (managerOptions_of scheme fl sv)] @
     [CallController ''cudnbgpconfig'', CallController ''cudnbgprouting''] @
     addCalls (svMetricsWatcher sv) @ addCalls (svWebhookWatcher sv) @
     [CallHealthzCheck ''healthz'', CallReadyzCheck ''readyz'']"

definition startupCalls :: "'sc \<Rightarrow> managerFlags \<Rightarrow> ('cw, 'ws) servers \<Rightarrow> ('sc, 'cw, 'ws) runtimeCall list" where
  "startupCalls scheme fl sv = certCalls fl @ registrationCalls scheme fl sv @ [CallStart]"

text \<open>All the calls succeed; or the last one made fails and those before it succeeded.\<close>

definition all_ok :: "'c list \<Rightarrow> ('c \<times> bool) list" where
  "all_ok cs = map (\<lambda>c. (c, True)) cs"

definition stops_in :: "('c \<times> bool) list \<Rightarrow> 'c list \<Rightarrow> bool" where
  "stops_in ds cs \<longleftrightarrow> (\<exists>es c. prefix (es @ [c]) cs \<and> ds = all_ok es @ [(c, False)])"

lemma all_ok_simps [simp]:
  "all_ok [] = []" "all_ok (c # cs) = (c, True) # all_ok cs" "all_ok (cs @ ds) = all_ok cs @ all_ok ds"
  by (simp_all add: all_ok_def)

lemma set_all_ok [simp]: "x \<in> set (all_ok cs) \<longleftrightarrow> fst x \<in> set cs \<and> snd x"
  by (cases x) (auto simp: all_ok_def)

lemma stops_in_single [simp]: "stops_in ds [c] \<longleftrightarrow> ds = [(c, False)]"
  by (auto simp: stops_in_def prefix_Cons)

lemma stops_in_append1: "stops_in ds cs \<Longrightarrow> stops_in ds (cs @ cs')"
  unfolding stops_in_def using prefix_prefix by blast

lemma stops_in_append2: "stops_in ds cs' \<Longrightarrow> stops_in (all_ok cs @ ds) (cs @ cs')"
  unfolding stops_in_def
proof (elim exE conjE)
  fix es c
  assume "prefix (es @ [c]) cs'" and "ds = all_ok es @ [(c, False)]"
  then show "\<exists>es c. prefix (es @ [c]) (cs @ cs') \<and> all_ok cs @ ds = all_ok es @ [(c, False)]"
    by (intro exI [of _ "cs @ es"] exI [of _ c]) simp
qed

lemma stops_in_calls: "stops_in ds cs \<Longrightarrow> x \<in> set ds \<Longrightarrow> fst x \<in> set cs"
  by (auto simp: stops_in_def dest!: set_mono_prefix)

text \<open>An action that makes the given calls, up to the first one that fails; then it fails.\<close>

definition runs :: "('w \<Rightarrow> ('c \<times> bool) list) \<Rightarrow> ('w, 'a) act \<Rightarrow> 'c list \<Rightarrow> bool" where
  "runs obs m cs \<longleftrightarrow>
     (\<forall>w. wp m (\<lambda>_ w'. obs w' = obs w @ all_ok cs) (\<lambda>_ w'. \<exists>ds. stops_in ds cs \<and> obs w' = obs w @ ds) w)"

lemma runs_traces:
  assumes "traces obs m c"
  shows "runs obs m [c]"
  unfolding runs_def
proof (intro allI wpI)
  fix w a w'
  assume "m w = (Inr a, w')"
  then show "obs w' = obs w @ all_ok [c]" using assms by (auto simp: traces_def succeeded_def dest: spec [of _ w])
next
  fix w e w'
  assume "m w = (Inl e, w')"
  then show "\<exists>ds. stops_in ds [c] \<and> obs w' = obs w @ ds" using assms by (auto simp: traces_def succeeded_def dest: spec [of _ w])
qed

lemma runs_return [simp]: "runs obs (returnA a) []"
  by (simp add: runs_def wp_simps)

lemma runs_bind:
  assumes "runs obs m cs" and "\<And>a. runs obs (f a) ds"
  shows "runs obs (bindA m f) (cs @ ds)"
  unfolding runs_def wp_bind
proof
  fix w
  let ?Q = "\<lambda>_ w'. obs w' = obs w @ all_ok (cs @ ds)"
  let ?E = "\<lambda>_ w'. \<exists>es. stops_in es (cs @ ds) \<and> obs w' = obs w @ es"
  show "wp m (\<lambda>a. wp (f a) ?Q ?E) ?E w"
  proof (rule wp_mono [OF assms(1) [unfolded runs_def, rule_format]])
    fix a w1
    assume w1: "obs w1 = obs w @ all_ok cs"
    show "wp (f a) ?Q ?E w1"
      by (rule wp_mono [OF assms(2) [unfolded runs_def, rule_format]]) (use w1 stops_in_append2 in fastforce)+
  qed (auto intro: stops_in_append1)
qed

lemma runs_bind_Cons: "runs obs m [c] \<Longrightarrow> (\<And>a. runs obs (f a) ds) \<Longrightarrow> runs obs (bindA m f) (c # ds)"
  using runs_bind [of obs m "[c]" f ds] by simp

lemma runs_certWatcher:
  assumes "runtime_traced rt obs"
  shows "runs obs (certWatcher rt path name key)
    (if path = '''' then [] else [CallCertWatcher (pathJoin path name) (pathJoin path key)])"
  using runs_bind_Cons [OF runs_traces, of obs "certwatcherNew rt (pathJoin path name) (pathJoin path key)"
    _ "\<lambda>cw. returnA (Some cw)" "[]"] assms
  by (auto simp: certWatcher_def runtime_traced_def)

lemma runs_certWatcher_last:
  assumes "runtime_traced rt obs"
  shows "runs obs (bindA (certWatcher rt path name key) (\<lambda>cw. returnA (g cw)))
    (if path = '''' then [] else [CallCertWatcher (pathJoin path name) (pathJoin path key)])"
  using runs_bind [OF runs_certWatcher [OF assms], of "\<lambda>cw. returnA (g cw)" "[]"] by simp

lemma runs_prepareServers:
  assumes "runtime_traced rt obs"
  shows "runs obs (prepareServers rt grow fl) (certCalls fl)"
  unfolding prepareServers_def certCalls_def Let_def case_prod_unfold
  by (intro runs_bind runs_certWatcher runs_certWatcher_last assms)

lemma runs_addWatcher: "runtime_traced rt obs \<Longrightarrow> runs obs (addWatcher rt mgr cw) (addCalls cw)"
  by (simp add: addWatcher_def addCalls_def runtime_traced_def runs_traces split: option.split)

lemma runs_setup:
  assumes "runtime_traced rt obs"
  shows "runs obs (ConfigSetupWithManager (builderComplete rt mgr) env r) [CallController ''cudnbgpconfig'']"
    and "runs obs (RoutingSetupWithManager (builderComplete rt mgr) lib c) [CallController ''cudnbgprouting'']"
proof -
  have "traces obs (builderComplete rt mgr b) (CallController (cbNamed b))" for b
    using assms by (simp add: runtime_traced_def)
  from runs_traces [OF this [of "configController env r"]] runs_traces [OF this [of "routingController lib c"]]
  show "runs obs (ConfigSetupWithManager (builderComplete rt mgr) env r) [CallController ''cudnbgpconfig'']"
    and "runs obs (RoutingSetupWithManager (builderComplete rt mgr) lib c) [CallController ''cudnbgprouting'']"
    by (simp_all add: ConfigSetupWithManager_def RoutingSetupWithManager_def configController_def routingController_def)
qed

lemma runs_calls:
  assumes "runtime_traced rt obs"
  shows "runs obs (mgrAddHealthzCheck rt mgr n) [CallHealthzCheck n]" and "runs obs (mgrAddReadyzCheck rt mgr n) [CallReadyzCheck n]"
    and "runs obs (mgrStart rt mgr) [CallStart]" and "runs obs (GetConfigOrDie rt) [CallGetConfig]"
    and "runs obs (NewManager rt rc h o1) [CallNewManager h o1]"
  using assms by (simp_all add: runtime_traced_def runs_traces)

lemma runs_startManager:
  assumes "runtime_traced rt obs"
  shows "runs obs (startManager rt e sv mgr)
    ([CallController ''cudnbgpconfig''] @ [CallController ''cudnbgprouting''] @
     addCalls (svMetricsWatcher sv) @ addCalls (svWebhookWatcher sv) @
     [CallHealthzCheck ''healthz''] @ [CallReadyzCheck ''readyz''] @ [CallStart])"
  unfolding startManager_def
  by (intro runs_bind runs_addWatcher runs_setup runs_calls assms)

lemma runs_registration:
  assumes "runtime_traced rt obs"
  shows "runs obs (bindA (GetConfigOrDie rt) (\<lambda>rc.
      bindA (NewManager rt rc (svArrays sv) (managerOptions_of scheme fl sv)) (\<lambda>mgr. startManager rt e sv mgr)))
    (registrationCalls scheme fl sv @ [CallStart])"
proof -
  have "registrationCalls scheme fl sv @ [CallStart] =
      [CallGetConfig] @ [CallNewManager (svArrays sv) (managerOptions_of scheme fl sv)] @
      [CallController ''cudnbgpconfig''] @ [CallController ''cudnbgprouting''] @
      addCalls (svMetricsWatcher sv) @ addCalls (svWebhookWatcher sv) @
      [CallHealthzCheck ''healthz''] @ [CallReadyzCheck ''readyz''] @ [CallStart]"
    by (simp add: registrationCalls_def)
  then show ?thesis
    by (simp only:) (intro runs_bind runs_calls runs_startManager assms)
qed

text \<open>
  The calls of a run of \<open>main_run\<close>: it fails while the certificates are read, or the servers were
  prepared and the calls are the first ones of the complete start.
\<close>

lemma main_run_calls:
  assumes "runtime_traced rt obs" and "main_run rt grow e scheme fl w = (r, w')"
  shows "\<exists>cs. obs w' = obs w @ cs \<and>
    (stops_in cs (certCalls fl) \<and> r \<noteq> Inr () \<or>
     (\<exists>sv w1. prepareServers rt grow fl w = (Inr sv, w1) \<and>
       (if r = Inr () then cs = all_ok (startupCalls scheme fl sv) else stops_in cs (startupCalls scheme fl sv))))"
proof (cases "prepareServers rt grow fl w")
  case (Pair x w1)
  note prep = runs_prepareServers [OF assms(1), of grow fl, unfolded runs_def, rule_format, of w]
  show ?thesis
  proof (cases x)
    case (Inl err)
    then show ?thesis
      using wp_InlD [OF prep] Pair assms(2) by (auto simp: main_run_def bindA_def)
  next
    case (Inr sv)
    then have w1: "obs w1 = obs w @ all_ok (certCalls fl)" using wp_InrD [OF prep] Pair by simp
    have rest: "bindA (GetConfigOrDie rt) (\<lambda>rc.
        bindA (NewManager rt rc (svArrays sv) (managerOptions_of scheme fl sv)) (\<lambda>mgr. startManager rt e sv mgr)) w1 = (r, w')"
      using assms(2) Pair Inr by (simp add: main_run_def bindA_def)
    from runs_registration [OF assms(1), of sv scheme fl e, unfolded runs_def, rule_format, of w1] rest
    show ?thesis
    proof (rule wp_runE)
      fix a
      assume "r = Inr a" and "obs w' = obs w1 @ all_ok (registrationCalls scheme fl sv @ [CallStart])"
      then show ?thesis using w1 Pair Inr by (auto simp: startupCalls_def)
    next
      fix err
      assume r: "r = Inl err" and "\<exists>ds. stops_in ds (registrationCalls scheme fl sv @ [CallStart]) \<and> obs w' = obs w1 @ ds"
      then obtain ds where ds: "stops_in ds (registrationCalls scheme fl sv @ [CallStart])" "obs w' = obs w @ all_ok (certCalls fl) @ ds"
        using w1 by auto
      have "stops_in (all_ok (certCalls fl) @ ds) (startupCalls scheme fl sv)"
        using stops_in_append2 [OF ds(1)] by (simp add: startupCalls_def)
      then show ?thesis
        using r ds(2) Pair Inr by (intro exI [of _ "all_ok (certCalls fl) @ ds"]) auto
    qed
  qed
qed

lemma CallStart_last:
  "CallStart \<notin> set (certCalls fl)" "CallStart \<notin> set (registrationCalls scheme fl sv)"
  by (auto simp: certCalls_def registrationCalls_def addCalls_def split: option.splits)

text \<open>When the start itself was called, everything before it had succeeded.\<close>

lemma stops_at_start:
  assumes "stops_in cs (startupCalls scheme fl sv)" and "(CallStart, ok) \<in> set cs"
  shows "cs = all_ok (certCalls fl @ registrationCalls scheme fl sv) @ [(CallStart, ok)]"
proof -
  let ?before = "certCalls fl @ registrationCalls scheme fl sv"
  obtain es c where es: "prefix (es @ [c]) (?before @ [CallStart])" and cs: "cs = all_ok es @ [(c, False)]"
    using assms(1) by (auto simp: stops_in_def startupCalls_def)
  have "CallStart \<in> set (es @ [c])" using assms(2) cs by auto
  moreover have "CallStart \<notin> set ?before" by (simp add: CallStart_last)
  ultimately have "es @ [c] = ?before @ [CallStart]"
    using es set_mono_prefix unfolding prefix_snoc by blast
  then have "es = ?before" "c = CallStart" by simp_all
  moreover have "\<not> ok" using assms(2) cs calculation by (simp add: CallStart_last)
  ultimately show ?thesis by (simp add: cs)
qed

text \<open>
  C35. The manager starts only when everything is in place, and a failing call ends the process. A run
  of the process with a valid command line ends with code 0 or 1. With code 0 it has read the
  certificates, created the manager with the prepared options, set up both controllers, added the
  certificate watchers that exist, registered both checks and started the manager, in this order, each
  once, and every one of these calls succeeded. With code 1 exactly the last call it made failed: the
  calls are the beginning of that sequence and all but the last succeeded. Whenever the start of the
  manager was called, all the calls before it had been made and had succeeded.
\<close>

theorem main_startup:
  assumes "runtime_traced rt obs" and "initScheme rt = Inr scheme"
    and "parseFlags mainFlags ext args defaultFlags = Inr fl" and "main rt grow e ext args w = (code, w')"
  shows "\<exists>cs. obs w' = obs w @ cs \<and>
    (code = 0 \<and> (\<exists>sv w1. prepareServers rt grow fl w = (Inr sv, w1) \<and> cs = all_ok (startupCalls scheme fl sv)) \<or>
     code = 1 \<and> (stops_in cs (certCalls fl) \<or>
       (\<exists>sv w1. prepareServers rt grow fl w = (Inr sv, w1) \<and> stops_in cs (startupCalls scheme fl sv)))) \<and>
    (\<forall>ok. (CallStart, ok) \<in> set cs \<longrightarrow>
      (\<exists>sv w1. prepareServers rt grow fl w = (Inr sv, w1) \<and>
        cs = all_ok (certCalls fl @ registrationCalls scheme fl sv) @ [(CallStart, ok)]))"
proof -
  obtain r where r: "main_run rt grow e scheme fl w = (r, w')" and code: "code = (case r of Inl _ \<Rightarrow> 1 | Inr _ \<Rightarrow> 0)"
    using assms(2-4) by (auto simp: main_def split: prod.splits sum.splits)
  obtain cs where cs: "obs w' = obs w @ cs" and
    cases: "stops_in cs (certCalls fl) \<and> r \<noteq> Inr () \<or>
     (\<exists>sv w1. prepareServers rt grow fl w = (Inr sv, w1) \<and>
       (if r = Inr () then cs = all_ok (startupCalls scheme fl sv) else stops_in cs (startupCalls scheme fl sv)))"
    using main_run_calls [OF assms(1) r] by blast
  have outcome: "code = 0 \<and> (\<exists>sv w1. prepareServers rt grow fl w = (Inr sv, w1) \<and> cs = all_ok (startupCalls scheme fl sv)) \<or>
     code = 1 \<and> (stops_in cs (certCalls fl) \<or>
       (\<exists>sv w1. prepareServers rt grow fl w = (Inr sv, w1) \<and> stops_in cs (startupCalls scheme fl sv)))"
    using cases code by (cases r) auto
  have early: "\<not> stops_in cs (certCalls fl)" if "(CallStart, ok) \<in> set cs" for ok
    using that stops_in_calls CallStart_last(1) [of fl] by fastforce
  have full: "cs = all_ok (certCalls fl @ registrationCalls scheme fl sv) @ [(CallStart, ok)]"
    if "cs = all_ok (startupCalls scheme fl sv)" "(CallStart, ok) \<in> set cs" for sv ok
    using that by (auto simp: startupCalls_def)
  have "\<exists>sv w1. prepareServers rt grow fl w = (Inr sv, w1) \<and>
      cs = all_ok (certCalls fl @ registrationCalls scheme fl sv) @ [(CallStart, ok)]" if "(CallStart, ok) \<in> set cs" for ok
    using cases early [OF that] full [OF _ that] stops_at_start [OF _ that] by (metis (full_types))
  with cs outcome show ?thesis by blast
qed

lemma prepareServers_metrics:
  assumes "prepareServers rt grow fl w = (Inr sv, w')"
  shows "moSecureServing (svMetrics sv) = secureMetrics fl"
    and "moFilterProvider (svMetrics sv) = (if secureMetrics fl then Some WithAuthenticationAndAuthorization else None)"
  using assms by (auto simp: prepareServers_def act_iffs Let_def case_prod_run metricsServerOptions_def)

lemma newManager_calls:
  "CallNewManager h o1 \<notin> set (certCalls fl)"
  "CallNewManager h o1 \<in> set (startupCalls scheme fl sv) \<longleftrightarrow> h = svArrays sv \<and> o1 = managerOptions_of scheme fl sv"
  by (auto simp: certCalls_def startupCalls_def registrationCalls_def addCalls_def split: option.splits)

lemma serverTLS_http1:
  assumes "\<not> enableHTTP2 fl"
  shows "\<exists>c. serverTLS (map Some (http2Options fl @ certOptions cw)) base = Some c \<and> NextProtos c = [''http/1.1'']"
  using assms unfolding serverTLS_options by simp

text \<open>
  C34. Secure by default. When no argument mentions \<open>enable-http2\<close> or \<open>metrics-secure\<close>, every manager
  that the process creates serves metrics over TLS behind authentication and authorization, and
  neither of its two servers negotiates HTTP/2.
\<close>

theorem main_secure_by_default:
  assumes "growth_laws grow" and "runtime_traced rt obs" and "main rt grow e ext args w = (code, w')"
    and "obs w' = obs w @ cs" and "(CallNewManager h options, ok) \<in> set cs"
    and "\<And>a. a \<in> set args \<Longrightarrow> \<not> mentions ''enable-http2'' a \<and> \<not> mentions ''metrics-secure'' a"
  shows "moSecureServing (mgMetrics options) \<and>
    moFilterProvider (mgMetrics options) = Some WithAuthenticationAndAuthorization \<and>
    (\<exists>ws mc wc. mgWebhookServer options = webhookNewServer rt \<lparr>woTLSOpts = ws\<rparr> \<and>
      serverTLS (elems h (moTLSOpts (mgMetrics options))) base = Some mc \<and> NextProtos mc = [''http/1.1''] \<and>
      serverTLS (elems h ws) base = Some wc \<and> NextProtos wc = [''http/1.1''])"
proof -
  have nonempty: "cs \<noteq> []" using assms(5) by auto
  obtain scheme fl r where run: "main_run rt grow e scheme fl w = (r, w')"
    and parse: "parseFlags mainFlags ext args defaultFlags = Inr fl"
    using assms(3,4) nonempty by (auto simp: main_def split: sum.splits prod.splits)
  have "enableHTTP2 fl = enableHTTP2 defaultFlags"
    by (rule parseFlags_keeps [OF parse]) (use http2_only_by_flag assms(6) in blast)+
  moreover have "secureMetrics fl = secureMetrics defaultFlags"
    by (rule parseFlags_keeps [OF parse]) (use secure_only_by_flag assms(6) in blast)+
  ultimately have flags: "\<not> enableHTTP2 fl" "secureMetrics fl" by (simp_all add: defaultFlags_def)
  obtain sv w1 where sv: "prepareServers rt grow fl w = (Inr sv, w1)" and "CallNewManager h options \<in> set (startupCalls scheme fl sv)"
    using main_run_calls [OF assms(2) run] assms(4,5) by (auto dest: stops_in_calls simp: newManager_calls(1) split: if_splits)
  then have eq: "h = svArrays sv" "options = managerOptions_of scheme fl sv" by (simp_all add: newManager_calls)
  from assms(1) sv show ?thesis
  proof (rule prepareServers_elems)
    fix ws
    assume ws: "svWebhookServer sv = webhookNewServer rt \<lparr>woTLSOpts = ws\<rparr>"
      "elems (svArrays sv) (moTLSOpts (svMetrics sv)) = map Some (http2Options fl @ certOptions (svMetricsWatcher sv))"
      "elems (svArrays sv) ws = map Some (http2Options fl @ certOptions
        (if sharesArray grow fl sv then svMetricsWatcher sv else svWebhookWatcher sv))"
    then show ?thesis
      using prepareServers_metrics [OF sv] flags serverTLS_http1 [OF flags(1), of _ base]
      by (auto simp: eq managerOptions_of_def simp del: map_append)
  qed
qed

end
