(* ===== verification/Demo_Manager.thy ===== *)
theory Demo_Manager
  imports Demo_Cluster Manager
begin

text \<open>
  A runtime that records every call and lets it succeed, one where a call fails, and the process and
  its watches on them: the
  concrete inputs at which the theorems about \<open>cmd/main.go\<close> and \<open>SetupWithManager\<close> are applied. The
  controllers are set up but no event arrives, so that their client is never called.
\<close>

section \<open>The runtime\<close>

type_synonym demoCalls = "((string list, string, webhookOptions) runtimeCall \<times> bool) list"

definition offline :: "('w, 'a) act" where
  "offline = throwA (ExternalError ''offline'' ''no connection'')"

definition offlineClient :: "'w client" where
  "offlineClient =
     \<lparr>getConfig = (\<lambda>_. offline), updateConfig = (\<lambda>_. offline), updateConfigStatus = (\<lambda>_. offline),
      getRouting = (\<lambda>_. offline), listRoutings = offline, updateRouting = (\<lambda>_. offline),
      updateRoutingStatus = (\<lambda>_. offline), getNamespace = (\<lambda>_. offline), listNamespaces = (\<lambda>_. offline),
      listPods = (\<lambda>_ _. offline), listNodes = (\<lambda>_. offline), getObject = (\<lambda>_. offline),
      createObject = (\<lambda>_. offline), updateObject = (\<lambda>_. offline), deleteObject = (\<lambda>_. offline),
      listObjects = (\<lambda>_ _ _. offline), mergePatch = (\<lambda>_ _. offline)\<rparr>"

definition recordCall :: "'c \<Rightarrow> 'a \<Rightarrow> (('c \<times> bool) list, 'a) act" where
  "recordCall c a = (\<lambda>w. (Inr a, w @ [(c, True)]))"

definition demoRuntime :: "(demoCalls, string list, string, unit, webhookOptions, unit) ctrlRuntime" where
  "demoRuntime =
     \<lparr>NewScheme = [],
      clientgoAddToScheme = (\<lambda>s. Inr (''Node'' # s)),
      builderAddToScheme = (\<lambda>_ _ ts s. Inr (ts @ s)),
      certwatcherNew = (\<lambda>cert key. recordCall (CallCertWatcher cert key) cert),
      webhookNewServer = (\<lambda>o1. o1),
      GetConfigOrDie = recordCall CallGetConfig (),
      NewManager = (\<lambda>_ h o1. recordCall (CallNewManager h o1) ()),
      mgrGetClient = (\<lambda>_. offlineClient),
      builderComplete = (\<lambda>_ b. recordCall (CallController (cbNamed b)) ()),
      mgrAdd = (\<lambda>_ cw. recordCall (CallAdd cw) ()),
      mgrAddHealthzCheck = (\<lambda>_ n. recordCall (CallHealthzCheck n) ()),
      mgrAddReadyzCheck = (\<lambda>_ n. recordCall (CallReadyzCheck n) ()),
      mgrStart = (\<lambda>_. recordCall CallStart ())\<rparr>"

definition idleEnv :: "(demoCalls, unit) awsEnv" where
  "idleEnv =
     \<lparr>aeLib = memLib, aeSdk = memSdk,
      aeApi = \<lparr>LoadDefaultConfig = (\<lambda>_. offline),
        ec2NewFromConfig = (\<lambda>_. \<lparr>DescribeRouteServers = (\<lambda>_. offline), DescribeRouteServerEndpoints = offline,
          DescribeSubnets = (\<lambda>_. offline), DescribeRouteServerPeers = offline,
          CreateRouteServerPeer = (\<lambda>_. offline), DeleteRouteServerPeer = (\<lambda>_. offline),
          CreateTags = (\<lambda>_ _. offline), DescribeInstances = (\<lambda>_. offline), ModifyNetworkInterfaceAttribute = (\<lambda>_ _. offline)\<rparr>),
        stsNewFromConfig = (\<lambda>_. \<lparr>GetCallerIdentity = offline\<rparr>)\<rparr>\<rparr>"

lemma demo_runtime_traced: "runtime_traced demoRuntime (\<lambda>w. w)"
  by (simp add: runtime_traced_def traces_def succeeded_def demoRuntime_def recordCall_def)

text \<open>The same runtime where the registration of the health check fails.\<close>

definition unhealthyRuntime :: "(demoCalls, string list, string, unit, webhookOptions, unit) ctrlRuntime" where
  "unhealthyRuntime = demoRuntime\<lparr>mgrAddHealthzCheck :=
     (\<lambda>_ n w. (Inl (ExternalError ''healthz'' ''already registered''), w @ [(CallHealthzCheck n, False)]))\<rparr>"

lemma unhealthy_runtime_traced: "runtime_traced unhealthyRuntime (\<lambda>w. w)"
  by (simp add: runtime_traced_def traces_def succeeded_def unhealthyRuntime_def demoRuntime_def recordCall_def)

definition exactGrow :: growth where "exactGrow c n = n"

definition roomyGrow :: growth where "roomyGrow c n = 2 * n"

lemma growth_laws_demo: "growth_laws exactGrow" "growth_laws roomyGrow"
  by (simp_all add: growth_laws_def exactGrow_def roomyGrow_def)

definition demoArgs :: "string list" where
  "demoArgs =
     [''--leader-elect'', ''--metrics-bind-address=:8443'', ''-webhook-cert-path'', ''/certs/../webhook'',
      ''--metrics-cert-path=/metrics/'']"

definition demoFlags :: managerFlags where
  "demoFlags = defaultFlags\<lparr>enableLeaderElection := True, metricsAddr := '':8443'',
     webhookCertPath := ''/certs/../webhook'', metricsCertPath := ''/metrics/''\<rparr>"

definition noFlags :: externalFlags where "noFlags _ = None"

definition demoMain :: "growth \<Rightarrow> nat \<times> demoCalls" where
  "demoMain grow = main demoRuntime grow idleEnv noFlags demoArgs []"

definition demoServers :: "growth \<Rightarrow> (go_error + (string, webhookOptions) servers) \<times> demoCalls" where
  "demoServers grow = prepareServers demoRuntime grow demoFlags []"

definition demoBase :: "string tlsConfig" where
  "demoBase = \<lparr>NextProtos = [''h2''], GetCertificate = None\<rparr>"

section \<open>The process\<close>

lemma demo_parse: "parseFlags mainFlags noFlags demoArgs defaultFlags = Inr demoFlags"
  by code_simp

lemma demo_scheme: "initScheme demoRuntime = Inr (configTypes @ routingTypes @ [''Node''])"
  by (simp add: initScheme_def AddToScheme_def demoRuntime_def)

lemma demo_main_code: "fst (demoMain exactGrow) = 0"
  by code_simp


lemma demo_main_run: "main demoRuntime exactGrow idleEnv noFlags demoArgs [] = (0, snd (demoMain exactGrow))"
  using demo_main_code by (simp add: demoMain_def prod_eq_iff)

lemma unhealthy_scheme: "initScheme unhealthyRuntime = Inr (configTypes @ routingTypes @ [''Node''])"
  by (simp add: initScheme_def AddToScheme_def unhealthyRuntime_def demoRuntime_def)

definition unhealthyMain :: "nat \<times> demoCalls" where
  "unhealthyMain = main unhealthyRuntime exactGrow idleEnv noFlags demoArgs []"

lemma unhealthy_run:
  "main unhealthyRuntime exactGrow idleEnv noFlags demoArgs [] = (fst unhealthyMain, snd unhealthyMain)"
  by (simp add: unhealthyMain_def)

lemma unhealthy_code: "fst unhealthyMain = 1"
  by code_simp

theorem main_startup_witness:
  "(\<exists>sv w1. prepareServers demoRuntime exactGrow demoFlags [] = (Inr sv, w1) \<and>
     snd (demoMain exactGrow) = all_ok (startupCalls (configTypes @ routingTypes @ [''Node'']) demoFlags sv)) \<and>
   (\<exists>es c. snd unhealthyMain = all_ok es @ [(c, False)])"
proof (rule conjI)
  show "\<exists>sv w1. prepareServers demoRuntime exactGrow demoFlags [] = (Inr sv, w1) \<and>
     snd (demoMain exactGrow) = all_ok (startupCalls (configTypes @ routingTypes @ [''Node'']) demoFlags sv)"
    using main_startup [OF demo_runtime_traced demo_scheme demo_parse demo_main_run] by auto
  from main_startup [OF unhealthy_runtime_traced unhealthy_scheme demo_parse unhealthy_run]
  show "\<exists>es c. snd unhealthyMain = all_ok es @ [(c, False)]"
    using unhealthy_code by (auto simp: stops_in_def)
qed

lemma demo_new_manager:
  "list_ex (\<lambda>c. case fst c of CallNewManager h options \<Rightarrow> mgLeaderElection options | _ \<Rightarrow> False) (snd (demoMain exactGrow))"
  by code_simp

lemma demo_args_plain:
  "list_all (\<lambda>a. \<not> mentions ''enable-http2'' a \<and> \<not> mentions ''metrics-secure'' a) demoArgs"
  by (simp add: demoArgs_def mentions_def)

theorem main_secure_by_default_witness:
  "\<exists>h options ok. (CallNewManager h options, ok) \<in> set (snd (demoMain exactGrow)) \<and> moSecureServing (mgMetrics options) \<and>
     (\<exists>wc. serverTLS (elems h (woTLSOpts (mgWebhookServer options))) demoBase = Some wc \<and> NextProtos wc = [''http/1.1''])"
proof -
  obtain c where c: "c \<in> set (snd (demoMain exactGrow))" "case fst c of CallNewManager h options \<Rightarrow> mgLeaderElection options | _ \<Rightarrow> False"
    using demo_new_manager by (auto simp: list_ex_iff)
  then obtain h options ok where call: "(CallNewManager h options, ok) \<in> set (snd (demoMain exactGrow))"
    by (cases "fst c") (metis prod.collapse runtimeCall.simps)+
  have plain: "\<not> mentions ''enable-http2'' a \<and> \<not> mentions ''metrics-secure'' a" if "a \<in> set demoArgs" for a
    using demo_args_plain that by (simp add: list_all_iff)
  show ?thesis
    using main_secure_by_default [OF growth_laws_demo(1) demo_runtime_traced demo_main_run _ call plain, of demoBase] call
    by (intro exI [of _ h] exI [of _ options] exI [of _ ok]) (auto simp: demoRuntime_def)
qed

lemma demo_servers_run:
  "\<exists>sv w'. prepareServers demoRuntime grow demoFlags [] = (Inr sv, w') \<and>
     svWebhookWatcher sv = Some ''/webhook/tls.crt'' \<and> svMetricsWatcher sv = Some ''/metrics/tls.crt''"
proof -
  have "pathJoin ''/certs/../webhook'' ''tls.crt'' = ''/webhook/tls.crt''" "pathJoin ''/metrics/'' ''tls.crt'' = ''/metrics/tls.crt''"
    by code_simp+
  then show ?thesis
    by (simp add: prepareServers_def demoRuntime_def demoFlags_def defaultFlags_def certWatcher_def recordCall_def
      bindA_def returnA_def case_prod_unfold Let_def)
qed

theorem servers_tls_witness:
  "\<exists>sv w' wc. prepareServers demoRuntime exactGrow demoFlags [] = (Inr sv, w') \<and>
     serverTLS (elems (svArrays sv) (woTLSOpts (svWebhookServer sv))) demoBase = Some wc \<and>
     NextProtos wc = [''http/1.1''] \<and> GetCertificate wc = Some ''/webhook/tls.crt''"
proof -
  obtain sv w' where run: "prepareServers demoRuntime exactGrow demoFlags [] = (Inr sv, w')"
    and watcher: "svWebhookWatcher sv = Some ''/webhook/tls.crt''"
    using demo_servers_run by blast
  show ?thesis
    using servers_tls [OF growth_laws_demo(1) run, of demoBase] run watcher
    by (auto simp: demoRuntime_def demoFlags_def defaultFlags_def exactGrow_def)
qed

theorem webhook_certificate_overwritten_witness:
  "\<exists>sv w' wc. prepareServers demoRuntime roomyGrow demoFlags [] = (Inr sv, w') \<and>
     svWebhookWatcher sv = Some ''/webhook/tls.crt'' \<and>
     serverTLS (elems (svArrays sv) (woTLSOpts (svWebhookServer sv))) demoBase = Some wc \<and>
     GetCertificate wc = Some ''/metrics/tls.crt''"
proof -
  obtain sv w' where run: "prepareServers demoRuntime roomyGrow demoFlags [] = (Inr sv, w')"
    and watchers: "svWebhookWatcher sv = Some ''/webhook/tls.crt''" "svMetricsWatcher sv = Some ''/metrics/tls.crt''"
    using demo_servers_run by blast
  have "1 < roomyGrow 0 1" "\<not> enableHTTP2 demoFlags"
    by (simp_all add: roomyGrow_def demoFlags_def defaultFlags_def)
  from webhook_certificate_overwritten [OF growth_laws_demo(2) this run watchers, of demoBase]
  show ?thesis using run watchers by (auto simp: demoRuntime_def)
qed

section \<open>The watches\<close>

definition workerNode :: Node where
  "workerNode = kubeNode ''worker-a'' ''10.0.1.5'' ''us-east-1a'' ''aws:///us-east-1a/i-a''"

definition demoEnqueue :: "'w enqueue" where
  "demoEnqueue wa ev w =
     (if list_all (\<lambda>p. passes p ev) (waPredicates wa) then mapped (waMap wa) (event_objects ev) w else {})"

lemma demo_enqueue: "enqueue_laws demoEnqueue"
  by (simp add: enqueue_laws_def demoEnqueue_def list_all_iff)

theorem node_changes_requested_witness:
  "requested demoEnqueue (configController (awsConfigEnv demoEnv) (awsReconciler memClient))
     (UpdateEvent (NodeObject workerNode) (NodeObject (workerNode\<lparr>ndProviderID := ''aws:///us-east-1a/i-z''\<rparr>)))
     demoKube SingletonName"
proof -
  have "routerNode (workerNode\<lparr>ndProviderID := ''aws:///us-east-1a/i-z''\<rparr>) \<noteq> routerNode workerNode"
    by code_simp
  then show ?thesis
    using node_changes_requested [OF demo_enqueue, of "workerNode\<lparr>ndProviderID := ''aws:///us-east-1a/i-z''\<rparr>" workerNode
      "awsConfigEnv demoEnv" "awsReconciler memClient" demoKube] by simp
qed

text \<open>The shared RouteAdvertisements loses its spec and its labels.\<close>

definition strippedRA :: Unstructured where
  "strippedRA = raObject\<lparr>uoSpec := JNull, uoLabels := fmempty\<rparr>"

theorem drift_requested_witness:
  "requested demoEnqueue (routingController memLib memClient)
     (UpdateEvent (UnstructuredObject raObject) (UnstructuredObject strippedRA)) (demoWorld [] [demoRouting ''r1'' None]) ''r1''"
proof -
  let ?ev = "UpdateEvent (UnstructuredObject raObject) (UnstructuredObject strippedRA)"
  have run: "listRoutings memClient (demoWorld [] [demoRouting ''r1'' None]) =
      (Inr [demoRouting ''r1'' None], demoWorld [] [demoRouting ''r1'' None])"
    by (simp add: memClient_def demoWorld_def)
  have "event_on ra_key ?ev" and "operator_labelled raObject"
    by (simp_all add: event_on_def strippedRA_def key_of_def gvk_key_def raObject_def gvk_defs apiVersion_of_def
      operator_labelled_def lookup_or_def)
  then have ev: "event_on ra_key ?ev" "event_labelled ?ev" by (auto simp: event_labelled_def)
  have "demoRouting ''r1'' None \<in> fmran' (kRoutings (memView (demoWorld [] [demoRouting ''r1'' None])))"
    by (rule fmran'I [of _ "''r1''"]) (simp add: demoWorld_def sget_def demoRouting_def demoMeta_def)
  then have "requested demoEnqueue (routingController memLib memClient) ?ev
      (demoWorld [] [demoRouting ''r1'' None]) (rtgName (demoRouting ''r1'' None))"
    by (intro drift_requested [OF kube_laws_mem demo_enqueue run, THEN conjunct2, THEN conjunct1, THEN mp])
      (simp add: ev)
  then show ?thesis by (simp add: demoRouting_def demoMeta_def)
qed

end
