(* ===== verification/Progress.thy ===== *)
theory Progress
  imports Routing_Controller Config_Aws
begin

text \<open>
  Progress of the controllers: what a reconciliation achieves when no call fails. \<open>fault_free\<close> says
  when the server has no reason to refuse a call: reads answer, creations of missing objects and
  deletions succeed, and updates succeed when they carry the stored resource version. That a whole
  reconciliation never runs into a conflict with its own writes is part of what is proved.
\<close>

section \<open>A server without faults\<close>

definition returns :: "('w, 'a) act \<Rightarrow> 'w \<Rightarrow> bool" where
  "returns m w \<longleftrightarrow> (\<exists>a w'. m w = (Inr a, w'))"

definition answers :: "kubeLib \<Rightarrow> ('w, 'a) act \<Rightarrow> bool \<Rightarrow> 'w \<Rightarrow> bool" where
  "answers lib m found w \<longleftrightarrow>
     (if found then returns m w else \<forall>e w'. m w = (Inl e, w') \<longrightarrow> IsNotFound lib e)"

definition routing_current :: "CUDNBgpRouting \<Rightarrow> cluster \<Rightarrow> bool" where
  "routing_current r k \<longleftrightarrow>
     (\<exists>old. fmlookup (kRoutings k) (rtgName r) = Some old \<and>
       metaResourceVersion (rtgMeta r) = metaResourceVersion (rtgMeta old))"

definition config_current :: "CUDNBgpConfig \<Rightarrow> cluster \<Rightarrow> bool" where
  "config_current cf k \<longleftrightarrow>
     (\<exists>old. fmlookup (kConfigs k) (cfgName cf) = Some old \<and>
       metaResourceVersion (cfgMeta cf) = metaResourceVersion (cfgMeta old))"

definition object_current :: "Unstructured \<Rightarrow> cluster \<Rightarrow> bool" where
  "object_current obj k \<longleftrightarrow>
     (\<exists>old. fmlookup (kObjects k) (key_of obj) = Some old \<and> uoResourceVersion obj = uoResourceVersion old)"

definition fault_free :: "kubeLib \<Rightarrow> 'w client \<Rightarrow> ('w \<Rightarrow> cluster) \<Rightarrow> bool" where
  "fault_free lib c view \<longleftrightarrow>
     (\<forall>w n. answers lib (getRouting c n) (has_routing n (view w)) w) \<and>
     (\<forall>w n. answers lib (getConfig c n) (has_config n (view w)) w) \<and>
     (\<forall>w key. answers lib (getObject c key) (has_object key (view w)) w) \<and>
     (\<forall>w. returns (listRoutings c) w) \<and>
     (\<forall>w sel. returns (listNamespaces c sel) w) \<and>
     (\<forall>w r. routing_current r (view w) \<longrightarrow> returns (updateRouting c r) w) \<and>
     (\<forall>w r. routing_current r (view w) \<longrightarrow> returns (updateRoutingStatus c r) w) \<and>
     (\<forall>w obj. \<not> has_object (key_of obj) (view w) \<longrightarrow> returns (createObject c obj) w) \<and>
     (\<forall>w obj. object_current obj (view w) \<longrightarrow> returns (updateObject c obj) w) \<and>
     (\<forall>w key. answers lib (deleteObject c key) (has_object key (view w)) w) \<and>
     (\<forall>w gvk ns sel. returns (listObjects c gvk ns sel) w) \<and>
     (\<forall>w key p. has_object key (view w) \<longrightarrow> returns (mergePatch c key (Marshal (JObj [(''spec'', p)]))) w) \<and>
     (\<forall>w n. answers lib (getNamespace c n) (fmlookup (kNamespaces (view w)) n \<noteq> None) w) \<and>
     (\<forall>w ns sel. returns (listPods c ns sel) w) \<and>
     (\<forall>w r. config_current r (view w) \<longrightarrow> returns (updateConfig c r) w) \<and>
     (\<forall>w r. config_current r (view w) \<longrightarrow> returns (updateConfigStatus c r) w)"

lemma fault_freeD:
  assumes "fault_free lib c view"
  shows "answers lib (getRouting c n) (has_routing n (view w)) w"
    and "answers lib (getConfig c n) (has_config n (view w)) w"
    and "answers lib (getObject c key) (has_object key (view w)) w"
    and "returns (listRoutings c) w" and "returns (listNamespaces c sel) w"
    and "routing_current r (view w) \<Longrightarrow> returns (updateRouting c r) w"
    and "routing_current r (view w) \<Longrightarrow> returns (updateRoutingStatus c r) w"
    and "\<not> has_object (key_of obj) (view w) \<Longrightarrow> returns (createObject c obj) w"
    and "object_current obj (view w) \<Longrightarrow> returns (updateObject c obj) w"
    and "answers lib (deleteObject c key) (has_object key (view w)) w"
    and "returns (listObjects c gvk ns sel) w"
    and "has_object key (view w) \<Longrightarrow> returns (mergePatch c key (Marshal (JObj [(''spec'', p)]))) w"
    and "answers lib (getNamespace c n) (fmlookup (kNamespaces (view w)) n \<noteq> None) w"
    and "returns (listPods c ns sel) w"
    and "config_current cf (view w) \<Longrightarrow> returns (updateConfig c cf) w"
    and "config_current cf (view w) \<Longrightarrow> returns (updateConfigStatus c cf) w"
  using assms unfolding fault_free_def by simp_all

lemma wp_returns:
  assumes "returns m w" and "wp m Q E w" and "\<And>a w'. Q a w' \<Longrightarrow> Q' a w'"
  shows "wp m Q' E' w"
  using assms by (auto simp: returns_def wp_def)

lemma wp_total: "wp m Q (\<lambda>_ _. False) w \<Longrightarrow> \<exists>a w'. m w = (Inr a, w') \<and> Q a w'"
  by (auto simp: wp_def split: prod.splits sum.splits)

section \<open>Calls that cannot fail\<close>

lemma wp_read_total:
  assumes "returns m w" and "read_law view m P"
    and "\<And>a w'. P (view w) a \<Longrightarrow> view w' = view w \<Longrightarrow> Q a w'"
  shows "wp m Q E w"
  by (rule wp_returns [OF assms(1), where E = "\<lambda>_ _. True"], rule wp_read [OF assms(2)]) (use assms(3) in auto)

lemma wp_get_total:
  assumes "answers lib m (look (view w) \<noteq> None) w" and "get_law lib view m look"
    and "\<And>a w'. look (view w) = Some a \<Longrightarrow> view w' = view w \<Longrightarrow> Q a w'"
    and "\<And>e w'. look (view w) = None \<Longrightarrow> IsNotFound lib e \<Longrightarrow> view w' = view w \<Longrightarrow> E e w'"
  shows "wp m Q E w"
proof -
  have law: "wp m (\<lambda>a w'. look (view w) = Some a \<and> view w' = view w)
      (\<lambda>e w'. (IsNotFound lib e \<longrightarrow> look (view w) = None) \<and> view w' = view w) w"
    by (rule wp_get [OF assms(2)]) auto
  show ?thesis
  proof (rule wpI)
    fix a w'
    assume "m w = (Inr a, w')"
    from wp_InrD [OF law this] show "Q a w'" by (auto intro: assms(3))
  next
    fix e w'
    assume run: "m w = (Inl e, w')"
    then have "look (view w) = None \<and> IsNotFound lib e"
      using assms(1) by (auto simp: answers_def returns_def split: if_splits)
    then show "E e w'" using wp_InlD [OF law run] by (auto intro: assms(4))
  qed
qed

lemma wp_write_total:
  assumes "returns m w" and "write_law lib view m exist eff"
    and "\<And>a w'. eff a (view w) (view w') \<Longrightarrow> Q a w'"
  shows "wp m Q E w"
  by (rule wp_returns [OF assms(1), where E = "\<lambda>_ _. True"], rule wp_write [OF assms(2)]) (use assms(3) in auto)

lemma wp_createOrUpdate_total:
  assumes laws: "kube_laws lib c view" "fault_free lib c view"
    and "\<And>w'. put_effect obj (view w) (view w') \<Longrightarrow> Q () w'"
  shows "wp (createOrUpdate lib c obj) Q E w"
  unfolding createOrUpdate_def wp_branch
proof (rule wp_get_total [OF fault_freeD(3) [OF laws(2)] kube_lawsD(12) [OF laws(1)]])
  fix existing w1
  assume ex: "fmlookup (kObjects (view w)) (key_of obj) = Some existing" and w1: "view w1 = view w"
  show "wp (updateObject c (obj\<lparr>uoResourceVersion := uoResourceVersion existing\<rparr>)) Q E w1"
    by (rule wp_write_total [OF fault_freeD(9) [OF laws(2)] kube_lawsD(14) [OF laws(1)]])
      (use ex w1 assms(3) update_is_put in \<open>auto simp: object_current_def\<close>)
next
  fix e w1
  assume none: "fmlookup (kObjects (view w)) (key_of obj) = None" and nf: "IsNotFound lib e" and w1: "view w1 = view w"
  have "wp (createObject c obj) Q E w1"
    by (rule wp_write_total [OF fault_freeD(8) [OF laws(2)] kube_lawsD(13) [OF laws(1)]])
      (use none w1 assms(3) create_is_put in auto)
  then show "wp (if IsNotFound lib e then createObject c obj else throwA e) Q E w1" using nf by simp
qed

section \<open>The routing controller\<close>

lemma routing_current_other:
  "routing_current r k \<Longrightarrow> kRoutings k' = kRoutings k \<Longrightarrow> rtgMeta r' = rtgMeta r \<Longrightarrow> routing_current r' k'"
  by (simp add: routing_current_def)

lemma wp_status_total:
  assumes laws: "kube_laws lib c view" "fault_free lib c view" and "routing_current r (view w)" and "\<And>w'. Q () w'"
  shows "wp (updateRoutingStatus c r) Q E w"
  by (rule wp_write_total [OF fault_freeD(7) [OF laws(2) assms(3)] kube_lawsD(7) [OF laws(1)]]) (simp add: assms(4))

lemma wp_degraded_total:
  assumes laws: "kube_laws lib c view" "fault_free lib c view" and cur: "routing_current r (view w)"
    and "\<And>w'. Q \<lparr>RequeueAfter = 30 * Second\<rparr> w'"
  shows "wp (RoutingSetDegraded lib c r t re m) Q E w"
  unfolding RoutingSetDegraded_def wp_eta
  by (rule wp_status_total [OF laws routing_current_other [OF cur]]) (simp_all add: assms(4))

lemma wp_pending_total:
  assumes laws: "kube_laws lib c view" "fault_free lib c view" and cur: "routing_current r (view w)"
    and "\<And>w'. Q \<lparr>RequeueAfter = 10 * Second\<rparr> w'"
  shows "wp (RoutingSetPending c r) Q E w"
  unfolding RoutingSetPending_def wp_eta
  by (rule wp_status_total [OF laws routing_current_other [OF cur]]) (simp_all add: assms(4))

lemma routing_current_states [simp]:
  "routing_current (routingReady lib r) = routing_current r" "routing_current (routingApplied lib r) = routing_current r"
  "routing_current (configuringRouting r) = routing_current r"
  "routing_current (degradedRouting lib r t re m) = routing_current r" "routing_current (pendingRouting r) = routing_current r"
  by (simp_all add: routing_current_def fun_eq_iff)

lemma routing_current_put: "put_effect obj k k' \<Longrightarrow> routing_current r k \<Longrightarrow> routing_current r k'"
  by (simp add: routing_current_def changes_only_rest [OF put_effect_only])

lemma wp_Advertise_total:
  assumes laws: "kube_laws lib c view" "fault_free lib c view" and cur: "routing_current r (view w)"
    and Q: "\<And>w'. Q \<lparr>RequeueAfter = 5 * Minute\<rparr> w'"
  shows "wp (RoutingAdvertise lib c r) Q E w"
  unfolding RoutingAdvertise_def EnsureRouteAdvertisements_def wp_eta
  by (rule wp_createOrUpdate_total [OF laws])
    (use Q cur in \<open>auto intro!: wp_status_total [OF laws] dest: routing_current_put\<close>)

lemma wp_Validate_total:
  assumes laws: "kube_laws lib c view" "fault_free lib c view"
    and "\<And>w'. \<exists>ns \<in> fmran' (kNamespaces (view w)). labelled_for network ns \<Longrightarrow> view w' = view w \<Longrightarrow> Q () w'"
    and "\<And>e w'. \<not> (\<exists>ns \<in> fmran' (kNamespaces (view w)). labelled_for network ns) \<Longrightarrow> view w' = view w \<Longrightarrow> E e w'"
  shows "wp (ValidateNamespaceLabels c network) Q E w"
  unfolding ValidateNamespaceLabels_def wp_bind
proof (rule wp_read_total [OF fault_freeD(5) [OF laws(2)] kube_lawsD(9) [OF laws(1)]])
  fix nss w'
  assume nss: "set nss = {ns \<in> fmran' (kNamespaces (view w)).
      selects (fmap_of_list [(LabelPrimaryUDN, ''''), (LabelCUDN, network)]) (nsLabels ns)}"
    and w': "view w' = view w"
  have "nss \<noteq> [] \<longleftrightarrow> (\<exists>ns \<in> fmran' (kNamespaces (view w)). labelled_for network ns)"
    using nss unfolding selects_labelled by (metis (mono_tags, lifting) empty_Collect_eq set_empty)
  then show "wp (if nss = [] then throwA (NewError (Sprintf [''no namespace found with labels '', LabelPrimaryUDN, ''='',
      quote '''', '' and '', LabelCUDN, ''='', quote network, ''; create and label a namespace before applying CUDNBgpRouting'']))
      else returnA ()) Q E w'"
    using w' assms(3,4) by (cases "nss = []") (auto simp: wp_simps)
qed

lemma wp_Apply_total:
  assumes laws: "kube_laws lib c view" "fault_free lib c view" and cur: "routing_current r (view w)"
    and Q: "\<And>w'. Q \<lparr>RequeueAfter = (if \<exists>ns \<in> fmran' (kNamespaces (view w)). labelled_for (rtgNetwork r) ns
      then 5 * Minute else 30 * Second)\<rparr> w'"
  shows "wp (RoutingApply lib c r) Q E w"
  unfolding RoutingApply_def EnsureCUDN_def wp_eta
proof (rule wp_Validate_total [OF laws])
  fix e w1
  assume none: "\<not> (\<exists>ns \<in> fmran' (kNamespaces (view w)). labelled_for (rtgNetwork r) ns)" and w1: "view w1 = view w"
  have "Q \<lparr>RequeueAfter = 30 * Second\<rparr> w'" for w' using Q [of w'] none by (simp only: if_False)
  then show "wp (RoutingSetDegraded lib c r ConditionCUDNCreated ''NamespaceNotReady''
      (Sprintf [''namespace validation failed: '', Error e])) Q E w1"
    using cur w1 by (intro wp_degraded_total [OF laws]) simp_all
next
  fix w1
  assume some: "\<exists>ns \<in> fmran' (kNamespaces (view w)). labelled_for (rtgNetwork r) ns" and w1: "view w1 = view w"
  have "Q \<lparr>RequeueAfter = 5 * Minute\<rparr> w'" for w' using Q [of w'] some by (simp only: if_True)
  then show "wp (createOrUpdate lib c (cudnObject (rsNetwork (rtgSpec r))))
      (\<lambda>_. wp (RoutingAdvertise lib c (routingApplied lib r)) Q E)
      (\<lambda>err. wp (RoutingSetDegraded lib c r ConditionCUDNCreated ''CUDNFailed''
         (Sprintf [''failed to ensure CUDN: '', Error err])) Q E) w1"
    by (intro wp_createOrUpdate_total [OF laws] wp_Advertise_total [OF laws])
      (use cur w1 routing_current_put in auto)
qed

lemma wp_Checks_total:
  assumes laws: "kube_laws lib c view" "fault_free lib c view" and cur: "routing_current r (view w)"
    and Q: "\<And>res w'. (res = \<lparr>RequeueAfter = 5 * Minute\<rparr> \<longleftrightarrow> may_apply r (view w)) \<Longrightarrow> Q res w'"
  shows "wp (RoutingChecks lib c r) Q E w"
  unfolding RoutingChecks_def wp_bind
proof (rule wp_read_total [OF fault_freeD(4) [OF laws(2)] kube_lawsD(5) [OF laws(1)]])
  fix items w1
  assume items: "set items = fmran' (kRoutings (view w))" and w1: "view w1 = view w"
  let ?dup = "\<lambda>other. rtgName other \<noteq> rtgName r \<and> rtgNetwork other = rtgNetwork r"
  have cur1: "routing_current r (view w')" if "view w' = view w" for w' using cur that by simp
  show "wp (case find ?dup items of
       Some other \<Rightarrow> RoutingSetDegraded lib c r ConditionCUDNCreated ''DuplicateNetwork''
         (Sprintf [''spec.network.name '', quote (rtgNetwork r), '' already claimed by CUDNBgpRouting '', quote (rtgName other)])
     | None \<Rightarrow> branchA (getConfig c SingletonName) (\<lambda>_. RoutingSetPending c r)
         (\<lambda>bgpConfig. if ctPhase (cfgStatus bgpConfig) \<noteq> PhaseReady then RoutingSetPending c r else RoutingApply lib c r)) Q E w1"
  proof (cases "find ?dup items")
    case (Some other)
    then have "\<not> unique_network r (view w)"
      using items by (auto simp: find_Some_iff unique_network_def)
    then show ?thesis
      using Some by (auto intro!: wp_degraded_total [OF laws] cur1 w1 Q simp: may_apply_def Minute_def Second_def)
  next
    case None
    then have unique: "unique_network r (view w)" using items by (auto simp: find_None_iff unique_network_def)
    have pending: "wp (RoutingSetPending c r) Q E w2" if "\<not> config_ready (view w)" "view w2 = view w" for w2
      by (rule wp_pending_total [OF laws cur1 [OF that(2)]]) (rule Q, use that in \<open>simp add: may_apply_def Minute_def Second_def\<close>)
    have applied: "wp (RoutingApply lib c r) Q E w2" if "config_ready (view w)" "view w2 = view w" for w2
      by (rule wp_Apply_total [OF laws cur1 [OF that(2)]]) (rule Q, use that unique in \<open>simp add: may_apply_def Minute_def Second_def\<close>)
    show ?thesis
      unfolding None option.case wp_branch
      by (rule wp_get_total [OF fault_freeD(2) [OF laws(2)] kube_lawsD(1) [OF laws(1)]])
        (use w1 pending applied in \<open>auto simp: config_ready_def\<close>)
  qed
qed


lemma wp_Finalizer_total:
  assumes laws: "kube_laws lib c view" "lib_laws lib" "fault_free lib c view"
    and r: "fmlookup (kRoutings (view w)) (rtgName r) = Some r" "metaDeletionTimestamp (rtgMeta r) = None"
    and Q: "\<And>r1 w'. finalized r (view w) r1 (view w') \<Longrightarrow> Q r1 w'"
  shows "wp (ensureRoutingFinalizer lib c r) Q E w"
proof (rule wp_returns [OF _ wp_ensureRoutingFinalizer [OF laws(1,2) r] Q])
  have "routing_current (r\<lparr>rtgMeta := (rtgMeta r)\<lparr>metaFinalizers := fs\<rparr>\<rparr>) (view w)" for fs
    using r(1) by (simp add: routing_current_def)
  then show "returns (ensureRoutingFinalizer lib c r) w"
    using fault_freeD(6) [OF laws(3)] by (simp add: ensureRoutingFinalizer_def returns_def returnA_def)
qed

lemma may_apply_finalized:
  assumes "finalized r k r1 k1" and "fmlookup (kRoutings k) (rtgName r) = Some r"
  shows "may_apply (configuringRouting r1) k1 \<longleftrightarrow> may_apply r k"
proof -
  have other: "fmlookup (kRoutings k1) n = Some x \<longleftrightarrow> fmlookup (kRoutings k) n = Some x" if "rtgName x \<noteq> rtgName r" for n x
    using assms that by (cases "n = rtgName r") (auto simp: finalized_def)
  have "unique_network (configuringRouting r1) k1 \<longleftrightarrow> unique_network r k"
    using assms(1) other unfolding finalized_def unique_network_def Ball_def fmlookup_ran'_iff
    by (metis routing_meta(5) routing_spec(5))
  then show ?thesis using assms(1) by (auto simp: may_apply_def config_ready_def finalized_def)
qed

text \<open>
  C8. Progress. On a server without faults a reconciliation of a routing that is not being deleted
  always returns without an error, in particular it never conflicts with its own writes; and it
  reports \<open>Ready\<close> at once, with both objects in place, exactly when the network name is unique, the
  configuration is ready and a namespace is labelled.
\<close>

theorem RoutingReconcile_progress:
  assumes "kube_laws lib c view" and "lib_laws lib" and "fault_free lib c view" and "routings_keyed (view w)"
    and "fmlookup (kRoutings (view w)) name = Some r" and "metaDeletionTimestamp (rtgMeta r) = None"
  shows "\<exists>res w'. RoutingReconcile lib c name w = (Inr res, w') \<and>
    (res = \<lparr>RequeueAfter = 5 * Minute\<rparr> \<longleftrightarrow> may_apply r (view w)) \<and> routing_report lib c view r (view w) res (view w')"
proof -
  have name: "name = rtgName r" using assms(4,5) by (simp add: routings_keyed_def)
  have "wp (RoutingReconcile lib c name) (\<lambda>res _. res = \<lparr>RequeueAfter = 5 * Minute\<rparr> \<longleftrightarrow> may_apply r (view w)) (\<lambda>_ _. False) w"
    unfolding RoutingReconcile_def wp_branch
  proof (rule wp_get_total [OF fault_freeD(1) [OF assms(3)] kube_lawsD(4) [OF assms(1)]])
    let ?Q = "\<lambda>res _. res = \<lparr>RequeueAfter = 5 * Minute\<rparr> \<longleftrightarrow> may_apply r (view w)"
    fix a w1
    assume "fmlookup (kRoutings (view w)) name = Some a" and w1: "view w1 = view w"
    then have a: "a = r" using assms(5) by simp
    have "wp (ensureRoutingFinalizer lib c r) (\<lambda>r1. wp (RoutingChecks lib c (configuringRouting r1)) ?Q (\<lambda>_ _. False)) (\<lambda>_ _. False) w1"
    proof (rule wp_Finalizer_total [OF assms(1-3)])
      fix r1 w2
      assume fin: "finalized r (view w1) r1 (view w2)"
      then have "routing_current (configuringRouting r1) (view w2)" by (simp add: finalized_def routing_current_def)
      then show "wp (RoutingChecks lib c (configuringRouting r1)) ?Q (\<lambda>_ _. False) w2"
        by (rule wp_Checks_total [OF assms(1,3)]) (use may_apply_finalized [OF fin] assms(5) w1 name in simp)
    qed (use assms(5,6) w1 name in simp_all)
    then show "wp (if metaDeletionTimestamp (rtgMeta a) \<noteq> None then RoutingReconcileDelete lib c a
        else bindA (ensureRoutingFinalizer lib c a) (\<lambda>routing. RoutingChecks lib c (configuringRouting routing))) ?Q (\<lambda>_ _. False) w1"
      using assms(6) by (simp add: a wp_simps)
  qed (use assms(5) in simp)
  from wp_total [OF this] obtain res w' where run: "RoutingReconcile lib c name w = (Inr res, w')"
    and res: "res = \<lparr>RequeueAfter = 5 * Minute\<rparr> \<longleftrightarrow> may_apply r (view w)" by blast
  have "wp (RoutingReconcile lib c name) (\<lambda>res w'. routing_report lib c view r (view w) res (view w')) (\<lambda>_ _. True) w"
    using wp_RoutingReconcile [OF assms(1,2,4-6)] by (rule wp_mono) auto
  from wp_InrD [OF this run] show ?thesis using run res by blast
qed


section \<open>The configuration controller with explicit zones\<close>

text \<open>Objects are written and deleted without touching the configuration.\<close>

lemma wp_delete_total:
  assumes laws: "kube_laws lib c view" "fault_free lib c view"
    and "\<And>w'. changes_only {key} (view w) (view w') \<Longrightarrow> Q () w'"
  shows "wp (deleteIgnoreNotFound lib c key) Q E w"
proof (rule wp_returns [where Q = "\<lambda>_ w'. changes_only {key} (view w) (view w')" and E = "\<lambda>_ _. True"])
  show "returns (deleteIgnoreNotFound lib c key) w"
    using fault_freeD(10) [OF laws(2), of key w]
    by (auto simp: returns_def answers_def deleteIgnoreNotFound_def branchA_def returnA_def split: if_splits prod.splits sum.splits)
  show "wp (deleteIgnoreNotFound lib c key) (\<lambda>_ w'. changes_only {key} (view w) (view w')) (\<lambda>_ _. True) w"
    by (rule wp_deleteIgnoreNotFound [OF laws(1)]) auto
qed (use assms(3) in auto)

lemma wp_prune_total:
  assumes laws: "kube_laws lib c view" "fault_free lib c view"
    and "\<And>w'. kConfigs (view w') = kConfigs (view w) \<Longrightarrow> Q () w'"
  shows "wp (pruneFRRConfigurations lib c expected) Q E w"
  unfolding pruneFRRConfigurations_def wp_bind
proof (rule wp_read_total [OF fault_freeD(11) [OF laws(2)] kube_lawsD(16) [OF laws(1)]])
  fix items w1
  assume "view w1 = view w"
  then show "wp (forA items (\<lambda>item. if uoName item \<notin> set expected
      then wrapA (Sprintf [''pruning stale '', uoName item, '': '']) (deleteIgnoreNotFound lib c (key_of item))
      else returnA ())) Q E w1"
    by (intro wp_for_inv [where I = "\<lambda>w'. kConfigs (view w') = kConfigs (view w)"])
      (auto simp: wp_simps changes_only_rest intro!: wp_delete_total [OF laws] assms(3))
qed

lemma wp_EnsureFRR_total:
  assumes laws: "kube_laws lib c view" "fault_free lib c view"
    and "\<And>w'. kConfigs (view w') = kConfigs (view w) \<Longrightarrow> Q () w'"
  shows "wp (EnsureFRRConfigurations lib c config) Q E w"
  unfolding EnsureFRRConfigurations_def ensureSingleFRRConfiguration_def Let_def wp_bind
  by (rule wp_for_inv [where I = "\<lambda>w'. kConfigs (view w') = kConfigs (view w)"])
    (auto simp: wp_simps changes_only_rest [OF put_effect_only]
      intro!: wp_createOrUpdate_total [OF laws] wp_prune_total [OF laws] assms(3))


lemma config_current_states [simp]:
  "config_current (setConfigCondition lib cf t s re m) = config_current cf" "config_current (readyConfig cf) = config_current cf"
  "config_current (waitingConfig lib cf) = config_current cf" "config_current (configuringConfig cf) = config_current cf"
  by (simp_all add: config_current_def config_states fun_eq_iff)

lemma condition_spec: "cfgSpec (setConfigCondition lib cf t s re m) = cfgSpec cf"
  by (simp add: setConfigCondition_def)

lemma wp_cfgstatus_total:
  assumes laws: "kube_laws lib c view" "fault_free lib c view" and "config_current cf (view w)" and "\<And>w'. Q () w'"
  shows "wp (updateConfigStatus c cf) Q E w"
  by (rule wp_write_total [OF fault_freeD(16) [OF laws(2) assms(3)] kube_lawsD(3) [OF laws(1)]]) (simp add: assms(4))

lemma wp_FRRReady_total:
  assumes laws: "kube_laws lib c view" "fault_free lib c view"
    and Q: "\<And>w'. view w' = view w \<Longrightarrow> Q (frr_ready (view w)) w'"
  shows "wp (IsFRRReady lib c) Q E w"
proof (rule wp_returns [where Q = "\<lambda>b w'. b = frr_ready (view w) \<and> view w' = view w" and E = "\<lambda>_ _. True"])
  have "wp (IsFRRReady lib c) (\<lambda>_ _. True) (\<lambda>_ _. False) w"
    unfolding IsFRRReady_def wp_eta wp_branch
    by (rule wp_get_total [OF fault_freeD(13) [OF laws(2)] kube_lawsD(8) [OF laws(1)]])
      (auto simp: wp_simps intro!: wp_read_total [OF fault_freeD(14) [OF laws(2)] kube_lawsD(10) [OF laws(1)]])
  from wp_total [OF this] show "returns (IsFRRReady lib c) w" by (auto simp: returns_def)
  show "wp (IsFRRReady lib c) (\<lambda>b w'. b = frr_ready (view w) \<and> view w' = view w) (\<lambda>_ _. True) w"
    by (rule wp_IsFRRReady [OF laws(1)]) auto
qed (use Q in auto)

text \<open>From phase 3 on, with explicit zones.\<close>

lemma wp_Phase3_total:
  assumes laws: "kube_laws (ceLib env) (ccClient r) view" "fault_free (ceLib env) (ccClient r) view"
    and aws: "csAWS (cfgSpec cf) = None" and cur: "config_current cf (view w)"
    and Q: "\<And>w'. Q \<lparr>RequeueAfter = 5 * Minute\<rparr> w'"
  shows "wp (ConfigPhase3 env r cf) Q E w"
proof -
  have finish: "wp (ConfigFinish r cf') Q E w'"
    if "config_current cf' (view w')" for cf' w'
    unfolding ConfigFinish_def wp_eta
    by (rule wp_cfgstatus_total [OF laws]) (use that Q in simp_all)
  have "wp (ConfigPhase4 env r cf None) Q E w"
    unfolding ConfigPhase4_def applyFRR_def ConfigPhase5_def
    using aws cur by (auto simp: wp_simps wp_return_eta config_current_def
      intro!: wp_EnsureFRR_total [OF laws] finish [unfolded config_current_def] simp: config_states)
  then show ?thesis using aws by (simp add: ConfigPhase3_def)
qed

lemma wp_Phase1_total:
  assumes laws: "kube_laws (ceLib env) (ccClient r) view" "fault_free (ceLib env) (ccClient r) view"
    and aws: "csAWS (cfgSpec cf) = None" and cur: "config_current cf (view w)" and net: "has_object network_key (view w)"
    and Q: "\<And>w'. Q \<lparr>RequeueAfter = (if frr_ready (view w) then 5 * Minute else 10 * Second)\<rparr> w'"
  shows "wp (ConfigPhase1 env r cf) Q E w"
  unfolding ConfigPhase1_def PatchNetworkOperator_def networkPatch_def Let_def wp_branch
proof (rule wp_write_total [OF fault_freeD(12) [OF laws(2) net] kube_lawsD(17) [OF laws(1)]])
  fix a w1
  assume patch: "patch_effect network_key networkSpecPatch (view w) (view w1)"
  define cf1 where "cf1 = setConfigCondition (ceLib env) cf ConditionNetworkOperatorPatched
    ConditionTrue ''Patched'' ''Network operator patched with FRR and routeAdvertisements''"
  have ready: "frr_ready (view w1) = frr_ready (view w)" and cur1: "config_current cf1 (view w1)"
    and aws1: "csAWS (cfgSpec cf1) = None"
    using patch cur aws by (auto simp: patch_effect_def frr_ready_def frr_pods_def config_current_def cf1_def config_states)
  have "wp (ConfigPhase2 env r cf1) Q E w1"
    unfolding ConfigPhase2_def wp_branch
  proof (rule wp_FRRReady_total [OF laws])
    fix w2
    assume w2: "view w2 = view w1"
    have wait: "wp (bindA (updateConfigStatus (ccClient r) (waitingConfig (ceLib env) cf1)) (\<lambda>_.
        returnA \<lparr>RequeueAfter = 10 * Second\<rparr>)) Q E w2" if "\<not> frr_ready (view w1)"
      unfolding wp_eta by (rule wp_cfgstatus_total [OF laws]) (use that ready Q cur1 w2 in auto)
    have go: "wp (ConfigPhase3 env r (setConfigCondition (ceLib env) cf1 ConditionFRRNamespaceReady
        ConditionTrue ''Ready'' ''FRR namespace and pods are running'')) Q E w2" if "frr_ready (view w1)"
      by (rule wp_Phase3_total [OF laws]) (use that ready Q cur1 aws1 w2 in \<open>auto simp: condition_spec\<close>)
    show "wp (if \<not> frr_ready (view w1)
        then bindA (updateConfigStatus (ccClient r) (waitingConfig (ceLib env) cf1)) (\<lambda>_. returnA \<lparr>RequeueAfter = 10 * Second\<rparr>)
        else ConfigPhase3 env r (setConfigCondition (ceLib env) cf1 ConditionFRRNamespaceReady
          ConditionTrue ''Ready'' ''FRR namespace and pods are running'')) Q E w2"
      using wait go by simp
  qed
  then show "wp (ConfigPhase2 env r (setConfigCondition (ceLib env) cf ConditionNetworkOperatorPatched
      ConditionTrue ''Patched'' ''Network operator patched with FRR and routeAdvertisements'')) Q E w1"
    by (simp add: cf1_def)
qed


lemma wp_cfgFinalizer_total:
  assumes laws: "kube_laws lib c view" "lib_laws lib" "fault_free lib c view"
    and cfg: "fmlookup (kConfigs (view w)) (cfgName cfg) = Some cfg" "metaDeletionTimestamp (cfgMeta cfg) = None"
    and Q: "\<And>c1 w'. config_finalized cfg (view w) c1 (view w') \<Longrightarrow> Q c1 w'"
  shows "wp (ensureConfigFinalizer lib c cfg) Q E w"
proof (rule wp_returns [OF _ wp_ensureConfigFinalizer [OF laws(1,2) cfg] Q])
  have "config_current (cfg\<lparr>cfgMeta := (cfgMeta cfg)\<lparr>metaFinalizers := fs\<rparr>\<rparr>) (view w)" for fs
    using cfg(1) by (simp add: config_current_def)
  then show "returns (ensureConfigFinalizer lib c cfg) w"
    using fault_freeD(15) [OF laws(3)] by (simp add: ensureConfigFinalizer_def returns_def returnA_def)
qed

text \<open>
  C7. Progress of the configuration. On a server without faults that has a Network operator, a
  reconciliation of a configuration with explicit zones that is not being deleted always returns
  without an error: with \<open>Ready\<close>, and all that this means, when FRR is running, and otherwise with
  the report that it waits for FRR.
\<close>

theorem ConfigReconcile_progress:
  assumes "aws_good e c view" and "fault_free (aeLib e) c view" and "frr_clean (view w)" and "has_object network_key (view w)"
    and "fmlookup (kConfigs (view w)) SingletonName = Some cfg" and "cfgName cfg = SingletonName"
    and "metaDeletionTimestamp (cfgMeta cfg) = None" and "csAWS (cfgSpec cfg) = None"
  shows "\<exists>res w'. awsConfigReconcile e c SingletonName w = (Inr res, w') \<and>
    res = \<lparr>RequeueAfter = (if frr_ready (view w) then 5 * Minute else 10 * Second)\<rparr> \<and>
    config_report (awsConfigEnv e) (awsReconciler c) view cfg (view w) res (view w')"
proof -
  let ?res = "\<lparr>RequeueAfter = (if frr_ready (view w) then 5 * Minute else 10 * Second)\<rparr>"
  note laws = aws_goodD(1,2) [OF assms(1)]
  have "wp (awsConfigReconcile e c SingletonName) (\<lambda>res _. res = ?res) (\<lambda>_ _. False) w"
    unfolding awsConfigReconcile_def ConfigReconcile_def wp_branch awsConfigEnv_def awsReconciler_def
      configEnv.simps CUDNBgpConfigReconciler.simps
  proof (rule wp_get_total [OF fault_freeD(2) [OF assms(2)] kube_lawsD(1) [OF laws(1)]])
    fix a w1
    assume a: "fmlookup (kConfigs (view w)) SingletonName = Some a" and w1: "view w1 = view w"
    let ?env = "awsConfigEnv e" and ?r = "awsReconciler c"
    have "wp (ensureConfigFinalizer (aeLib e) c cfg) (\<lambda>c1. wp (ConfigPhase1 ?env ?r (configuringConfig c1))
        (\<lambda>res _. res = ?res) (\<lambda>_ _. False)) (\<lambda>_ _. False) w1"
    proof (rule wp_cfgFinalizer_total [OF laws assms(2)])
      fix c1 w2
      assume fin: "config_finalized cfg (view w1) c1 (view w2)"
      have "frr_ready (view w2) = frr_ready (view w)" "has_object network_key (view w2)"
        using fin w1 assms(4) by (auto simp: config_finalized_def only_config_def frr_ready_def frr_pods_def)
      then show "wp (ConfigPhase1 ?env ?r (configuringConfig c1)) (\<lambda>res _. res = ?res) (\<lambda>_ _. False) w2"
        using fin laws(1) assms(2,8) by (intro wp_Phase1_total [where w = w2 and view = view])
          (auto simp: awsConfigEnv_def awsReconciler_def config_finalized_def config_current_def configuringConfig_def setConfigPhase_def)
    qed (use assms(5-7) w1 in simp_all)
    then show "wp (if cfgName a \<noteq> SingletonName
        then ConfigSetDegraded (aeLib e) c a ConditionNetworkOperatorPatched ''InvalidName''
          (Sprintf [''CUDNBgpConfig must be named '', quote SingletonName, '', got '', quote (cfgName a)])
        else if metaDeletionTimestamp (cfgMeta a) \<noteq> None then ConfigReconcileDelete
          \<lparr>ceLib = aeLib e, ceRange = rangeOrder (aeSdk e), ceMethods = awsMethods (aeSdk e),
           ceDefaultBuilder = defaultPlatformBuilder (aeLib e) (aeApi e)\<rparr> \<lparr>ccClient = c, ccPlatformBuilder = None\<rparr> a
        else bindA (ensureConfigFinalizer (aeLib e) c a) (\<lambda>config. ConfigPhase1
          \<lparr>ceLib = aeLib e, ceRange = rangeOrder (aeSdk e), ceMethods = awsMethods (aeSdk e),
           ceDefaultBuilder = defaultPlatformBuilder (aeLib e) (aeApi e)\<rparr> \<lparr>ccClient = c, ccPlatformBuilder = None\<rparr>
          (configuringConfig config))) (\<lambda>res _. res = ?res) (\<lambda>_ _. False) w1"
      using a assms(5-7) by (simp add: wp_simps awsConfigEnv_def awsReconciler_def)
  qed (use assms(5) in simp)
  from wp_total [OF this] obtain res w' where run: "awsConfigReconcile e c SingletonName w = (Inr res, w')"
    and res: "res = ?res" by blast
  have "wp (awsConfigReconcile e c SingletonName) (\<lambda>res w'. config_report (awsConfigEnv e) (awsReconciler c) view cfg (view w) res (view w')) (\<lambda>_ _. True) w"
    using wp_awsConfigReconcile [OF assms(1,3,5-7)] by (rule wp_mono) auto
  from wp_InrD [OF this run] run res show ?thesis by (intro exI [of _ res] exI [of _ w']) simp
qed

end
