(* ===== verification/Teardown.thy ===== *)
theory Teardown
  imports Progress
begin

text \<open>
  Removal of the operator's resources ends: when every routing and the configuration, without
  \<open>spec.aws\<close>, are being deleted, one run for each of them on a server without faults is enough.
\<close>

lemma wp_both: "wp m Q (\<lambda>_ _. False) w \<Longrightarrow> wp m R E w \<Longrightarrow> wp m (\<lambda>a w'. Q a w' \<and> R a w') F w"
  by (auto simp: wp_def split: prod.splits sum.splits)

section \<open>One routing\<close>

text \<open>A resource that is being deleted and waits for nobody but the operator.\<close>

definition leaving :: "ObjectMeta \<Rightarrow> string \<Rightarrow> bool" where
  "leaving m f \<longleftrightarrow> metaDeletionTimestamp m \<noteq> None \<and> set (metaFinalizers m) \<subseteq> {f}"

lemma released_nil: "lib_laws lib \<Longrightarrow> leaving m f \<Longrightarrow> RemoveFinalizer lib (metaFinalizers m) f = []"
  using lib_lawsD(4) [of lib "metaFinalizers m" f] by (simp add: leaving_def flip: set_empty)

lemma wp_RoutingReconcileDelete_total:
  assumes laws: "kube_laws lib c view" "lib_laws lib" "fault_free lib c view"
    and r: "fmlookup (kRoutings (view w)) (rtgName r) = Some r" "leaving (rtgMeta r) RoutingFinalizerName"
  shows "wp (RoutingReconcileDelete lib c r) (\<lambda>res w'. res = emptyResult \<and> kRoutings (view w') = fmdrop (rtgName r) (kRoutings (view w)))
    (\<lambda>_ _. False) w" (is "wp _ ?Q ?E w")
proof -
  let ?x = "r\<lparr>rtgMeta := (rtgMeta r)\<lparr>metaFinalizers :=
      RemoveFinalizer lib (metaFinalizers (rtgMeta r)) RoutingFinalizerName\<rparr>\<rparr>"
  have release: "wp (updateRouting c ?x) (\<lambda>_ w'. kRoutings (view w') = fmdrop (rtgName r) (kRoutings (view w))) ?E w1"
    if "kRoutings (view w1) = kRoutings (view w)" for w1
  proof (rule wp_write_total [OF fault_freeD(6) [OF laws(3)] kube_lawsD(6) [OF laws(1)]])
    show "routing_current ?x (view w1)" using r(1) that by (simp add: routing_current_def)
    show "kRoutings (view w2) = fmdrop (rtgName r) (kRoutings (view w))" if "update_routing_effect ?x a (view w1) (view w2)" for a w2
      using that r \<open>kRoutings (view w1) = kRoutings (view w)\<close> released_nil [OF laws(2) r(2)]
      by (auto simp: update_routing_effect_def leaving_def)
  qed
  show ?thesis
    unfolding RoutingReconcileDelete_def DeleteCUDN_def DeleteRouteAdvertisements_def Let_def wp_bind
    by (auto simp: wp_simps wp_eta changes_only_rest intro!: wp_delete_total [OF laws(1,3)]
        wp_read_total [OF fault_freeD(4) [OF laws(3)] kube_lawsD(5) [OF laws(1)]] release)
qed

lemma wp_RoutingReconcile_leaving:
  assumes laws: "kube_laws lib c view" "lib_laws lib" "fault_free lib c view"
    and r: "fmlookup (kRoutings (view w)) name = Some r" "rtgName r = name" "leaving (rtgMeta r) RoutingFinalizerName"
  shows "wp (RoutingReconcile lib c name) (\<lambda>res w'. (res = emptyResult \<and> kRoutings (view w') = fmdrop name (kRoutings (view w))) \<and>
      routing_cleaned r (view w) (view w') \<and> routing_released r (view w') \<and> delete_safe r (view w) (view w')) (\<lambda>_ _. False) w"
proof (rule wp_both)
  have del: "metaDeletionTimestamp (rtgMeta r) \<noteq> None" using r(3) by (simp add: leaving_def)
  then show "wp (RoutingReconcile lib c name)
      (\<lambda>res w'. routing_cleaned r (view w) (view w') \<and> routing_released r (view w') \<and> delete_safe r (view w) (view w'))
      (\<lambda>_ w'. delete_safe r (view w) (view w')) w"
    by (rule wp_RoutingReconcile_deleting [OF laws(1,2) r(1)])
  show "wp (RoutingReconcile lib c name) (\<lambda>res w'. res = emptyResult \<and> kRoutings (view w') = fmdrop name (kRoutings (view w)))
      (\<lambda>_ _. False) w"
    unfolding RoutingReconcile_def wp_branch
  proof (rule wp_get_total [OF fault_freeD(1) [OF laws(3)] kube_lawsD(4) [OF laws(1)]])
    fix a w1
    assume "fmlookup (kRoutings (view w)) name = Some a" and w1: "view w1 = view w"
    then have a: "a = r" using r(1) by simp
    show "wp (if metaDeletionTimestamp (rtgMeta a) \<noteq> None then RoutingReconcileDelete lib c a
        else bindA (ensureRoutingFinalizer lib c a) (\<lambda>routing. RoutingChecks lib c (configuringRouting routing)))
        (\<lambda>res w'. res = emptyResult \<and> kRoutings (view w') = fmdrop name (kRoutings (view w))) (\<lambda>_ _. False) w1"
      using wp_RoutingReconcileDelete_total [OF laws, of w1 r] r del w1 by (simp add: a)
  qed (use r(1) in simp)
qed

section \<open>All routings\<close>

text \<open>
  After the routings \<open>done\<close>, of those of the cluster \<open>k\<close>: they are gone and their networks deleted, the
  shared RouteAdvertisements too when there are no others, every object is unchanged or deleted, and
  FRRConfigurations and configurations are as they were.
\<close>

definition torn_down :: "string list \<Rightarrow> cluster \<Rightarrow> cluster \<Rightarrow> bool" where
  "torn_down done k k' \<longleftrightarrow>
     (\<forall>n. fmlookup (kRoutings k') n = (if n \<in> set done then None else fmlookup (kRoutings k) n)) \<and>
     (\<forall>key. fmlookup (kObjects k') key = fmlookup (kObjects k) key \<or> deleted key k k') \<and>
     (\<forall>n \<in> set done. \<forall>r. fmlookup (kRoutings k) n = Some r \<longrightarrow> deleted (cudn_key (rtgNetwork r)) k k') \<and>
     (done \<noteq> [] \<and> fmdom' (kRoutings k) \<subseteq> set done \<longrightarrow> deleted ra_key k k') \<and>
     (\<forall>name. fmlookup (kObjects k') (frr_key name) = fmlookup (kObjects k) (frr_key name)) \<and> kConfigs k' = kConfigs k"

lemma deleted_trans: "deleted key k k1 \<Longrightarrow> deleted key k1 k2 \<Longrightarrow> deleted key k k2"
  by (simp add: deleted_def)

lemma deleted_same_before: "fmlookup (kObjects k1) key = fmlookup (kObjects k) key \<Longrightarrow> deleted key k1 k2 \<Longrightarrow> deleted key k k2"
  by (simp add: deleted_def)

lemma deleted_same_after: "deleted key k k1 \<Longrightarrow> fmlookup (kObjects k2) key = fmlookup (kObjects k1) key \<Longrightarrow> deleted key k k2"
  by (simp add: deleted_def gone_def)

lemma torn_down_deleted: "torn_down ys k k1 \<Longrightarrow> deleted key k1 k2 \<Longrightarrow> deleted key k k2"
  unfolding torn_down_def using deleted_trans deleted_same_before by blast

lemma torn_down_last:
  assumes td: "torn_down ys k k1" and r: "fmlookup (kRoutings k1) name = Some r"
    and all: "fmdom' (kRoutings k) \<subseteq> set (ys @ [name])"
  shows "last_routing r k1"
proof -
  have "n = name" if "fmlookup (kRoutings k1) n = Some x" for n x
  proof -
    have "n \<notin> set ys" and "fmlookup (kRoutings k) n = Some x" using that td by (auto simp: torn_down_def split: if_splits)
    then show ?thesis using all fmdom'I [of "kRoutings k" n x] by auto
  qed
  moreover have "fmlookup (kRoutings k1) name = Some x \<Longrightarrow> x = r" for x using r by simp
  ultimately show ?thesis unfolding last_routing_def fmlookup_ran'_iff Ball_def by metis
qed

lemma torn_down_step:
  assumes td: "torn_down ys k k1" and r: "fmlookup (kRoutings k1) name = Some r"
    and new: "name \<notin> set ys" and drop: "kRoutings k2 = fmdrop name (kRoutings k1)"
    and clean: "routing_cleaned r k1 k2" "delete_safe r k1 k2"
  shows "torn_down (ys @ [name]) k k2"
proof -
  have lk: "fmlookup (kRoutings k) name = Some r" using td r new by (simp add: torn_down_def)
  have step: "fmlookup (kObjects k2) key = fmlookup (kObjects k1) key \<or> deleted key k1 k2" for key
    using clean delete_safe_other [OF clean(2), of key]
    by (cases "key = cudn_key (rtgNetwork r)"; cases "last_routing r k1") (auto simp: routing_cleaned_def)
  have keep: "deleted key k k2" if "deleted key k k1" for key
    using step [of key] deleted_trans [OF that] deleted_same_after [OF that] by blast
  have cudn: "deleted (cudn_key (rtgNetwork r)) k k2"
    using clean(1) torn_down_deleted [OF td] by (simp add: routing_cleaned_def)
  have ra: "deleted ra_key k k2" if "fmdom' (kRoutings k) \<subseteq> set (ys @ [name])"
    using clean(1) torn_down_last [OF td r that] torn_down_deleted [OF td] by (simp add: routing_cleaned_def)
  have frr: "fmlookup (kObjects k2) (frr_key m) = fmlookup (kObjects k) (frr_key m)" for m
    using delete_safe_other [OF clean(2), of "frr_key m"] td by (simp add: torn_down_def gvk_key_def gvk_defs)
  have objs: "fmlookup (kObjects k2) key = fmlookup (kObjects k) key \<or> deleted key k k2" for key
    using step [of key] keep [of key] torn_down_deleted [OF td, of key k2] td by (auto simp: torn_down_def)
  have done': "deleted (cudn_key (rtgNetwork x)) k k2" if "n \<in> set (ys @ [name])" "fmlookup (kRoutings k) n = Some x" for n x
    using that cudn keep td lk by (auto simp: torn_down_def)
  show ?thesis
    unfolding torn_down_def
    using td drop frr ra clean(2) objs done' by (auto simp: torn_down_def delete_safe_def)
qed

lemma wp_teardown_routings:
  assumes laws: "kube_laws lib c view" "lib_laws lib" "fault_free lib c view" and keyed: "routings_keyed (view w)"
    and all: "\<And>n r. fmlookup (kRoutings (view w)) n = Some r \<Longrightarrow> leaving (rtgMeta r) RoutingFinalizerName"
    and names: "distinct names" "set names \<subseteq> fmdom' (kRoutings (view w))"
  shows "wp (forA names (\<lambda>name. bindA (RoutingReconcile lib c name) (\<lambda>_. returnA ())))
    (\<lambda>_ w'. torn_down names (view w) (view w')) (\<lambda>_ _. False) w"
proof (rule wp_for [where I = "\<lambda>ys _ w'. torn_down ys (view w) (view w')"])
  show "torn_down [] (view w) (view w)" by (simp add: torn_down_def)
  fix ys name zs w1
  assume td: "torn_down ys (view w) (view w1)" and split: "ys @ name # zs = names"
  have new: "name \<notin> set ys" and "name \<in> fmdom' (kRoutings (view w))" using names split by auto
  then obtain r where "fmlookup (kRoutings (view w)) name = Some r" by (auto simp: fmlookup_dom'_iff)
  then have r: "fmlookup (kRoutings (view w1)) name = Some r" "rtgName r = name" "leaving (rtgMeta r) RoutingFinalizerName"
    using td new keyed all by (auto simp: torn_down_def routings_keyed_def)
  show "wp (bindA (RoutingReconcile lib c name) (\<lambda>_. returnA ())) (\<lambda>_ w'. torn_down (ys @ [name]) (view w) (view w')) (\<lambda>_ _. False) w1"
    unfolding wp_eta
    by (rule wp_mono [OF wp_RoutingReconcile_leaving [OF laws r]]) (use torn_down_step [OF td r(1) new] in blast)+
qed

section \<open>The configuration\<close>

lemma wp_DeleteFRR_total:
  assumes laws: "kube_laws lib c view" "fault_free lib c view"
    and "\<And>w'. kConfigs (view w') = kConfigs (view w) \<Longrightarrow> Q () w'"
  shows "wp (DeleteFRRConfigurations lib c) Q E w"
  unfolding DeleteFRRConfigurations_def wp_bind
proof (rule wp_read_total [OF fault_freeD(11) [OF laws(2)] kube_lawsD(16) [OF laws(1)]])
  fix items w1
  assume "view w1 = view w"
  then show "wp (forA items (\<lambda>item. deleteIgnoreNotFound lib c (key_of item))) Q E w1"
    by (intro wp_for_inv [where I = "\<lambda>w'. kConfigs (view w') = kConfigs (view w)"])
      (auto simp: changes_only_rest intro!: wp_delete_total [OF laws] assms(3))
qed

lemma wp_ConfigReconcileDelete_total:
  assumes laws: "kube_laws (ceLib env) (ccClient r) view" "lib_laws (ceLib env)" "fault_free (ceLib env) (ccClient r) view"
    and cfg: "fmlookup (kConfigs (view w)) (cfgName cfg) = Some cfg" "leaving (cfgMeta cfg) ConfigFinalizerName"
      "csAWS (cfgSpec cfg) = None" and none: "kRoutings (view w) = fmempty"
  shows "wp (ConfigReconcileDelete env r cfg) (\<lambda>res w'. res = emptyResult \<and> fmlookup (kConfigs (view w')) (cfgName cfg) = None)
    (\<lambda>_ _. False) w" (is "wp _ ?Q ?E w")
proof -
  let ?x = "cfg\<lparr>cfgMeta := (cfgMeta cfg)\<lparr>metaFinalizers :=
      RemoveFinalizer (ceLib env) (metaFinalizers (cfgMeta cfg)) ConfigFinalizerName\<rparr>\<rparr>"
  have release: "wp (updateConfig (ccClient r) ?x) (\<lambda>_ w'. fmlookup (kConfigs (view w')) (cfgName cfg) = None) ?E w1"
    if "kConfigs (view w1) = kConfigs (view w)" for w1
  proof (rule wp_write_total [OF fault_freeD(15) [OF laws(3)] kube_lawsD(2) [OF laws(1)]])
    show "config_current ?x (view w1)" using cfg(1) that by (simp add: config_current_def)
    show "fmlookup (kConfigs (view w2)) (cfgName cfg) = None" if "update_config_effect ?x a (view w1) (view w2)" for a w2
      using that cfg \<open>kConfigs (view w1) = kConfigs (view w)\<close> released_nil [OF laws(2) cfg(2)]
      by (auto simp: update_config_effect_def leaving_def)
  qed
  show ?thesis
    unfolding ConfigReconcileDelete_def wp_bind
  proof (rule wp_read_total [OF fault_freeD(4) [OF laws(3)] kube_lawsD(5) [OF laws(1)]])
    fix items w1
    assume "set items = fmran' (kRoutings (view w))" and w1: "view w1 = view w"
    then have items: "items = []" using none by (cases items) (auto simp: fmlookup_ran'_iff set_eq_iff)
    show "wp (if items \<noteq> [] then returnA \<lparr>RequeueAfter = 10 * Second\<rparr>
        else bindA (cleanupCloud env r cfg) (\<lambda>_. bindA (DeleteFRRConfigurations (ceLib env) (ccClient r)) (\<lambda>_.
          bindA (updateConfig (ccClient r) ?x) (\<lambda>_. returnA emptyResult)))) ?Q ?E w1"
      using w1 by (auto simp: items cleanupCloud_def cfg(3) wp_simps wp_eta
        intro!: wp_DeleteFRR_total [OF laws(1,3)] release)
  qed
qed

lemma wp_ConfigReconcile_leaving:
  assumes good: "aws_good e c view" "fault_free (aeLib e) c view" "frr_clean (view w)"
    and cfg: "fmlookup (kConfigs (view w)) SingletonName = Some cfg" "cfgName cfg = SingletonName"
      "leaving (cfgMeta cfg) ConfigFinalizerName" "csAWS (cfgSpec cfg) = None" and none: "kRoutings (view w) = fmempty"
  shows "wp (awsConfigReconcile e c SingletonName)
    (\<lambda>res w'. (res = emptyResult \<and> fmlookup (kConfigs (view w')) SingletonName = None) \<and>
      config_deleted SingletonName (view w) res (view w') \<and> config_delete_safe SingletonName (view w) (view w')) (\<lambda>_ _. False) w"
proof (rule wp_both)
  note laws = aws_goodD(1,2) [OF good(1)]
  have del: "metaDeletionTimestamp (cfgMeta cfg) \<noteq> None" using cfg(3) by (simp add: leaving_def)
  show "wp (awsConfigReconcile e c SingletonName)
      (\<lambda>res w'. config_deleted SingletonName (view w) res (view w') \<and> config_delete_safe SingletonName (view w) (view w'))
      (\<lambda>_ w'. config_delete_safe SingletonName (view w) (view w')) w"
    by (rule wp_awsConfigReconcile_deleting [OF good(1,3) cfg(1,2) del])
  show "wp (awsConfigReconcile e c SingletonName)
      (\<lambda>res w'. res = emptyResult \<and> fmlookup (kConfigs (view w')) SingletonName = None) (\<lambda>_ _. False) w"
    (is "wp _ ?Q ?E w")
    unfolding awsConfigReconcile_def ConfigReconcile_def wp_branch awsConfigEnv_simps
  proof (rule wp_get_total [OF fault_freeD(2) [OF good(2)] kube_lawsD(1) [OF laws(1)]])
    fix a w1
    assume "fmlookup (kConfigs (view w)) SingletonName = Some a" and w1: "view w1 = view w"
    then have a: "a = cfg" using cfg(1) by simp
    have "wp (ConfigReconcileDelete (awsConfigEnv e) (awsReconciler c) cfg) ?Q ?E w1"
      using wp_ConfigReconcileDelete_total [of "awsConfigEnv e" "awsReconciler c" view w1 cfg] laws good(2) cfg none w1
      by (simp add: awsConfigEnv_simps)
    then show "wp (if cfgName a \<noteq> SingletonName
        then ConfigSetDegraded (aeLib e) c a ConditionNetworkOperatorPatched ''InvalidName''
          (Sprintf [''CUDNBgpConfig must be named '', quote SingletonName, '', got '', quote (cfgName a)])
        else if metaDeletionTimestamp (cfgMeta a) \<noteq> None then ConfigReconcileDelete (awsConfigEnv e) (awsReconciler c) a
        else bindA (ensureConfigFinalizer (aeLib e) c a) (\<lambda>config. ConfigPhase1 (awsConfigEnv e) (awsReconciler c)
          (configuringConfig config))) ?Q ?E w1"
      using del cfg(2) by (simp add: a)
  qed (use cfg(1) in simp)
qed

section \<open>Everything\<close>

text \<open>One run for each routing, in the order given, and then one for the configuration.\<close>

definition teardown :: "('w, 'c) awsEnv \<Rightarrow> 'w client \<Rightarrow> string list \<Rightarrow> ('w, Result) act" where
  "teardown e c names =
     bindA (forA names (\<lambda>name. bindA (RoutingReconcile (aeLib e) c name) (\<lambda>_. returnA ()))) (\<lambda>_.
     awsConfigReconcile e c SingletonName)"

definition all_leaving :: "cluster \<Rightarrow> bool" where
  "all_leaving k \<longleftrightarrow>
     (\<forall>n r. fmlookup (kRoutings k) n = Some r \<longrightarrow> leaving (rtgMeta r) RoutingFinalizerName) \<and>
     (\<exists>cfg. fmlookup (kConfigs k) SingletonName = Some cfg \<and> cfgName cfg = SingletonName \<and>
       leaving (cfgMeta cfg) ConfigFinalizerName \<and> csAWS (cfgSpec cfg) = None)"

text \<open>
  C9. Removal ends. Let all routings and the configuration, which has no \<open>spec.aws\<close>, be under deletion,
  held only by the operator's finalizers, and let FRRConfigurations have no finalizers. On a server
  without faults one run for each routing, in any order, and one for the configuration all succeed.
  Then there is no routing and no configuration, no FRRConfiguration of the operator is left, and the
  networks that the routings name and, if there was a routing, the shared RouteAdvertisements are
  deleted: absent when no finalizer was on them, and otherwise marked for deletion. (A network under a
  name that no routing has any more is not among these.)
\<close>

theorem teardown_completes:
  assumes "aws_good e c view" and "fault_free (aeLib e) c view" and "frr_clean (view w)" and "routings_keyed (view w)"
    and "all_leaving (view w)" and "distinct names" and "set names = fmdom' (kRoutings (view w))"
  shows "\<exists>w'. teardown e c names w = (Inr emptyResult, w') \<and> kRoutings (view w') = fmempty \<and>
    fmlookup (kConfigs (view w')) SingletonName = None \<and> managed_frr (view w') = {} \<and>
    (\<forall>n r. fmlookup (kRoutings (view w)) n = Some r \<longrightarrow> deleted (cudn_key (rtgNetwork r)) (view w) (view w')) \<and>
    (names \<noteq> [] \<longrightarrow> deleted ra_key (view w) (view w'))"
proof -
  note laws = aws_goodD(1,2) [OF assms(1)]
  obtain cfg where cfg: "fmlookup (kConfigs (view w)) SingletonName = Some cfg" "cfgName cfg = SingletonName"
    "leaving (cfgMeta cfg) ConfigFinalizerName" "csAWS (cfgSpec cfg) = None"
    using assms(5) by (auto simp: all_leaving_def)
  let ?Q = "\<lambda>res w'. res = emptyResult \<and> (\<exists>w1. torn_down names (view w) (view w1) \<and>
      fmlookup (kConfigs (view w')) SingletonName = None \<and> managed_frr (view w') = {} \<and>
      config_delete_safe SingletonName (view w1) (view w') \<and> kRoutings (view w1) = fmempty)"
  have config: "wp (awsConfigReconcile e c SingletonName) ?Q (\<lambda>_ _. False) w1" if td: "torn_down names (view w) (view w1)" for w1
  proof -
    have none: "kRoutings (view w1) = fmempty"
      using td assms(7) by (intro fmap_ext) (auto simp: torn_down_def fmdom'_notD)
    have clean: "frr_clean (view w1)" and same: "kConfigs (view w1) = kConfigs (view w)"
      using td assms(3) by (simp_all add: torn_down_def frr_clean_def)
    show ?thesis
      by (rule wp_mono [OF wp_ConfigReconcile_leaving [OF assms(1,2) clean _ cfg(2-4) none]])
        (use cfg(1) same td none in \<open>auto simp: config_deleted_def\<close>)
  qed
  have "wp (forA names (\<lambda>name. bindA (RoutingReconcile (aeLib e) c name) (\<lambda>_. returnA ())))
      (\<lambda>_ w1. torn_down names (view w) (view w1)) (\<lambda>_ _. False) w"
    using assms(5-7) by (intro wp_teardown_routings [OF laws assms(2,4)]) (auto simp: all_leaving_def)
  then have "wp (teardown e c names) ?Q (\<lambda>_ _. False) w"
    unfolding teardown_def wp_bind by (rule wp_mono) (use config in auto)
  from wp_total [OF this] obtain w' w1 where run: "teardown e c names w = (Inr emptyResult, w')"
    and td: "torn_down names (view w) (view w1)" and safe: "config_delete_safe SingletonName (view w1) (view w')"
    and fin: "fmlookup (kConfigs (view w')) SingletonName = None" "managed_frr (view w') = {}" "kRoutings (view w1) = fmempty"
    by blast
  have keep: "deleted key (view w) (view w')" if "deleted key (view w) (view w1)" "key \<notin> range frr_key" for key
  proof -
    have "key \<notin> frr_key ` uoName ` managed_frr (view w1)" using that(2) by blast
    then have "fmlookup (kObjects (view w')) key = fmlookup (kObjects (view w1)) key"
      using safe unfolding config_delete_safe_def by blast
    then show ?thesis by (rule deleted_same_after [OF that(1)])
  qed
  have "kRoutings (view w') = fmempty" using safe fin(3) by (simp add: config_delete_safe_def)
  moreover have "deleted (cudn_key (rtgNetwork r)) (view w) (view w')" if "fmlookup (kRoutings (view w)) n = Some r" for n r
    using td that assms(7) fmdom'I [OF that] by (intro keep) (auto simp: torn_down_def gvk_key_def gvk_defs)
  moreover have "deleted ra_key (view w) (view w')" if "names \<noteq> []"
    using td that assms(7) by (intro keep) (auto simp: torn_down_def gvk_key_def gvk_defs)
  ultimately show ?thesis using run fin(1,2) by blast
qed

end
