(* ===== verification/Admission.thy ===== *)
theory Admission
  imports Frr "HOL-Library.Word"
begin

text \<open>
  What the validation rules of the API give further down: the numbers of autonomous systems in an
  admitted configuration reach the FRRConfigurations inside the 32 bits that BGP has for them.
\<close>

section \<open>Reading a rendered configuration\<close>

definition rendered_asns :: "json \<Rightarrow> json option list" where
  "rendered_asns spec =
     map (\<lambda>r. jget r ''asn'') (jarr (jpath spec [''bgp'', ''routers''])) @
     map (\<lambda>n. jget n ''asn'') (rendered_neighbors spec)"

lemma rendered_asns_frrObject:
  "rendered_asns (uoSpec (frrObject config az name)) =
     Some (JInt (bgpLocalASN (csBGP (cfgSpec config)))) # map (\<lambda>n. Some (JInt (nbRemoteASN n))) (azNeighbors az)"
  unfolding rendered_asns_def frrObject_neighbors frrObject_routers
  by (simp add: jarr_def jget_def jmembers_def frrNeighbor_def)

section \<open>Bounds\<close>

text \<open>A number that is kept by the 32 bits of an AS number and by the 64 bits of the API field.\<close>

definition asn_fits :: "int \<Rightarrow> bool" where
  "asn_fits n \<longleftrightarrow> uint (word_of_int n :: 32 word) = n \<and> sint (word_of_int n :: 64 word) = n"

lemma asn_admitted_fits: "asn_admitted n \<Longrightarrow> asn_fits n"
  by (simp add: asn_admitted_def asn_fits_def uint_word_of_int_eq signed_of_int take_bit_int_eq_self signed_take_bit_int_eq_self)

lemma asn_fits_bounds: "asn_fits n \<Longrightarrow> 0 \<le> n \<and> n < 2 ^ 32"
  using uint_lt2p [of "word_of_int n :: 32 word"] uint_ge_0 [of "word_of_int n :: 32 word"] by (simp add: asn_fits_def)

lemma managed_frr_stored:
  assumes "frr_synced config zones k k'" and "obj \<in> managed_frr k'"
  obtains i where "i < length zones" and "uoSpec obj = uoSpec (frrObject config (zones ! i) (frrName i))"
proof -
  obtain i where i: "i < length zones" "uoName obj = frrName i"
    using assms unfolding frr_synced_def by (metis (no_types, lifting) image_eqI imageE lessThan_iff)
  have "fmlookup (kObjects k') (frr_key (frrName i)) = Some obj" using assms(2) i(2) by (simp add: listed_def)
  moreover have "present (frrObject config (zones ! i) (frrName i)) k'" using assms(1) i(1) by (simp add: frr_synced_def)
  ultimately show ?thesis using i(1) that by (auto simp: present_def stored_as_def)
qed

text \<open>
  C27. Bounds. After the FRRConfigurations for an admitted configuration with explicit zones were
  written, every FRRConfiguration of the operator has at least one neighbour, and every AS number in
  it, of the router and of the neighbours, is a number that 32 bits hold unchanged.
\<close>

theorem rendered_asns_fit:
  assumes "kube_laws lib c view" and "frr_clean (view w)" and "spec_admitted (cfgSpec config)" and "csAWS (cfgSpec config) = None"
    and "EnsureFRRConfigurations lib c config w = (Inr (), w')" and "obj \<in> managed_frr (view w')"
  shows "rendered_neighbors (uoSpec obj) \<noteq> [] \<and>
    list_all (\<lambda>a. case a of Some (JInt n) \<Rightarrow> asn_fits n \<and> 0 \<le> n \<and> n < 2 ^ 32 | _ \<Rightarrow> False) (rendered_asns (uoSpec obj))"
proof -
  let ?zones = "bgpAvailabilityZones (csBGP (cfgSpec config))"
  have "frr_synced config ?zones (view w) (view w')"
    using wp_InrD [OF wp_EnsureFRRConfigurations [OF assms(1,2)] assms(5)] .
  then obtain i where i: "i < length ?zones" and spec: "uoSpec obj = uoSpec (frrObject config (?zones ! i) (frrName i))"
    using assms(6) by (rule managed_frr_stored)
  have local: "asn_admitted (bgpLocalASN (csBGP (cfgSpec config)))" and az: "az_admitted (?zones ! i)"
    using assms(3) i by (simp_all add: spec_admitted_def bgp_admitted_def list_all_length)
  have fits: "asn_fits n \<and> 0 \<le> n \<and> n < 2 ^ 32" if "asn_admitted n" for n
    using asn_admitted_fits [OF that] asn_fits_bounds by blast
  show ?thesis
    using az fits [OF local] fits
    by (auto simp: spec rendered_asns_frrObject frrObject_neighbors az_admitted_def list_all_iff)
qed

end
