(* ===== verification/Demo_Progress.thy ===== *)
theory Demo_Progress
  imports Demo_Cluster Teardown Admission
begin

text \<open>
  The in-memory server never fails without a reason, and the progress theorems applied on it.
\<close>

lemma returns_read [simp]: "returns (\<lambda>w. (Inr (f w), w)) w"
  by (simp add: returns_def)

lemma answers_get_mem: "answers memLib (\<lambda>w. orNotFound (x w) w) (x w \<noteq> None) w"
  by (cases "x w") (auto simp: answers_def returns_def orNotFound_def returnA_def throwA_def memLib_def)

lemma returns_writes_mem:
  "config_current cf (memView w) \<Longrightarrow> returns (memUpdateConfig cf) w"
  "config_current cf (memView w) \<Longrightarrow> returns (memUpdateConfigStatus cf) w"
  "routing_current r (memView w) \<Longrightarrow> returns (memUpdateRouting r) w"
  "routing_current r (memView w) \<Longrightarrow> returns (memUpdateRoutingStatus r) w"
  "\<not> has_object (key_of obj) (memView w) \<Longrightarrow> returns (memCreate obj) w"
  "object_current obj (memView w) \<Longrightarrow> returns (memUpdate obj) w"
  "has_object key (memView w) \<Longrightarrow> returns (memPatch key (Marshal (JObj [(''spec'', p)]))) w"
  by (auto simp: returns_def config_current_def routing_current_def object_current_def memUpdateConfig_def
    memUpdateConfigStatus_def memUpdateRouting_def memUpdateRoutingStatus_def memCreate_def memUpdate_def
    memPatch_def Marshal_def jmembers_def)

lemma answers_delete_mem: "answers memLib (memDelete key) (has_object key (memView w)) w"
  by (auto simp: answers_def returns_def memDelete_def memLib_def split: option.splits)

lemma returns_list_mem: "returns (memList gvk ns sel) w"
  by (simp add: returns_def memList_def)

lemma fault_free_mem: "fault_free memLib memClient memView"
  unfolding fault_free_def memClient_def client.select_convs memView_simps store_lookup
  by (intro conjI allI impI answers_get_mem returns_read returns_list_mem returns_writes_mem
    answers_delete_mem [unfolded memView_simps store_lookup]) (simp_all add: memView_simps)

lemma demo_may_apply: "may_apply (demoRouting ''prod'' None) (memView (routingKube [demoRouting ''prod'' None]))"
proof -
  have "\<lparr>nsName = ''shop'', nsLabels = fmap_of_list [(LabelPrimaryUDN, ''''), (LabelCUDN, ''prod'')]\<rparr>
      \<in> fmran' (kNamespaces (memView (routingKube [demoRouting ''prod'' None])))"
    by (rule fmran'I [of _ "''shop''"]) (simp add: routingKube_def demoWorld_def sget_def FRRNamespace_def)
  moreover have "unique_network (demoRouting ''prod'' None) (memView (routingKube [demoRouting ''prod'' None]))"
    by (auto simp: unique_network_def fmlookup_ran'_iff routingKube_def demoWorld_def sget_def split: if_splits)
  ultimately show ?thesis
    by (auto simp: may_apply_def config_ready_def labelled_for_def routingKube_def demoWorld_def sget_def cluster_name
      demoConfig_def demoMeta_def LabelPrimaryUDN_def LabelCUDN_def intro!: bexI)
qed

theorem RoutingReconcile_progress_witness:
  "\<exists>w'. RoutingReconcile memLib memClient ''prod'' (routingKube [demoRouting ''prod'' None]) =
     (Inr \<lparr>RequeueAfter = 5 * Minute\<rparr>, w')"
proof -
  have "\<exists>res w'. RoutingReconcile memLib memClient ''prod'' (routingKube [demoRouting ''prod'' None]) = (Inr res, w') \<and>
      (res = \<lparr>RequeueAfter = 5 * Minute\<rparr> \<longleftrightarrow> may_apply (demoRouting ''prod'' None) (memView (routingKube [demoRouting ''prod'' None])))"
    using RoutingReconcile_progress [OF kube_laws_mem lib_laws_mem fault_free_mem routing_env(1) routing_lookup, of None "[]"]
    by (auto simp: routing_env)
  then show ?thesis using demo_may_apply by auto
qed

definition explicitKube :: kube where
  "explicitKube = demoWorld [explicitConfig] []"

lemma explicit_frr_ready: "frr_ready (memView explicitKube)"
  by (auto simp: frr_ready_def frr_pods_def explicitKube_def demoWorld_def sget_def)

theorem ConfigReconcile_progress_witness:
  "\<exists>w'. awsConfigReconcile demoEnv memClient SingletonName explicitKube = (Inr \<lparr>RequeueAfter = 5 * Minute\<rparr>, w')"
proof -
  have net: "has_object network_key (memView explicitKube)"
    by (simp add: explicitKube_def demoWorld_def demoObjects_def demoObject_def sget_def key_of_def gvk_key_def)
  have cfg: "fmlookup (kConfigs (memView explicitKube)) SingletonName = Some explicitConfig"
    by (simp add: explicitKube_def demoWorld_def sget_def explicitConfig_def cluster_name)
  have ff: "fault_free (aeLib demoEnv) memClient memView" by (simp add: demoEnv_def fault_free_mem)
  have "frr_clean (memView explicitKube)" by (simp add: explicitKube_def demo_clean)
  from ConfigReconcile_progress [OF demo_good ff this net cfg]
  show ?thesis using explicit_frr_ready
    by (auto simp: explicitConfig_def cluster_name demoConfig_def explicitSpec_def demoMeta_def)
qed

definition leavingKube :: kube where
  "leavingKube = demoWorld [demoConfig explicitSpec ''cluster'' PhaseReady (Some 1)]
     [demoRouting ''prod'' (Some 1), demoRouting ''second'' (Some 2)]"

lemma leaving_all: "all_leaving (memView leavingKube)"
proof -
  have "fmlookup (kConfigs (memView leavingKube)) SingletonName = Some (demoConfig explicitSpec ''cluster'' PhaseReady (Some 1))"
    by (simp add: leavingKube_def demoWorld_def sget_def cluster_name)
  moreover have "leaving (rtgMeta r) RoutingFinalizerName" if "fmlookup (kRoutings (memView leavingKube)) n = Some r" for n r
    using that by (auto simp: leavingKube_def demoWorld_def sget_def leaving_def demoRouting_def demoMeta_def split: if_splits)
  ultimately show ?thesis
    by (auto simp: all_leaving_def leaving_def cluster_name) (simp_all add: demoConfig_def demoMeta_def explicitSpec_def)
qed

theorem teardown_completes_witness:
  "\<exists>w'. teardown demoEnv memClient [''second'', ''prod''] leavingKube = (Inr emptyResult, w') \<and>
     kRoutings (memView w') = fmempty \<and> deleted (cudn_key ''prod'') (memView leavingKube) (memView w') \<and>
     deleted ra_key (memView leavingKube) (memView w')"
proof -
  have names: "set [''second'', ''prod''] = fmdom' (kRoutings (memView leavingKube))"
    by (auto simp: fmlookup_dom'_iff leavingKube_def demoWorld_def sget_def split: if_splits)
  have ff: "fault_free (aeLib demoEnv) memClient memView" by (simp add: demoEnv_def fault_free_mem)
  have clean: "frr_clean (memView leavingKube)" by (simp add: leavingKube_def demo_clean)
  have prod: "fmlookup (kRoutings (memView leavingKube)) ''prod'' = Some (demoRouting ''prod'' (Some 1))"
    by (simp add: leavingKube_def demoWorld_def sget_def)
  obtain w' where run: "teardown demoEnv memClient [''second'', ''prod''] leavingKube = (Inr emptyResult, w')"
    and none: "kRoutings (memView w') = fmempty" and ra: "deleted ra_key (memView leavingKube) (memView w')"
    and nets: "\<And>n r. fmlookup (kRoutings (memView leavingKube)) n = Some r \<Longrightarrow>
      deleted (cudn_key (rtgNetwork r)) (memView leavingKube) (memView w')"
    using teardown_completes [OF demo_good ff clean routing_env(1) leaving_all _ names] by auto
  have "deleted (cudn_key ''prod'') (memView leavingKube) (memView w')" using nets [OF prod] by simp
  with run none ra show ?thesis by blast
qed

theorem rendered_asns_fit_witness:
  "\<exists>obj. obj \<in> managed_frr (memView (snd (syncRun demoKube))) \<and> rendered_neighbors (uoSpec obj) \<noteq> [] \<and>
     list_all (\<lambda>a. case a of Some (JInt n) \<Rightarrow> asn_fits n \<and> 0 \<le> n \<and> n < 2 ^ 32 | _ \<Rightarrow> False) (rendered_asns (uoSpec obj))"
proof -
  have run: "EnsureFRRConfigurations memLib memClient explicitConfig demoKube = (Inr (), snd (syncRun demoKube))"
    using sync_run by (simp add: syncRun_def prod_eq_iff)
  have adm: "spec_admitted (cfgSpec explicitConfig)" "csAWS (cfgSpec explicitConfig) = None" by code_simp+
  have "frr_synced explicitConfig demoZones (memView demoKube) (memView (snd (syncRun demoKube)))"
    using wp_InrD [OF wp_EnsureFRRConfigurations [OF kube_laws_mem kube_clean] run]
    by (simp add: explicitConfig_def demoConfig_def explicitSpec_def)
  then have "frrName 0 \<in> uoName ` managed_frr (memView (snd (syncRun demoKube)))" by (simp add: frr_synced_def demoZones_def)
  then obtain obj where obj: "obj \<in> managed_frr (memView (snd (syncRun demoKube)))" by blast
  from rendered_asns_fit [OF kube_laws_mem kube_clean adm run this] obj show ?thesis by blast
qed

end
