(* ===== verification/Config_Frame.thy ===== *)
theory Config_Frame
  imports Config_Aws Cudn
begin

text \<open>
  What the two controllers do not share: no run of the configuration reconciler, whatever its result
  and whatever state the FRRConfigurations are in, changes a routing or a user-defined network.
\<close>

section \<open>Frames with a condition on the value\<close>

definition keepsP :: "('w \<Rightarrow> 'o) \<Rightarrow> ('w, 'a) act \<Rightarrow> ('a \<Rightarrow> bool) \<Rightarrow> bool" where
  "keepsP obs m P \<longleftrightarrow> (\<forall>w. wp m (\<lambda>a w'. P a \<and> obs w' = obs w) (\<lambda>_ w'. obs w' = obs w) w)"

lemma keeps_at: "keeps obs m \<Longrightarrow> obs w' = obs w \<Longrightarrow> wp m (\<lambda>_ v. obs v = obs w) (\<lambda>_ v. obs v = obs w) w'"
  using keeps_wp [of obs m w'] by simp

lemma keeps_branchP:
  assumes "keepsP obs m P" and "\<And>a. P a \<Longrightarrow> keeps obs (f a)" and "\<And>e. keeps obs (h e)"
  shows "keeps obs (branchA m h f)"
proof (rule keepsI)
  fix w
  have "wp m (\<lambda>a w'. P a \<and> obs w' = obs w) (\<lambda>_ w'. obs w' = obs w) w" using assms(1) by (simp add: keepsP_def)
  then show "wp (branchA m h f) (\<lambda>_ w'. obs w' = obs w) (\<lambda>_ w'. obs w' = obs w) w"
    unfolding wp_branch by (rule wp_mono) (simp_all add: keeps_at [OF assms(2)] keeps_at [OF assms(3)])
qed

lemma keeps_bindP:
  assumes "keepsP obs m P" and "\<And>a. P a \<Longrightarrow> keeps obs (f a)"
  shows "keeps obs (bindA m f)"
proof (rule keepsI)
  fix w
  have "wp m (\<lambda>a w'. P a \<and> obs w' = obs w) (\<lambda>_ w'. obs w' = obs w) w" using assms(1) by (simp add: keepsP_def)
  then show "wp (bindA m f) (\<lambda>_ w'. obs w' = obs w) (\<lambda>_ w'. obs w' = obs w) w"
    unfolding wp_bind by (rule wp_mono) (simp_all add: keeps_at [OF assms(2)])
qed

lemma keeps_forP: "(\<And>x. x \<in> set xs \<Longrightarrow> keeps obs (f x)) \<Longrightarrow> keeps obs (forA xs f)"
  by (induction xs) auto

section \<open>The part of the cluster that belongs to the routings\<close>

definition routing_part :: "cluster \<Rightarrow> (string, CUDNBgpRouting) fmap \<times> (string \<Rightarrow> Unstructured option)" where
  "routing_part k = (kRoutings k, \<lambda>n. fmlookup (kObjects k) (cudn_key n))"

abbreviation routing_obs :: "('w \<Rightarrow> cluster) \<Rightarrow> 'w \<Rightarrow> (string, CUDNBgpRouting) fmap \<times> (string \<Rightarrow> Unstructured option)" where
  "routing_obs view \<equiv> \<lambda>w. routing_part (view w)"

lemma routing_part_changes:
  "changes_only K k k' \<Longrightarrow> (\<And>n. cudn_key n \<notin> K) \<Longrightarrow> routing_part k' = routing_part k"
  by (simp add: routing_part_def changes_only_def)

lemma cudn_key_other [simp]: "cudn_key n \<noteq> frr_key m" "cudn_key n \<noteq> network_key" "network_key \<noteq> cudn_key n"
  by (simp_all add: gvk_key_def gvk_defs)

section \<open>Calls\<close>

lemma keeps_view: "keeps view m \<Longrightarrow> keeps (routing_obs view) m"
  by (simp add: keeps_def)

lemma keeps_read: "read_law view m P \<Longrightarrow> keeps (routing_obs view) m"
  by (rule keepsI, erule wp_read) auto

lemma keeps_get: "get_law lib view m look \<Longrightarrow> keeps (routing_obs view) m"
  by (rule keepsI, erule wp_get) auto

lemma keeps_write:
  assumes "write_law lib view m exist eff" and "\<And>a k k'. eff a k k' \<Longrightarrow> routing_part k' = routing_part k"
  shows "keeps (routing_obs view) m"
  by (rule keepsI, rule wp_write [OF assms(1)]) (use assms(2) in auto)

lemma keeps_config_writes:
  assumes "kube_laws lib c view"
  shows "keeps (routing_obs view) (updateConfig c x)" and "keeps (routing_obs view) (updateConfigStatus c x)"
proof -
  show "keeps (routing_obs view) (updateConfig c x)"
    by (rule keeps_write [OF kube_lawsD(2) [OF assms]]) (auto simp: update_config_effect_def routing_part_def split: if_splits)
  show "keeps (routing_obs view) (updateConfigStatus c x)"
    by (rule keeps_write [OF kube_lawsD(3) [OF assms]]) (auto simp: config_status_effect_def routing_part_def)
qed

lemma keeps_patch: "kube_laws lib c view \<Longrightarrow> keeps (routing_obs view) (PatchNetworkOperator c)"
  unfolding PatchNetworkOperator_def networkPatch_def Let_def
  by (rule keeps_write [OF kube_lawsD(17)]) (auto simp: patch_effect_def routing_part_def fun_eq_iff)

lemma keeps_put:
  assumes "kube_laws lib c view"
  shows "keeps (routing_obs view) (createOrUpdate lib c (frrObject config az name))"
proof (rule keepsI)
  have same: "routing_part k' = routing_part k" if "changes_only {frr_key name} k k'" for k k'
    by (rule routing_part_changes [OF that]) simp
  fix w
  show "wp (createOrUpdate lib c (frrObject config az name)) (\<lambda>_ w'. routing_part (view w') = routing_part (view w))
      (\<lambda>_ w'. routing_part (view w') = routing_part (view w)) w"
    by (rule wp_createOrUpdate [OF assms]) (use same put_effect_only [of "frrObject config az name"] in auto)
qed

lemma keeps_delete:
  assumes "kube_laws lib c view"
  shows "keeps (routing_obs view) (deleteIgnoreNotFound lib c (frr_key name))"
proof (rule keepsI)
  have same: "routing_part k' = routing_part k" if "changes_only {frr_key name} k k'" for k k'
    by (rule routing_part_changes [OF that]) simp
  fix w
  show "wp (deleteIgnoreNotFound lib c (frr_key name)) (\<lambda>_ w'. routing_part (view w') = routing_part (view w))
      (\<lambda>_ w'. routing_part (view w') = routing_part (view w)) w"
    by (rule wp_deleteIgnoreNotFound [OF assms]) (use same in auto)
qed

text \<open>A loop over the listed FRRConfigurations only meets their keys.\<close>

lemma keepsP_list:
  assumes "kube_laws lib c view"
  shows "keepsP (routing_obs view) (listObjects c FRRConfigurationGVK ns sel)
    (\<lambda>items. \<forall>it \<in> set items. \<exists>n. key_of it = gvk_key FRRConfigurationGVK ns n)"
  unfolding keepsP_def by (intro allI, rule wp_read [OF kube_lawsD(16) [OF assms]]) (auto simp: listed_def)

lemma keeps_routing_prune: "kube_laws lib c view \<Longrightarrow> keeps (routing_obs view) (pruneFRRConfigurations lib c expected)"
  unfolding pruneFRRConfigurations_def
  by (rule keeps_bindP [OF keepsP_list]) (auto intro!: keeps_forP keeps_wrap dest!: bspec intro: keeps_delete)

lemma keeps_DeleteFRR: "kube_laws lib c view \<Longrightarrow> keeps (routing_obs view) (DeleteFRRConfigurations lib c)"
  unfolding DeleteFRRConfigurations_def
  by (rule keeps_bindP [OF keepsP_list]) (auto intro!: keeps_forP dest!: bspec intro: keeps_delete)

lemma keeps_EnsureFRR:
  assumes "kube_laws lib c view"
  shows "keeps (routing_obs view) (EnsureFRRConfigurations lib c config)"
    and "range_laws ro view \<Longrightarrow> keeps (routing_obs view) (EnsureFRRConfigurationsFromDiscovery ro lib c config dr)"
  unfolding EnsureFRRConfigurations_def EnsureFRRConfigurationsFromDiscovery_def ensureSingleFRRConfiguration_def Let_def
  by (intro keeps_bind keeps_for keeps_wrap keeps_put keeps_routing_prune keeps_return keeps_view [OF keeps_range] assms; assumption)+


section \<open>The reconciler\<close>

lemma keepsP_builder:
  assumes "aws_good e c view"
  shows "keepsP (routing_obs view) (defaultPlatformBuilder (aeLib e) (aeApi e) c config) (\<lambda>p. aws_legal (aeSdk e) p view)"
  unfolding keepsP_def by (intro allI, rule wp_mono [OF awsConfig.builder_spec [OF assms]]) auto

lemma keepsP_discover:
  fixes e :: "('w, 'c) awsEnv" and view :: "'w \<Rightarrow> cluster"
  assumes "aws_legal (aeSdk e) p view"
  shows "keepsP (routing_obs view) (cpDiscoverEndpoints (awsMethods (aeSdk e)) p) (\<lambda>(_, p'). aws_legal (aeSdk e) p' view)"
  unfolding keepsP_def by (intro allI, rule awsConfig.wp_discover [OF assms]) auto

lemma keeps_methods:
  fixes e :: "('w, 'c) awsEnv" and view :: "'w \<Rightarrow> cluster"
  assumes "aws_legal (aeSdk e) p view"
  shows "keeps (routing_obs view) (cpReconcileNodes (awsMethods (aeSdk e)) p ns)"
    and "keeps (routing_obs view) (cpCleanup (awsMethods (aeSdk e)) p)"
proof -
  show "keeps (routing_obs view) (cpReconcileNodes (awsMethods (aeSdk e)) p ns)"
    by (rule keepsI, rule awsConfig.wp_reconcile [OF assms]) auto
  show "keeps (routing_obs view) (cpCleanup (awsMethods (aeSdk e)) p)"
    by (rule keepsI, rule awsConfig.wp_cleanup [OF assms]) auto
qed

lemma keeps_if: "(b \<Longrightarrow> keeps obs m) \<Longrightarrow> (\<not> b \<Longrightarrow> keeps obs m') \<Longrightarrow> keeps obs (if b then m else m')"
  by simp

lemma keeps_degraded: "kube_laws lib c view \<Longrightarrow> keeps (routing_obs view) (ConfigSetDegraded lib c config t re m)"
  unfolding ConfigSetDegraded_def by (intro keeps_bind keeps_config_writes keeps_return)

lemma keeps_FRRReady: "kube_laws lib c view \<Longrightarrow> keeps (routing_obs view) (IsFRRReady lib c)"
  by (rule keepsI, rule wp_IsFRRReady) auto

lemma keeps_delete_config:
  assumes good: "aws_good e c view"
  shows "keeps (routing_obs view) (ConfigReconcileDelete (awsConfigEnv e) (awsReconciler c) config)"
proof -
  note laws = aws_goodD(1) [OF good]
  have "keeps (routing_obs view) (cleanupCloud (awsConfigEnv e) (awsReconciler c) config)"
    unfolding cleanupCloud_def awsConfigEnv_simps
    by (intro keeps_if keeps_return keeps_branchP [OF keepsP_builder [OF good]])
      (auto intro!: keeps_branchP [OF keepsP_discover] keeps_wrap keeps_methods)
  then show ?thesis
    unfolding ConfigReconcileDelete_def awsConfigEnv_simps
    by (intro keeps_bind keeps_if keeps_return keeps_DeleteFRR [OF laws] keeps_config_writes [OF laws] keeps_read [OF kube_lawsD(5) [OF laws]])
qed

lemma keeps_Phase4:
  assumes good: "aws_good e c view" and "\<And>dr p. disc = Some (dr, p) \<Longrightarrow> aws_legal (aeSdk e) p view"
  shows "keeps (routing_obs view) (ConfigPhase4 (awsConfigEnv e) (awsReconciler c) config disc)"
proof -
  note laws = aws_goodD(1) [OF good]
  have finish: "keeps (routing_obs view) (ConfigFinish (awsReconciler c) cf)" for cf
    unfolding ConfigFinish_def awsConfigEnv_simps by (intro keeps_bind keeps_config_writes [OF laws] keeps_return)
  have nodes: "keeps (routing_obs view) (listRouterNodes c cf)" for cf
    unfolding listRouterNodes_def by (intro keeps_bind keeps_return keeps_read [OF kube_lawsD(11) [OF laws]])
  have phase5: "keeps (routing_obs view) (ConfigPhase5 (awsConfigEnv e) (awsReconciler c) cf (map_option snd disc))" for cf
  proof (cases disc)
    case None
    then show ?thesis by (simp add: ConfigPhase5_def finish)
  next
    case (Some d)
    then have "aws_legal (aeSdk e) (snd d) view" using assms(2) by (cases d) auto
    then show ?thesis
      unfolding ConfigPhase5_def Some option.map option.case awsConfigEnv_simps
      by (intro keeps_branch nodes keeps_methods keeps_degraded finish laws)
  qed
  have "keeps (routing_obs view) (applyFRR (awsConfigEnv e) (awsReconciler c) config disc)"
    unfolding applyFRR_def awsConfigEnv_simps
    by (auto split: option.split prod.split intro!: keeps_bind keeps_EnsureFRR [OF laws] aws_goodD(3) [OF good])
  then show ?thesis
    unfolding ConfigPhase4_def awsConfigEnv_simps by (intro keeps_branch keeps_degraded phase5 laws)
qed

lemma ConfigReconcile_routing_frame:
  assumes good: "aws_good e c view"
  shows "keeps (routing_obs view) (awsConfigReconcile e c name)"
proof -
  note laws = aws_goodD(1) [OF good]
  have phase3: "keeps (routing_obs view) (ConfigPhase3 (awsConfigEnv e) (awsReconciler c) cf)" for cf
    unfolding ConfigPhase3_def awsConfigEnv_simps
    by (intro keeps_if keeps_Phase4 [OF good] keeps_branchP [OF keepsP_builder [OF good]])
      (auto intro!: keeps_branchP [OF keepsP_discover] keeps_Phase4 [OF good] keeps_degraded [OF laws] split: option.split)
  have phase1: "keeps (routing_obs view) (ConfigPhase1 (awsConfigEnv e) (awsReconciler c) cf)" for cf
    unfolding ConfigPhase1_def ConfigPhase2_def awsConfigEnv_simps
    by (intro keeps_branch keeps_bind keeps_if keeps_patch [OF laws] keeps_FRRReady [OF laws] keeps_degraded [OF laws]
      keeps_config_writes [OF laws] keeps_return phase3)
  have "keeps (routing_obs view) (ensureConfigFinalizer (aeLib e) c cf)" for cf
    unfolding ensureConfigFinalizer_def by (intro keeps_if keeps_config_writes [OF laws] keeps_return)
  then show ?thesis
    unfolding awsConfigReconcile_def ConfigReconcile_def awsConfigEnv_simps
    by (intro keeps_branch keeps_bind keeps_if keeps_return keeps_throw keeps_get [OF kube_lawsD(1) [OF laws]]
      keeps_degraded [OF laws] keeps_delete_config [OF good] phase1)
qed

end
