(* ===== verification/System.thy ===== *)
theory System
  imports Config_Frame Routing_Controller
begin

text \<open>
  The two controllers over time: the manager runs them in any order and on any request, any run may
  fail at any call, and between two runs users and other controllers change the cluster. The steps are
  an inductive relation on worlds; what holds in every reachable world is proved by rule induction
  over it.
\<close>

section \<open>Ownership of networks\<close>

text \<open>A user-defined network of the operator that is not being deleted.\<close>

definition network_live :: "string \<Rightarrow> cluster \<Rightarrow> bool" where
  "network_live n k \<longleftrightarrow>
     (\<exists>obj. fmlookup (kObjects k) (cudn_key n) = Some obj \<and> \<not> uoDeleting obj \<and>
       lookup_or '''' (uoLabels obj) LabelManagedBy = LabelManagedByVal)"



text \<open>A run of one of the two controllers, with any request, result and error.\<close>

inductive operator_step :: "('w, 'c) awsEnv \<Rightarrow> 'w client \<Rightarrow> 'w \<Rightarrow> 'w \<Rightarrow> bool" for e c where
  routing: "RoutingReconcile (aeLib e) c name w = (result, w') \<Longrightarrow> operator_step e c w w'"
| config: "awsConfigReconcile e c name w = (result, w') \<Longrightarrow> operator_step e c w w'"


inductive_cases operator_stepE: "operator_step e c w w'"

section \<open>One reconciliation\<close>



text \<open>What a deletion keeps: it brings no network to life, and the routing keeps its name and spec.\<close>

definition deletion_keeps :: "CUDNBgpRouting \<Rightarrow> cluster \<Rightarrow> cluster \<Rightarrow> bool" where
  "deletion_keeps r k k' \<longleftrightarrow>
     (\<forall>n. network_live n k' \<longrightarrow> network_live n k) \<and>
     (\<forall>st. fmlookup (kRoutings k') (rtgName r) = Some st \<longrightarrow> rtgName st = rtgName r \<and> rtgSpec st = rtgSpec r)"

lemma delete_effect_live: "delete_object_effect key k k' \<Longrightarrow> network_live n k' \<Longrightarrow> network_live n k"
  by (cases "key = cudn_key n") (auto simp: delete_object_effect_def network_live_def split: if_splits)

lemma deletion_keeps_delete:
  assumes "delete_object_effect key k1 k2" and "deletion_keeps r k k1"
  shows "deletion_keeps r k k2"
  using assms delete_effect_live [OF assms(1)] unfolding deletion_keeps_def
  by (auto simp: delete_object_effect_def split: if_splits)

lemma wp_delete_keeps:
  assumes "kube_laws lib c view" and "deletion_keeps r k (view w)" and "\<And>w'. deletion_keeps r k (view w') \<Longrightarrow> Q () w'"
    and "\<And>e w'. deletion_keeps r k (view w') \<Longrightarrow> E e w'"
  shows "wp (deleteIgnoreNotFound lib c key) Q E w"
  unfolding deleteIgnoreNotFound_def wp_branch
  by (rule wp_write [OF kube_lawsD(15) [OF assms(1)]])
    (use assms(2-4) deletion_keeps_delete in \<open>auto simp: wp_simps\<close>)

lemma update_routing_stored:
  assumes "update_routing_effect x r1 k k'" and "fmlookup (kRoutings k') (rtgName x) = Some st"
  shows "rtgName st = rtgName x \<and> rtgSpec st = rtgSpec x"
  using assms by (auto simp: update_routing_effect_def split: if_splits)

lemma deletion_keeps_refl:
  "fmlookup (kRoutings k) (rtgName r) = Some r \<Longrightarrow> deletion_keeps r k k"
  by (simp add: deletion_keeps_def)

lemma wp_Delete_keeps:
  assumes laws: "kube_laws lib c view" and keeps: "deletion_keeps r k (view w)"
  shows "wp (RoutingReconcileDelete lib c r) (\<lambda>_ w'. deletion_keeps r k (view w')) (\<lambda>_ w'. deletion_keeps r k (view w')) w"
proof -
  let ?x = "r\<lparr>rtgMeta := (rtgMeta r)\<lparr>metaFinalizers :=
      RemoveFinalizer lib (metaFinalizers (rtgMeta r)) RoutingFinalizerName\<rparr>\<rparr>"
  have upd: "deletion_keeps r k k2" if eff: "update_routing_effect ?x r1 k1 k2" and keeps: "deletion_keeps r k k1" for r1 k1 k2
  proof -
    have "kObjects k2 = kObjects k1" using update_routing_only [OF eff] by (simp add: only_routing_def)
    then have "network_live n k2 = network_live n k1" for n by (simp add: network_live_def)
    moreover have "rtgName st = rtgName r \<and> rtgSpec st = rtgSpec r" if "fmlookup (kRoutings k2) (rtgName r) = Some st" for st
      using update_routing_stored [OF eff, of st] that by simp
    ultimately show ?thesis using keeps unfolding deletion_keeps_def by blast
  qed
  have release: "wp (updateRouting c ?x) (\<lambda>_ w'. deletion_keeps r k (view w')) (\<lambda>_ w'. deletion_keeps r k (view w')) w1"
    if "deletion_keeps r k (view w1)" for w1
    by (rule wp_write [OF kube_lawsD(6) [OF laws]]) (use upd that in auto)
  show ?thesis
    unfolding RoutingReconcileDelete_def DeleteCUDN_def DeleteRouteAdvertisements_def Let_def wp_bind
    by (auto simp: wp_simps wp_eta intro!: wp_delete_keeps [OF laws] wp_read [OF kube_lawsD(5) [OF laws]] keeps release)
qed

lemma RoutingReconcile_deletion_keeps:
  assumes "kube_laws lib c view" and "fmlookup (kRoutings (view w)) name = Some r" and "rtgName r = name"
    and "metaDeletionTimestamp (rtgMeta r) \<noteq> None" and "RoutingReconcile lib c name w = (result, w')"
  shows "deletion_keeps r (view w) (view w')"
proof -
  have "wp (RoutingReconcile lib c name) (\<lambda>_ w'. deletion_keeps r (view w) (view w')) (\<lambda>_ w'. deletion_keeps r (view w) (view w')) w"
    unfolding RoutingReconcile_def wp_branch
    by (rule wp_get [OF kube_lawsD(4) [OF assms(1)]])
      (use assms(2-4) in \<open>auto simp: wp_simps intro!: wp_Delete_keeps [OF assms(1)] deletion_keeps_refl\<close>)
  then show ?thesis using assms(5) by (rule wp_anyD)
qed


lemma RoutingReconcile_cases:
  assumes laws: "kube_laws lib c view" "lib_laws lib" and keyed: "routings_keyed (view w)"
    and run: "RoutingReconcile lib c name w = (result, w')"
  obtains (same) "view w' = view w"
  | (active) r where "fmlookup (kRoutings (view w)) (rtgName r) = Some r" "routing_safe r (view w) (view w')"
  | (deleting) r where "fmlookup (kRoutings (view w)) (rtgName r) = Some r" "delete_safe r (view w) (view w')"
      "deletion_keeps r (view w) (view w')"
proof (cases "fmlookup (kRoutings (view w)) name")
  case None
  then show ?thesis using RoutingReconcile_missing [OF laws(1) _ run] same by blast
next
  case (Some r)
  then have name: "rtgName r = name" using keyed by (simp add: routings_keyed_def)
  show ?thesis
  proof (cases "metaDeletionTimestamp (rtgMeta r) = None")
    case True
    then show ?thesis using active [of r] RoutingReconcile_changes [OF laws keyed Some run] Some name by simp
  next
    case False
    then show ?thesis
      using deleting [of r] RoutingReconcile_changes [OF laws keyed Some run]
        RoutingReconcile_deletion_keeps [OF laws(1) Some name False run] Some name by simp
  qed
qed

lemma other_network_untouched:
  "routing_safe r k k' \<Longrightarrow> rtgNetwork r \<noteq> n \<Longrightarrow> fmlookup (kObjects k') (cudn_key n) = fmlookup (kObjects k) (cudn_key n)"
  "delete_safe r k k' \<Longrightarrow> rtgNetwork r \<noteq> n \<Longrightarrow> fmlookup (kObjects k') (cudn_key n) = fmlookup (kObjects k) (cudn_key n)"
  by (simp add: routing_safe_def, rule delete_safe_other) (auto simp: gvk_key_def gvk_defs)

lemma keyed_update:
  assumes "routings_keyed k" and "\<forall>n. n \<noteq> name \<longrightarrow> fmlookup (kRoutings k') n = fmlookup (kRoutings k) n"
    and "\<And>st. fmlookup (kRoutings k') name = Some st \<Longrightarrow> rtgName st = name"
  shows "routings_keyed k'"
  unfolding routings_keyed_def by (metis assms routings_keyed_def)



text \<open>Whether networks are live and claimed is said of the routings' part of the cluster alone.\<close>

lemma routing_part_cong:
  assumes "routing_part k' = routing_part k"
  shows "kRoutings k' = kRoutings k" and "fmlookup (kObjects k') (cudn_key n) = fmlookup (kObjects k) (cudn_key n)"
  using assms by (auto simp: routing_part_def dest: fun_cong)


lemma routings_keyed_cong: "routing_part k' = routing_part k \<Longrightarrow> routings_keyed k' = routings_keyed k"
  by (simp add: routings_keyed_def routing_part_cong(1) [of k' k])

lemma config_run_frame:
  "aws_good e c view \<Longrightarrow> awsConfigReconcile e c name w = (result, w') \<Longrightarrow> routing_part (view w') = routing_part (view w)"
  using ConfigReconcile_routing_frame keepsD by metis




section \<open>Renamed networks\<close>

definition unclaimed :: "string \<Rightarrow> cluster \<Rightarrow> bool" where
  "unclaimed n k \<longleftrightarrow> (\<forall>name r. fmlookup (kRoutings k) name = Some r \<longrightarrow> rtgNetwork r \<noteq> n)"

lemma unclaimed_routing:
  assumes laws: "kube_laws lib c view" "lib_laws lib" and keyed: "routings_keyed (view w)" and n: "unclaimed n (view w)"
    and run: "RoutingReconcile lib c name w = (result, w')"
  shows "routings_keyed (view w') \<and> unclaimed n (view w') \<and>
    fmlookup (kObjects (view w')) (cudn_key n) = fmlookup (kObjects (view w)) (cudn_key n)"
  using laws keyed run
proof (cases rule: RoutingReconcile_cases)
  case same
  then show ?thesis using keyed n by simp
next
  case (active r)
  obtain st where st: "fmlookup (kRoutings (view w')) (rtgName r) = Some st" "rtgName st = rtgName r" "rtgSpec st = rtgSpec r"
    using active(2) by (auto simp: routing_safe_def routing_guard_def)
  have others: "\<forall>n. n \<noteq> rtgName r \<longrightarrow> fmlookup (kRoutings (view w')) n = fmlookup (kRoutings (view w)) n"
    using active(2) by (simp add: routing_safe_def)
  have "rtgNetwork r \<noteq> n" using n active(1) by (auto simp: unclaimed_def)
  then have "fmlookup (kObjects (view w')) (cudn_key n) = fmlookup (kObjects (view w)) (cudn_key n)"
    by (rule other_network_untouched(1) [OF active(2)])
  moreover have "unclaimed n (view w')"
    unfolding unclaimed_def by (metis st(1,3) others n active(1) unclaimed_def option.inject)
  moreover have "routings_keyed (view w')" by (rule keyed_update [OF keyed others]) (use st in simp)
  ultimately show ?thesis by blast
next
  case (deleting r)
  have others: "\<forall>n. n \<noteq> rtgName r \<longrightarrow> fmlookup (kRoutings (view w')) n = fmlookup (kRoutings (view w)) n"
    using deleting(2) by (simp add: delete_safe_def)
  have kept: "rtgName st = rtgName r \<and> rtgSpec st = rtgSpec r" if "fmlookup (kRoutings (view w')) (rtgName r) = Some st" for st
    using deleting(3) that by (simp add: deletion_keeps_def)
  have "rtgNetwork r \<noteq> n" using n deleting(1) by (auto simp: unclaimed_def)
  then have "fmlookup (kObjects (view w')) (cudn_key n) = fmlookup (kObjects (view w)) (cudn_key n)"
    by (rule other_network_untouched(2) [OF deleting(2)])
  moreover have "unclaimed n (view w')"
    unfolding unclaimed_def by (metis kept others n deleting(1) unclaimed_def)
  moreover have "routings_keyed (view w')" by (rule keyed_update [OF keyed others]) (use kept in blast)
  ultimately show ?thesis by blast
qed

definition left_alone :: "string \<Rightarrow> cluster \<Rightarrow> cluster \<Rightarrow> bool" where
  "left_alone n k k' \<longleftrightarrow>
     routings_keyed k' \<and> unclaimed n k' \<and> fmlookup (kObjects k') (cudn_key n) = fmlookup (kObjects k) (cudn_key n)"

lemma unclaimed_step:
  assumes good: "aws_good e c view" and inv: "routings_keyed (view w)" "unclaimed n (view w)"
    and step: "operator_step e c w w'"
  shows "left_alone n (view w) (view w')"
  using step
proof (rule operator_stepE)
  fix name result
  assume "RoutingReconcile (aeLib e) c name w = (result, w')"
  from unclaimed_routing [OF aws_goodD(1,2) [OF good] inv this] show ?thesis by (simp add: left_alone_def)
next
  fix name result
  assume "awsConfigReconcile e c name w = (result, w')"
  then have same: "routing_part (view w') = routing_part (view w)" by (rule config_run_frame [OF good])
  have "routings_keyed (view w')" using inv(1) routings_keyed_cong [OF same] by blast
  moreover have "unclaimed n (view w')" using inv(2) unfolding unclaimed_def routing_part_cong(1) [OF same] .
  ultimately show ?thesis unfolding left_alone_def using routing_part_cong(2) [OF same] by blast
qed

text \<open>
  C33. A renamed network is left behind. The API lets a user change \<open>spec.network.name\<close>. When no
  routing names a network any more, no sequence of runs of the operator, deletions of routings
  included, ever touches the object of the old name again.
\<close>

theorem renamed_network_left_behind:
  assumes "aws_good e c view" and "routings_keyed (view w)" and "unclaimed n (view w)"
    and "(operator_step e c)\<^sup>*\<^sup>* w w'"
  shows "fmlookup (kObjects (view w')) (cudn_key n) = fmlookup (kObjects (view w)) (cudn_key n)"
proof -
  from assms(4) have "left_alone n (view w) (view w')"
  proof (induction rule: rtranclp_induct)
    case base
    then show ?case using assms(2,3) by (simp add: left_alone_def)
  next
    case (step y z)
    then have "routings_keyed (view y)" and "unclaimed n (view y)" by (simp_all add: left_alone_def)
    from unclaimed_step [OF assms(1) this step.hyps(2)] have "left_alone n (view y) (view z)" .
    then show ?case using step.IH by (simp add: left_alone_def)
  qed
  then show ?thesis by (simp add: left_alone_def)
qed

end
