(* ===== verification/Rbac.thy ===== *)
theory Rbac
  imports Controller_Setup Config_Frame
begin

text \<open>
  The permissions that the \<open>kubebuilder:rbac\<close> markers of both controllers ask for, and that they are
  enough: a client that refuses every call which the markers do not permit cannot be told from the
  unrestricted one.
\<close>

section \<open>The markers\<close>

record policyRule =
  prGroup :: string
  prResource :: string
  prVerbs :: "string list"

definition readVerbs :: "string list" where
  "readVerbs = [''get'', ''list'', ''watch'']"

definition allVerbs :: "string list" where
  "allVerbs = [''get'', ''list'', ''watch'', ''create'', ''update'', ''patch'', ''delete'']"

definition configRules :: "policyRule list" where
  "configRules =
     [\<lparr>prGroup = ''networking.openshift.io'', prResource = ''cudnbgpconfigs'', prVerbs = allVerbs\<rparr>,
      \<lparr>prGroup = ''networking.openshift.io'', prResource = ''cudnbgpconfigs/status'', prVerbs = [''get'', ''update'', ''patch'']\<rparr>,
      \<lparr>prGroup = ''networking.openshift.io'', prResource = ''cudnbgpconfigs/finalizers'', prVerbs = [''update'']\<rparr>,
      \<lparr>prGroup = ''networking.openshift.io'', prResource = ''cudnbgproutings'', prVerbs = readVerbs\<rparr>,
      \<lparr>prGroup = ''operator.openshift.io'', prResource = ''networks'', prVerbs = readVerbs @ [''patch'']\<rparr>,
      \<lparr>prGroup = ''frrk8s.metallb.io'', prResource = ''frrconfigurations'', prVerbs = allVerbs\<rparr>,
      \<lparr>prGroup = '''', prResource = ''namespaces'', prVerbs = readVerbs\<rparr>,
      \<lparr>prGroup = '''', prResource = ''pods'', prVerbs = readVerbs\<rparr>,
      \<lparr>prGroup = '''', prResource = ''nodes'', prVerbs = readVerbs\<rparr>,
      \<lparr>prGroup = ''config.openshift.io'', prResource = ''infrastructures'', prVerbs = [''get'']\<rparr>]"

definition routingRules :: "policyRule list" where
  "routingRules =
     [\<lparr>prGroup = ''networking.openshift.io'', prResource = ''cudnbgproutings'', prVerbs = allVerbs\<rparr>,
      \<lparr>prGroup = ''networking.openshift.io'', prResource = ''cudnbgproutings/status'', prVerbs = [''get'', ''update'', ''patch'']\<rparr>,
      \<lparr>prGroup = ''networking.openshift.io'', prResource = ''cudnbgproutings/finalizers'', prVerbs = [''update'']\<rparr>,
      \<lparr>prGroup = '''', prResource = ''namespaces'', prVerbs = readVerbs\<rparr>,
      \<lparr>prGroup = ''k8s.ovn.org'', prResource = ''clusteruserdefinednetworks'', prVerbs = allVerbs\<rparr>,
      \<lparr>prGroup = ''k8s.ovn.org'', prResource = ''routeadvertisements'', prVerbs = allVerbs\<rparr>]"

text \<open>Both sets of markers make up the one role of the manager.\<close>

definition managerRole :: "policyRule list" where
  "managerRole = configRules @ routingRules"

definition permits :: "policyRule list \<Rightarrow> string \<Rightarrow> string \<Rightarrow> string \<Rightarrow> bool" where
  "permits rules g res verb \<longleftrightarrow> list_ex (\<lambda>r. prGroup r = g \<and> prResource r = res \<and> verb \<in> set (prVerbs r)) rules"

section \<open>A client with these permissions\<close>

text \<open>
  Typed objects are read through the cache of the manager, which lists and watches them; unstructured
  ones are read from the server. Which resource an unstructured object belongs to is found by the
  REST mapper, a parameter: the five kinds of the sources are served under these resources.
\<close>

type_synonym restMapper = "string \<Rightarrow> string \<Rightarrow> string \<times> string"

definition rest_laws :: "restMapper \<Rightarrow> bool" where
  "rest_laws rest \<longleftrightarrow>
     rest ''operator.openshift.io/v1'' ''Network'' = (''operator.openshift.io'', ''networks'') \<and>
     rest ''frrk8s.metallb.io/v1beta1'' ''FRRConfiguration'' = (''frrk8s.metallb.io'', ''frrconfigurations'') \<and>
     rest ''k8s.ovn.org/v1'' ''ClusterUserDefinedNetwork'' = (''k8s.ovn.org'', ''clusteruserdefinednetworks'') \<and>
     rest ''k8s.ovn.org/v1'' ''RouteAdvertisements'' = (''k8s.ovn.org'', ''routeadvertisements'') \<and>
     rest ''config.openshift.io/v1'' ''Infrastructure'' = (''config.openshift.io'', ''infrastructures'')"

definition forbidden :: go_error where
  "forbidden = ExternalError ''Forbidden'' ''the role of the manager does not permit this''"

definition guarded :: "policyRule list \<Rightarrow> string \<times> string \<Rightarrow> string list \<Rightarrow> ('w, 'a) act \<Rightarrow> ('w, 'a) act" where
  "guarded rules res verbs m = (if list_all (permits rules (fst res) (snd res)) verbs then m else throwA forbidden)"

abbreviation onApi :: "policyRule list \<Rightarrow> string \<Rightarrow> string list \<Rightarrow> ('w, 'a) act \<Rightarrow> ('w, 'a) act" where
  "onApi rules res \<equiv> guarded rules (''networking.openshift.io'', res)"

abbreviation onKey :: "restMapper \<Rightarrow> policyRule list \<Rightarrow> ukey \<Rightarrow> string \<Rightarrow> ('w, 'a) act \<Rightarrow> ('w, 'a) act" where
  "onKey rest rules key verb \<equiv> guarded rules (rest (ukApiVersion key) (ukKind key)) [verb]"

definition restricted :: "restMapper \<Rightarrow> policyRule list \<Rightarrow> 'w client \<Rightarrow> 'w client" where
  "restricted rest rules c =
     \<lparr>getConfig = (\<lambda>n. onApi rules ''cudnbgpconfigs'' readVerbs (getConfig c n)),
      updateConfig = (\<lambda>x. onApi rules ''cudnbgpconfigs'' [''update''] (updateConfig c x)),
      updateConfigStatus = (\<lambda>x. onApi rules ''cudnbgpconfigs/status'' [''update''] (updateConfigStatus c x)),
      getRouting = (\<lambda>n. onApi rules ''cudnbgproutings'' readVerbs (getRouting c n)),
      listRoutings = onApi rules ''cudnbgproutings'' readVerbs (listRoutings c),
      updateRouting = (\<lambda>x. onApi rules ''cudnbgproutings'' [''update''] (updateRouting c x)),
      updateRoutingStatus = (\<lambda>x. onApi rules ''cudnbgproutings/status'' [''update''] (updateRoutingStatus c x)),
      getNamespace = (\<lambda>n. guarded rules ('''', ''namespaces'') readVerbs (getNamespace c n)),
      listNamespaces = (\<lambda>sel. guarded rules ('''', ''namespaces'') readVerbs (listNamespaces c sel)),
      listPods = (\<lambda>ns sel. guarded rules ('''', ''pods'') readVerbs (listPods c ns sel)),
      listNodes = (\<lambda>sel. guarded rules ('''', ''nodes'') readVerbs (listNodes c sel)),
      getObject = (\<lambda>key. onKey rest rules key ''get'' (getObject c key)),
      createObject = (\<lambda>x. onKey rest rules (key_of x) ''create'' (createObject c x)),
      updateObject = (\<lambda>x. onKey rest rules (key_of x) ''update'' (updateObject c x)),
      deleteObject = (\<lambda>key. onKey rest rules key ''delete'' (deleteObject c key)),
      listObjects = (\<lambda>gvk ns sel. onKey rest rules (gvk_key gvk ns '''') ''list'' (listObjects c gvk ns sel)),
      mergePatch = (\<lambda>key doc. onKey rest rules key ''patch'' (mergePatch c key doc))\<rparr>"

section \<open>The permitted calls\<close>

lemma typed_permitted:
  "list_all (permits managerRole ''networking.openshift.io'' ''cudnbgpconfigs'') readVerbs"
  "list_all (permits managerRole ''networking.openshift.io'' ''cudnbgpconfigs'') [''update'']"
  "list_all (permits managerRole ''networking.openshift.io'' ''cudnbgpconfigs/status'') [''update'']"
  "list_all (permits managerRole ''networking.openshift.io'' ''cudnbgproutings'') readVerbs"
  "list_all (permits managerRole ''networking.openshift.io'' ''cudnbgproutings'') [''update'']"
  "list_all (permits managerRole ''networking.openshift.io'' ''cudnbgproutings/status'') [''update'']"
  "list_all (permits managerRole '''' ''namespaces'') readVerbs"
  "list_all (permits managerRole '''' ''pods'') readVerbs"
  "list_all (permits managerRole '''' ''nodes'') readVerbs"
  by code_simp+

lemma restricted_typed [simp]:
  "getConfig (restricted rest managerRole c) = getConfig c" "updateConfig (restricted rest managerRole c) = updateConfig c"
  "updateConfigStatus (restricted rest managerRole c) = updateConfigStatus c"
  "getRouting (restricted rest managerRole c) = getRouting c" "listRoutings (restricted rest managerRole c) = listRoutings c"
  "updateRouting (restricted rest managerRole c) = updateRouting c"
  "updateRoutingStatus (restricted rest managerRole c) = updateRoutingStatus c"
  "getNamespace (restricted rest managerRole c) = getNamespace c" "listNamespaces (restricted rest managerRole c) = listNamespaces c"
  "listPods (restricted rest managerRole c) = listPods c" "listNodes (restricted rest managerRole c) = listNodes c"
  by (simp_all only: restricted_def guarded_def client.simps fst_conv snd_conv typed_permitted if_True)

text \<open>The kinds that the operator writes.\<close>

definition written_kind :: "GroupVersionKind \<Rightarrow> bool" where
  "written_kind gvk \<longleftrightarrow> gvk \<in> {FRRConfigurationGVK, CUDNNetworkGVK, RouteAdvertisementsGVK}"

lemma written_kinds [simp]:
  "written_kind FRRConfigurationGVK" "written_kind CUDNNetworkGVK" "written_kind RouteAdvertisementsGVK"
  by (simp_all add: written_kind_def)

definition written_resources :: "(string \<times> string) list" where
  "written_resources =
     [(''frrk8s.metallb.io'', ''frrconfigurations''), (''k8s.ovn.org'', ''clusteruserdefinednetworks''),
      (''k8s.ovn.org'', ''routeadvertisements'')]"

lemma written_permitted: "list_all (\<lambda>(g, res). list_all (permits managerRole g res) allVerbs) written_resources"
  by code_simp

lemma rest_written:
  assumes "rest_laws rest" and "written_kind gvk"
  shows "rest (apiVersion_of gvk) (gvkKind gvk) \<in> set written_resources"
  using assms by (auto simp: written_kind_def rest_laws_def apiVersion_of_def gvk_defs written_resources_def)

lemma onKey_written:
  assumes "rest_laws rest" and "written_kind gvk" and "verb \<in> set allVerbs"
  shows "onKey rest managerRole (gvk_key gvk ns n) verb m = m"
proof -
  have "list_all (permits managerRole (fst r) (snd r)) allVerbs" if "r \<in> set written_resources" for r
    using written_permitted that by (auto simp: list_all_iff)
  from this [OF rest_written [OF assms(1,2)]] assms(3) show ?thesis
    by (simp add: guarded_def gvk_key_def list_all_iff)
qed

lemma restricted_written:
  assumes "rest_laws rest" and "written_kind gvk"
  shows "getObject (restricted rest managerRole c) (gvk_key gvk ns n) = getObject c (gvk_key gvk ns n)"
    and "deleteObject (restricted rest managerRole c) (gvk_key gvk ns n) = deleteObject c (gvk_key gvk ns n)"
    and "listObjects (restricted rest managerRole c) gvk ns sel = listObjects c gvk ns sel"
    and "key_of x = gvk_key gvk ns n \<Longrightarrow> createObject (restricted rest managerRole c) x = createObject c x"
    and "key_of x = gvk_key gvk ns n \<Longrightarrow> updateObject (restricted rest managerRole c) x = updateObject c x"
  by (simp_all add: restricted_def onKey_written [OF assms] allVerbs_def)

lemma restricted_read:
  assumes "rest_laws rest"
  shows "mergePatch (restricted rest managerRole c) network_key = mergePatch c network_key"
    and "getObject (restricted rest managerRole c) (gvk_key InfrastructureGVK ns n) = getObject c (gvk_key InfrastructureGVK ns n)"
proof -
  have "permits managerRole ''operator.openshift.io'' ''networks'' ''patch''"
    and "permits managerRole ''config.openshift.io'' ''infrastructures'' ''get''" by code_simp+
  moreover have "rest (ukApiVersion network_key) (ukKind network_key) = (''operator.openshift.io'', ''networks'')"
    and "rest (ukApiVersion (gvk_key InfrastructureGVK ns n)) (ukKind (gvk_key InfrastructureGVK ns n)) =
      (''config.openshift.io'', ''infrastructures'')" for ns n
    using assms by (simp_all add: rest_laws_def gvk_key_def apiVersion_of_def NetworkGVK_def InfrastructureGVK_def)
  ultimately show "mergePatch (restricted rest managerRole c) network_key = mergePatch c network_key"
    and "getObject (restricted rest managerRole c) (gvk_key InfrastructureGVK ns n) = getObject c (gvk_key InfrastructureGVK ns n)"
    by (simp_all add: restricted_def guarded_def)
qed

section \<open>The reconcilers\<close>

lemma restricted_put:
  assumes "rest_laws rest" and "written_kind gvk" and "key_of obj = gvk_key gvk ns n"
  shows "createOrUpdate lib (restricted rest managerRole c) obj = createOrUpdate lib c obj"
  by (simp add: createOrUpdate_def assms(3) restricted_written(1) [OF assms(1,2)]
    restricted_written(4,5) [OF assms(1,2), where ns = ns and n = n] cong: if_cong)

lemma restricted_delete:
  assumes "rest_laws rest" and "written_kind gvk"
  shows "deleteIgnoreNotFound lib (restricted rest managerRole c) (gvk_key gvk ns n) = deleteIgnoreNotFound lib c (gvk_key gvk ns n)"
  by (simp add: deleteIgnoreNotFound_def restricted_written(2) [OF assms])

lemma restricted_routing:
  assumes "rest_laws rest"
  shows "RoutingReconcile lib (restricted rest managerRole c) = RoutingReconcile lib c"
proof -
  let ?c = "restricted rest managerRole c"
  have deg: "RoutingSetDegraded lib ?c = RoutingSetDegraded lib c" by (intro ext) (simp add: RoutingSetDegraded_def)
  have pend: "RoutingSetPending ?c = RoutingSetPending c" by (intro ext) (simp add: RoutingSetPending_def)
  have val: "ValidateNamespaceLabels ?c = ValidateNamespaceLabels c" by (intro ext) (simp add: ValidateNamespaceLabels_def)
  have put: "EnsureCUDN lib ?c = EnsureCUDN lib c" "EnsureRouteAdvertisements lib ?c = EnsureRouteAdvertisements lib c"
    using restricted_put [OF assms _ key_of_cudnObject, of lib c] restricted_put [OF assms _ key_of_raObject, of lib c]
    by (auto simp: EnsureCUDN_def EnsureRouteAdvertisements_def fun_eq_iff)
  have del: "DeleteCUDN lib ?c = DeleteCUDN lib c" "DeleteRouteAdvertisements lib ?c = DeleteRouteAdvertisements lib c"
    by (intro ext, simp add: DeleteCUDN_def DeleteRouteAdvertisements_def restricted_delete [OF assms])+
  have adv: "RoutingAdvertise lib ?c = RoutingAdvertise lib c" by (intro ext) (simp add: RoutingAdvertise_def put deg)
  have app: "RoutingApply lib ?c = RoutingApply lib c" by (intro ext) (simp add: RoutingApply_def val put deg adv)
  have chk: "RoutingChecks lib ?c = RoutingChecks lib c" by (intro ext) (simp add: RoutingChecks_def deg pend app cong: if_cong option.case_cong)
  have rec: "RoutingReconcileDelete lib ?c = RoutingReconcileDelete lib c"
    by (intro ext) (simp add: RoutingReconcileDelete_def del cong: if_cong)
  have fin: "ensureRoutingFinalizer lib ?c = ensureRoutingFinalizer lib c" by (intro ext) (simp add: ensureRoutingFinalizer_def cong: if_cong)
  show ?thesis by (intro ext) (simp add: RoutingReconcile_def rec fin chk cong: if_cong)
qed

text \<open>The configuration controller deletes objects that it has listed, so here the laws of the client count.\<close>

lemma bindA_cong: "(\<And>a w w'. m w = (Inr a, w') \<Longrightarrow> f a = g a) \<Longrightarrow> bindA m f = bindA m g"
  by (intro ext) (auto simp: bindA_def split: prod.split sum.split)

lemma forA_cong: "(\<And>x. x \<in> set xs \<Longrightarrow> f x = g x) \<Longrightarrow> forA xs f = forA xs g"
  by (induction xs) simp_all

lemma restricted_listed:
  assumes "rest_laws rest" and laws: "kube_laws lib c view"
    and run: "listObjects c FRRConfigurationGVK ns sel w = (Inr items, w')" and "it \<in> set items"
  shows "deleteIgnoreNotFound lib (restricted rest managerRole c) (key_of it) = deleteIgnoreNotFound lib c (key_of it)"
proof -
  have "\<forall>it \<in> set items. \<exists>n. key_of it = gvk_key FRRConfigurationGVK ns n"
    using keepsP_list [OF laws, of ns sel] run by (auto simp: keepsP_def dest: wp_InrD)
  then obtain n where "key_of it = gvk_key FRRConfigurationGVK ns n" using assms(4) by blast
  then show ?thesis by (simp add: restricted_delete [OF assms(1)])
qed

lemma restricted_frr:
  assumes "rest_laws rest" and laws: "kube_laws lib c view"
  shows "pruneFRRConfigurations lib (restricted rest managerRole c) = pruneFRRConfigurations lib c"
    and "DeleteFRRConfigurations lib (restricted rest managerRole c) = DeleteFRRConfigurations lib c"
    and "ensureSingleFRRConfiguration lib (restricted rest managerRole c) = ensureSingleFRRConfiguration lib c"
proof -
  let ?c = "restricted rest managerRole c"
  note del = restricted_listed [OF assms]
  have list: "listObjects ?c FRRConfigurationGVK ns sel = listObjects c FRRConfigurationGVK ns sel" for ns sel
    by (simp add: restricted_written(3) [OF assms(1)])
  show "pruneFRRConfigurations lib ?c = pruneFRRConfigurations lib c"
    unfolding pruneFRRConfigurations_def [abs_def] list by (intro ext bindA_cong [THEN fun_cong] forA_cong) (simp add: del cong: if_cong)
  show "DeleteFRRConfigurations lib ?c = DeleteFRRConfigurations lib c"
    unfolding DeleteFRRConfigurations_def list by (intro bindA_cong forA_cong del)
  show "ensureSingleFRRConfiguration lib ?c = ensureSingleFRRConfiguration lib c"
    by (intro ext) (simp add: ensureSingleFRRConfiguration_def restricted_put [OF assms(1) _ key_of_frrObject])
qed

lemma restricted_config:
  assumes "rest_laws rest" and good: "aws_good e c view"
  shows "awsConfigReconcile e (restricted rest managerRole c) = awsConfigReconcile e c"
proof -
  let ?c = "restricted rest managerRole c" and ?env = "awsConfigEnv e"
  note laws = aws_goodD(1) [OF good]
  have deg: "ConfigSetDegraded lib ?c = ConfigSetDegraded lib c" for lib by (intro ext) (simp add: ConfigSetDegraded_def)
  have frr: "EnsureFRRConfigurations (aeLib e) ?c = EnsureFRRConfigurations (aeLib e) c"
    "EnsureFRRConfigurationsFromDiscovery ro (aeLib e) ?c = EnsureFRRConfigurationsFromDiscovery ro (aeLib e) c" for ro
    by (intro ext, simp add: EnsureFRRConfigurations_def EnsureFRRConfigurationsFromDiscovery_def restricted_frr [OF assms(1) laws])+
  have patch: "PatchNetworkOperator ?c = PatchNetworkOperator c"
    by (simp add: PatchNetworkOperator_def restricted_read [OF assms(1)])
  have ready: "IsFRRReady lib ?c = IsFRRReady lib c" for lib by (simp add: IsFRRReady_def)
  have nodes: "listRouterNodes ?c = listRouterNodes c" by (intro ext) (simp add: listRouterNodes_def)
  have infra: "getInfrastructureName lib ?c = getInfrastructureName lib c" for lib
    by (simp add: getInfrastructureName_def restricted_read [OF assms(1)])
  have build: "defaultPlatformBuilder lib api ?c = defaultPlatformBuilder lib api c" for lib and api :: "('a, 'b) awsClients"
    by (intro ext) (simp add: defaultPlatformBuilder_def infra)
  have fin: "ensureConfigFinalizer lib ?c = ensureConfigFinalizer lib c" for lib
    by (intro ext) (simp add: ensureConfigFinalizer_def cong: if_cong)
  note same = awsConfigEnv_simps restricted_typed deg frr patch ready nodes build fin restricted_frr [OF assms(1) laws]
  have finish: "ConfigFinish (awsReconciler ?c) = ConfigFinish (awsReconciler c)"
    unfolding ConfigFinish_def [abs_def] same ..
  have p5: "ConfigPhase5 ?env (awsReconciler ?c) = ConfigPhase5 ?env (awsReconciler c)"
    unfolding ConfigPhase5_def [abs_def] same finish ..
  have app: "applyFRR ?env (awsReconciler ?c) = applyFRR ?env (awsReconciler c)"
    unfolding applyFRR_def [abs_def] same ..
  have p4: "ConfigPhase4 ?env (awsReconciler ?c) = ConfigPhase4 ?env (awsReconciler c)"
    unfolding ConfigPhase4_def [abs_def] same app p5 ..
  have p3: "ConfigPhase3 ?env (awsReconciler ?c) = ConfigPhase3 ?env (awsReconciler c)"
    unfolding ConfigPhase3_def [abs_def] same p4 ..
  have p2: "ConfigPhase2 ?env (awsReconciler ?c) = ConfigPhase2 ?env (awsReconciler c)"
    unfolding ConfigPhase2_def [abs_def] same p3 ..
  have p1: "ConfigPhase1 ?env (awsReconciler ?c) = ConfigPhase1 ?env (awsReconciler c)"
    unfolding ConfigPhase1_def [abs_def] same p2 ..
  have cln: "cleanupCloud ?env (awsReconciler ?c) = cleanupCloud ?env (awsReconciler c)"
    unfolding cleanupCloud_def [abs_def] same ..
  have del: "ConfigReconcileDelete ?env (awsReconciler ?c) = ConfigReconcileDelete ?env (awsReconciler c)"
    unfolding ConfigReconcileDelete_def [abs_def] same cln ..
  show ?thesis
    unfolding awsConfigReconcile_def ConfigReconcile_def [abs_def] same del p1 ..
qed

section \<open>The watches\<close>

definition watch_permitted :: "restMapper \<Rightarrow> policyRule list \<Rightarrow> watchTarget \<Rightarrow> bool" where
  "watch_permitted rest rules t =
     (case t of
        WatchNodes \<Rightarrow> list_all (permits rules '''' ''nodes'') [''list'', ''watch'']
      | WatchUnstructured gvk \<Rightarrow>
          (case rest (apiVersion_of gvk) (gvkKind gvk) of (g, res) \<Rightarrow> list_all (permits rules g res) [''list'', ''watch'']))"

lemma watch_written: "rest_laws rest \<Longrightarrow> written_kind gvk \<Longrightarrow> watch_permitted rest managerRole (WatchUnstructured gvk)"
  using written_permitted rest_written [of rest gvk] by (auto simp: watch_permitted_def list_all_iff allVerbs_def split: prod.split)

text \<open>
  C29. The permissions suffice. With the role that the markers of the sources ask for, a client that
  refuses every call without a permission behaves in both reconcilers, in every run, as the unrestricted
  client does: no call is ever refused. And every watch of the two controllers is permitted.
\<close>

theorem markers_suffice:
  assumes "aws_good e c view" and "rest_laws rest"
  shows "RoutingReconcile lib (restricted rest managerRole c) = RoutingReconcile lib c \<and>
    awsConfigReconcile e (restricted rest managerRole c) = awsConfigReconcile e c \<and>
    list_all (\<lambda>wa. watch_permitted rest managerRole (waTarget wa))
      (cbWatches (configController env r) @ cbWatches (routingController lib c))"
proof -
  have "watch_permitted rest managerRole WatchNodes" by code_simp
  then show ?thesis
    using restricted_routing [OF assms(2)] restricted_config [OF assms(2,1)] watch_written [OF assms(2)]
    by (simp add: configController_def routingController_def)
qed

end
