(* ===== verification/Demo_System.thy ===== *)
theory Demo_System
  imports Demo_Cluster System Rbac
begin

text \<open>
  The theorems about sequences of runs applied on the in-memory server: another client renames the
  network of a routing, and then the configuration and the routing, which is being deleted, are
  reconciled.
\<close>

definition twoRuns :: "kube \<Rightarrow> kube" where
  "twoRuns w = snd (routingRun (snd (demoRun w)))"

lemma twoRuns_steps: "(operator_step demoEnv memClient)\<^sup>*\<^sup>* w (twoRuns w)"
proof -
  have "operator_step demoEnv memClient w (snd (demoRun w))"
    by (rule operator_step.config [of _ _ SingletonName _ "fst (demoRun w)"]) (simp add: demoRun_def)
  moreover have "operator_step demoEnv memClient w' (snd (routingRun w'))" for w'
    by (rule operator_step.routing [of _ _ "''prod''" _ "fst (routingRun w')"]) (simp add: routingRun_def demoEnv_def)
  ultimately show ?thesis unfolding twoRuns_def by (meson converse_rtranclp_into_rtranclp r_into_rtranclp)
qed

definition renamedRouting :: CUDNBgpRouting where
  "renamedRouting = (demoRouting ''prod'' (Some 1))\<lparr>rtgSpec := \<lparr>rsNetwork = demoNet\<lparr>ncName := ''staging''\<rparr>\<rparr>\<rparr>"

lemma renamed_unclaimed: "unclaimed ''prod'' (memView (routingKube [renamedRouting]))"
  by (auto simp: unclaimed_def routingKube_def demoWorld_def sget_def renamedRouting_def split: if_splits)

lemma renamed_object:
  "fmlookup (kObjects (memView (routingKube [renamedRouting]))) (cudn_key ''prod'') =
     Some (demoObject CUDNNetworkGVK [] ''cluster-udn-prod'' managedSelector JNull)"
  unfolding routingKube_def by code_simp


theorem renamed_network_left_behind_witness:
  "fmlookup (kObjects (memView (twoRuns (routingKube [renamedRouting])))) (cudn_key ''prod'') =
     Some (demoObject CUDNNetworkGVK '''' ''cluster-udn-prod'' managedSelector JNull)"
proof -
  from renamed_network_left_behind [OF demo_good routing_env(1) renamed_unclaimed twoRuns_steps]
  have "fmlookup (kObjects (memView (twoRuns (routingKube [renamedRouting])))) (cudn_key ''prod'') =
    fmlookup (kObjects (memView (routingKube [renamedRouting]))) (cudn_key ''prod'')" .
  also have "\<dots> = Some (demoObject CUDNNetworkGVK '''' ''cluster-udn-prod'' managedSelector JNull)"
    by (rule renamed_object)
  finally show ?thesis .
qed

text \<open>The mapper of a cluster that serves the five kinds, and both controllers with the role of the markers.\<close>

definition demoRest :: restMapper where
  "demoRest apiVersion kind =
     (takeWhile (\<lambda>c. c \<noteq> CHR ''/'') apiVersion,
      if kind = ''Network'' then ''networks''
      else if kind = ''FRRConfiguration'' then ''frrconfigurations''
      else if kind = ''ClusterUserDefinedNetwork'' then ''clusteruserdefinednetworks''
      else if kind = ''RouteAdvertisements'' then ''routeadvertisements''
      else ''infrastructures'')"

lemma demo_rest: "rest_laws demoRest"
  by (simp add: rest_laws_def demoRest_def)

theorem markers_suffice_witness:
  "RoutingReconcile memLib (restricted demoRest managerRole memClient) ''prod'' (routingKube [demoRouting ''prod'' None]) =
     routingRun (routingKube [demoRouting ''prod'' None]) \<and>
   awsConfigReconcile demoEnv (restricted demoRest managerRole memClient) SingletonName demoKube = demoRun demoKube \<and>
   watch_permitted demoRest managerRole (WatchUnstructured RouteAdvertisementsGVK)"
proof -
  note suffice = markers_suffice [OF demo_good demo_rest, of memLib "awsConfigEnv demoEnv" "awsReconciler memClient"]
  show ?thesis
    using suffice
    by (simp add: routingRun_def demoRun_def routingController_def configController_def)
qed

end
