(* ===== verification/Go_Heap.thy ===== *)
theory Go_Heap
  imports Prelude "HOL-Library.Sublist"
begin

text \<open>
  The part of the Go heap that slices, maps and pointers refer to, for the generated deep copies. A
  heap is a list of cells and an address an index into it, so allocation appends. What the cells hold
  is left to the types of a program: a kind says how the arrays of one element type (or the maps, or
  the structs behind a pointer) are stored in cells. A shape says of a type when its values are well
  typed in a heap, which value they denote, which of their references are nil, and which cells they
  reach. The locale \<open>deep_copy\<close> is the contract of a deep copy of a shape; the statements that the
  generated code is made of keep it.
\<close>

section \<open>Heaps\<close>

definition the_or :: "'a \<Rightarrow> 'a option \<Rightarrow> 'a" where
  "the_or d x = (case x of None \<Rightarrow> d | Some a \<Rightarrow> a)"

lemma the_or_simps [simp]: "the_or d None = d" "the_or d (Some a) = a"
  by (simp_all add: the_or_def)

record ('c, 'b) kind =
  kMake :: "'b \<Rightarrow> 'c"
  kDest :: "'c \<Rightarrow> 'b option"

definition kind_ok :: "('c, 'b) kind \<Rightarrow> bool" where
  "kind_ok k \<longleftrightarrow> (\<forall>b. kDest k (kMake k b) = Some b)"

lemma kind_okD [simp]: "kind_ok k \<Longrightarrow> kDest k (kMake k b) = Some b"
  by (simp add: kind_ok_def)

definition content :: "('c, 'b) kind \<Rightarrow> 'c list \<Rightarrow> nat \<Rightarrow> 'b option" where
  "content k h a = (if a < length h then kDest k (h ! a) else None)"

text \<open>A slice that is not nil is a window on an array; a pointer that is not nil leads to an element.\<close>

record window =
  winArr :: nat
  winOff :: nat
  winLen :: nat

definition elements :: "('c, 'g list) kind \<Rightarrow> 'c list \<Rightarrow> window \<Rightarrow> 'g list" where
  "elements k h s =
     (case content k h (winArr s) of None \<Rightarrow> [] | Some xs \<Rightarrow> take (winLen s) (drop (winOff s) xs))"

definition in_array :: "('c, 'g list) kind \<Rightarrow> 'c list \<Rightarrow> window \<Rightarrow> bool" where
  "in_array k h s \<longleftrightarrow> (case content k h (winArr s) of None \<Rightarrow> False | Some xs \<Rightarrow> winOff s + winLen s \<le> length xs)"

type_synonym pointer = "nat \<times> nat"

definition pointee :: "('c, 'g list) kind \<Rightarrow> 'c list \<Rightarrow> pointer \<Rightarrow> 'g option" where
  "pointee k h p =
     (case content k h (fst p) of None \<Rightarrow> None | Some xs \<Rightarrow> if snd p < length xs then Some (xs ! snd p) else None)"

section \<open>Statements\<close>

text \<open>\<open>make([]T, n)\<close>, where \<open>z\<close> is the zero value of \<open>T\<close>.\<close>

definition makeSlice :: "('c, 'g list) kind \<Rightarrow> 'g \<Rightarrow> nat \<Rightarrow> 'c list \<Rightarrow> window \<times> 'c list" where
  "makeSlice k z n h = (\<lparr>winArr = length h, winOff = 0, winLen = n\<rparr>, h @ [kMake k (replicate n z)])"

text \<open>The builtin \<open>copy(out, in)\<close>.\<close>

definition copySlice :: "('c, 'g list) kind \<Rightarrow> window \<Rightarrow> window \<Rightarrow> 'c list \<Rightarrow> 'c list" where
  "copySlice k out inp h =
     (let n = min (winLen out) (winLen inp); xs = the_or [] (content k h (winArr out)) in
      h[winArr out := kMake k (take (winOff out) xs @ take n (elements k h inp) @ drop (winOff out + n) xs)])"

text \<open>\<open>s[i] = v\<close>.\<close>

definition assignElem :: "('c, 'g list) kind \<Rightarrow> window \<Rightarrow> nat \<Rightarrow> 'g \<Rightarrow> 'c list \<Rightarrow> 'c list" where
  "assignElem k s i v h = h[winArr s := kMake k ((the_or [] (content k h (winArr s)))[winOff s + i := v])]"

text \<open>\<open>for i := range *in { (*in)[i].DeepCopyInto(&(*out)[i]) }\<close>, from index \<open>i\<close> on with \<open>m\<close> rounds left.\<close>

fun copyEach :: "('c, 'g list) kind \<Rightarrow> ('g \<Rightarrow> 'c list \<Rightarrow> 'g \<times> 'c list) \<Rightarrow> window \<Rightarrow> window \<Rightarrow> nat \<Rightarrow> nat \<Rightarrow>
    'c list \<Rightarrow> 'c list" where
  "copyEach k c inp out i 0 h = h"
| "copyEach k c inp out i (Suc m) h =
     (let (v, h1) = c (elements k h inp ! i) h in copyEach k c inp out (Suc i) m (assignElem k out i v h1))"

text \<open>The three bodies that follow an \<open>if in.F != nil\<close>, and \<open>new(T)\<close> with the copy behind a pointer.\<close>

definition copyValues :: "('c, 'g list) kind \<Rightarrow> 'g \<Rightarrow> window \<Rightarrow> 'c list \<Rightarrow> window \<times> 'c list" where
  "copyValues k z s h = (let (out, h1) = makeSlice k z (winLen s) h in (out, copySlice k out s h1))"

definition copyStructs :: "('c, 'g list) kind \<Rightarrow> 'g \<Rightarrow> ('g \<Rightarrow> 'c list \<Rightarrow> 'g \<times> 'c list) \<Rightarrow> window \<Rightarrow> 'c list \<Rightarrow>
    window \<times> 'c list" where
  "copyStructs k z c s h =
     (let (out, h1) = makeSlice k z (winLen s) h in (out, copyEach k c s out 0 (winLen s) h1))"

definition copyMap :: "('c, (string, string) fmap) kind \<Rightarrow> ('c list \<Rightarrow> nat \<Rightarrow> string list) \<Rightarrow> nat \<Rightarrow> 'c list \<Rightarrow>
    nat \<times> 'c list" where
  "copyMap k ro a h =
     (let out = length h; h1 = h @ [kMake k fmempty]; m = the_or fmempty (content k h1 a) in
      (out, fold (\<lambda>key h. h[out := kMake k (fmupd key (lookup_or '''' m key) (the_or fmempty (content k h out)))])
        (ro h1 a) h1))"

definition newCopy :: "('c, 'g list) kind \<Rightarrow> 'g \<Rightarrow> ('g \<Rightarrow> 'c list \<Rightarrow> 'g \<times> 'c list) \<Rightarrow> pointer \<Rightarrow> 'c list \<Rightarrow>
    pointer \<times> 'c list" where
  "newCopy k z c p h =
     (let out = length h; h1 = h @ [kMake k [z]]; (v, h2) = c (the_or z (pointee k h1 p)) h1 in
      ((out, 0), h2[out := kMake k [v]]))"

definition unlessNil :: "('f \<Rightarrow> 'c list \<Rightarrow> 'f \<times> 'c list) \<Rightarrow> 'f option \<Rightarrow> 'c list \<Rightarrow> 'f option \<times> 'c list" where
  "unlessNil c x h = (case x of None \<Rightarrow> (None, h) | Some f \<Rightarrow> (let (f', h') = c f h in (Some f', h')))"

section \<open>Shapes\<close>

record ('c, 'g, 'v) shape =
  shTyped :: "'c list \<Rightarrow> 'g \<Rightarrow> bool"
  shVal :: "'c list \<Rightarrow> 'g \<Rightarrow> 'v"
  shNils :: "'c list \<Rightarrow> 'g \<Rightarrow> bool list"
  shRefs :: "'c list \<Rightarrow> 'g \<Rightarrow> nat set"

text \<open>Values without references, fields of a struct, two fields, and references that may be nil.\<close>

definition plainS :: "('c, 'g, 'g) shape" where
  "plainS = \<lparr>shTyped = (\<lambda>_ _. True), shVal = (\<lambda>_ g. g), shNils = (\<lambda>_ _. []), shRefs = (\<lambda>_ _. {})\<rparr>"

definition fieldsS :: "('g \<Rightarrow> 'f) \<Rightarrow> ('g \<Rightarrow> 'v \<Rightarrow> 'w) \<Rightarrow> ('c, 'f, 'v) shape \<Rightarrow> ('c, 'g, 'w) shape" where
  "fieldsS get mk S =
     \<lparr>shTyped = (\<lambda>h g. shTyped S h (get g)), shVal = (\<lambda>h g. mk g (shVal S h (get g))),
      shNils = (\<lambda>h g. shNils S h (get g)), shRefs = (\<lambda>h g. shRefs S h (get g))\<rparr>"

definition bothS :: "('c, 'f, 'v) shape \<Rightarrow> ('c, 'g, 'w) shape \<Rightarrow> ('c, 'f \<times> 'g, 'v \<times> 'w) shape" where
  "bothS S T =
     \<lparr>shTyped = (\<lambda>h p. shTyped S h (fst p) \<and> shTyped T h (snd p)), shVal = (\<lambda>h p. (shVal S h (fst p), shVal T h (snd p))),
      shNils = (\<lambda>h p. shNils S h (fst p) @ shNils T h (snd p)),
      shRefs = (\<lambda>h p. shRefs S h (fst p) \<union> shRefs T h (snd p))\<rparr>"

definition nilableS :: "'w \<Rightarrow> ('v \<Rightarrow> 'w) \<Rightarrow> ('c, 'f, 'v) shape \<Rightarrow> ('c, 'f option, 'w) shape" where
  "nilableS d f S =
     \<lparr>shTyped = (\<lambda>h x. case x of None \<Rightarrow> True | Some g \<Rightarrow> shTyped S h g),
      shVal = (\<lambda>h x. case x of None \<Rightarrow> d | Some g \<Rightarrow> f (shVal S h g)),
      shNils = (\<lambda>h x. case x of None \<Rightarrow> [True] | Some g \<Rightarrow> False # shNils S h g),
      shRefs = (\<lambda>h x. case x of None \<Rightarrow> {} | Some g \<Rightarrow> shRefs S h g)\<rparr>"

text \<open>Slices, maps and pointers.\<close>

definition sliceS :: "('c, 'g list) kind \<Rightarrow> ('c, 'g, 'v) shape \<Rightarrow> ('c, window, 'v list) shape" where
  "sliceS k S =
     \<lparr>shTyped = (\<lambda>h s. in_array k h s \<and> list_all (shTyped S h) (elements k h s)),
      shVal = (\<lambda>h s. map (shVal S h) (elements k h s)),
      shNils = (\<lambda>h s. concat (map (shNils S h) (elements k h s))),
      shRefs = (\<lambda>h s. insert (winArr s) (\<Union>g \<in> set (elements k h s). shRefs S h g))\<rparr>"

definition mapS :: "('c, (string, string) fmap) kind \<Rightarrow> ('c, nat, (string, string) fmap) shape" where
  "mapS k =
     \<lparr>shTyped = (\<lambda>h a. content k h a \<noteq> None), shVal = (\<lambda>h a. the_or fmempty (content k h a)), shNils = (\<lambda>_ _. []),
      shRefs = (\<lambda>_ a. {a})\<rparr>"

definition pointerS :: "('c, 'g list) kind \<Rightarrow> 'g \<Rightarrow> ('c, 'g, 'v) shape \<Rightarrow> ('c, pointer, 'v) shape" where
  "pointerS k z S =
     \<lparr>shTyped = (\<lambda>h p. case pointee k h p of None \<Rightarrow> False | Some g \<Rightarrow> shTyped S h g),
      shVal = (\<lambda>h p. shVal S h (the_or z (pointee k h p))), shNils = (\<lambda>h p. shNils S h (the_or z (pointee k h p))),
      shRefs = (\<lambda>h p. insert (fst p) (shRefs S h (the_or z (pointee k h p))))\<rparr>"

lemmas shape_defs = plainS_def fieldsS_def bothS_def nilableS_def sliceS_def mapS_def pointerS_def

section \<open>The contract of a deep copy\<close>

text \<open>Two heaps agree on a set of cells that both have.\<close>

definition agree :: "nat set \<Rightarrow> 'c list \<Rightarrow> 'c list \<Rightarrow> bool" where
  "agree A h h' \<longleftrightarrow> (\<forall>a \<in> A. a < length h \<and> a < length h' \<and> h' ! a = h ! a)"

lemma agree_mono: "agree B h h' \<Longrightarrow> A \<subseteq> B \<Longrightarrow> agree A h h'"
  by (auto simp: agree_def)

lemma agree_simps [simp]:
  "agree (insert a A) h h' \<longleftrightarrow> a < length h \<and> a < length h' \<and> h' ! a = h ! a \<and> agree A h h'"
  "agree (A \<union> B) h h' \<longleftrightarrow> agree A h h' \<and> agree B h h'" "agree {} h h'"
  by (auto simp: agree_def)

lemma agree_prefix: "prefix h h' \<Longrightarrow> A \<subseteq> {..<length h} \<Longrightarrow> agree A h h'"
  by (fastforce simp: agree_def prefix_def nth_append)

lemma agree_update: "A \<subseteq> {..<length h} \<Longrightarrow> a \<notin> A \<Longrightarrow> agree A h (h[a := x])"
  unfolding agree_def by (metis length_list_update lessThan_iff nth_list_update_neq subsetD)

lemma content_agree: "a < length h \<Longrightarrow> a < length h' \<Longrightarrow> h' ! a = h ! a \<Longrightarrow> content k h' a = content k h a"
  by (simp add: content_def)

lemma content_bound: "content k h a = Some b \<Longrightarrow> a < length h"
  by (simp add: content_def split: if_splits)

text \<open>A value is what it was in an earlier heap; a value is a copy of one in an earlier heap.\<close>

definition unchanged :: "('c, 'g, 'v) shape \<Rightarrow> 'c list \<Rightarrow> 'c list \<Rightarrow> 'g \<Rightarrow> bool" where
  "unchanged S h h' g \<longleftrightarrow>
     shTyped S h' g \<and> shVal S h' g = shVal S h g \<and> shNils S h' g = shNils S h g \<and> shRefs S h' g = shRefs S h g"

definition copied :: "('c, 'g, 'v) shape \<Rightarrow> 'c list \<Rightarrow> 'g \<Rightarrow> 'c list \<Rightarrow> 'g \<Rightarrow> bool" where
  "copied S h g h' g' \<longleftrightarrow>
     shTyped S h' g' \<and> shVal S h' g' = shVal S h g \<and> shNils S h' g' = shNils S h g \<and>
     shRefs S h' g' \<subseteq> {length h..<length h'}"

locale deep_copy =
  fixes S :: "('c, 'g, 'v) shape" and cp :: "'g \<Rightarrow> 'c list \<Rightarrow> 'g \<times> 'c list"
  assumes bounded: "shTyped S h g \<Longrightarrow> shRefs S h g \<subseteq> {..<length h}"
    and frame: "shTyped S h g \<Longrightarrow> agree (shRefs S h g) h h' \<Longrightarrow> unchanged S h h' g"
    and copies: "shTyped S h g \<Longrightarrow> cp g h = (g', h') \<Longrightarrow> prefix h h' \<and> copied S h g h' g'"
begin

lemma frame_prefix: "shTyped S h g \<Longrightarrow> prefix h h' \<Longrightarrow> unchanged S h h' g"
  using frame agree_prefix bounded by blast

text \<open>A copy that is fresh stays one while the heap changes elsewhere.\<close>

lemma copied_later:
  assumes "copied S h g h1 g'" and "length h1 \<le> length h2" and "\<And>a. a \<in> shRefs S h1 g' \<Longrightarrow> h2 ! a = h1 ! a"
  shows "copied S h g h2 g'" and "shRefs S h2 g' = shRefs S h1 g'"
proof -
  have t: "shTyped S h1 g'" and r: "shRefs S h1 g' \<subseteq> {length h..<length h1}" using assms(1) by (simp_all add: copied_def)
  have "agree (shRefs S h1 g') h1 h2" using r assms(2,3) by (fastforce simp: agree_def)
  from frame [OF t this] have u: "unchanged S h1 h2 g'" .
  then show "shRefs S h2 g' = shRefs S h1 g'" by (simp add: unchanged_def)
  then show "copied S h g h2 g'" using assms(1,2) u r unfolding copied_def unchanged_def by auto
qed

text \<open>What was in the heap before the copy stays as it was, and the copy shares nothing with it.\<close>

lemma disjoint:
  assumes "shTyped S h g" and "cp g h = (g', h')"
  shows "shRefs S h' g' \<inter> shRefs S h' g = {}"
proof -
  have cp: "prefix h h'" "copied S h g h' g'" using copies [OF assms] by simp_all
  then have "shRefs S h' g' \<subseteq> {length h..<length h'}" by (simp add: copied_def)
  moreover have "shRefs S h' g \<subseteq> {..<length h}"
    using frame_prefix [OF assms(1) cp(1)] bounded [OF assms(1)] by (simp add: unchanged_def)
  ultimately show ?thesis by fastforce
qed

text \<open>Whatever is written to the cells of one of the two, the other keeps its value.\<close>

lemma untouched:
  assumes "shTyped S h' x" and "length h'' = length h'" and "\<And>a. a \<in> shRefs S h' x \<Longrightarrow> h'' ! a = h' ! a"
  shows "unchanged S h' h'' x"
proof (rule frame [OF assms(1)])
  show "agree (shRefs S h' x) h' h''" using bounded [OF assms(1)] assms(2,3) by (auto simp: agree_def)
qed

lemma isolated:
  assumes "shTyped S h g" and "cp g h = (g', h')" and "length h'' = length h'"
  shows "(\<And>a. a \<notin> shRefs S h' g' \<Longrightarrow> h'' ! a = h' ! a) \<Longrightarrow> shTyped S h'' g \<and> shVal S h'' g = shVal S h g"
    and "(\<And>a. a \<notin> shRefs S h' g \<Longrightarrow> h'' ! a = h' ! a) \<Longrightarrow> shTyped S h'' g' \<and> shVal S h'' g' = shVal S h g"
proof -
  have cp: "prefix h h'" "copied S h g h' g'" using copies [OF assms(1,2)] by simp_all
  then have new: "shTyped S h' g'" "shVal S h' g' = shVal S h g" by (simp_all add: copied_def)
  have old: "shTyped S h' g" "shVal S h' g = shVal S h g"
    using frame_prefix [OF assms(1) cp(1)] by (simp_all add: unchanged_def)
  have disj: "a \<notin> shRefs S h' g" if "a \<in> shRefs S h' g'" for a using disjoint [OF assms(1,2)] that by blast
  show "shTyped S h'' g \<and> shVal S h'' g = shVal S h g" if "\<And>a. a \<notin> shRefs S h' g' \<Longrightarrow> h'' ! a = h' ! a"
    using untouched [OF old(1) assms(3)] that disj old(2) unfolding unchanged_def by metis
  show "shTyped S h'' g' \<and> shVal S h'' g' = shVal S h g" if "\<And>a. a \<notin> shRefs S h' g \<Longrightarrow> h'' ! a = h' ! a"
    using untouched [OF new(1) assms(3)] that disj new(2) unfolding unchanged_def by metis
qed

end

section \<open>The statements keep the contract\<close>

lemma deep_copy_plain: "deep_copy plainS (\<lambda>g h. (g, h))"
  by unfold_locales (auto simp: plainS_def unchanged_def copied_def)

lemma deep_copy_fields:
  assumes c: "deep_copy S c" and put: "\<And>g f. get (put f g) = f" "\<And>g f v. mk (put f g) v = mk g v"
  shows "deep_copy (fieldsS get mk S) (\<lambda>g h. case c (get g) h of (f, h') \<Rightarrow> (put f g, h'))"
proof
  fix h g
  assume "shTyped (fieldsS get mk S) h g"
  then have t: "shTyped S h (get g)" by (simp add: fieldsS_def)
  show "shRefs (fieldsS get mk S) h g \<subseteq> {..<length h}" using deep_copy.bounded [OF c t] by (simp add: fieldsS_def)
  show "unchanged (fieldsS get mk S) h h' g" if "agree (shRefs (fieldsS get mk S) h g) h h'" for h'
    using deep_copy.frame [OF c t, of h'] that by (simp add: fieldsS_def unchanged_def)
  show "prefix h h' \<and> copied (fieldsS get mk S) h g h' g'" if "(case c (get g) h of (f, h') \<Rightarrow> (put f g, h')) = (g', h')" for g' h'
    using deep_copy.copies [OF c t] that by (auto simp: fieldsS_def copied_def put split: prod.splits)
qed

lemma deep_copy_both:
  assumes c: "deep_copy S c" and d: "deep_copy T d"
  shows "deep_copy (bothS S T) (\<lambda>p h. case c (fst p) h of (f, h1) \<Rightarrow> (case d (snd p) h1 of (g, h2) \<Rightarrow> ((f, g), h2)))"
    (is "deep_copy _ ?cp")
proof
  fix h p
  assume "shTyped (bothS S T) h p"
  then have t: "shTyped S h (fst p)" "shTyped T h (snd p)" by (simp_all add: bothS_def)
  show "shRefs (bothS S T) h p \<subseteq> {..<length h}"
    using deep_copy.bounded [OF c t(1)] deep_copy.bounded [OF d t(2)] by (simp add: bothS_def)
  show "unchanged (bothS S T) h h' p" if "agree (shRefs (bothS S T) h p) h h'" for h'
    using that deep_copy.frame [OF c t(1), of h'] deep_copy.frame [OF d t(2), of h'] by (simp add: bothS_def unchanged_def)
  fix p' h'
  assume "?cp p h = (p', h')"
  then obtain f h1 g where f: "c (fst p) h = (f, h1)" and g: "d (snd p) h1 = (g, h')" and p': "p' = (f, g)"
    by (auto split: prod.splits)
  have F: "prefix h h1" "copied S h (fst p) h1 f" using deep_copy.copies [OF c t(1) f] by simp_all
  have T1: "unchanged T h h1 (snd p)" by (rule deep_copy.frame_prefix [OF d t(2) F(1)])
  then have G: "prefix h1 h'" "copied T h1 (snd p) h' g" using deep_copy.copies [OF d _ g] by (simp_all add: unchanged_def)
  have len: "length h \<le> length h1" "length h1 \<le> length h'" using F(1) G(1) prefix_length_le by blast+
  have "unchanged S h1 h' f" using deep_copy.frame_prefix [OF c _ G(1)] F(2) by (simp add: copied_def)
  then have F': "copied S h (fst p) h' f" using F(2) len(2) by (auto simp: copied_def unchanged_def)
  have "shRefs T h' g \<subseteq> {length h..<length h'}" using G(2) len by (auto simp: copied_def)
  then have "copied (bothS S T) h p h' p'" using F' G(2) T1 by (simp add: copied_def unchanged_def bothS_def p')
  moreover have "prefix h h'" using F(1) G(1) by (rule prefix_order.trans)
  ultimately show "prefix h h' \<and> copied (bothS S T) h p h' p'" by simp
qed

lemma deep_copy_nilable:
  assumes c: "deep_copy S c"
  shows "deep_copy (nilableS d f S) (unlessNil c)"
proof
  fix h x
  assume "shTyped (nilableS d f S) h x"
  then have t: "x = Some g \<Longrightarrow> shTyped S h g" for g by (simp add: nilableS_def)
  show "shRefs (nilableS d f S) h x \<subseteq> {..<length h}"
    using deep_copy.bounded [OF c t] by (auto simp: nilableS_def split: option.split)
  show "unchanged (nilableS d f S) h h' x" if "agree (shRefs (nilableS d f S) h x) h h'" for h'
    using that deep_copy.frame [OF c t, of _ h'] by (cases x) (simp_all add: nilableS_def unchanged_def)
  fix x' h'
  assume run: "unlessNil c x h = (x', h')"
  show "prefix h h' \<and> copied (nilableS d f S) h x h' x'"
  proof (cases x)
    case None
    then show ?thesis using run by (auto simp: nilableS_def unlessNil_def copied_def)
  next
    case (Some g)
    then obtain g' where "c g h = (g', h')" and x': "x' = Some g'" using run by (auto simp: unlessNil_def split: prod.splits)
    from deep_copy.copies [OF c t [OF Some] this(1)] show ?thesis by (simp add: Some x' nilableS_def copied_def)
  qed
qed

subsection \<open>Slices\<close>

lemma content_prefix: "prefix h h' \<Longrightarrow> content k h a = Some b \<Longrightarrow> content k h' a = Some b"
  by (auto simp: content_def prefix_def nth_append split: if_splits)

lemma content_fresh [simp]: "kind_ok k \<Longrightarrow> content k (h @ [kMake k b]) (length h) = Some b"
  by (simp add: content_def)

lemma prefix_update: "prefix h h' \<Longrightarrow> length h \<le> a \<Longrightarrow> prefix h (h'[a := x])"
  by (auto simp: prefix_def list_update_append)

lemma elements_agree:
  assumes "winArr s < length h" and "winArr s < length h'" and "h' ! winArr s = h ! winArr s"
  shows "elements k h' s = elements k h s" and "in_array k h' s = in_array k h s"
  using content_agree [OF assms, of k] by (simp_all add: elements_def in_array_def)

lemma in_array_bound: "in_array k h s \<Longrightarrow> winArr s < length h"
  using content_bound [of k h "winArr s"] by (auto simp: in_array_def split: option.splits)

lemma length_elements: "in_array k h s \<Longrightarrow> length (elements k h s) = winLen s"
  by (auto simp: in_array_def elements_def split: option.splits)

lemma elements_prefix:
  assumes "in_array k h s" and "prefix h h'"
  shows "elements k h' s = elements k h s"
proof -
  obtain xs where "content k h (winArr s) = Some xs" using assms(1) by (auto simp: in_array_def split: option.splits)
  then show ?thesis using content_prefix [OF assms(2), of k] by (simp add: elements_def)
qed

lemma sliceS_typed: "shTyped (sliceS k S) h s \<longleftrightarrow> in_array k h s \<and> (\<forall>g \<in> set (elements k h s). shTyped S h g)"
  by (simp add: sliceS_def list_all_iff)

lemma sliceS_bounded:
  assumes "deep_copy S c" and "shTyped (sliceS k S) h s"
  shows "shRefs (sliceS k S) h s \<subseteq> {..<length h}"
proof -
  have "shRefs S h g \<subseteq> {..<length h}" if "g \<in> set (elements k h s)" for g
    using deep_copy.bounded [OF assms(1)] assms(2) that by (simp add: sliceS_typed)
  moreover have "winArr s < length h" using assms(2) in_array_bound by (auto simp: sliceS_typed)
  ultimately show ?thesis by (auto simp: sliceS_def)
qed

lemma sliceS_frame:
  assumes c: "deep_copy S c" and t: "shTyped (sliceS k S) h s" and "agree (shRefs (sliceS k S) h s) h h'"
  shows "unchanged (sliceS k S) h h' s"
proof -
  have arr: "elements k h' s = elements k h s" "in_array k h' s = in_array k h s"
    using assms(3) by (intro elements_agree; simp add: sliceS_def)+
  have "unchanged S h h' g" if "g \<in> set (elements k h s)" for g
  proof (rule deep_copy.frame [OF c])
    show "shTyped S h g" using t that by (simp add: sliceS_typed)
    show "agree (shRefs S h g) h h'" by (rule agree_mono [OF assms(3)]) (use that in \<open>auto simp: sliceS_def\<close>)
  qed
  then show ?thesis
    using t by (auto simp: unchanged_def sliceS_typed arr) (auto simp: sliceS_def arr intro!: arg_cong [of _ _ concat])
qed

text \<open>A fresh array whose elements are copies of the elements of a slice is a copy of the slice.\<close>

lemma copied_slice:
  assumes arr: "content k h' (length h) = Some ys" "length ys = winLen s" and s: "in_array k h s"
    and el: "\<And>j. j < winLen s \<Longrightarrow> copied S h (elements k h s ! j) h' (ys ! j)"
  shows "copied (sliceS k S) h s h' \<lparr>winArr = length h, winOff = 0, winLen = winLen s\<rparr>"
proof -
  let ?out = "\<lparr>winArr = length h, winOff = 0, winLen = winLen s\<rparr>"
  have out: "elements k h' ?out = ys" "in_array k h' ?out" using arr by (simp_all add: elements_def in_array_def)
  have len: "length (elements k h s) = winLen s" by (rule length_elements [OF s])
  have all: "copied S h (elements k h s ! j) h' (ys ! j)" if "j < length ys" for j using el that arr(2) by simp
  have "map (shVal S h') ys = map (shVal S h) (elements k h s)" "map (shNils S h') ys = map (shNils S h) (elements k h s)"
    using all arr(2) len by (auto intro!: nth_equalityI simp: copied_def)
  moreover have "shTyped S h' g \<and> shRefs S h' g \<subseteq> {length h..<length h'}" if "g \<in> set ys" for g
    using all that by (auto simp: in_set_conv_nth copied_def)
  moreover have "length h < length h'" using arr(1) by (rule content_bound)
  ultimately show ?thesis unfolding copied_def sliceS_typed by (auto simp: sliceS_def out)
qed

lemma deep_copy_values:
  assumes "kind_ok k"
  shows "deep_copy (sliceS k plainS) (copyValues k z)"
proof
  fix h s
  assume t: "shTyped (sliceS k plainS) h s"
  then have s: "in_array k h s" by (simp add: sliceS_typed)
  show "shRefs (sliceS k plainS) h s \<subseteq> {..<length h}" using deep_copy_plain t by (rule sliceS_bounded)
  show "unchanged (sliceS k plainS) h h' s" if "agree (shRefs (sliceS k plainS) h s) h h'" for h'
    using deep_copy_plain t that by (rule sliceS_frame)
  fix s' h'
  assume run: "copyValues k z s h = (s', h')"
  let ?h1 = "h @ [kMake k (replicate (winLen s) z)]"
  have el: "elements k ?h1 s = elements k h s" by (rule elements_prefix [OF s]) simp
  have "length (elements k h s) = winLen s" by (rule length_elements [OF s])
  then have h': "h' = h @ [kMake k (elements k h s)]" and s': "s' = \<lparr>winArr = length h, winOff = 0, winLen = winLen s\<rparr>"
    using run el assms by (auto simp: copyValues_def makeSlice_def copySlice_def)
  have "copied (sliceS k plainS) h s h' s'"
    unfolding s' by (rule copied_slice [OF _ _ s])
      (use \<open>length (elements k h s) = winLen s\<close> assms in \<open>simp_all add: h' content_def copied_def plainS_def\<close>)
  then show "prefix h h' \<and> copied (sliceS k plainS) h s h' s'" by (simp add: h')
qed

text \<open>
  The loop over structs. After \<open>i\<close> rounds the first \<open>i\<close> elements of the new array are copies that
  reach only cells allocated after the array itself, so writing the next element leaves them alone.
\<close>

definition copied_upto :: "('c, 'g list) kind \<Rightarrow> ('c, 'g, 'v) shape \<Rightarrow> 'c list \<Rightarrow> window \<Rightarrow> nat \<Rightarrow> 'c list \<Rightarrow> 'g list \<Rightarrow> bool" where
  "copied_upto k S h s i h' ys \<longleftrightarrow>
     prefix h h' \<and> content k h' (length h) = Some ys \<and> length ys = winLen s \<and>
     (\<forall>j < i. copied S h (elements k h s ! j) h' (ys ! j) \<and> length h \<notin> shRefs S h' (ys ! j))"

lemma copied_upto_step:
  assumes c: "deep_copy S c" and k: "kind_ok k" and t: "shTyped (sliceS k S) h s" and inv: "copied_upto k S h s i h1 ys"
    and i: "i < winLen s" and run: "c (elements k h1 s ! i) h1 = (v, h2)"
    and out: "out = \<lparr>winArr = length h, winOff = 0, winLen = winLen s\<rparr>"
  shows "copied_upto k S h s (Suc i) (assignElem k out i v h2) (ys[i := v])"
proof -
  let ?g = "elements k h s ! i" and ?h = "h2[length h := kMake k (ys[i := v])]"
  have pre: "prefix h h1" and ys: "content k h1 (length h) = Some ys" "length ys = winLen s"
    using inv by (simp_all add: copied_upto_def)
  have arr: "in_array k h s" and el: "elements k h1 s = elements k h s"
    using t pre elements_prefix by (auto simp: sliceS_typed)
  have g: "shTyped S h ?g" using t i length_elements [OF arr] by (auto simp: sliceS_typed)
  have u: "unchanged S h h1 ?g" by (rule deep_copy.frame_prefix [OF c g pre])
  then have cp: "prefix h1 h2" "copied S h1 ?g h2 v"
    using deep_copy.copies [OF c _ run] by (simp_all add: el unchanged_def)
  have len: "length h < length h1" "length h1 \<le> length h2" using content_bound [OF ys(1)] prefix_length_le [OF cp(1)] by simp_all
  have ys2: "content k h2 (length h) = Some ys" by (rule content_prefix [OF cp(1) ys(1)])
  have v: "copied S h ?g h2 v" "length h \<notin> shRefs S h2 v"
    using cp(2) u len by (auto simp: copied_def unchanged_def)
  have later: "copied S h g ?h x \<and> length h \<notin> shRefs S ?h x"
    if "copied S h g h' x" "length h \<notin> shRefs S h' x" "prefix h' h2" for g h' x
  proof -
    have "length h' \<le> length ?h" using prefix_length_le [OF that(3)] by simp
    moreover have "?h ! a = h' ! a" if a: "a \<in> shRefs S h' x" for a
    proof -
      have "a < length h'" and "a \<noteq> length h" using a \<open>copied S h g h' x\<close> \<open>length h \<notin> shRefs S h' x\<close> by (auto simp: copied_def)
      then show ?thesis using \<open>prefix h' h2\<close> by (auto simp: prefix_def nth_append)
    qed
    ultimately have "copied S h g ?h x \<and> shRefs S ?h x = shRefs S h' x"
      by (intro conjI deep_copy.copied_later [OF c that(1)])
    then show ?thesis using that(2) by simp
  qed
  have "copied S h (elements k h s ! j) ?h (ys[i := v] ! j) \<and> length h \<notin> shRefs S ?h (ys[i := v] ! j)" if "j < Suc i" for j
  proof (cases "j = i")
    case True
    then show ?thesis using later [OF v] i ys(2) by simp
  next
    case False
    then have "copied S h (elements k h s ! j) h1 (ys ! j)" and "length h \<notin> shRefs S h1 (ys ! j)"
      using inv that by (simp_all add: copied_upto_def)
    from later [OF this cp(1)] show ?thesis using False by simp
  qed
  moreover have "prefix h ?h" by (rule prefix_update) (use prefix_order.trans [OF pre cp(1)] in simp_all)
  moreover have "content k ?h (length h) = Some (ys[i := v])" using len k by (simp add: content_def)
  ultimately show ?thesis by (simp add: copied_upto_def assignElem_def out ys2 ys(2))
qed

lemma copyEach_copies:
  assumes c: "deep_copy S c" and k: "kind_ok k" and t: "shTyped (sliceS k S) h s"
    and out: "out = \<lparr>winArr = length h, winOff = 0, winLen = winLen s\<rparr>"
  shows "copied_upto k S h s i h1 ys \<Longrightarrow> i + m = winLen s \<Longrightarrow>
    \<exists>ys'. copied_upto k S h s (winLen s) (copyEach k c s out i m h1) ys'"
proof (induction m arbitrary: i h1 ys)
  case 0
  then show ?case by auto
next
  case (Suc m)
  obtain v h2 where run: "c (elements k h1 s ! i) h1 = (v, h2)" by (cases "c (elements k h1 s ! i) h1")
  from Suc.prems(2) have i: "i < winLen s" by simp
  note step = copied_upto_step [OF c k t Suc.prems(1) i run out]
  show ?case using Suc.IH [OF step] Suc.prems(2) by (simp add: run)
qed

lemma deep_copy_structs:
  assumes c: "deep_copy S c" and k: "kind_ok k"
  shows "deep_copy (sliceS k S) (copyStructs k z c)"
proof
  fix h s
  assume t: "shTyped (sliceS k S) h s"
  show "shRefs (sliceS k S) h s \<subseteq> {..<length h}" using c t by (rule sliceS_bounded)
  show "unchanged (sliceS k S) h h' s" if "agree (shRefs (sliceS k S) h s) h h'" for h'
    using c t that by (rule sliceS_frame)
  fix s' h'
  assume run: "copyStructs k z c s h = (s', h')"
  let ?out = "\<lparr>winArr = length h, winOff = 0, winLen = winLen s\<rparr>"
  have "copied_upto k S h s 0 (h @ [kMake k (replicate (winLen s) z)]) (replicate (winLen s) z)"
    using k by (simp add: copied_upto_def)
  from copyEach_copies [OF c k t refl this, of "winLen s"]
  obtain ys where "copied_upto k S h s (winLen s) h' ys" and s': "s' = ?out"
    using run by (auto simp: copyStructs_def makeSlice_def)
  then show "prefix h h' \<and> copied (sliceS k S) h s h' s'"
    using copied_slice [of k h' h ys s S] t by (simp add: copied_upto_def sliceS_typed)
qed

subsection \<open>Maps\<close>

lemma copyMap_fold:
  assumes "kind_ok k"
  shows "fold (\<lambda>key h'. h'[length h := kMake k (fmupd key (lookup_or '''' m key) (the_or fmempty (content k h' (length h))))])
      ks (h @ [kMake k acc]) = h @ [kMake k (copy_keys ks m acc)]"
  unfolding copy_keys_def by (induction ks arbitrary: acc) (simp_all add: assms)

lemma deep_copy_map:
  assumes k: "kind_ok k" and ro: "\<And>h a m. content k h a = Some m \<Longrightarrow> set (ro h a) = fmdom' m"
  shows "deep_copy (mapS k) (copyMap k ro)"
proof
  fix h a
  assume "shTyped (mapS k) h a"
  then obtain m where m: "content k h a = Some m" by (auto simp: mapS_def)
  have a: "a < length h" by (rule content_bound [OF m])
  then show "shRefs (mapS k) h a \<subseteq> {..<length h}" by (simp add: mapS_def)
  show "unchanged (mapS k) h h' a" if "agree (shRefs (mapS k) h a) h h'" for h'
    using that m content_agree [of a h h' k] by (simp add: mapS_def unchanged_def)
  fix a' h'
  assume run: "copyMap k ro a h = (a', h')"
  let ?h1 = "h @ [kMake k fmempty]"
  have m1: "content k ?h1 a = Some m" by (rule content_prefix [OF _ m]) simp
  have "copy_keys (ro ?h1 a) m fmempty = m"
    using fmlookup_copy_keys [OF ro [OF m1]] by (intro fmap_ext) (simp split: option.split)
  then have "a' = length h" and h': "h' = h @ [kMake k m]"
    using run by (auto simp: copyMap_def Let_def m1 copyMap_fold [OF k])
  then show "prefix h h' \<and> copied (mapS k) h a h' a'" using k m by (simp add: copied_def mapS_def)
qed

subsection \<open>Pointers\<close>

lemma pointee_content:
  "pointee k h p = Some g \<longleftrightarrow> (\<exists>xs. content k h (fst p) = Some xs \<and> snd p < length xs \<and> g = xs ! snd p)"
  by (auto simp: pointee_def split: option.splits if_splits)

lemma deep_copy_new:
  assumes c: "deep_copy S c" and k: "kind_ok k"
  shows "deep_copy (pointerS k z S) (newCopy k z c)"
proof
  fix h p
  assume "shTyped (pointerS k z S) h p"
  then obtain g where g: "pointee k h p = Some g" and t: "shTyped S h g" by (auto simp: pointerS_def split: option.splits)
  obtain xs where xs: "content k h (fst p) = Some xs" using g by (auto simp: pointee_content)
  have a: "fst p < length h" by (rule content_bound [OF xs])
  show "shRefs (pointerS k z S) h p \<subseteq> {..<length h}" using a deep_copy.bounded [OF c t] by (simp add: pointerS_def g)
  show "unchanged (pointerS k z S) h h' p" if "agree (shRefs (pointerS k z S) h p) h h'" for h'
  proof -
    have "pointee k h' p = Some g"
      using that content_agree [of "fst p" h h' k] g by (simp add: pointerS_def pointee_content)
    then show ?thesis using deep_copy.frame [OF c t, of h'] that by (simp add: unchanged_def pointerS_def g)
  qed
  fix p' h'
  assume run: "newCopy k z c p h = (p', h')"
  let ?h1 = "h @ [kMake k [z]]"
  have "content k ?h1 (fst p) = Some xs" by (rule content_prefix [OF _ xs]) simp
  then have g1: "pointee k ?h1 p = Some g" using g xs by (simp add: pointee_content)
  obtain v h2 where v: "c g ?h1 = (v, h2)" by (cases "c g ?h1")
  have p': "p' = (length h, 0)" and h': "h' = h2[length h := kMake k [v]]" using run by (auto simp: newCopy_def Let_def g1 v)
  have u: "unchanged S h ?h1 g" by (rule deep_copy.frame_prefix [OF c t]) simp
  then have cp: "prefix ?h1 h2" "copied S ?h1 g h2 v" using deep_copy.copies [OF c _ v] by (simp_all add: unchanged_def)
  have len: "length h < length h2" using prefix_length_le [OF cp(1)] by simp
  have "copied S ?h1 g h' v"
    by (rule deep_copy.copied_later(1) [OF c cp(2)]) (use cp(2) in \<open>auto simp: h' copied_def\<close>)
  moreover have "pointee k h' p' = Some v" using k len by (simp add: pointee_content p' h' content_def)
  moreover have "length h < length h'" using len by (simp add: h')
  ultimately have "copied (pointerS k z S) h p h' p'"
    using u by (auto simp: copied_def unchanged_def pointerS_def g p')
  moreover have "prefix h h2" using cp(1) by (meson append_prefixD)
  then have "prefix h h'" unfolding h' by (rule prefix_update) simp
  ultimately show "prefix h h' \<and> copied (pointerS k z S) h p h' p'" by simp
qed

end
