(* ===== verification/Deep_Copy.thy ===== *)
theory Deep_Copy
  imports Go_Heap Api_Types
begin

text \<open>
  The generated deep copies (\<open>api/v1alpha1/zz_generated.deepcopy.go\<close>) on the Go heap. The records with the prefix \<open>go\<close> are the structs of \<open>Api_Types\<close> as they lie in memory: a
  slice is nil or a window on an array, a map nil or the address of a map, a pointer nil or leads to
  an element. The shapes relate them to the records of \<open>Api_Types\<close>, in which a nil slice or map is an
  empty one; which references are nil is kept beside the value.

  \<open>DeepCopyInto\<close> reads through \<open>in\<close> and writes through \<open>out\<close>; the model takes what \<open>in\<close> leads to and
  returns what is stored through \<open>out\<close>. The metadata types and conditions belong to
  \<open>k8s.io/apimachinery\<close>: their copies are parameters (\<open>copyEnv\<close>), their cells \<open>Foreign\<close>.
\<close>

section \<open>The structs in memory\<close>

record goAWSConfig =
  gaRegion :: string
  gaRouteServerIDs :: "window option"

record goRouteServer =
  grRouteServerID :: string
  grRemoteASN :: int
  grEndpoints :: "window option"

record goAWSStatus =
  gtRouteServers :: "window option"

record goAvailabilityZone =
  gzNodeSelector :: "nat option"
  gzNeighbors :: "window option"

record goBGPConfig =
  gbLocalASN :: int
  gbLivenessDetection :: LivenessDetectionType
  gbAvailabilityZones :: "window option"

record goConfigSpec =
  gsBGP :: goBGPConfig
  gsRouterNodeSelector :: "nat option"
  gsAWS :: "pointer option"

record goConfigStatus =
  guPhase :: PhaseType
  guConditions :: "window option"
  guObservedGeneration :: int
  guAWS :: "pointer option"

record TypeMeta =
  tmKind :: string
  tmAPIVersion :: string

record 'm goConfig =
  gfType :: TypeMeta
  gfMeta :: 'm
  gfSpec :: goConfigSpec
  gfStatus :: goConfigStatus

record 'l goConfigList =
  glType :: TypeMeta
  glMeta :: 'l
  glItems :: "window option"

record goNetworkConfig =
  gnName :: string
  gnSubnets :: "window option"

record goRoutingSpec =
  gpNetwork :: goNetworkConfig

record goRoutingStatus =
  gqPhase :: PhaseType
  gqConditions :: "window option"
  gqObservedGeneration :: int

record 'm goRouting =
  gvType :: TypeMeta
  gvMeta :: 'm
  gvSpec :: goRoutingSpec
  gvStatus :: goRoutingStatus

record 'l goRoutingList =
  gwType :: TypeMeta
  gwMeta :: 'l
  gwItems :: "window option"

text \<open>Cells: an array for every element type (a struct behind a pointer is an element of one), and maps.\<close>

datatype ('m, 'l, 'x) cell =
    Strings "string list"
  | StringMap "(string, string) fmap"
  | AWSConfigs "goAWSConfig list"
  | AWSStatuses "goAWSStatus list"
  | Endpoints "StatusEndpoint list"
  | RouteServers "goRouteServer list"
  | Zones "goAvailabilityZone list"
  | BGPConfigs "goBGPConfig list"
  | Neighbors "BGPNeighbor list"
  | Configs "'m goConfig list"
  | ConfigLists "'l goConfigList list"
  | ConfigSpecs "goConfigSpec list"
  | ConfigStatuses "goConfigStatus list"
  | Conditions "Condition list"
  | Routings "'m goRouting list"
  | RoutingLists "'l goRoutingList list"
  | RoutingSpecs "goRoutingSpec list"
  | RoutingStatuses "goRoutingStatus list"
  | NetworkConfigs "goNetworkConfig list"
  | Foreign 'x

type_synonym ('m, 'l, 'x) goHeap = "('m, 'l, 'x) cell list"

definition kStrings :: "(('m, 'l, 'x) cell, string list) kind" where
  "kStrings = \<lparr>kMake = Strings, kDest = (\<lambda>c. case c of Strings b \<Rightarrow> Some b | _ \<Rightarrow> None)\<rparr>"

definition kStringMap :: "(('m, 'l, 'x) cell, (string, string) fmap) kind" where
  "kStringMap = \<lparr>kMake = StringMap, kDest = (\<lambda>c. case c of StringMap b \<Rightarrow> Some b | _ \<Rightarrow> None)\<rparr>"

definition kAWSConfigs :: "(('m, 'l, 'x) cell, goAWSConfig list) kind" where
  "kAWSConfigs = \<lparr>kMake = AWSConfigs, kDest = (\<lambda>c. case c of AWSConfigs b \<Rightarrow> Some b | _ \<Rightarrow> None)\<rparr>"

definition kAWSStatuses :: "(('m, 'l, 'x) cell, goAWSStatus list) kind" where
  "kAWSStatuses = \<lparr>kMake = AWSStatuses, kDest = (\<lambda>c. case c of AWSStatuses b \<Rightarrow> Some b | _ \<Rightarrow> None)\<rparr>"

definition kEndpoints :: "(('m, 'l, 'x) cell, StatusEndpoint list) kind" where
  "kEndpoints = \<lparr>kMake = Endpoints, kDest = (\<lambda>c. case c of Endpoints b \<Rightarrow> Some b | _ \<Rightarrow> None)\<rparr>"

definition kRouteServers :: "(('m, 'l, 'x) cell, goRouteServer list) kind" where
  "kRouteServers = \<lparr>kMake = RouteServers, kDest = (\<lambda>c. case c of RouteServers b \<Rightarrow> Some b | _ \<Rightarrow> None)\<rparr>"

definition kZones :: "(('m, 'l, 'x) cell, goAvailabilityZone list) kind" where
  "kZones = \<lparr>kMake = Zones, kDest = (\<lambda>c. case c of Zones b \<Rightarrow> Some b | _ \<Rightarrow> None)\<rparr>"

definition kBGPConfigs :: "(('m, 'l, 'x) cell, goBGPConfig list) kind" where
  "kBGPConfigs = \<lparr>kMake = BGPConfigs, kDest = (\<lambda>c. case c of BGPConfigs b \<Rightarrow> Some b | _ \<Rightarrow> None)\<rparr>"

definition kNeighbors :: "(('m, 'l, 'x) cell, BGPNeighbor list) kind" where
  "kNeighbors = \<lparr>kMake = Neighbors, kDest = (\<lambda>c. case c of Neighbors b \<Rightarrow> Some b | _ \<Rightarrow> None)\<rparr>"

definition kConfigs :: "(('m, 'l, 'x) cell, 'm goConfig list) kind" where
  "kConfigs = \<lparr>kMake = Configs, kDest = (\<lambda>c. case c of Configs b \<Rightarrow> Some b | _ \<Rightarrow> None)\<rparr>"

definition kConfigLists :: "(('m, 'l, 'x) cell, 'l goConfigList list) kind" where
  "kConfigLists = \<lparr>kMake = ConfigLists, kDest = (\<lambda>c. case c of ConfigLists b \<Rightarrow> Some b | _ \<Rightarrow> None)\<rparr>"

definition kConfigSpecs :: "(('m, 'l, 'x) cell, goConfigSpec list) kind" where
  "kConfigSpecs = \<lparr>kMake = ConfigSpecs, kDest = (\<lambda>c. case c of ConfigSpecs b \<Rightarrow> Some b | _ \<Rightarrow> None)\<rparr>"

definition kConfigStatuses :: "(('m, 'l, 'x) cell, goConfigStatus list) kind" where
  "kConfigStatuses = \<lparr>kMake = ConfigStatuses, kDest = (\<lambda>c. case c of ConfigStatuses b \<Rightarrow> Some b | _ \<Rightarrow> None)\<rparr>"

definition kConditions :: "(('m, 'l, 'x) cell, Condition list) kind" where
  "kConditions = \<lparr>kMake = Conditions, kDest = (\<lambda>c. case c of Conditions b \<Rightarrow> Some b | _ \<Rightarrow> None)\<rparr>"

definition kRoutings :: "(('m, 'l, 'x) cell, 'm goRouting list) kind" where
  "kRoutings = \<lparr>kMake = Routings, kDest = (\<lambda>c. case c of Routings b \<Rightarrow> Some b | _ \<Rightarrow> None)\<rparr>"

definition kRoutingLists :: "(('m, 'l, 'x) cell, 'l goRoutingList list) kind" where
  "kRoutingLists = \<lparr>kMake = RoutingLists, kDest = (\<lambda>c. case c of RoutingLists b \<Rightarrow> Some b | _ \<Rightarrow> None)\<rparr>"

definition kRoutingSpecs :: "(('m, 'l, 'x) cell, goRoutingSpec list) kind" where
  "kRoutingSpecs = \<lparr>kMake = RoutingSpecs, kDest = (\<lambda>c. case c of RoutingSpecs b \<Rightarrow> Some b | _ \<Rightarrow> None)\<rparr>"

definition kRoutingStatuses :: "(('m, 'l, 'x) cell, goRoutingStatus list) kind" where
  "kRoutingStatuses = \<lparr>kMake = RoutingStatuses, kDest = (\<lambda>c. case c of RoutingStatuses b \<Rightarrow> Some b | _ \<Rightarrow> None)\<rparr>"

definition kNetworkConfigs :: "(('m, 'l, 'x) cell, goNetworkConfig list) kind" where
  "kNetworkConfigs = \<lparr>kMake = NetworkConfigs, kDest = (\<lambda>c. case c of NetworkConfigs b \<Rightarrow> Some b | _ \<Rightarrow> None)\<rparr>"

lemma kinds_ok [simp, intro]:
  "kind_ok kStrings"
  "kind_ok kStringMap"
  "kind_ok kAWSConfigs"
  "kind_ok kAWSStatuses"
  "kind_ok kEndpoints"
  "kind_ok kRouteServers"
  "kind_ok kZones"
  "kind_ok kBGPConfigs"
  "kind_ok kNeighbors"
  "kind_ok kConfigs"
  "kind_ok kConfigLists"
  "kind_ok kConfigSpecs"
  "kind_ok kConfigStatuses"
  "kind_ok kConditions"
  "kind_ok kRoutings"
  "kind_ok kRoutingLists"
  "kind_ok kRoutingSpecs"
  "kind_ok kRoutingStatuses"
  "kind_ok kNetworkConfigs"
  by (simp_all add: kind_ok_def kStrings_def kStringMap_def kAWSConfigs_def kAWSStatuses_def kEndpoints_def kRouteServers_def kZones_def kBGPConfigs_def kNeighbors_def kConfigs_def kConfigLists_def kConfigSpecs_def kConfigStatuses_def kConditions_def kRoutings_def kRoutingLists_def kRoutingSpecs_def kRoutingStatuses_def kNetworkConfigs_def)

text \<open>What comes from the runtime and from \<open>apimachinery\<close>.\<close>

record ('m, 'l, 'x) copyEnv =
  dcRange :: "('m, 'l, 'x) goHeap \<Rightarrow> nat \<Rightarrow> string list"
  dcObjectMeta :: "'m \<Rightarrow> ('m, 'l, 'x) goHeap \<Rightarrow> 'm \<times> ('m, 'l, 'x) goHeap"
  dcListMeta :: "'l \<Rightarrow> ('m, 'l, 'x) goHeap \<Rightarrow> 'l \<times> ('m, 'l, 'x) goHeap"
  dcCondition :: "Condition \<Rightarrow> Condition"
  dcZeroMeta :: 'm
  dcZeroListMeta :: 'l

section \<open>Zero values\<close>

text \<open>
  What \<open>new\<close> and \<open>make\<close> put into fresh memory; every copy overwrites it. (The empty status of a
  condition has no constructor in \<open>ConditionStatus\<close>; \<open>ConditionUnknown\<close> stands for it.)
\<close>

definition zeroAWSConfig :: goAWSConfig where
  "zeroAWSConfig = \<lparr>gaRegion = '''', gaRouteServerIDs = None\<rparr>"

definition zeroEndpoint :: StatusEndpoint where
  "zeroEndpoint = \<lparr>seEndpointID = '''', seAvailabilityZone = '''', seAddress = ''''\<rparr>"

definition zeroRouteServer :: goRouteServer where
  "zeroRouteServer = \<lparr>grRouteServerID = '''', grRemoteASN = 0, grEndpoints = None\<rparr>"

definition zeroAWSStatus :: goAWSStatus where
  "zeroAWSStatus = \<lparr>gtRouteServers = None\<rparr>"

definition zeroNeighbor :: BGPNeighbor where
  "zeroNeighbor = \<lparr>nbAddress = '''', nbRemoteASN = 0\<rparr>"

definition zeroZone :: goAvailabilityZone where
  "zeroZone = \<lparr>gzNodeSelector = None, gzNeighbors = None\<rparr>"

definition zeroBGPConfig :: goBGPConfig where
  "zeroBGPConfig = \<lparr>gbLocalASN = 0, gbLivenessDetection = '''', gbAvailabilityZones = None\<rparr>"

definition zeroCondition :: Condition where
  "zeroCondition =
     \<lparr>condType = '''', condStatus = ConditionUnknown, condReason = '''', condMessage = '''', condObservedGeneration = 0\<rparr>"

definition zeroConfigSpec :: goConfigSpec where
  "zeroConfigSpec = \<lparr>gsBGP = zeroBGPConfig, gsRouterNodeSelector = None, gsAWS = None\<rparr>"

definition zeroConfigStatus :: goConfigStatus where
  "zeroConfigStatus = \<lparr>guPhase = PhaseUnset, guConditions = None, guObservedGeneration = 0, guAWS = None\<rparr>"

definition zeroType :: TypeMeta where
  "zeroType = \<lparr>tmKind = '''', tmAPIVersion = ''''\<rparr>"

definition zeroConfig :: "('m, 'l, 'x) copyEnv \<Rightarrow> 'm goConfig" where
  "zeroConfig env = \<lparr>gfType = zeroType, gfMeta = dcZeroMeta env, gfSpec = zeroConfigSpec, gfStatus = zeroConfigStatus\<rparr>"

definition zeroConfigList :: "('m, 'l, 'x) copyEnv \<Rightarrow> 'l goConfigList" where
  "zeroConfigList env = \<lparr>glType = zeroType, glMeta = dcZeroListMeta env, glItems = None\<rparr>"

definition zeroNetworkConfig :: goNetworkConfig where
  "zeroNetworkConfig = \<lparr>gnName = '''', gnSubnets = None\<rparr>"

definition zeroRoutingSpec :: goRoutingSpec where
  "zeroRoutingSpec = \<lparr>gpNetwork = zeroNetworkConfig\<rparr>"

definition zeroRoutingStatus :: goRoutingStatus where
  "zeroRoutingStatus = \<lparr>gqPhase = PhaseUnset, gqConditions = None, gqObservedGeneration = 0\<rparr>"

definition zeroRouting :: "('m, 'l, 'x) copyEnv \<Rightarrow> 'm goRouting" where
  "zeroRouting env = \<lparr>gvType = zeroType, gvMeta = dcZeroMeta env, gvSpec = zeroRoutingSpec, gvStatus = zeroRoutingStatus\<rparr>"

definition zeroRoutingList :: "('m, 'l, 'x) copyEnv \<Rightarrow> 'l goRoutingList" where
  "zeroRoutingList env = \<lparr>gwType = zeroType, gwMeta = dcZeroListMeta env, gwItems = None\<rparr>"

section \<open>The copies\<close>

subsection \<open>AWSConfig\<close>

definition AWSConfig_DeepCopyInto :: "goAWSConfig \<Rightarrow> ('m, 'l, 'x) goHeap \<Rightarrow> goAWSConfig \<times> ('m, 'l, 'x) goHeap" where
  "AWSConfig_DeepCopyInto inp h =
     (let out = inp;
          (ids, h1) = unlessNil (copyValues kStrings '''') (gaRouteServerIDs inp) h
      in (out\<lparr>gaRouteServerIDs := ids\<rparr>, h1))"

definition AWSConfig_DeepCopy :: "pointer option \<Rightarrow> ('m, 'l, 'x) goHeap \<Rightarrow> pointer option \<times> ('m, 'l, 'x) goHeap" where
  "AWSConfig_DeepCopy = unlessNil (newCopy kAWSConfigs zeroAWSConfig AWSConfig_DeepCopyInto)"

subsection \<open>DiscoveredEndpoint and DiscoveredRouteServer\<close>

definition DiscoveredEndpoint_DeepCopyInto ::
    "StatusEndpoint \<Rightarrow> ('m, 'l, 'x) goHeap \<Rightarrow> StatusEndpoint \<times> ('m, 'l, 'x) goHeap" where
  "DiscoveredEndpoint_DeepCopyInto inp h = (inp, h)"

definition DiscoveredEndpoint_DeepCopy ::
    "pointer option \<Rightarrow> ('m, 'l, 'x) goHeap \<Rightarrow> pointer option \<times> ('m, 'l, 'x) goHeap" where
  "DiscoveredEndpoint_DeepCopy = unlessNil (newCopy kEndpoints zeroEndpoint DiscoveredEndpoint_DeepCopyInto)"

definition DiscoveredRouteServer_DeepCopyInto ::
    "goRouteServer \<Rightarrow> ('m, 'l, 'x) goHeap \<Rightarrow> goRouteServer \<times> ('m, 'l, 'x) goHeap" where
  "DiscoveredRouteServer_DeepCopyInto inp h =
     (let out = inp;
          (eps, h1) = unlessNil (copyValues kEndpoints zeroEndpoint) (grEndpoints inp) h
      in (out\<lparr>grEndpoints := eps\<rparr>, h1))"

definition DiscoveredRouteServer_DeepCopy ::
    "pointer option \<Rightarrow> ('m, 'l, 'x) goHeap \<Rightarrow> pointer option \<times> ('m, 'l, 'x) goHeap" where
  "DiscoveredRouteServer_DeepCopy = unlessNil (newCopy kRouteServers zeroRouteServer DiscoveredRouteServer_DeepCopyInto)"

subsection \<open>AWSStatus\<close>

definition AWSStatus_DeepCopyInto :: "goAWSStatus \<Rightarrow> ('m, 'l, 'x) goHeap \<Rightarrow> goAWSStatus \<times> ('m, 'l, 'x) goHeap" where
  "AWSStatus_DeepCopyInto inp h =
     (let out = inp;
          (rs, h1) = unlessNil (copyStructs kRouteServers zeroRouteServer DiscoveredRouteServer_DeepCopyInto)
            (gtRouteServers inp) h
      in (out\<lparr>gtRouteServers := rs\<rparr>, h1))"

definition AWSStatus_DeepCopy :: "pointer option \<Rightarrow> ('m, 'l, 'x) goHeap \<Rightarrow> pointer option \<times> ('m, 'l, 'x) goHeap" where
  "AWSStatus_DeepCopy = unlessNil (newCopy kAWSStatuses zeroAWSStatus AWSStatus_DeepCopyInto)"

subsection \<open>AvailabilityZone, BGPConfig and BGPNeighbor\<close>

definition AvailabilityZone_DeepCopyInto :: "('m, 'l, 'x) copyEnv \<Rightarrow>
    goAvailabilityZone \<Rightarrow> ('m, 'l, 'x) goHeap \<Rightarrow> goAvailabilityZone \<times> ('m, 'l, 'x) goHeap" where
  "AvailabilityZone_DeepCopyInto env inp h =
     (let out = inp;
          (sel, h1) = unlessNil (copyMap kStringMap (dcRange env)) (gzNodeSelector inp) h;
          out = out\<lparr>gzNodeSelector := sel\<rparr>;
          (nbs, h2) = unlessNil (copyValues kNeighbors zeroNeighbor) (gzNeighbors inp) h1
      in (out\<lparr>gzNeighbors := nbs\<rparr>, h2))"

definition AvailabilityZone_DeepCopy :: "('m, 'l, 'x) copyEnv \<Rightarrow>
    pointer option \<Rightarrow> ('m, 'l, 'x) goHeap \<Rightarrow> pointer option \<times> ('m, 'l, 'x) goHeap" where
  "AvailabilityZone_DeepCopy env = unlessNil (newCopy kZones zeroZone (AvailabilityZone_DeepCopyInto env))"

definition BGPConfig_DeepCopyInto :: "('m, 'l, 'x) copyEnv \<Rightarrow>
    goBGPConfig \<Rightarrow> ('m, 'l, 'x) goHeap \<Rightarrow> goBGPConfig \<times> ('m, 'l, 'x) goHeap" where
  "BGPConfig_DeepCopyInto env inp h =
     (let out = inp;
          (azs, h1) = unlessNil (copyStructs kZones zeroZone (AvailabilityZone_DeepCopyInto env))
            (gbAvailabilityZones inp) h
      in (out\<lparr>gbAvailabilityZones := azs\<rparr>, h1))"

definition BGPConfig_DeepCopy :: "('m, 'l, 'x) copyEnv \<Rightarrow>
    pointer option \<Rightarrow> ('m, 'l, 'x) goHeap \<Rightarrow> pointer option \<times> ('m, 'l, 'x) goHeap" where
  "BGPConfig_DeepCopy env = unlessNil (newCopy kBGPConfigs zeroBGPConfig (BGPConfig_DeepCopyInto env))"

definition BGPNeighbor_DeepCopyInto :: "BGPNeighbor \<Rightarrow> ('m, 'l, 'x) goHeap \<Rightarrow> BGPNeighbor \<times> ('m, 'l, 'x) goHeap" where
  "BGPNeighbor_DeepCopyInto inp h = (inp, h)"

definition BGPNeighbor_DeepCopy :: "pointer option \<Rightarrow> ('m, 'l, 'x) goHeap \<Rightarrow> pointer option \<times> ('m, 'l, 'x) goHeap" where
  "BGPNeighbor_DeepCopy = unlessNil (newCopy kNeighbors zeroNeighbor BGPNeighbor_DeepCopyInto)"

subsection \<open>CUDNBgpConfigSpec and CUDNBgpConfigStatus\<close>

definition CUDNBgpConfigSpec_DeepCopyInto :: "('m, 'l, 'x) copyEnv \<Rightarrow>
    goConfigSpec \<Rightarrow> ('m, 'l, 'x) goHeap \<Rightarrow> goConfigSpec \<times> ('m, 'l, 'x) goHeap" where
  "CUDNBgpConfigSpec_DeepCopyInto env inp h =
     (let out = inp;
          (bgp, h1) = BGPConfig_DeepCopyInto env (gsBGP inp) h;
          out = out\<lparr>gsBGP := bgp\<rparr>;
          (sel, h2) = unlessNil (copyMap kStringMap (dcRange env)) (gsRouterNodeSelector inp) h1;
          out = out\<lparr>gsRouterNodeSelector := sel\<rparr>;
          (aws, h3) = unlessNil (newCopy kAWSConfigs zeroAWSConfig AWSConfig_DeepCopyInto) (gsAWS inp) h2
      in (out\<lparr>gsAWS := aws\<rparr>, h3))"

definition CUDNBgpConfigSpec_DeepCopy :: "('m, 'l, 'x) copyEnv \<Rightarrow>
    pointer option \<Rightarrow> ('m, 'l, 'x) goHeap \<Rightarrow> pointer option \<times> ('m, 'l, 'x) goHeap" where
  "CUDNBgpConfigSpec_DeepCopy env = unlessNil (newCopy kConfigSpecs zeroConfigSpec (CUDNBgpConfigSpec_DeepCopyInto env))"

text \<open>The loop over the conditions, whose own copy comes from \<open>apimachinery\<close>.\<close>

abbreviation copyConditions :: "('m, 'l, 'x) copyEnv \<Rightarrow> window \<Rightarrow> ('m, 'l, 'x) goHeap \<Rightarrow> window \<times> ('m, 'l, 'x) goHeap" where
  "copyConditions env \<equiv> copyStructs kConditions zeroCondition (\<lambda>c h. (dcCondition env c, h))"

definition CUDNBgpConfigStatus_DeepCopyInto :: "('m, 'l, 'x) copyEnv \<Rightarrow>
    goConfigStatus \<Rightarrow> ('m, 'l, 'x) goHeap \<Rightarrow> goConfigStatus \<times> ('m, 'l, 'x) goHeap" where
  "CUDNBgpConfigStatus_DeepCopyInto env inp h =
     (let out = inp;
          (cs, h1) = unlessNil (copyConditions env) (guConditions inp) h;
          out = out\<lparr>guConditions := cs\<rparr>;
          (aws, h2) = unlessNil (newCopy kAWSStatuses zeroAWSStatus AWSStatus_DeepCopyInto) (guAWS inp) h1
      in (out\<lparr>guAWS := aws\<rparr>, h2))"

definition CUDNBgpConfigStatus_DeepCopy :: "('m, 'l, 'x) copyEnv \<Rightarrow>
    pointer option \<Rightarrow> ('m, 'l, 'x) goHeap \<Rightarrow> pointer option \<times> ('m, 'l, 'x) goHeap" where
  "CUDNBgpConfigStatus_DeepCopy env =
     unlessNil (newCopy kConfigStatuses zeroConfigStatus (CUDNBgpConfigStatus_DeepCopyInto env))"

subsection \<open>CUDNBgpConfig and CUDNBgpConfigList\<close>

definition CUDNBgpConfig_DeepCopyInto :: "('m, 'l, 'x) copyEnv \<Rightarrow>
    'm goConfig \<Rightarrow> ('m, 'l, 'x) goHeap \<Rightarrow> 'm goConfig \<times> ('m, 'l, 'x) goHeap" where
  "CUDNBgpConfig_DeepCopyInto env inp h =
     (let out = inp;
          out = out\<lparr>gfType := gfType inp\<rparr>;
          (meta, h1) = dcObjectMeta env (gfMeta inp) h;
          out = out\<lparr>gfMeta := meta\<rparr>;
          (spec, h2) = CUDNBgpConfigSpec_DeepCopyInto env (gfSpec inp) h1;
          out = out\<lparr>gfSpec := spec\<rparr>;
          (status, h3) = CUDNBgpConfigStatus_DeepCopyInto env (gfStatus inp) h2
      in (out\<lparr>gfStatus := status\<rparr>, h3))"

definition CUDNBgpConfig_DeepCopy :: "('m, 'l, 'x) copyEnv \<Rightarrow>
    pointer option \<Rightarrow> ('m, 'l, 'x) goHeap \<Rightarrow> pointer option \<times> ('m, 'l, 'x) goHeap" where
  "CUDNBgpConfig_DeepCopy env = unlessNil (newCopy kConfigs (zeroConfig env) (CUDNBgpConfig_DeepCopyInto env))"

text \<open>
  A value of the interface \<open>runtime.Object\<close> is nil or a dynamic type with a pointer, which may itself be
  nil: \<open>Some (T, None)\<close> is an interface that holds a nil pointer and is not nil.
\<close>

datatype dynType = ConfigType | ConfigListType | RoutingType | RoutingListType

type_synonym runtimeObject = "(dynType \<times> pointer option) option"

definition CUDNBgpConfig_DeepCopyObject :: "('m, 'l, 'x) copyEnv \<Rightarrow>
    pointer option \<Rightarrow> ('m, 'l, 'x) goHeap \<Rightarrow> runtimeObject \<times> ('m, 'l, 'x) goHeap" where
  "CUDNBgpConfig_DeepCopyObject env inp h =
     (let (c, h1) = CUDNBgpConfig_DeepCopy env inp h in
      if c \<noteq> None then (Some (ConfigType, c), h1) else (None, h1))"

definition CUDNBgpConfigList_DeepCopyInto :: "('m, 'l, 'x) copyEnv \<Rightarrow>
    'l goConfigList \<Rightarrow> ('m, 'l, 'x) goHeap \<Rightarrow> 'l goConfigList \<times> ('m, 'l, 'x) goHeap" where
  "CUDNBgpConfigList_DeepCopyInto env inp h =
     (let out = inp;
          out = out\<lparr>glType := glType inp\<rparr>;
          (meta, h1) = dcListMeta env (glMeta inp) h;
          out = out\<lparr>glMeta := meta\<rparr>;
          (items, h2) = unlessNil (copyStructs kConfigs (zeroConfig env) (CUDNBgpConfig_DeepCopyInto env)) (glItems inp) h1
      in (out\<lparr>glItems := items\<rparr>, h2))"

definition CUDNBgpConfigList_DeepCopy :: "('m, 'l, 'x) copyEnv \<Rightarrow>
    pointer option \<Rightarrow> ('m, 'l, 'x) goHeap \<Rightarrow> pointer option \<times> ('m, 'l, 'x) goHeap" where
  "CUDNBgpConfigList_DeepCopy env =
     unlessNil (newCopy kConfigLists (zeroConfigList env) (CUDNBgpConfigList_DeepCopyInto env))"

definition CUDNBgpConfigList_DeepCopyObject :: "('m, 'l, 'x) copyEnv \<Rightarrow>
    pointer option \<Rightarrow> ('m, 'l, 'x) goHeap \<Rightarrow> runtimeObject \<times> ('m, 'l, 'x) goHeap" where
  "CUDNBgpConfigList_DeepCopyObject env inp h =
     (let (c, h1) = CUDNBgpConfigList_DeepCopy env inp h in
      if c \<noteq> None then (Some (ConfigListType, c), h1) else (None, h1))"

subsection \<open>NetworkConfig, CUDNBgpRoutingSpec and CUDNBgpRoutingStatus\<close>

definition NetworkConfig_DeepCopyInto ::
    "goNetworkConfig \<Rightarrow> ('m, 'l, 'x) goHeap \<Rightarrow> goNetworkConfig \<times> ('m, 'l, 'x) goHeap" where
  "NetworkConfig_DeepCopyInto inp h =
     (let out = inp;
          (subnets, h1) = unlessNil (copyValues kStrings '''') (gnSubnets inp) h
      in (out\<lparr>gnSubnets := subnets\<rparr>, h1))"

definition NetworkConfig_DeepCopy :: "pointer option \<Rightarrow> ('m, 'l, 'x) goHeap \<Rightarrow> pointer option \<times> ('m, 'l, 'x) goHeap" where
  "NetworkConfig_DeepCopy = unlessNil (newCopy kNetworkConfigs zeroNetworkConfig NetworkConfig_DeepCopyInto)"

definition CUDNBgpRoutingSpec_DeepCopyInto ::
    "goRoutingSpec \<Rightarrow> ('m, 'l, 'x) goHeap \<Rightarrow> goRoutingSpec \<times> ('m, 'l, 'x) goHeap" where
  "CUDNBgpRoutingSpec_DeepCopyInto inp h =
     (let out = inp;
          (network, h1) = NetworkConfig_DeepCopyInto (gpNetwork inp) h
      in (out\<lparr>gpNetwork := network\<rparr>, h1))"

definition CUDNBgpRoutingSpec_DeepCopy ::
    "pointer option \<Rightarrow> ('m, 'l, 'x) goHeap \<Rightarrow> pointer option \<times> ('m, 'l, 'x) goHeap" where
  "CUDNBgpRoutingSpec_DeepCopy = unlessNil (newCopy kRoutingSpecs zeroRoutingSpec CUDNBgpRoutingSpec_DeepCopyInto)"

definition CUDNBgpRoutingStatus_DeepCopyInto :: "('m, 'l, 'x) copyEnv \<Rightarrow>
    goRoutingStatus \<Rightarrow> ('m, 'l, 'x) goHeap \<Rightarrow> goRoutingStatus \<times> ('m, 'l, 'x) goHeap" where
  "CUDNBgpRoutingStatus_DeepCopyInto env inp h =
     (let out = inp;
          (cs, h1) = unlessNil (copyConditions env) (gqConditions inp) h
      in (out\<lparr>gqConditions := cs\<rparr>, h1))"

definition CUDNBgpRoutingStatus_DeepCopy :: "('m, 'l, 'x) copyEnv \<Rightarrow>
    pointer option \<Rightarrow> ('m, 'l, 'x) goHeap \<Rightarrow> pointer option \<times> ('m, 'l, 'x) goHeap" where
  "CUDNBgpRoutingStatus_DeepCopy env =
     unlessNil (newCopy kRoutingStatuses zeroRoutingStatus (CUDNBgpRoutingStatus_DeepCopyInto env))"

subsection \<open>CUDNBgpRouting and CUDNBgpRoutingList\<close>

definition CUDNBgpRouting_DeepCopyInto :: "('m, 'l, 'x) copyEnv \<Rightarrow>
    'm goRouting \<Rightarrow> ('m, 'l, 'x) goHeap \<Rightarrow> 'm goRouting \<times> ('m, 'l, 'x) goHeap" where
  "CUDNBgpRouting_DeepCopyInto env inp h =
     (let out = inp;
          out = out\<lparr>gvType := gvType inp\<rparr>;
          (meta, h1) = dcObjectMeta env (gvMeta inp) h;
          out = out\<lparr>gvMeta := meta\<rparr>;
          (spec, h2) = CUDNBgpRoutingSpec_DeepCopyInto (gvSpec inp) h1;
          out = out\<lparr>gvSpec := spec\<rparr>;
          (status, h3) = CUDNBgpRoutingStatus_DeepCopyInto env (gvStatus inp) h2
      in (out\<lparr>gvStatus := status\<rparr>, h3))"

definition CUDNBgpRouting_DeepCopy :: "('m, 'l, 'x) copyEnv \<Rightarrow>
    pointer option \<Rightarrow> ('m, 'l, 'x) goHeap \<Rightarrow> pointer option \<times> ('m, 'l, 'x) goHeap" where
  "CUDNBgpRouting_DeepCopy env = unlessNil (newCopy kRoutings (zeroRouting env) (CUDNBgpRouting_DeepCopyInto env))"

definition CUDNBgpRouting_DeepCopyObject :: "('m, 'l, 'x) copyEnv \<Rightarrow>
    pointer option \<Rightarrow> ('m, 'l, 'x) goHeap \<Rightarrow> runtimeObject \<times> ('m, 'l, 'x) goHeap" where
  "CUDNBgpRouting_DeepCopyObject env inp h =
     (let (c, h1) = CUDNBgpRouting_DeepCopy env inp h in
      if c \<noteq> None then (Some (RoutingType, c), h1) else (None, h1))"

definition CUDNBgpRoutingList_DeepCopyInto :: "('m, 'l, 'x) copyEnv \<Rightarrow>
    'l goRoutingList \<Rightarrow> ('m, 'l, 'x) goHeap \<Rightarrow> 'l goRoutingList \<times> ('m, 'l, 'x) goHeap" where
  "CUDNBgpRoutingList_DeepCopyInto env inp h =
     (let out = inp;
          out = out\<lparr>gwType := gwType inp\<rparr>;
          (meta, h1) = dcListMeta env (gwMeta inp) h;
          out = out\<lparr>gwMeta := meta\<rparr>;
          (items, h2) = unlessNil (copyStructs kRoutings (zeroRouting env) (CUDNBgpRouting_DeepCopyInto env)) (gwItems inp) h1
      in (out\<lparr>gwItems := items\<rparr>, h2))"

definition CUDNBgpRoutingList_DeepCopy :: "('m, 'l, 'x) copyEnv \<Rightarrow>
    pointer option \<Rightarrow> ('m, 'l, 'x) goHeap \<Rightarrow> pointer option \<times> ('m, 'l, 'x) goHeap" where
  "CUDNBgpRoutingList_DeepCopy env =
     unlessNil (newCopy kRoutingLists (zeroRoutingList env) (CUDNBgpRoutingList_DeepCopyInto env))"

definition CUDNBgpRoutingList_DeepCopyObject :: "('m, 'l, 'x) copyEnv \<Rightarrow>
    pointer option \<Rightarrow> ('m, 'l, 'x) goHeap \<Rightarrow> runtimeObject \<times> ('m, 'l, 'x) goHeap" where
  "CUDNBgpRoutingList_DeepCopyObject env inp h =
     (let (c, h1) = CUDNBgpRoutingList_DeepCopy env inp h in
      if c \<noteq> None then (Some (RoutingListType, c), h1) else (None, h1))"

text \<open>The call \<open>o.DeepCopyObject()\<close> selects the method by the dynamic type.\<close>

fun DeepCopyObject :: "('m, 'l, 'x) copyEnv \<Rightarrow> dynType \<Rightarrow> pointer option \<Rightarrow> ('m, 'l, 'x) goHeap \<Rightarrow>
    runtimeObject \<times> ('m, 'l, 'x) goHeap" where
  "DeepCopyObject env ConfigType = CUDNBgpConfig_DeepCopyObject env"
| "DeepCopyObject env ConfigListType = CUDNBgpConfigList_DeepCopyObject env"
| "DeepCopyObject env RoutingType = CUDNBgpRouting_DeepCopyObject env"
| "DeepCopyObject env RoutingListType = CUDNBgpRoutingList_DeepCopyObject env"

section \<open>Registration\<close>

text \<open>The two \<open>init\<close> functions hand one object of each type to the scheme builder.\<close>

definition init_config :: "dynType list \<Rightarrow> dynType list" where
  "init_config registered = registered @ [ConfigType, ConfigListType]"

definition init_routing :: "dynType list \<Rightarrow> dynType list" where
  "init_routing registered = registered @ [RoutingType, RoutingListType]"

definition registeredTypes :: "dynType list" where
  "registeredTypes = init_routing (init_config [])"

section \<open>Shapes\<close>

abbreviation listS :: "('c, 'g list) kind \<Rightarrow> ('c, 'g, 'v) shape \<Rightarrow> ('c, window option, 'v list) shape" where
  "listS k S \<equiv> nilableS [] id (sliceS k S)"

abbreviation labelsS :: "(('m, 'l, 'x) cell, nat option, (string, string) fmap) shape" where
  "labelsS \<equiv> nilableS fmempty id (mapS kStringMap)"

abbreviation optionS :: "('c, 'g list) kind \<Rightarrow> 'g \<Rightarrow> ('c, 'g, 'v) shape \<Rightarrow> ('c, pointer option, 'v option) shape" where
  "optionS k z S \<equiv> nilableS None Some (pointerS k z S)"

definition AWSConfigS :: "(('m, 'l, 'x) cell, goAWSConfig, AWSConfig) shape" where
  "AWSConfigS =
     fieldsS gaRouteServerIDs (\<lambda>g ids. \<lparr>awsRegion = gaRegion g, awsRouteServerIDs = ids\<rparr>) (listS kStrings plainS)"

definition RouteServerS :: "(('m, 'l, 'x) cell, goRouteServer, StatusRouteServer) shape" where
  "RouteServerS =
     fieldsS grEndpoints
       (\<lambda>g eps. \<lparr>srRouteServerID = grRouteServerID g, srRemoteASN = grRemoteASN g, srEndpoints = eps\<rparr>)
       (listS kEndpoints plainS)"

definition AWSStatusS :: "(('m, 'l, 'x) cell, goAWSStatus, AWSStatus) shape" where
  "AWSStatusS = fieldsS gtRouteServers (\<lambda>_ rs. \<lparr>asRouteServers = rs\<rparr>) (listS kRouteServers RouteServerS)"

definition AvailabilityZoneS :: "(('m, 'l, 'x) cell, goAvailabilityZone, AvailabilityZone) shape" where
  "AvailabilityZoneS =
     fieldsS (\<lambda>g. (gzNodeSelector g, gzNeighbors g)) (\<lambda>_ (sel, nbs). \<lparr>azNodeSelector = sel, azNeighbors = nbs\<rparr>)
       (bothS labelsS (listS kNeighbors plainS))"

definition BGPConfigS :: "(('m, 'l, 'x) cell, goBGPConfig, BGPConfig) shape" where
  "BGPConfigS =
     fieldsS gbAvailabilityZones
       (\<lambda>g azs. \<lparr>bgpLocalASN = gbLocalASN g, bgpLivenessDetection = gbLivenessDetection g, bgpAvailabilityZones = azs\<rparr>)
       (listS kZones AvailabilityZoneS)"

definition ConfigSpecS :: "(('m, 'l, 'x) cell, goConfigSpec, CUDNBgpConfigSpec) shape" where
  "ConfigSpecS =
     fieldsS (\<lambda>g. (gsBGP g, gsRouterNodeSelector g, gsAWS g))
       (\<lambda>_ (bgp, sel, aws). \<lparr>csBGP = bgp, csRouterNodeSelector = sel, csAWS = aws\<rparr>)
       (bothS BGPConfigS (bothS labelsS (optionS kAWSConfigs zeroAWSConfig AWSConfigS)))"

definition ConfigStatusS :: "(('m, 'l, 'x) cell, goConfigStatus, CUDNBgpConfigStatus) shape" where
  "ConfigStatusS =
     fieldsS (\<lambda>g. (guConditions g, guAWS g))
       (\<lambda>g (cs, aws). \<lparr>ctPhase = guPhase g, ctConditions = cs, ctObservedGeneration = guObservedGeneration g, ctAWS = aws\<rparr>)
       (bothS (listS kConditions plainS) (optionS kAWSStatuses zeroAWSStatus AWSStatusS))"

text \<open>A resource denotes its type metadata and the record of \<open>Api_Types\<close>.\<close>

definition ConfigS :: "(('m, 'l, 'x) cell, 'm, ObjectMeta) shape \<Rightarrow> (('m, 'l, 'x) cell, 'm goConfig, TypeMeta \<times> CUDNBgpConfig) shape" where
  "ConfigS M =
     fieldsS (\<lambda>g. (gfMeta g, gfSpec g, gfStatus g))
       (\<lambda>g (meta, spec, status). (gfType g, \<lparr>cfgMeta = meta, cfgSpec = spec, cfgStatus = status\<rparr>))
       (bothS M (bothS ConfigSpecS ConfigStatusS))"

definition ConfigListS :: "(('m, 'l, 'x) cell, 'm, ObjectMeta) shape \<Rightarrow> (('m, 'l, 'x) cell, 'l, 'v) shape \<Rightarrow>
    (('m, 'l, 'x) cell, 'l goConfigList, TypeMeta \<times> 'v \<times> (TypeMeta \<times> CUDNBgpConfig) list) shape" where
  "ConfigListS M L =
     fieldsS (\<lambda>g. (glMeta g, glItems g)) (\<lambda>g (meta, items). (glType g, meta, items)) (bothS L (listS kConfigs (ConfigS M)))"

definition NetworkConfigS :: "(('m, 'l, 'x) cell, goNetworkConfig, NetworkConfig) shape" where
  "NetworkConfigS =
     fieldsS gnSubnets (\<lambda>g subnets. \<lparr>ncName = gnName g, ncSubnets = subnets\<rparr>) (listS kStrings plainS)"

definition RoutingSpecS :: "(('m, 'l, 'x) cell, goRoutingSpec, CUDNBgpRoutingSpec) shape" where
  "RoutingSpecS = fieldsS gpNetwork (\<lambda>_ network. \<lparr>rsNetwork = network\<rparr>) NetworkConfigS"

definition RoutingStatusS :: "(('m, 'l, 'x) cell, goRoutingStatus, CUDNBgpRoutingStatus) shape" where
  "RoutingStatusS =
     fieldsS gqConditions
       (\<lambda>g cs. \<lparr>rtPhase = gqPhase g, rtConditions = cs, rtObservedGeneration = gqObservedGeneration g\<rparr>)
       (listS kConditions plainS)"

definition RoutingS :: "(('m, 'l, 'x) cell, 'm, ObjectMeta) shape \<Rightarrow> (('m, 'l, 'x) cell, 'm goRouting, TypeMeta \<times> CUDNBgpRouting) shape" where
  "RoutingS M =
     fieldsS (\<lambda>g. (gvMeta g, gvSpec g, gvStatus g))
       (\<lambda>g (meta, spec, status). (gvType g, \<lparr>rtgMeta = meta, rtgSpec = spec, rtgStatus = status\<rparr>))
       (bothS M (bothS RoutingSpecS RoutingStatusS))"

definition RoutingListS :: "(('m, 'l, 'x) cell, 'm, ObjectMeta) shape \<Rightarrow> (('m, 'l, 'x) cell, 'l, 'v) shape \<Rightarrow>
    (('m, 'l, 'x) cell, 'l goRoutingList, TypeMeta \<times> 'v \<times> (TypeMeta \<times> CUDNBgpRouting) list) shape" where
  "RoutingListS M L =
     fieldsS (\<lambda>g. (gwMeta g, gwItems g)) (\<lambda>g (meta, items). (gwType g, meta, items)) (bothS L (listS kRoutings (RoutingS M)))"

section \<open>The copies are deep\<close>

text \<open>What the copies rely on: the runtime visits the keys of a map, and the copies of \<open>apimachinery\<close> are deep.\<close>

definition copy_laws :: "('m, 'l, 'x) copyEnv \<Rightarrow> (('m, 'l, 'x) cell, 'm, ObjectMeta) shape \<Rightarrow>
    (('m, 'l, 'x) cell, 'l, 'v) shape \<Rightarrow> bool" where
  "copy_laws env M L \<longleftrightarrow>
     (\<forall>h a m. content kStringMap h a = Some m \<longrightarrow> set (dcRange env h a) = fmdom' m) \<and>
     deep_copy M (dcObjectMeta env) \<and> deep_copy L (dcListMeta env) \<and> (\<forall>c. dcCondition env c = c)"

text \<open>A body that copies the fields one after the other is the copy of its fields.\<close>

lemma deep_copy_body:
  assumes "deep_copy S c" and "\<And>g h. cp g h = (case c (get g) h of (f, h') \<Rightarrow> (put f g, h'))"
    and "\<And>g f. get (put f g) = f" and "\<And>g f v. mk (put f g) v = mk g v"
  shows "deep_copy (fieldsS get mk S) cp"
proof -
  have "cp = (\<lambda>g h. case c (get g) h of (f, h') \<Rightarrow> (put f g, h'))" by (intro ext assms(2))
  then show ?thesis using deep_copy_fields [of S c get put mk, OF assms(1,3,4)] by simp
qed

interpretation endpoint: deep_copy plainS DiscoveredEndpoint_DeepCopyInto
  using deep_copy_plain by (simp add: DiscoveredEndpoint_DeepCopyInto_def [abs_def])

interpretation neighbor: deep_copy plainS BGPNeighbor_DeepCopyInto
  using deep_copy_plain by (simp add: BGPNeighbor_DeepCopyInto_def [abs_def])

interpretation awsConfig: deep_copy AWSConfigS AWSConfig_DeepCopyInto
  unfolding AWSConfigS_def
  by (rule deep_copy_body [where put = "\<lambda>f g. g\<lparr>gaRouteServerIDs := f\<rparr>", OF deep_copy_nilable [OF deep_copy_values]])
    (auto simp: AWSConfig_DeepCopyInto_def)

interpretation routeServer: deep_copy RouteServerS DiscoveredRouteServer_DeepCopyInto
  unfolding RouteServerS_def
  by (rule deep_copy_body [where put = "\<lambda>f g. g\<lparr>grEndpoints := f\<rparr>", OF deep_copy_nilable [OF deep_copy_values]])
    (auto simp: DiscoveredRouteServer_DeepCopyInto_def)

interpretation awsStatus: deep_copy AWSStatusS AWSStatus_DeepCopyInto
  unfolding AWSStatusS_def
  by (rule deep_copy_body [where put = "\<lambda>f g. g\<lparr>gtRouteServers := f\<rparr>",
        OF deep_copy_nilable [OF deep_copy_structs [OF routeServer.deep_copy_axioms]]])
    (auto simp: AWSStatus_DeepCopyInto_def)

interpretation networkConfig: deep_copy NetworkConfigS NetworkConfig_DeepCopyInto
  unfolding NetworkConfigS_def
  by (rule deep_copy_body [where put = "\<lambda>f g. g\<lparr>gnSubnets := f\<rparr>", OF deep_copy_nilable [OF deep_copy_values]])
    (auto simp: NetworkConfig_DeepCopyInto_def)

interpretation routingSpec: deep_copy RoutingSpecS CUDNBgpRoutingSpec_DeepCopyInto
  unfolding RoutingSpecS_def
  by (rule deep_copy_body [where put = "\<lambda>f g. g\<lparr>gpNetwork := f\<rparr>", OF networkConfig.deep_copy_axioms])
    (auto simp: CUDNBgpRoutingSpec_DeepCopyInto_def)

text \<open>The copies of the types with maps, conditions or metadata, under the laws.\<close>

lemma copy_lawsD:
  assumes "copy_laws env M L"
  shows "deep_copy (mapS kStringMap) (copyMap kStringMap (dcRange env))" and "deep_copy M (dcObjectMeta env)"
    and "deep_copy L (dcListMeta env)" and "deep_copy (sliceS kConditions plainS) (copyConditions env)"
proof -
  show "deep_copy (mapS kStringMap) (copyMap kStringMap (dcRange env))"
    using assms by (intro deep_copy_map) (auto simp: copy_laws_def)
  have "deep_copy plainS (\<lambda>c h. (dcCondition env c, h))" using assms deep_copy_plain by (simp add: copy_laws_def)
  then show "deep_copy (sliceS kConditions plainS) (copyConditions env)" by (rule deep_copy_structs) simp
qed (use assms in \<open>simp_all add: copy_laws_def\<close>)

lemma AvailabilityZone_deep:
  assumes "copy_laws env M L"
  shows "deep_copy AvailabilityZoneS (AvailabilityZone_DeepCopyInto env)"
  unfolding AvailabilityZoneS_def
  by (rule deep_copy_body [where put = "\<lambda>(sel, nbs) g. g\<lparr>gzNodeSelector := sel, gzNeighbors := nbs\<rparr>",
        OF deep_copy_both [OF deep_copy_nilable [OF copy_lawsD(1) [OF assms]] deep_copy_nilable [OF deep_copy_values [where z = zeroNeighbor]]]])
    (auto simp: AvailabilityZone_DeepCopyInto_def split: prod.split)

lemma BGPConfig_deep:
  assumes "copy_laws env M L"
  shows "deep_copy BGPConfigS (BGPConfig_DeepCopyInto env)"
  unfolding BGPConfigS_def
  by (rule deep_copy_body [where put = "\<lambda>f g. g\<lparr>gbAvailabilityZones := f\<rparr>",
        OF deep_copy_nilable [OF deep_copy_structs [where z = zeroZone, OF AvailabilityZone_deep [OF assms]]]])
    (auto simp: BGPConfig_DeepCopyInto_def)

lemma ConfigSpec_deep:
  assumes "copy_laws env M L"
  shows "deep_copy ConfigSpecS (CUDNBgpConfigSpec_DeepCopyInto env)"
  unfolding ConfigSpecS_def
  by (rule deep_copy_body [where put = "\<lambda>(bgp, sel, aws) g. g\<lparr>gsBGP := bgp, gsRouterNodeSelector := sel, gsAWS := aws\<rparr>",
        OF deep_copy_both [OF BGPConfig_deep [OF assms] deep_copy_both [OF deep_copy_nilable [OF copy_lawsD(1) [OF assms]]
          deep_copy_nilable [OF deep_copy_new [where z = zeroAWSConfig, OF awsConfig.deep_copy_axioms]]]]])
    (auto simp: CUDNBgpConfigSpec_DeepCopyInto_def split: prod.split)

lemma ConfigStatus_deep:
  assumes "copy_laws env M L"
  shows "deep_copy ConfigStatusS (CUDNBgpConfigStatus_DeepCopyInto env)"
  unfolding ConfigStatusS_def
  by (rule deep_copy_body [where put = "\<lambda>(cs, aws) g. g\<lparr>guConditions := cs, guAWS := aws\<rparr>",
        OF deep_copy_both [OF deep_copy_nilable [OF copy_lawsD(4) [OF assms]]
          deep_copy_nilable [OF deep_copy_new [where z = zeroAWSStatus, OF awsStatus.deep_copy_axioms]]]])
    (auto simp: CUDNBgpConfigStatus_DeepCopyInto_def split: prod.split)

lemma Config_deep:
  assumes "copy_laws env M L"
  shows "deep_copy (ConfigS M) (CUDNBgpConfig_DeepCopyInto env)"
  unfolding ConfigS_def
  by (rule deep_copy_body [where put = "\<lambda>(meta, spec, status) g. g\<lparr>gfMeta := meta, gfSpec := spec, gfStatus := status\<rparr>",
        OF deep_copy_both [OF copy_lawsD(2) [OF assms] deep_copy_both [OF ConfigSpec_deep [OF assms] ConfigStatus_deep [OF assms]]]])
    (auto simp: CUDNBgpConfig_DeepCopyInto_def split: prod.split)

lemma ConfigList_deep:
  assumes "copy_laws env M L"
  shows "deep_copy (ConfigListS M L) (CUDNBgpConfigList_DeepCopyInto env)"
  unfolding ConfigListS_def
  by (rule deep_copy_body [where put = "\<lambda>(meta, items) g. g\<lparr>glMeta := meta, glItems := items\<rparr>",
        OF deep_copy_both [OF copy_lawsD(3) [OF assms] deep_copy_nilable [OF deep_copy_structs [where z = "zeroConfig env", OF Config_deep [OF assms]]]]])
    (auto simp: CUDNBgpConfigList_DeepCopyInto_def split: prod.split)

lemma RoutingStatus_deep:
  assumes "copy_laws env M L"
  shows "deep_copy RoutingStatusS (CUDNBgpRoutingStatus_DeepCopyInto env)"
  unfolding RoutingStatusS_def
  by (rule deep_copy_body [where put = "\<lambda>f g. g\<lparr>gqConditions := f\<rparr>", OF deep_copy_nilable [OF copy_lawsD(4) [OF assms]]])
    (auto simp: CUDNBgpRoutingStatus_DeepCopyInto_def)

lemma Routing_deep:
  assumes "copy_laws env M L"
  shows "deep_copy (RoutingS M) (CUDNBgpRouting_DeepCopyInto env)"
  unfolding RoutingS_def
  by (rule deep_copy_body [where put = "\<lambda>(meta, spec, status) g. g\<lparr>gvMeta := meta, gvSpec := spec, gvStatus := status\<rparr>",
        OF deep_copy_both [OF copy_lawsD(2) [OF assms] deep_copy_both [OF routingSpec.deep_copy_axioms RoutingStatus_deep [OF assms]]]])
    (auto simp: CUDNBgpRouting_DeepCopyInto_def split: prod.split)

lemma RoutingList_deep:
  assumes "copy_laws env M L"
  shows "deep_copy (RoutingListS M L) (CUDNBgpRoutingList_DeepCopyInto env)"
  unfolding RoutingListS_def
  by (rule deep_copy_body [where put = "\<lambda>(meta, items) g. g\<lparr>gwMeta := meta, gwItems := items\<rparr>",
        OF deep_copy_both [OF copy_lawsD(3) [OF assms] deep_copy_nilable [OF deep_copy_structs [where z = "zeroRouting env", OF Routing_deep [OF assms]]]]])
    (auto simp: CUDNBgpRoutingList_DeepCopyInto_def split: prod.split)

section \<open>Objects\<close>

datatype 'v apiObject =
    NoObject
  | ConfigObject "TypeMeta \<times> CUDNBgpConfig"
  | ConfigListObject "TypeMeta \<times> 'v \<times> (TypeMeta \<times> CUDNBgpConfig) list"
  | RoutingObject "TypeMeta \<times> CUDNBgpRouting"
  | RoutingListObject "TypeMeta \<times> 'v \<times> (TypeMeta \<times> CUDNBgpRouting) list"

text \<open>The shape of the pointer that an interface of a dynamic type holds.\<close>

fun objectS :: "('m, 'l, 'x) copyEnv \<Rightarrow> (('m, 'l, 'x) cell, 'm, ObjectMeta) shape \<Rightarrow> (('m, 'l, 'x) cell, 'l, 'v) shape \<Rightarrow>
    dynType \<Rightarrow> (('m, 'l, 'x) cell, pointer option, 'v apiObject) shape" where
  "objectS env M L ConfigType = nilableS NoObject ConfigObject (pointerS kConfigs (zeroConfig env) (ConfigS M))"
| "objectS env M L ConfigListType =
     nilableS NoObject ConfigListObject (pointerS kConfigLists (zeroConfigList env) (ConfigListS M L))"
| "objectS env M L RoutingType = nilableS NoObject RoutingObject (pointerS kRoutings (zeroRouting env) (RoutingS M))"
| "objectS env M L RoutingListType =
     nilableS NoObject RoutingListObject (pointerS kRoutingLists (zeroRoutingList env) (RoutingListS M L))"

fun DeepCopy_of :: "('m, 'l, 'x) copyEnv \<Rightarrow> dynType \<Rightarrow> pointer option \<Rightarrow> ('m, 'l, 'x) goHeap \<Rightarrow>
    pointer option \<times> ('m, 'l, 'x) goHeap" where
  "DeepCopy_of env ConfigType = CUDNBgpConfig_DeepCopy env"
| "DeepCopy_of env ConfigListType = CUDNBgpConfigList_DeepCopy env"
| "DeepCopy_of env RoutingType = CUDNBgpRouting_DeepCopy env"
| "DeepCopy_of env RoutingListType = CUDNBgpRoutingList_DeepCopy env"

lemma DeepCopy_deep:
  assumes laws: "copy_laws env M L"
  shows "deep_copy (objectS env M L T) (DeepCopy_of env T)"
  by (cases T)
    (simp_all add: CUDNBgpConfig_DeepCopy_def CUDNBgpConfigList_DeepCopy_def CUDNBgpRouting_DeepCopy_def
      CUDNBgpRoutingList_DeepCopy_def deep_copy_nilable deep_copy_new Config_deep [OF laws] ConfigList_deep [OF laws]
      Routing_deep [OF laws] RoutingList_deep [OF laws])

lemma DeepCopyObject_eq:
  "DeepCopyObject env T p h = (case DeepCopy_of env T p h of (c, h') \<Rightarrow> (if c = None then None else Some (T, c), h'))"
  by (cases T) (auto simp: CUDNBgpConfig_DeepCopyObject_def CUDNBgpConfigList_DeepCopyObject_def
    CUDNBgpRouting_DeepCopyObject_def CUDNBgpRoutingList_DeepCopyObject_def split: prod.split)

lemma DeepCopy_nil: "fst (DeepCopy_of env T p h) = None \<longleftrightarrow> p = None"
  by (cases T) (auto simp: CUDNBgpConfig_DeepCopy_def CUDNBgpConfigList_DeepCopy_def CUDNBgpRouting_DeepCopy_def
    CUDNBgpRoutingList_DeepCopy_def unlessNil_def split: option.split prod.split)

text \<open>
  C26. \<open>DeepCopyObject\<close> of each of the four registered types: a nil pointer gives a nil interface (never
  an interface that holds a nil pointer), and every other pointer an interface of the same type with
  a pointer to an object that is well typed, denotes the same resource as the original and has nil
  slices, maps and pointers exactly where the original has them. No cell that existed before is written.
\<close>

theorem DeepCopyObject_equal:
  assumes "copy_laws env M L" and "shTyped (objectS env M L T) h p" and "DeepCopyObject env T p h = (result, h')"
  shows "prefix h h' \<and>
    (case p of
       None \<Rightarrow> result = None
     | Some _ \<Rightarrow> (\<exists>q. result = Some (T, Some q) \<and> shTyped (objectS env M L T) h' (Some q) \<and>
         shVal (objectS env M L T) h' (Some q) = shVal (objectS env M L T) h p \<and>
         shNils (objectS env M L T) h' (Some q) = shNils (objectS env M L T) h p))"
proof -
  obtain c where c: "DeepCopy_of env T p h = (c, h')" and res: "result = (if c = None then None else Some (T, c))"
    using assms(3) by (auto simp: DeepCopyObject_eq split: prod.splits)
  have nil: "c = None \<longleftrightarrow> p = None" using DeepCopy_nil [of env T p h] c by simp
  have "prefix h h'" "copied (objectS env M L T) h p h' c" using deep_copy.copies [OF DeepCopy_deep [OF assms(1)] assms(2) c] by simp_all
  then show ?thesis using nil res by (auto simp: copied_def split: option.split)
qed

text \<open>
  C25. A copy and its original are independent. After \<open>DeepCopyObject\<close>, whatever is written to cells that
  the copy reaches, the original still denotes what it did; and whatever is written to cells that the
  original reaches, the copy still denotes what the original did when it was copied.
\<close>

theorem DeepCopyObject_isolated:
  assumes "copy_laws env M L" and "shTyped (objectS env M L T) h p"
    and "DeepCopyObject env T p h = (Some (T', q), h')" and "length later = length h'"
  shows "((\<forall>a. a \<notin> shRefs (objectS env M L T) h' q \<longrightarrow> later ! a = h' ! a) \<longrightarrow>
      shVal (objectS env M L T) later p = shVal (objectS env M L T) h p) \<and>
    ((\<forall>a. a \<notin> shRefs (objectS env M L T) h' p \<longrightarrow> later ! a = h' ! a) \<longrightarrow>
      shVal (objectS env M L T) later q = shVal (objectS env M L T) h p)"
proof -
  have q: "DeepCopy_of env T p h = (q, h')"
    using assms(3) by (auto simp: DeepCopyObject_eq split: prod.splits if_splits)
  show ?thesis
    using deep_copy.isolated [OF DeepCopy_deep [OF assms(1)] assms(2) q assms(4)] by blast
qed

end
