(* ===== verification/Demo_Deep_Copy.thy ===== *)
theory Demo_Deep_Copy
  imports Deep_Copy
begin

text \<open>
  The deep copies applied: metadata with a slice of finalizers, and a configuration with a selector,
  a pointer to the AWS settings and two route server ids.
\<close>

section \<open>Metadata\<close>

record goMeta =
  gmName :: string
  gmFinalizers :: "window option"

definition ObjectMeta_DeepCopyInto :: "goMeta \<Rightarrow> (goMeta, string, unit) goHeap \<Rightarrow> goMeta \<times> (goMeta, string, unit) goHeap" where
  "ObjectMeta_DeepCopyInto inp h =
     (let (fs, h1) = unlessNil (copyValues kStrings '''') (gmFinalizers inp) h in (inp\<lparr>gmFinalizers := fs\<rparr>, h1))"

definition MetaS :: "((goMeta, string, unit) cell, goMeta, ObjectMeta) shape" where
  "MetaS =
     fieldsS gmFinalizers
       (\<lambda>g fs. \<lparr>metaName = gmName g, metaGeneration = 1, metaFinalizers = fs, metaDeletionTimestamp = None,
         metaResourceVersion = ''7''\<rparr>)
       (listS kStrings plainS)"

definition demoCopyEnv :: "(goMeta, string, unit) copyEnv" where
  "demoCopyEnv =
     \<lparr>dcRange = (\<lambda>h a. keys (the_or fmempty (content kStringMap h a))), dcObjectMeta = ObjectMeta_DeepCopyInto,
      dcListMeta = (\<lambda>g h. (g, h)), dcCondition = (\<lambda>c. c), dcZeroMeta = \<lparr>gmName = '''', gmFinalizers = None\<rparr>,
      dcZeroListMeta = ''''\<rparr>"

interpretation demoMetadata: deep_copy MetaS ObjectMeta_DeepCopyInto
  unfolding MetaS_def
  by (rule deep_copy_body [where put = "\<lambda>f g. g\<lparr>gmFinalizers := f\<rparr>", OF deep_copy_nilable [OF deep_copy_values]])
    (auto simp: ObjectMeta_DeepCopyInto_def)

lemma demo_copy_laws: "copy_laws demoCopyEnv MetaS plainS"
  using demoMetadata.deep_copy_axioms deep_copy_plain by (simp add: copy_laws_def demoCopyEnv_def)

section \<open>A configuration\<close>

definition demoGoConfig :: "goMeta goConfig" where
  "demoGoConfig =
     \<lparr>gfType = \<lparr>tmKind = ''CUDNBgpConfig'', tmAPIVersion = ''networking.openshift.io/v1alpha1''\<rparr>,
      gfMeta = \<lparr>gmName = ''cluster'', gmFinalizers = Some \<lparr>winArr = 0, winOff = 0, winLen = 1\<rparr>\<rparr>,
      gfSpec =
        \<lparr>gsBGP = \<lparr>gbLocalASN = 65001, gbLivenessDetection = LivenessDetectionBFD, gbAvailabilityZones = None\<rparr>,
         gsRouterNodeSelector = Some 1, gsAWS = Some (2, 0)\<rparr>,
      gfStatus = \<lparr>guPhase = PhaseUnset, guConditions = None, guObservedGeneration = 0, guAWS = None\<rparr>\<rparr>"

definition demoGoHeap :: "(goMeta, string, unit) goHeap" where
  "demoGoHeap =
     [Strings [''networking.openshift.io/finalizer''], StringMap (fmap_of_list [(''bgp'', ''router'')]),
      AWSConfigs [\<lparr>gaRegion = ''us-east-1'', gaRouteServerIDs = Some \<lparr>winArr = 3, winOff = 0, winLen = 2\<rparr>\<rparr>],
      Strings [''rs-1'', ''rs-2''], Configs [demoGoConfig]]"

abbreviation demoObjectS :: "((goMeta, string, unit) cell, pointer option, string apiObject) shape" where
  "demoObjectS \<equiv> objectS demoCopyEnv MetaS plainS ConfigType"

lemma demo_copy_typed: "shTyped demoObjectS demoGoHeap (Some (4, 0))"
  by code_simp

lemma demo_copy_run:
  "fst (DeepCopyObject demoCopyEnv ConfigType (Some (4, 0)) demoGoHeap) = Some (ConfigType, Some (5, 0))"
  by code_simp

definition demoCopyHeap :: "(goMeta, string, unit) goHeap" where
  "demoCopyHeap = snd (DeepCopyObject demoCopyEnv ConfigType (Some (4, 0)) demoGoHeap)"

lemma demo_copy: "DeepCopyObject demoCopyEnv ConfigType (Some (4, 0)) demoGoHeap = (Some (ConfigType, Some (5, 0)), demoCopyHeap)"
  using demo_copy_run by (simp add: demoCopyHeap_def prod_eq_iff)

theorem DeepCopyObject_equal_witness:
  "prefix demoGoHeap demoCopyHeap \<and>
   shVal demoObjectS demoCopyHeap (Some (5, 0)) = shVal demoObjectS demoGoHeap (Some (4, 0)) \<and>
   shNils demoObjectS demoCopyHeap (Some (5, 0)) = [False, False, True, False, False, False, True, True]"
proof -
  have "shNils demoObjectS demoGoHeap (Some (4, 0)) = [False, False, True, False, False, False, True, True]" by code_simp
  then show ?thesis
    using DeepCopyObject_equal [OF demo_copy_laws demo_copy_typed demo_copy] by simp
qed

text \<open>Another id in the copy's array of route server ids, at address 9.\<close>

definition demoLater :: "(goMeta, string, unit) goHeap" where
  "demoLater = demoCopyHeap[9 := Strings [''rs-1'', ''rs-3'']]"

lemma demo_copy_refs: "9 \<in> shRefs demoObjectS demoCopyHeap (Some (5, 0))"
  by code_simp

theorem DeepCopyObject_isolated_witness:
  "shVal demoObjectS demoLater (Some (4, 0)) = shVal demoObjectS demoGoHeap (Some (4, 0)) \<and>
   shVal demoObjectS demoLater (Some (5, 0)) \<noteq> shVal demoObjectS demoGoHeap (Some (4, 0))"
proof -
  have "demoLater ! a = demoCopyHeap ! a" if "a \<notin> shRefs demoObjectS demoCopyHeap (Some (5, 0))" for a
    using demo_copy_refs that by (metis demoLater_def nth_list_update_neq)
  then have "shVal demoObjectS demoLater (Some (4, 0)) = shVal demoObjectS demoGoHeap (Some (4, 0))"
    using DeepCopyObject_isolated [OF demo_copy_laws demo_copy_typed demo_copy, of demoLater] by (simp add: demoLater_def)
  moreover have "shVal demoObjectS demoLater (Some (5, 0)) \<noteq> shVal demoObjectS demoGoHeap (Some (4, 0))" by code_simp
  ultimately show ?thesis by simp
qed

end
